(* ===== verification/Fuji_Prelude.thy ===== *)
theory Fuji_Prelude
  imports Main "HOL-Library.Word"
begin

text \<open>
  Shared vocabulary of the development: bytes and byte buffers, the read and
  read-modify-write expressions that every accessor of the code is an instance of,
  decimal printing (\<^verbatim>\<open>std::to_string\<close>), calls that may end the process
  (\<^verbatim>\<open>LOG(FATAL)\<close>), and the lemmas on bits, bytes and lists that the component
  theories share.
\<close>

unbundle bit_operations_syntax

type_synonym byte = "8 word"
type_synonym bytes = "8 word list"

text \<open>
  \<^verbatim>\<open>LOG(FATAL)\<close> and \<^verbatim>\<open>PLOG(FATAL)\<close> print their message and abort the process: such a
  call has the message as its \<open>Inl\<close> value.
\<close>

type_synonym 'a or_fatal = "string + 'a"

named_theorems layout_consts \<open>the constants of the register layout\<close>
named_theorems view_simps \<open>what an accessor does to the abstract view of a buffer\<close>

section \<open>Bits and bytes\<close>

lemma byte_eqI:
  fixes a b :: byte
  assumes "bit a 0 = bit b 0" "bit a 1 = bit b 1" "bit a 2 = bit b 2" "bit a 3 = bit b 3"
    "bit a 4 = bit b 4" "bit a 5 = bit b 5" "bit a 6 = bit b 6" "bit a 7 = bit b 7"
  shows "a = b"
proof (rule bit_word_eqI)
  fix n
  assume "n < LENGTH(8)"
  then have "n = 0 \<or> n = 1 \<or> n = 2 \<or> n = 3 \<or> n = 4 \<or> n = 5 \<or> n = 6 \<or> n = 7" by auto
  then show "bit a n = bit b n" using assms by auto
qed

text \<open>
  C++ promotes both operands of \<^verbatim>\<open>&\<close>, \<^verbatim>\<open>|\<close>, \<^verbatim>\<open>~\<close>, \<^verbatim>\<open><<\<close> and \<^verbatim>\<open>>>\<close> to \<^verbatim>\<open>int\<close> (32 bits here) and
  truncates when the result is stored in a \<^verbatim>\<open>uint8_t\<close>. The two expressions the accessors
  are built from are written with that promotion: \<open>rmw b msk off v\<close> is
  \<^verbatim>\<open>(b & ~mask) | (v << off)\<close>, \<open>fld b msk off\<close> is \<^verbatim>\<open>(b & mask) >> off\<close>.
\<close>

definition rmw :: "byte \<Rightarrow> byte \<Rightarrow> nat \<Rightarrow> byte \<Rightarrow> byte" where
  "rmw b msk off v = ucast ((ucast b AND NOT (ucast msk)) OR push_bit off (ucast v :: 32 word))"

definition fld :: "byte \<Rightarrow> byte \<Rightarrow> nat \<Rightarrow> byte" where
  "fld b msk off = ucast (drop_bit off (ucast b AND (ucast msk :: 32 word)))"

text \<open>The promotion makes no difference: both can be computed on eight bits.\<close>

lemma rmw_byte: "rmw b msk off v = (b AND NOT msk) OR push_bit off v"
  by (rule bit_word_eqI) (auto simp: rmw_def bit_simps)

lemma fld_byte: "fld b msk off = drop_bit off (b AND msk)"
  by (rule bit_word_eqI) (auto simp: fld_def bit_simps dest: bit_imp_le_length)

lemma fld_rmw_other:
  assumes "msk AND msk' = 0" and "push_bit off v AND msk' = 0"
  shows "fld (rmw b msk off v) msk' off' = fld b msk' off'"
proof -
  have "((b AND NOT msk) OR push_bit off v) AND msk' = b AND msk'"
    using assms by (auto simp: bit_eq_iff bit_simps)
  then show ?thesis by (simp add: rmw_byte fld_byte)
qed

lemma fld_rmw_same:
  assumes "push_bit off v AND NOT msk = 0" and "drop_bit off (push_bit off v) = v"
  shows "fld (rmw b msk off v) msk off = v"
proof -
  have "((b AND NOT msk) OR push_bit off v) AND msk = push_bit off v"
    using assms(1) by (auto simp: bit_eq_iff bit_simps)
  then show ?thesis using assms(2) by (simp add: rmw_byte fld_byte)
qed

lemma rmw_rmw:
  assumes "push_bit off w AND NOT msk = 0"
  shows "rmw (rmw b msk off w) msk off v = rmw b msk off v"
  using assms by (auto simp: rmw_byte bit_eq_iff bit_simps)

lemma rmw_fld:
  assumes "push_bit off (drop_bit off msk) = msk"
  shows "rmw b msk off (fld b msk off) = b"
proof -
  have "push_bit off (drop_bit off (b AND msk)) = b AND msk"
    using assms by (auto simp: bit_eq_iff bit_simps)
  then show ?thesis
    by (auto simp: rmw_byte fld_byte bit_eq_iff bit_simps)
qed

lemma fits_push:
  fixes v msk :: byte
  assumes aligned: "push_bit off (drop_bit off msk) = msk"
    and fits: "v AND drop_bit off msk = v"
  shows "push_bit off v AND NOT msk = 0" and "drop_bit off (push_bit off v) = v"
proof -
  have mb: "bit msk (off + n)" if "bit v n" for n
  proof -
    from that have "bit (v AND drop_bit off msk) n" by (simp only: fits)
    then show ?thesis by (simp add: bit_simps)
  qed
  show "push_bit off v AND NOT msk = 0"
  proof (rule bit_word_eqI)
    fix n assume "n < LENGTH(8)"
    have "bit msk n" if "off \<le> n" "bit v (n - off)"
      using mb[OF that(2)] that(1) by simp
    then show "bit (push_bit off v AND NOT msk) n = bit (0 :: byte) n"
      by (auto simp: bit_simps)
  qed
  show "drop_bit off (push_bit off v) = v"
  proof (rule bit_word_eqI)
    fix n assume "n < LENGTH(8)"
    have "off + n < 8" if "bit v n"
      using bit_imp_le_length[OF mb[OF that]] by simp
    then show "bit (drop_bit off (push_bit off v)) n = bit v n"
      by (auto simp: bit_simps)
  qed
qed

lemma ucast_of_bool_eq_0_iff: "(of_bool P :: byte) \<noteq> 0 \<longleftrightarrow> P"
  by simp

lemma fld_top_bit: "fld b 128 7 = of_bool (bit b 7)"
  by (rule byte_eqI) (simp_all add: fld_byte bit_simps)

lemma odd_div_128: "n < 256 \<Longrightarrow> odd (n div 128) \<longleftrightarrow> 128 \<le> (n :: nat)"
proof (cases "128 \<le> n")
  case True
  moreover assume "n < 256"
  ultimately have "n div 128 = 1" by (intro div_nat_eqI) simp_all
  with True show ?thesis by simp
qed simp

lemma byte_top_bit:
  fixes t :: byte
  shows "bit t 7 \<longleftrightarrow> 128 \<le> t"
proof -
  have "unat t < 256" using unsigned_less[of t, where ?'a = nat] by simp
  moreover have "bit t 7 \<longleftrightarrow> odd (unat t div 128)"
    using bit_unsigned_iff[of t 7, where ?'a = nat] by (simp add: bit_iff_odd)
  ultimately show ?thesis by (simp add: odd_div_128 word_le_nat_alt)
qed

lemma byte_below_128:
  fixes t :: byte
  shows "t < 128 \<Longrightarrow> t AND 127 = t"
  using byte_top_bit[of t] by (intro byte_eqI) (simp_all add: bit_simps)

section \<open>Buffers\<close>

text \<open>
  \<^verbatim>\<open>std::copy(a.begin() + 3, a.end(), ...)\<close> on an eight-byte array reads its last five bytes;
  the two lemmas name the bytes of a buffer whose length is known.
\<close>

lemma length_5E:
  assumes "length xs = 5"
  obtains a b c d e where "xs = [a, b, c, d, e]"
  using assms by (auto simp: length_Suc_conv numeral_eq_Suc)

lemma length_8E:
  assumes "length xs = 8"
  obtains a b c d e f g h where "xs = [a, b, c, d, e, f, g, h]"
  using assms by (auto simp: length_Suc_conv numeral_eq_Suc)

section \<open>Printing\<close>

text \<open>
  \<^verbatim>\<open>std::to_string\<close> of a \<^verbatim>\<open>bool\<close> or \<^verbatim>\<open>uint8_t\<close> promotes its argument to \<^verbatim>\<open>int\<close> and prints it in
  decimal.
\<close>

definition digit_char :: "nat \<Rightarrow> char" where
  "digit_char d = char_of (48 + d)"

fun to_string :: "nat \<Rightarrow> string" where
  "to_string n = (if n < 10 then [digit_char n] else to_string (n div 10) @ [digit_char (n mod 10)])"

declare to_string.simps [simp del]

text \<open>Reading decimal digits back, to state that \<open>to_string\<close> loses nothing.\<close>

definition read_decimal :: "string \<Rightarrow> nat" where
  "read_decimal s = foldl (\<lambda>n c. 10 * n + (of_char c - 48)) 0 s"

lemma of_char_digit_char: "d < 10 \<Longrightarrow> of_char (digit_char d) = 48 + d"
  by (simp add: digit_char_def)

lemma read_decimal_to_string: "read_decimal (to_string n) = n"
proof (induction n rule: to_string.induct)
  case (1 n)
  show ?case
  proof (cases "n < 10")
    case True
    then show ?thesis
      by (subst to_string.simps) (simp add: read_decimal_def of_char_digit_char)
  next
    case False
    with "1.IH" have "read_decimal (to_string (n div 10)) = n div 10" by simp
    with False show ?thesis
      by (subst to_string.simps) (simp add: read_decimal_def of_char_digit_char)
  qed
qed

lemma to_string_inject: "to_string m = to_string n \<Longrightarrow> m = n"
  by (metis read_decimal_to_string)

text \<open>Words separated by spaces can be told apart.\<close>

abbreviation spaceless :: "string \<Rightarrow> bool" where
  "spaceless s \<equiv> CHR '' '' \<notin> set s"

lemma space_split:
  assumes "spaceless a" and "spaceless b"
  shows "a @ CHR '' '' # x = b @ CHR '' '' # y \<longleftrightarrow> a = b \<and> x = y"
  using assms by (induction a arbitrary: b) (case_tac b; auto)+

fun labelled :: "(string \<times> string) list \<Rightarrow> string" where
  "labelled [] = []"
| "labelled ((l, a) # xs) = CHR '' '' # l @ a @ labelled xs"

lemma labelled_inject:
  assumes "labelled xs = labelled ys" and "map fst xs = map fst ys"
    and "\<forall>(l, a) \<in> set xs. spaceless a" and "\<forall>(l, a) \<in> set ys. spaceless a"
  shows "xs = ys"
  using assms
proof (induction xs arbitrary: ys)
  case Nil
  then show ?case by simp
next
  case (Cons x xs)
  obtain l a b ys' where x: "x = (l, a)" and ys: "ys = (l, b) # ys'"
    and tl: "map fst xs = map fst ys'"
    using Cons.prems(2) by (cases x; cases ys) auto
  have eq: "a @ labelled xs = b @ labelled ys'" and sp: "spaceless a" "spaceless b"
    using Cons.prems by (simp_all add: x ys)
  have "a = b \<and> labelled xs = labelled ys'"
  proof (cases xs)
    case Nil
    with tl eq show ?thesis by simp
  next
    case (Cons x' xs')
    with tl obtain y' zs where "ys' = y' # zs" by (cases ys') auto
    with Cons eq space_split[OF sp] show ?thesis by (cases x'; cases y') simp
  qed
  with Cons.IH[OF _ tl] Cons.prems x ys show ?case by simp
qed

lemma spaceless_digit: "d < 10 \<Longrightarrow> digit_char d \<noteq> CHR '' ''"
proof
  assume "d < 10" and "digit_char d = CHR '' ''"
  then have "48 + d = of_char (CHR '' '')" by (metis of_char_digit_char)
  then show False by simp
qed

lemma spaceless_to_string [simp]: "spaceless (to_string n)"
proof (induction n rule: to_string.induct)
  case (1 n)
  then show ?case
    using spaceless_digit[of "n mod 10"] spaceless_digit[of n]
    by (subst to_string.simps) auto
qed

lemma to_string_eq [simp]: "to_string m = to_string n \<longleftrightarrow> m = n"
  using to_string_inject by blast

end
