(* ===== verification/Fuji_Types.thy ===== *)
theory Fuji_Types
  imports Fuji_Prelude
begin

text \<open>
  The enumerations of \<^verbatim>\<open>protocol/fuji_types.h\<close> and \<^verbatim>\<open>fuji_types.cc\<close>: the operation mode and
  the fan speed, with their underlying \<^verbatim>\<open>uint8_t\<close> values (\<^verbatim>\<open>static_cast<uint8_t>\<close>) and their
  printed names. \<^verbatim>\<open>all_mode_t\<close> and \<^verbatim>\<open>all_fan_t\<close> are the enumerations of the class \<open>enum\<close>, and
  both types are ordered by their underlying values.
\<close>

datatype mode_t = mode_UNKNOWN | mode_FAN | mode_DRY | mode_COOL | mode_HEAT | mode_AUTO

fun mode_code :: "mode_t \<Rightarrow> byte" where
  "mode_code mode_UNKNOWN = 0"
| "mode_code mode_FAN = 1"
| "mode_code mode_DRY = 2"
| "mode_code mode_COOL = 3"
| "mode_code mode_HEAT = 4"
| "mode_code mode_AUTO = 5"

definition all_mode_t :: "mode_t list" where
  "all_mode_t = [mode_UNKNOWN, mode_FAN, mode_DRY, mode_COOL, mode_HEAT, mode_AUTO]"

fun mode_ToString :: "mode_t \<Rightarrow> string" where
  "mode_ToString mode_UNKNOWN = ''UNKNOWN''"
| "mode_ToString mode_FAN = ''FAN''"
| "mode_ToString mode_DRY = ''DRY''"
| "mode_ToString mode_COOL = ''COOL''"
| "mode_ToString mode_HEAT = ''HEAT''"
| "mode_ToString mode_AUTO = ''AUTO''"

datatype fan_t = fan_AUTO | fan_LOW | fan_MEDIUM | fan_HIGH | fan_MAX | fan_UNKNOWN

fun fan_code :: "fan_t \<Rightarrow> byte" where
  "fan_code fan_AUTO = 0"
| "fan_code fan_LOW = 1"
| "fan_code fan_MEDIUM = 2"
| "fan_code fan_HIGH = 3"
| "fan_code fan_MAX = 4"
| "fan_code fan_UNKNOWN = 5"

definition all_fan_t :: "fan_t list" where
  "all_fan_t = [fan_AUTO, fan_LOW, fan_MEDIUM, fan_HIGH, fan_MAX, fan_UNKNOWN]"

fun fan_ToString :: "fan_t \<Rightarrow> string" where
  "fan_ToString fan_AUTO = ''AUTO''"
| "fan_ToString fan_LOW = ''LOW''"
| "fan_ToString fan_MEDIUM = ''MEDIUM''"
| "fan_ToString fan_HIGH = ''HIGH''"
| "fan_ToString fan_MAX = ''MAX''"
| "fan_ToString fan_UNKNOWN = ''UNKNOWN''"

text \<open>\<^verbatim>\<open>operator<<\<close> appends a name to a stream, here the text written to it so far.\<close>

type_synonym ostream = string

definition mode_put :: "ostream \<Rightarrow> mode_t \<Rightarrow> ostream" where
  "mode_put os mode = os @ mode_ToString mode"

definition fan_put :: "ostream \<Rightarrow> fan_t \<Rightarrow> ostream" where
  "fan_put os fan = os @ fan_ToString fan"

section \<open>Both types are finite and ordered\<close>

lemma mode_t_UNIV: "(UNIV :: mode_t set) = set all_mode_t"
  by (auto simp: all_mode_t_def intro: mode_t.exhaust)

lemma fan_t_UNIV: "(UNIV :: fan_t set) = set all_fan_t"
  by (auto simp: all_fan_t_def intro: fan_t.exhaust)

instantiation mode_t :: enum
begin
definition enum_mode_t :: "mode_t list" where "enum_mode_t = all_mode_t"
definition enum_all_mode_t :: "(mode_t \<Rightarrow> bool) \<Rightarrow> bool" where
  "enum_all_mode_t P \<longleftrightarrow> list_all P all_mode_t"
definition enum_ex_mode_t :: "(mode_t \<Rightarrow> bool) \<Rightarrow> bool" where
  "enum_ex_mode_t P \<longleftrightarrow> list_ex P all_mode_t"
instance
  by standard
    (simp_all only: enum_mode_t_def enum_all_mode_t_def enum_ex_mode_t_def mode_t_UNIV
      list_all_iff list_ex_iff, simp_all add: all_mode_t_def)
end

instantiation fan_t :: enum
begin
definition enum_fan_t :: "fan_t list" where "enum_fan_t = all_fan_t"
definition enum_all_fan_t :: "(fan_t \<Rightarrow> bool) \<Rightarrow> bool" where
  "enum_all_fan_t P \<longleftrightarrow> list_all P all_fan_t"
definition enum_ex_fan_t :: "(fan_t \<Rightarrow> bool) \<Rightarrow> bool" where
  "enum_ex_fan_t P \<longleftrightarrow> list_ex P all_fan_t"
instance
  by standard
    (simp_all only: enum_fan_t_def enum_all_fan_t_def enum_ex_fan_t_def fan_t_UNIV
      list_all_iff list_ex_iff, simp_all add: all_fan_t_def)
end

lemma mode_code_inject [simp]: "mode_code m = mode_code n \<longleftrightarrow> m = n"
  by (cases m; cases n) simp_all

lemma fan_code_inject [simp]: "fan_code f = fan_code g \<longleftrightarrow> f = g"
  by (cases f; cases g) simp_all

instantiation mode_t :: linorder
begin
definition less_eq_mode_t :: "mode_t \<Rightarrow> mode_t \<Rightarrow> bool" where
  "less_eq_mode_t m n \<longleftrightarrow> mode_code m \<le> mode_code n"
definition less_mode_t :: "mode_t \<Rightarrow> mode_t \<Rightarrow> bool" where
  "less_mode_t m n \<longleftrightarrow> mode_code m < mode_code n"
instance
  by standard (auto simp: less_eq_mode_t_def less_mode_t_def order.strict_iff_order)
end

instantiation fan_t :: linorder
begin
definition less_eq_fan_t :: "fan_t \<Rightarrow> fan_t \<Rightarrow> bool" where
  "less_eq_fan_t f g \<longleftrightarrow> fan_code f \<le> fan_code g"
definition less_fan_t :: "fan_t \<Rightarrow> fan_t \<Rightarrow> bool" where
  "less_fan_t f g \<longleftrightarrow> fan_code f < fan_code g"
instance
  by standard (auto simp: less_eq_fan_t_def less_fan_t_def order.strict_iff_order)
end

section \<open>Printed names\<close>

lemma mode_ToString_inject: "mode_ToString m = mode_ToString n \<longleftrightarrow> m = n"
  by (cases m; cases n) simp_all

lemma fan_ToString_inject: "fan_ToString f = fan_ToString g \<longleftrightarrow> f = g"
  by (cases f; cases g) simp_all

lemma ToString_spaceless [simp]: "spaceless (mode_ToString m)" "spaceless (fan_ToString f)"
  by (cases m; simp) (cases f; simp)

end
