(* ===== verification/Register_Layout.thy ===== *)
theory Register_Layout
  imports Fuji_Prelude
begin

text \<open>
  The interface a register layout offers to its accessors: named fields, each an index into
  the register, a mask and a bit offset, that lie within the register and do not overlap.
  The lemmas about reading a field after writing one are proved here once, for any layout.
\<close>

definition get_field :: "nat \<Rightarrow> byte \<Rightarrow> nat \<Rightarrow> nat \<Rightarrow> bytes \<Rightarrow> byte" where
  "get_field idx msk off p mem = fld (mem ! (p + idx)) msk off"

definition put_field :: "nat \<Rightarrow> byte \<Rightarrow> nat \<Rightarrow> nat \<Rightarrow> byte \<Rightarrow> bytes \<Rightarrow> bytes" where
  "put_field idx msk off p v mem = mem[p + idx := rmw (mem ! (p + idx)) msk off v]"

lemma length_put_field [simp]: "length (put_field idx msk off p v mem) = length mem"
  by (simp add: put_field_def)

locale register_layout =
  fixes findex :: "'f \<Rightarrow> nat" and fmask :: "'f \<Rightarrow> byte" and foffset :: "'f \<Rightarrow> nat"
    and width :: nat
  assumes in_bounds: "findex f < width"
    and aligned: "push_bit (foffset f) (drop_bit (foffset f) (fmask f)) = fmask f"
    and disjoint: "f \<noteq> g \<Longrightarrow> findex f = findex g \<Longrightarrow> fmask f AND fmask g = 0"
begin

abbreviation get :: "'f \<Rightarrow> nat \<Rightarrow> bytes \<Rightarrow> byte" where
  "get f \<equiv> get_field (findex f) (fmask f) (foffset f)"

abbreviation put :: "'f \<Rightarrow> nat \<Rightarrow> byte \<Rightarrow> bytes \<Rightarrow> bytes" where
  "put f \<equiv> put_field (findex f) (fmask f) (foffset f)"

abbreviation fits :: "'f \<Rightarrow> byte \<Rightarrow> bool" where
  "fits f v \<equiv> v AND drop_bit (foffset f) (fmask f) = v"

lemma fits_within: "fits f v \<Longrightarrow> push_bit (foffset f) v AND NOT (fmask f) = 0"
  by (rule fits_push(1)[OF aligned])

lemma fits_back: "fits f v \<Longrightarrow> drop_bit (foffset f) (push_bit (foffset f) v) = v"
  by (rule fits_push(2)[OF aligned])

lemma get_put_same:
  assumes "p + width \<le> length mem" and "fits f v"
  shows "get f p (put f p v mem) = v"
proof -
  have "p + findex f < length mem" using assms(1) in_bounds[of f] by linarith
  then show ?thesis
    using fld_rmw_same[OF fits_within fits_back] assms(2)
    by (simp add: get_field_def put_field_def)
qed

lemma fits_disjoint:
  assumes "f \<noteq> g" and "findex f = findex g" and "fits f v"
  shows "push_bit (foffset f) v AND fmask g = 0"
proof -
  have "push_bit (foffset f) v AND fmask g
      = (push_bit (foffset f) v AND fmask f) AND fmask g"
    using fits_within[OF assms(3)] by (auto simp: bit_eq_iff bit_simps)
  also have "\<dots> = push_bit (foffset f) v AND (fmask f AND fmask g)"
    by (simp add: and.assoc)
  also have "\<dots> = 0" using disjoint[OF assms(1,2)] by simp
  finally show ?thesis .
qed

lemma get_put_other:
  assumes "f \<noteq> g" and "fits f v"
  shows "get g p (put f p v mem) = get g p mem"
proof (cases "findex f = findex g")
  case True
  show ?thesis
  proof (cases "p + findex f < length mem")
    case in_range: True
    show ?thesis
      using fld_rmw_other[OF disjoint[OF assms(1) True] fits_disjoint[OF assms(1) True assms(2)]]
        in_range True
      by (simp add: get_field_def put_field_def)
  next
    case False
    then show ?thesis by (simp add: put_field_def list_update_beyond)
  qed
next
  case False
  then show ?thesis by (simp add: get_field_def put_field_def)
qed

lemma put_put_same: "fits f w \<Longrightarrow> put f p v (put f p w mem) = put f p v mem"
  using rmw_rmw[OF fits_within]
  by (cases "p + findex f < length mem") (simp_all add: put_field_def list_update_beyond)

lemma put_get: "put f p (get f p mem) mem = mem"
  by (simp add: put_field_def get_field_def rmw_fld[OF aligned])

lemma put_outside:
  assumes "i < p \<or> p + width \<le> i"
  shows "put f p v mem ! i = mem ! i"
proof -
  have "p + findex f \<noteq> i" using assms in_bounds[of f] by linarith
  then show ?thesis by (simp add: put_field_def)
qed

lemma take_put: "take p (put f p v mem) = take p mem"
  by (rule nth_equalityI) (simp_all add: put_outside)

lemma drop_put: "drop (p + width) (put f p v mem) = drop (p + width) mem"
  by (rule nth_equalityI) (simp_all add: put_outside)

lemmas layout_laws = get_put_same get_put_other put_put_same put_get

end

end
