(* ===== verification/Fuji_Register.thy ===== *)
theory Fuji_Register
  imports Fuji_Types Register_Layout
begin

text \<open>
  \<^verbatim>\<open>protocol/fuji_register.h\<close> and \<^verbatim>\<open>fuji_register.cc\<close>: the STATUS register, five bytes seen
  through a pointer. A \<^verbatim>\<open>FujiStatusRegister\<close> holds nothing but the pointer \<^verbatim>\<open>bytes_\<close> into an
  array that somebody else owns (the handler's local payload, the last five bytes of the
  simulator's \<^verbatim>\<open>status_register_\<close>). The model is the offset \<open>p\<close> of that pointer in the buffer
  \<open>mem\<close> it points into: a setter maps \<open>mem\<close> to the buffer it leaves behind, so a write
  through the pointer is a change of the owner's array, as in the code. Dereferencing
  \<^verbatim>\<open>bytes_[i]\<close> is \<open>mem ! (p + i)\<close>; \<open>reg_ok\<close> says that the five bytes exist, and every place
  of the program that makes such a pointer is shown to satisfy it.
\<close>

section \<open>Layout constants\<close>

definition kModeIndex :: nat where [layout_consts]: "kModeIndex = 0"
definition kModeMask :: byte where [layout_consts]: "kModeMask = 0b00001110"
definition kModeOffset :: nat where [layout_consts]: "kModeOffset = 1"

definition kFanIndex :: nat where [layout_consts]: "kFanIndex = 0"
definition kFanMask :: byte where [layout_consts]: "kFanMask = 0b01110000"
definition kFanOffset :: nat where [layout_consts]: "kFanOffset = 4"

definition kEnabledIndex :: nat where [layout_consts]: "kEnabledIndex = 0"
definition kEnabledMask :: byte where [layout_consts]: "kEnabledMask = 0b00000001"
definition kEnabledOffset :: nat where [layout_consts]: "kEnabledOffset = 0"

definition kErrorIndex :: nat where [layout_consts]: "kErrorIndex = 0"
definition kErrorMask :: byte where [layout_consts]: "kErrorMask = 0b10000000"
definition kErrorOffset :: nat where [layout_consts]: "kErrorOffset = 7"

definition kEconomyIndex :: nat where [layout_consts]: "kEconomyIndex = 1"
definition kEconomyMask :: byte where [layout_consts]: "kEconomyMask = 0b10000000"
definition kEconomyOffset :: nat where [layout_consts]: "kEconomyOffset = 7"

definition kTemperatureIndex :: nat where [layout_consts]: "kTemperatureIndex = 1"
definition kTemperatureMask :: byte where [layout_consts]: "kTemperatureMask = 0b01111111"
definition kTemperatureOffset :: nat where [layout_consts]: "kTemperatureOffset = 0"

definition kUpdateMagicIndex :: nat where [layout_consts]: "kUpdateMagicIndex = 2"
definition kUpdateMagicMask :: byte where [layout_consts]: "kUpdateMagicMask = 0b11110000"
definition kUpdateMagicOffset :: nat where [layout_consts]: "kUpdateMagicOffset = 4"

definition kSwingIndex :: nat where [layout_consts]: "kSwingIndex = 2"
definition kSwingMask :: byte where [layout_consts]: "kSwingMask = 0b00000100"
definition kSwingOffset :: nat where [layout_consts]: "kSwingOffset = 2"

definition kSwingStepIndex :: nat where [layout_consts]: "kSwingStepIndex = 2"
definition kSwingStepMask :: byte where [layout_consts]: "kSwingStepMask = 0b00000010"
definition kSwingStepOffset :: nat where [layout_consts]: "kSwingStepOffset = 1"

definition kControllerPresentIndex :: nat where [layout_consts]: "kControllerPresentIndex = 3"
definition kControllerPresentMask :: byte where [layout_consts]: "kControllerPresentMask = 0b00000001"
definition kControllerPresentOffset :: nat where [layout_consts]: "kControllerPresentOffset = 0"

section \<open>Accessors\<close>

definition reg_ok :: "nat \<Rightarrow> bytes \<Rightarrow> bool" where
  "reg_ok p mem \<longleftrightarrow> p + 5 \<le> length mem"

definition reg_Payload :: "nat \<Rightarrow> bytes \<Rightarrow> bytes" where
  "reg_Payload p mem = take 5 (drop p mem)"

definition reg_SetMode :: "nat \<Rightarrow> mode_t \<Rightarrow> bytes \<Rightarrow> bytes" where
  "reg_SetMode p m mem =
     mem[p + kModeIndex := rmw (mem ! (p + kModeIndex)) kModeMask kModeOffset (mode_code m)]"

definition reg_Mode :: "nat \<Rightarrow> bytes \<Rightarrow> mode_t" where
  "reg_Mode p mem =
     (let c = fld (mem ! (p + kModeIndex)) kModeMask kModeOffset in
      if c = mode_code mode_AUTO then mode_AUTO
      else if c = mode_code mode_COOL then mode_COOL
      else if c = mode_code mode_DRY then mode_DRY
      else if c = mode_code mode_FAN then mode_FAN
      else if c = mode_code mode_HEAT then mode_HEAT
      else mode_UNKNOWN)"

text \<open>The code reads \<^verbatim>\<open>bytes_[kEnabledIndex]\<close> here and stores to \<^verbatim>\<open>bytes_[kModeIndex]\<close>.\<close>

definition reg_SetEnabled :: "nat \<Rightarrow> bool \<Rightarrow> bytes \<Rightarrow> bytes" where
  "reg_SetEnabled p e mem =
     mem[p + kModeIndex := rmw (mem ! (p + kEnabledIndex)) kEnabledMask kEnabledOffset (of_bool e)]"

definition reg_Enabled :: "nat \<Rightarrow> bytes \<Rightarrow> bool" where
  "reg_Enabled p mem \<longleftrightarrow> fld (mem ! (p + kEnabledIndex)) kEnabledMask kEnabledOffset \<noteq> 0"

definition reg_SetFan :: "nat \<Rightarrow> fan_t \<Rightarrow> bytes \<Rightarrow> bytes" where
  "reg_SetFan p f mem =
     mem[p + kFanIndex := rmw (mem ! (p + kFanIndex)) kFanMask kFanOffset (fan_code f)]"

definition reg_Fan :: "nat \<Rightarrow> bytes \<Rightarrow> fan_t" where
  "reg_Fan p mem =
     (let c = fld (mem ! (p + kFanIndex)) kFanMask kFanOffset in
      if c = fan_code fan_AUTO then fan_AUTO
      else if c = fan_code fan_MAX then fan_MAX
      else if c = fan_code fan_HIGH then fan_HIGH
      else if c = fan_code fan_MEDIUM then fan_MEDIUM
      else if c = fan_code fan_LOW then fan_LOW
      else fan_UNKNOWN)"

definition reg_SetError :: "nat \<Rightarrow> bool \<Rightarrow> bytes \<Rightarrow> bytes" where
  "reg_SetError p e mem =
     mem[p + kErrorIndex := rmw (mem ! (p + kErrorIndex)) kErrorMask kErrorOffset (of_bool e)]"

definition reg_Error :: "nat \<Rightarrow> bytes \<Rightarrow> bool" where
  "reg_Error p mem \<longleftrightarrow> fld (mem ! (p + kErrorIndex)) kErrorMask kErrorOffset \<noteq> 0"

definition reg_SetEconomy :: "nat \<Rightarrow> bool \<Rightarrow> bytes \<Rightarrow> bytes" where
  "reg_SetEconomy p e mem =
     mem[p + kEconomyIndex := rmw (mem ! (p + kEconomyIndex)) kEconomyMask kEconomyOffset (of_bool e)]"

definition reg_Economy :: "nat \<Rightarrow> bytes \<Rightarrow> bool" where
  "reg_Economy p mem \<longleftrightarrow> fld (mem ! (p + kEconomyIndex)) kEconomyMask kEconomyOffset \<noteq> 0"

definition reg_SetTemperature :: "nat \<Rightarrow> byte \<Rightarrow> bytes \<Rightarrow> bytes" where
  "reg_SetTemperature p t mem =
     mem[p + kTemperatureIndex :=
       rmw (mem ! (p + kTemperatureIndex)) kTemperatureMask kTemperatureOffset t]"

definition reg_Temperature :: "nat \<Rightarrow> bytes \<Rightarrow> byte" where
  "reg_Temperature p mem = fld (mem ! (p + kTemperatureIndex)) kTemperatureMask kTemperatureOffset"

definition reg_SetSwing :: "nat \<Rightarrow> bool \<Rightarrow> bytes \<Rightarrow> bytes" where
  "reg_SetSwing p s mem =
     mem[p + kSwingIndex := rmw (mem ! (p + kSwingIndex)) kSwingMask kSwingOffset (of_bool s)]"

definition reg_Swing :: "nat \<Rightarrow> bytes \<Rightarrow> bool" where
  "reg_Swing p mem \<longleftrightarrow> fld (mem ! (p + kSwingIndex)) kSwingMask kSwingOffset \<noteq> 0"

definition reg_SetSwingStep :: "nat \<Rightarrow> bool \<Rightarrow> bytes \<Rightarrow> bytes" where
  "reg_SetSwingStep p s mem =
     mem[p + kSwingStepIndex :=
       rmw (mem ! (p + kSwingStepIndex)) kSwingStepMask kSwingStepOffset (of_bool s)]"

definition reg_SwingStep :: "nat \<Rightarrow> bytes \<Rightarrow> bool" where
  "reg_SwingStep p mem \<longleftrightarrow>
     fld (mem ! (p + kSwingStepIndex)) kSwingStepMask kSwingStepOffset \<noteq> 0"

definition reg_SetControllerPresent :: "nat \<Rightarrow> bool \<Rightarrow> bytes \<Rightarrow> bytes" where
  "reg_SetControllerPresent p c mem =
     mem[p + kControllerPresentIndex :=
       rmw (mem ! (p + kControllerPresentIndex)) kControllerPresentMask
         kControllerPresentOffset (of_bool c)]"

definition reg_ControllerPresent :: "nat \<Rightarrow> bytes \<Rightarrow> bool" where
  "reg_ControllerPresent p mem \<longleftrightarrow>
     fld (mem ! (p + kControllerPresentIndex)) kControllerPresentMask
       kControllerPresentOffset \<noteq> 0"

definition reg_SetUpdateMagic :: "nat \<Rightarrow> byte \<Rightarrow> bytes \<Rightarrow> bytes" where
  "reg_SetUpdateMagic p u mem =
     mem[p + kUpdateMagicIndex :=
       rmw (mem ! (p + kUpdateMagicIndex)) kUpdateMagicMask kUpdateMagicOffset u]"

definition reg_UpdateMagic :: "nat \<Rightarrow> bytes \<Rightarrow> byte" where
  "reg_UpdateMagic p mem = fld (mem ! (p + kUpdateMagicIndex)) kUpdateMagicMask kUpdateMagicOffset"

definition reg_DebugInfo :: "nat \<Rightarrow> bytes \<Rightarrow> string" where
  "reg_DebugInfo p mem =
     '' Mode: '' @ mode_ToString (reg_Mode p mem) @
     '' Fan: '' @ fan_ToString (reg_Fan p mem) @
     '' Enabled: '' @ to_string (of_bool (reg_Enabled p mem)) @
     '' Error: '' @ to_string (of_bool (reg_Error p mem)) @
     '' Economy: '' @ to_string (of_bool (reg_Economy p mem)) @
     '' Temperature: '' @ to_string (unat (reg_Temperature p mem)) @
     '' Swing: '' @ to_string (of_bool (reg_Swing p mem)) @
     '' Swing step: '' @ to_string (of_bool (reg_SwingStep p mem)) @
     '' Controller present: '' @ to_string (of_bool (reg_ControllerPresent p mem)) @
     '' Update magic: '' @ to_string (unat (reg_UpdateMagic p mem))"

section \<open>The accessors address one layout\<close>

text \<open>
  The ten fields, with the constants the code gives them. They do not overlap, so the laws of
  \<open>register_layout\<close> hold for the STATUS register.
\<close>

datatype status_field = F_Mode | F_Fan | F_Enabled | F_Error | F_Economy | F_Temperature
  | F_UpdateMagic | F_Swing | F_SwingStep | F_ControllerPresent

fun status_index :: "status_field \<Rightarrow> nat" where
  "status_index F_Mode = kModeIndex"
| "status_index F_Fan = kFanIndex"
| "status_index F_Enabled = kEnabledIndex"
| "status_index F_Error = kErrorIndex"
| "status_index F_Economy = kEconomyIndex"
| "status_index F_Temperature = kTemperatureIndex"
| "status_index F_UpdateMagic = kUpdateMagicIndex"
| "status_index F_Swing = kSwingIndex"
| "status_index F_SwingStep = kSwingStepIndex"
| "status_index F_ControllerPresent = kControllerPresentIndex"

fun status_mask :: "status_field \<Rightarrow> byte" where
  "status_mask F_Mode = kModeMask"
| "status_mask F_Fan = kFanMask"
| "status_mask F_Enabled = kEnabledMask"
| "status_mask F_Error = kErrorMask"
| "status_mask F_Economy = kEconomyMask"
| "status_mask F_Temperature = kTemperatureMask"
| "status_mask F_UpdateMagic = kUpdateMagicMask"
| "status_mask F_Swing = kSwingMask"
| "status_mask F_SwingStep = kSwingStepMask"
| "status_mask F_ControllerPresent = kControllerPresentMask"

fun status_offset :: "status_field \<Rightarrow> nat" where
  "status_offset F_Mode = kModeOffset"
| "status_offset F_Fan = kFanOffset"
| "status_offset F_Enabled = kEnabledOffset"
| "status_offset F_Error = kErrorOffset"
| "status_offset F_Economy = kEconomyOffset"
| "status_offset F_Temperature = kTemperatureOffset"
| "status_offset F_UpdateMagic = kUpdateMagicOffset"
| "status_offset F_Swing = kSwingOffset"
| "status_offset F_SwingStep = kSwingStepOffset"
| "status_offset F_ControllerPresent = kControllerPresentOffset"

lemma status_disjoint:
  "f \<noteq> g \<Longrightarrow> status_index f = status_index g \<Longrightarrow> status_mask f AND status_mask g = 0"
  by (cases f; cases g) (simp_all add: layout_consts)

interpretation status: register_layout status_index status_mask status_offset 5
proof unfold_locales
  fix f :: status_field
  show "status_index f < 5"
    by (cases f) (simp_all add: layout_consts)
  show "push_bit (status_offset f) (drop_bit (status_offset f) (status_mask f)) = status_mask f"
    by (cases f) (simp_all add: layout_consts push_bit_eq_mult drop_bit_eq_div)
qed (rule status_disjoint)

lemmas status_layout = status_index.simps status_mask.simps status_offset.simps layout_consts

declare status_index.simps [simp del] status_mask.simps [simp del] status_offset.simps [simp del]

section \<open>The abstract register and the refinement\<close>

text \<open>What the five bytes mean: a record of the ten fields.\<close>

record unit_status =
  v_mode :: mode_t
  v_fan :: fan_t
  v_enabled :: bool
  v_error :: bool
  v_economy :: bool
  v_temperature :: byte
  v_magic :: byte
  v_swing :: bool
  v_swing_step :: bool
  v_present :: bool

definition status_at :: "nat \<Rightarrow> bytes \<Rightarrow> unit_status" where
  "status_at p mem =
     \<lparr>v_mode = reg_Mode p mem, v_fan = reg_Fan p mem, v_enabled = reg_Enabled p mem,
      v_error = reg_Error p mem, v_economy = reg_Economy p mem,
      v_temperature = reg_Temperature p mem, v_magic = reg_UpdateMagic p mem,
      v_swing = reg_Swing p mem, v_swing_step = reg_SwingStep p mem,
      v_present = reg_ControllerPresent p mem\<rparr>"


text \<open>Every accessor is \<open>get\<close> or \<open>put\<close> of its own field.\<close>

lemma setters_put:
  "reg_SetMode p m mem = status.put F_Mode p (mode_code m) mem"
  "reg_SetFan p f mem = status.put F_Fan p (fan_code f) mem"
  "reg_SetEnabled p b mem = status.put F_Enabled p (of_bool b) mem"
  "reg_SetError p b mem = status.put F_Error p (of_bool b) mem"
  "reg_SetEconomy p b mem = status.put F_Economy p (of_bool b) mem"
  "reg_SetTemperature p t mem = status.put F_Temperature p t mem"
  "reg_SetUpdateMagic p t mem = status.put F_UpdateMagic p t mem"
  "reg_SetSwing p b mem = status.put F_Swing p (of_bool b) mem"
  "reg_SetSwingStep p b mem = status.put F_SwingStep p (of_bool b) mem"
  "reg_SetControllerPresent p b mem = status.put F_ControllerPresent p (of_bool b) mem"
  by (simp_all add: put_field_def reg_SetMode_def reg_SetFan_def reg_SetEnabled_def
      reg_SetError_def reg_SetEconomy_def reg_SetTemperature_def reg_SetUpdateMagic_def
      reg_SetSwing_def reg_SetSwingStep_def reg_SetControllerPresent_def
      status_layout)

definition decode_mode :: "byte \<Rightarrow> mode_t" where
  "decode_mode c = (if c = 5 then mode_AUTO else if c = 3 then mode_COOL else if c = 2 then mode_DRY
     else if c = 1 then mode_FAN else if c = 4 then mode_HEAT else mode_UNKNOWN)"

definition decode_fan :: "byte \<Rightarrow> fan_t" where
  "decode_fan c = (if c = 0 then fan_AUTO else if c = 4 then fan_MAX else if c = 3 then fan_HIGH
     else if c = 2 then fan_MEDIUM else if c = 1 then fan_LOW else fan_UNKNOWN)"

lemma decode_code [simp]: "decode_mode (mode_code m) = m" "decode_fan (fan_code f) = f"
  by (cases m; simp add: decode_mode_def) (cases f; simp add: decode_fan_def)

lemma getters_get:
  "reg_Mode p mem = decode_mode (status.get F_Mode p mem)"
  "reg_Fan p mem = decode_fan (status.get F_Fan p mem)"
  "reg_Enabled p mem = (status.get F_Enabled p mem \<noteq> 0)"
  "reg_Error p mem = (status.get F_Error p mem \<noteq> 0)"
  "reg_Economy p mem = (status.get F_Economy p mem \<noteq> 0)"
  "reg_Temperature p mem = status.get F_Temperature p mem"
  "reg_UpdateMagic p mem = status.get F_UpdateMagic p mem"
  "reg_Swing p mem = (status.get F_Swing p mem \<noteq> 0)"
  "reg_SwingStep p mem = (status.get F_SwingStep p mem \<noteq> 0)"
  "reg_ControllerPresent p mem = (status.get F_ControllerPresent p mem \<noteq> 0)"
  by (simp_all add: get_field_def reg_Mode_def decode_mode_def Let_def reg_Fan_def decode_fan_def
      reg_Enabled_def reg_Error_def reg_Economy_def reg_Temperature_def reg_UpdateMagic_def
      reg_Swing_def reg_SwingStep_def reg_ControllerPresent_def
      status_index.simps status_mask.simps status_offset.simps)

text \<open>Which values fit their field: all flags and enumerators, but not every temperature.\<close>

lemma flag_fits:
  "status.fits F_Enabled (of_bool b)" "status.fits F_Error (of_bool b)"
  "status.fits F_Economy (of_bool b)" "status.fits F_Swing (of_bool b)"
  "status.fits F_SwingStep (of_bool b)" "status.fits F_ControllerPresent (of_bool b)"
  by (cases b; simp add: status_layout drop_bit_eq_div)+

lemma code_fits: "status.fits F_Mode (mode_code m)" "status.fits F_Fan (fan_code f)"
  by (cases m; simp add: status_layout drop_bit_eq_div)
    (cases f; simp add: status_layout drop_bit_eq_div)

lemma masked_fits:
  "status.fits F_Temperature (t AND 127)" "status.fits F_UpdateMagic (t AND 15)"
  by (simp_all add: status_layout drop_bit_eq_div and.assoc)

lemmas status_fits = flag_fits code_fits masked_fits

text \<open>
  \<^verbatim>\<open>SetTemperature\<close> does not mask its argument: bit 7 of a temperature of 128 or more lands in
  the economy bit. \<^verbatim>\<open>SetUpdateMagic\<close> does not mask either, but its overflow leaves the byte.
\<close>

lemma rmw_temperature:
  "rmw b 127 0 t = rmw (rmw b 127 0 (t AND 127)) 128 7 (of_bool (fld b 128 7 \<noteq> 0 \<or> 128 \<le> t))"
  by (rule byte_eqI) (simp_all add: rmw_byte fld_top_bit bit_simps byte_top_bit[symmetric])

lemma rmw_magic: "rmw b 240 4 u = rmw b 240 4 (u AND 15)"
  by (rule byte_eqI) (simp_all add: rmw_byte bit_simps)

lemma put_temperature:
  "status.put F_Temperature p t mem =
     status.put F_Economy p (of_bool (reg_Economy p mem \<or> 128 \<le> t))
       (status.put F_Temperature p (t AND 127) mem)"
proof (cases "p + 1 < length mem")
  case True
  then show ?thesis
    using rmw_temperature[of "mem ! Suc p" t]
    by (auto simp: put_field_def getters_get get_field_def status_layout)
next
  case False
  then show ?thesis by (simp add: put_field_def status_layout list_update_beyond)
qed

lemma put_magic:
  "status.put F_UpdateMagic p u mem = status.put F_UpdateMagic p (u AND 15) mem"
  using rmw_magic by (simp add: put_field_def status_layout)

text \<open>
  Reading the register after a write: each setter changes its own field of the abstract
  register and nothing else, except that a temperature of 128 or more sets the economy flag.
\<close>

lemma reg_ok_put [simp]: "reg_ok p (status.put f p v mem) = reg_ok p mem"
  by (simp add: reg_ok_def)

lemma reg_ok_width: "reg_ok p mem \<Longrightarrow> p + 5 \<le> length mem"
  by (simp add: reg_ok_def)

lemmas field_laws = status.get_put_same[OF reg_ok_width] status.get_put_other status_fits

lemma status_at_simple:
  assumes "reg_ok p mem"
  shows
    "status_at p (reg_SetMode p m mem) = (status_at p mem)\<lparr>v_mode := m\<rparr>"
    "status_at p (reg_SetFan p f mem) = (status_at p mem)\<lparr>v_fan := f\<rparr>"
    "status_at p (reg_SetEnabled p b mem) = (status_at p mem)\<lparr>v_enabled := b\<rparr>"
    "status_at p (reg_SetError p b mem) = (status_at p mem)\<lparr>v_error := b\<rparr>"
    "status_at p (reg_SetEconomy p b mem) = (status_at p mem)\<lparr>v_economy := b\<rparr>"
    "status_at p (reg_SetSwing p b mem) = (status_at p mem)\<lparr>v_swing := b\<rparr>"
    "status_at p (reg_SetSwingStep p b mem) = (status_at p mem)\<lparr>v_swing_step := b\<rparr>"
    "status_at p (reg_SetControllerPresent p b mem) = (status_at p mem)\<lparr>v_present := b\<rparr>"
  using assms by (simp_all add: status_at_def getters_get setters_put field_laws)

lemma status_at_SetUpdateMagic:
  assumes "reg_ok p mem"
  shows "status_at p (reg_SetUpdateMagic p u mem) = (status_at p mem)\<lparr>v_magic := u AND 15\<rparr>"
  unfolding setters_put put_magic[of p u]
  using assms by (simp add: status_at_def getters_get field_laws)

lemma status_at_SetTemperature:
  assumes "reg_ok p mem"
  shows "status_at p (reg_SetTemperature p t mem) =
    (status_at p mem)\<lparr>v_temperature := t AND 127,
      v_economy := v_economy (status_at p mem) \<or> 128 \<le> t\<rparr>"
  unfolding setters_put put_temperature[of p t]
  using assms by (simp add: status_at_def getters_get field_laws)

lemmas status_at_setters [view_simps] =
  status_at_simple status_at_SetUpdateMagic status_at_SetTemperature

section \<open>Sequences of writes\<close>

text \<open>
  A caller uses the register by calling setters one after the other. \<open>reg_op\<close> is one such
  call, \<open>reg_run\<close> performs a list of them on the buffer and \<open>spec_run\<close> on the record.
\<close>

datatype reg_op = Op_Mode mode_t | Op_Fan fan_t | Op_Enabled bool | Op_Error bool
  | Op_Economy bool | Op_Temperature byte | Op_UpdateMagic byte | Op_Swing bool
  | Op_SwingStep bool | Op_ControllerPresent bool

fun reg_apply :: "nat \<Rightarrow> reg_op \<Rightarrow> bytes \<Rightarrow> bytes" where
  "reg_apply p (Op_Mode m) = reg_SetMode p m"
| "reg_apply p (Op_Fan f) = reg_SetFan p f"
| "reg_apply p (Op_Enabled b) = reg_SetEnabled p b"
| "reg_apply p (Op_Error b) = reg_SetError p b"
| "reg_apply p (Op_Economy b) = reg_SetEconomy p b"
| "reg_apply p (Op_Temperature t) = reg_SetTemperature p t"
| "reg_apply p (Op_UpdateMagic u) = reg_SetUpdateMagic p u"
| "reg_apply p (Op_Swing b) = reg_SetSwing p b"
| "reg_apply p (Op_SwingStep b) = reg_SetSwingStep p b"
| "reg_apply p (Op_ControllerPresent b) = reg_SetControllerPresent p b"

fun spec_apply :: "reg_op \<Rightarrow> unit_status \<Rightarrow> unit_status" where
  "spec_apply (Op_Mode m) v = v\<lparr>v_mode := m\<rparr>"
| "spec_apply (Op_Fan f) v = v\<lparr>v_fan := f\<rparr>"
| "spec_apply (Op_Enabled b) v = v\<lparr>v_enabled := b\<rparr>"
| "spec_apply (Op_Error b) v = v\<lparr>v_error := b\<rparr>"
| "spec_apply (Op_Economy b) v = v\<lparr>v_economy := b\<rparr>"
| "spec_apply (Op_Temperature t) v =
     v\<lparr>v_temperature := t AND 127, v_economy := v_economy v \<or> 128 \<le> t\<rparr>"
| "spec_apply (Op_UpdateMagic u) v = v\<lparr>v_magic := u AND 15\<rparr>"
| "spec_apply (Op_Swing b) v = v\<lparr>v_swing := b\<rparr>"
| "spec_apply (Op_SwingStep b) v = v\<lparr>v_swing_step := b\<rparr>"
| "spec_apply (Op_ControllerPresent b) v = v\<lparr>v_present := b\<rparr>"

definition reg_run :: "nat \<Rightarrow> reg_op list \<Rightarrow> bytes \<Rightarrow> bytes" where
  "reg_run p ops mem = fold (reg_apply p) ops mem"

definition spec_run :: "reg_op list \<Rightarrow> unit_status \<Rightarrow> unit_status" where
  "spec_run ops v = fold spec_apply ops v"

lemma setters_length [simp]:
  "length (reg_SetMode p m mem) = length mem" "length (reg_SetFan p f mem) = length mem"
  "length (reg_SetEnabled p b mem) = length mem" "length (reg_SetError p b mem) = length mem"
  "length (reg_SetEconomy p b mem) = length mem" "length (reg_SetSwing p b mem) = length mem"
  "length (reg_SetSwingStep p b mem) = length mem" "length (reg_SetTemperature p t mem) = length mem"
  "length (reg_SetUpdateMagic p t mem) = length mem"
  "length (reg_SetControllerPresent p b mem) = length mem"
  by (simp_all add: setters_put)

lemma reg_ok_setters [simp]:
  "reg_ok p (reg_SetMode q m mem) = reg_ok p mem" "reg_ok p (reg_SetFan q f mem) = reg_ok p mem"
  "reg_ok p (reg_SetEnabled q b mem) = reg_ok p mem" "reg_ok p (reg_SetError q b mem) = reg_ok p mem"
  "reg_ok p (reg_SetEconomy q b mem) = reg_ok p mem" "reg_ok p (reg_SetSwing q b mem) = reg_ok p mem"
  "reg_ok p (reg_SetSwingStep q b mem) = reg_ok p mem"
  "reg_ok p (reg_SetTemperature q t mem) = reg_ok p mem"
  "reg_ok p (reg_SetUpdateMagic q t mem) = reg_ok p mem"
  "reg_ok p (reg_SetControllerPresent q b mem) = reg_ok p mem"
  by (simp_all add: reg_ok_def)

lemma reg_apply_refines: "reg_ok p mem \<Longrightarrow> status_at p (reg_apply p x mem) = spec_apply x (status_at p mem)"
  by (cases x) (simp_all add: view_simps)

lemma reg_apply_ok [simp]: "reg_ok p (reg_apply p x mem) = reg_ok p mem"
  by (cases x) simp_all

lemma reg_apply_local:
  "length (reg_apply p x mem) = length mem"
  "take p (reg_apply p x mem) = take p mem"
  "drop (p + 5) (reg_apply p x mem) = drop (p + 5) mem"
  by (cases x; simp add: setters_put status.take_put status.drop_put)+

lemma status_at_drop:
  assumes "reg_ok (q + p) mem"
  shows "status_at p (drop q mem) = status_at (q + p) mem"
proof -
  have "drop q mem ! (p + i) = mem ! (q + p + i)" for i
    using assms by (simp add: reg_ok_def add.assoc)
  then show ?thesis by (simp add: status_at_def getters_get get_field_def)
qed

lemma status_at_Payload: "reg_ok p mem \<Longrightarrow> status_at 0 (reg_Payload p mem) = status_at p mem"
  using status_at_drop[of p 0 mem]
  by (simp add: reg_ok_def reg_Payload_def status_at_def getters_get get_field_def status_layout)

lemma temperature_bound: "reg_Temperature p mem < 128"
proof -
  have "\<not> bit (reg_Temperature p mem) 7"
    by (simp add: reg_Temperature_def layout_consts fld_byte bit_simps)
  then show ?thesis by (simp add: byte_top_bit not_le)
qed

lemma status_at_temperature: "v_temperature (status_at p mem) < 128"
  by (simp add: status_at_def temperature_bound)

lemma reg_run_refines:
  "reg_ok p mem \<Longrightarrow> status_at p (reg_run p ops mem) = spec_run ops (status_at p mem)"
  unfolding reg_run_def spec_run_def
  by (induction ops arbitrary: mem) (simp_all add: reg_apply_refines)


section \<open>The debug line\<close>

lemma of_bool_eq [simp]: "(of_bool a :: nat) = of_bool b \<longleftrightarrow> a = b"
  by simp

definition status_words :: "unit_status \<Rightarrow> (string \<times> string) list" where
  "status_words v =
     [(''Mode: '', mode_ToString (v_mode v)), (''Fan: '', fan_ToString (v_fan v)),
      (''Enabled: '', to_string (of_bool (v_enabled v))), (''Error: '', to_string (of_bool (v_error v))),
      (''Economy: '', to_string (of_bool (v_economy v))),
      (''Temperature: '', to_string (unat (v_temperature v))),
      (''Swing: '', to_string (of_bool (v_swing v))),
      (''Swing step: '', to_string (of_bool (v_swing_step v))),
      (''Controller present: '', to_string (of_bool (v_present v))),
      (''Update magic: '', to_string (unat (v_magic v)))]"

lemma DebugInfo_status: "reg_DebugInfo p mem = labelled (status_words (status_at p mem))"
  by (simp add: reg_DebugInfo_def status_words_def status_at_def)

lemma status_words_inject: "status_words v = status_words w \<Longrightarrow> v = w"
  by (cases v; cases w)
    (simp add: status_words_def mode_ToString_inject fan_ToString_inject word_unat_eq_iff)

section \<open>Properties\<close>

text \<open>
  No sequence of setter calls touches a byte outside the five of the register, nor the size of
  the buffer: the frame header in front of a register survives every write through it.
\<close>

lemma register_writes_stay_inside:
  "length (reg_run p ops mem) = length mem \<and> take p (reg_run p ops mem) = take p mem \<and>
   drop (p + 5) (reg_run p ops mem) = drop (p + 5) mem"
  unfolding reg_run_def by (induction ops arbitrary: mem) (simp_all add: reg_apply_local)

text \<open>
  C7. The register accessors implement a record of ten settings: performing any sequence of
  setter calls on the bytes and then reading the register gives what the same sequence does to
  the record (where a temperature is cut to seven bits and one of 128 or more raises the
  economy flag, and a magic is cut to four bits); and the bytes of the buffer in front of the
  register and behind it are not touched, nor is the buffer's size.
\<close>

theorem register_refines_record:
  assumes "reg_ok p mem"
  shows "status_at p (reg_run p ops mem) = spec_run ops (status_at p mem) \<and>
    length (reg_run p ops mem) = length mem \<and> take p (reg_run p ops mem) = take p mem \<and>
    drop (p + 5) (reg_run p ops mem) = drop (p + 5) mem"
  using reg_run_refines[OF assms] register_writes_stay_inside by blast

theorem register_refines_record_witness:
  "status_at 1 (reg_run 1 [Op_Mode mode_HEAT, Op_Temperature 150] [7, 0, 0, 0, 0, 0]) =
     spec_run [Op_Mode mode_HEAT, Op_Temperature 150] (status_at 1 [7, 0, 0, 0, 0, 0]) \<and>
   take 1 (reg_run 1 [Op_Mode mode_HEAT, Op_Temperature 150] [7, 0, 0, 0, 0, 0]) = [7]"
  using register_refines_record[of 1 "[7, 0, 0, 0, 0, 0]"] by (simp add: reg_ok_def)

text \<open>
  \<^verbatim>\<open>SetTemperature\<close> does not mask its argument: it stores the low seven bits, and a
  temperature of 128 or more also turns the economy flag on; below 128 it leaves it alone.
\<close>

lemma SetTemperature_leaks_into_economy:
  assumes "reg_ok p mem"
  shows "reg_Temperature p (reg_SetTemperature p t mem) = t AND 127 \<and>
    reg_Economy p (reg_SetTemperature p t mem) = (reg_Economy p mem \<or> 128 \<le> t)"
  using status_at_SetTemperature[OF assms, of t] by (simp add: status_at_def)

text \<open>
  The debug line shows everything the register holds: two registers that print the same
  line agree on all ten settings.
\<close>

lemma DebugInfo_faithful:
  assumes "reg_DebugInfo p mem = reg_DebugInfo q mem'"
  shows "status_at p mem = status_at q mem'"
proof (rule status_words_inject, rule labelled_inject)
  show "labelled (status_words (status_at p mem)) = labelled (status_words (status_at q mem'))"
    using assms by (simp only: DebugInfo_status)
qed (simp_all add: status_words_def)

end
