(* ===== verification/Fuji_Ac_State.thy ===== *)
theory Fuji_Ac_State
  imports Fuji_Register
begin

text \<open>
  \<^verbatim>\<open>protocol/fuji_ac_state.h\<close> and \<^verbatim>\<open>fuji_ac_state.cc\<close>: the controller's own copy of the unit's
  settings, with the flag \<^verbatim>\<open>merged_\<close>. Every setter clears the flag (the user changed
  something the main unit does not know), merging a STATUS register sets it.
\<close>

record FujiAcState =
  ac_mode :: mode_t
  ac_enabled :: bool
  ac_fan :: fan_t
  ac_error_flag :: bool
  ac_controller_present :: bool
  ac_economy :: bool
  ac_temperature :: byte
  ac_swing :: bool
  ac_swing_step :: bool
  ac_merged :: bool

definition FujiAcState_init :: FujiAcState where
  "FujiAcState_init =
     \<lparr>ac_mode = mode_AUTO, ac_enabled = False, ac_fan = fan_AUTO, ac_error_flag = False,
      ac_controller_present = False, ac_economy = False, ac_temperature = 20,
      ac_swing = False, ac_swing_step = False, ac_merged = True\<rparr>"

definition ac_SetMode :: "mode_t \<Rightarrow> FujiAcState \<Rightarrow> FujiAcState" where
  "ac_SetMode m s = s\<lparr>ac_mode := m, ac_merged := False\<rparr>"

definition ac_SetEnabled :: "bool \<Rightarrow> FujiAcState \<Rightarrow> FujiAcState" where
  "ac_SetEnabled b s = s\<lparr>ac_enabled := b, ac_merged := False\<rparr>"

definition ac_SetFan :: "fan_t \<Rightarrow> FujiAcState \<Rightarrow> FujiAcState" where
  "ac_SetFan f s = s\<lparr>ac_fan := f, ac_merged := False\<rparr>"

definition ac_SetErrorFlag :: "bool \<Rightarrow> FujiAcState \<Rightarrow> FujiAcState" where
  "ac_SetErrorFlag b s = s\<lparr>ac_error_flag := b, ac_merged := False\<rparr>"

definition ac_SetEconomy :: "bool \<Rightarrow> FujiAcState \<Rightarrow> FujiAcState" where
  "ac_SetEconomy b s = s\<lparr>ac_economy := b, ac_merged := False\<rparr>"

definition ac_SetTemperature :: "byte \<Rightarrow> FujiAcState \<Rightarrow> FujiAcState" where
  "ac_SetTemperature t s = s\<lparr>ac_temperature := t, ac_merged := False\<rparr>"

definition ac_SetSwing :: "bool \<Rightarrow> FujiAcState \<Rightarrow> FujiAcState" where
  "ac_SetSwing b s = s\<lparr>ac_swing := b, ac_merged := False\<rparr>"

definition ac_SetSwingStep :: "bool \<Rightarrow> FujiAcState \<Rightarrow> FujiAcState" where
  "ac_SetSwingStep b s = s\<lparr>ac_swing_step := b, ac_merged := False\<rparr>"

definition ac_SetControllerPresent :: "bool \<Rightarrow> FujiAcState \<Rightarrow> FujiAcState" where
  "ac_SetControllerPresent b s = s\<lparr>ac_controller_present := b, ac_merged := False\<rparr>"

definition ac_SetMerged :: "bool \<Rightarrow> FujiAcState \<Rightarrow> FujiAcState" where
  "ac_SetMerged b s = s\<lparr>ac_merged := b\<rparr>"

text \<open>
  \<^verbatim>\<open>BuildStatusRegisterResponse(status)\<close> writes through the register pointer \<open>p\<close>: it returns
  the buffer it leaves behind.
\<close>

definition ac_BuildStatusRegisterResponse :: "FujiAcState \<Rightarrow> nat \<Rightarrow> bytes \<Rightarrow> bytes" where
  "ac_BuildStatusRegisterResponse s p mem =
     (let mem = reg_SetEnabled p (ac_enabled s) mem;
          mem = reg_SetMode p (ac_mode s) mem;
          mem = reg_SetFan p (ac_fan s) mem;
          mem = (if ac_mode s \<noteq> mode_FAN then
                   (let mem = reg_SetEconomy p (ac_economy s) mem
                    in reg_SetTemperature p (ac_temperature s) mem)
                 else mem);
          mem = reg_SetSwing p (ac_swing s) mem
      in reg_SetSwingStep p (ac_swing_step s) mem)"

definition ac_MergeFromMasterStatusRegister :: "nat \<Rightarrow> bytes \<Rightarrow> FujiAcState \<Rightarrow> FujiAcState" where
  "ac_MergeFromMasterStatusRegister p mem s =
     (let s = ac_SetEnabled (reg_Enabled p mem) s;
          s = ac_SetMode (reg_Mode p mem) s;
          s = ac_SetFan (reg_Fan p mem) s;
          s = ac_SetEconomy (reg_Economy p mem) s;
          s = ac_SetTemperature (reg_Temperature p mem) s;
          s = ac_SetSwing (reg_Swing p mem) s;
          s = ac_SetErrorFlag (reg_Error p mem) s;
          s = ac_SetControllerPresent (reg_ControllerPresent p mem) s
      in s\<lparr>ac_merged := True\<rparr>)"

lemmas ac_setter_defs = ac_SetMode_def ac_SetEnabled_def ac_SetFan_def ac_SetErrorFlag_def
  ac_SetEconomy_def ac_SetTemperature_def ac_SetSwing_def ac_SetSwingStep_def
  ac_SetControllerPresent_def ac_SetMerged_def

section \<open>What building and merging mean on the abstract register\<close>

text \<open>
  \<open>show_state s v\<close> is the register a state is shown as, \<open>read_state v s\<close> the state a register
  is read into. In FAN mode neither economy nor temperature is shown; the swing step is shown
  but never read back.
\<close>

definition show_state :: "FujiAcState \<Rightarrow> unit_status \<Rightarrow> unit_status" where
  "show_state s v =
     v\<lparr>v_enabled := ac_enabled s, v_mode := ac_mode s, v_fan := ac_fan s,
       v_economy := (if ac_mode s = mode_FAN then v_economy v
                     else ac_economy s \<or> 128 \<le> ac_temperature s),
       v_temperature := (if ac_mode s = mode_FAN then v_temperature v
                         else ac_temperature s AND 127),
       v_swing := ac_swing s, v_swing_step := ac_swing_step s\<rparr>"

definition read_state :: "unit_status \<Rightarrow> FujiAcState \<Rightarrow> FujiAcState" where
  "read_state v s =
     s\<lparr>ac_enabled := v_enabled v, ac_mode := v_mode v, ac_fan := v_fan v,
       ac_economy := v_economy v, ac_temperature := v_temperature v, ac_swing := v_swing v,
       ac_error_flag := v_error v, ac_controller_present := v_present v, ac_merged := True\<rparr>"

lemma length_Build [simp]: "length (ac_BuildStatusRegisterResponse s p mem) = length mem"
  by (simp add: ac_BuildStatusRegisterResponse_def Let_def)

lemma status_at_Build [view_simps]:
  "reg_ok p mem \<Longrightarrow> status_at p (ac_BuildStatusRegisterResponse s p mem) = show_state s (status_at p mem)"
  by (simp add: ac_BuildStatusRegisterResponse_def show_state_def view_simps Let_def)

lemma Merge_read_state:
  "ac_MergeFromMasterStatusRegister p mem s = read_state (status_at p mem) s"
  by (simp add: ac_MergeFromMasterStatusRegister_def read_state_def status_at_def ac_setter_defs Let_def)

section \<open>Properties\<close>

text \<open>
  C22. What a controller state is shown as is what another one reads: outside FAN mode, and with
  a temperature below 128, merging a register built from \<open>s\<close> gives any state \<open>s'\<close> the six
  settings of \<open>s\<close>, takes the error flag and the presence bit from the register, keeps the
  swing step of \<open>s'\<close> and marks it merged.
\<close>

theorem build_then_merge:
  assumes "reg_ok p mem" and "ac_mode s \<noteq> mode_FAN" and "ac_temperature s < 128"
  shows "ac_MergeFromMasterStatusRegister p (ac_BuildStatusRegisterResponse s p mem) s' =
    s\<lparr>ac_error_flag := reg_Error p mem, ac_controller_present := reg_ControllerPresent p mem,
      ac_swing_step := ac_swing_step s', ac_merged := True\<rparr>"
proof -
  have "\<not> 128 \<le> ac_temperature s" using assms(3) by simp
  then show ?thesis
    using assms by (cases s; cases s')
      (simp add: Merge_read_state status_at_Build show_state_def read_state_def byte_below_128,
       simp add: status_at_def)
qed

theorem build_then_merge_witness:
  "ac_MergeFromMasterStatusRegister 0
     (ac_BuildStatusRegisterResponse FujiAcState_init 0 [255, 255, 255, 255, 255]) FujiAcState_init =
   FujiAcState_init\<lparr>ac_error_flag := reg_Error 0 [255, 255, 255, 255, 255],
     ac_controller_present := reg_ControllerPresent 0 [255, 255, 255, 255, 255],
     ac_swing_step := ac_swing_step FujiAcState_init, ac_merged := True\<rparr>"
  by (rule build_then_merge) (simp_all add: reg_ok_def FujiAcState_init_def)

text \<open>
  In FAN mode neither the temperature nor the economy flag is written: the register keeps
  the two it had, whatever the state holds.
\<close>

lemma build_in_fan_mode:
  assumes "reg_ok p mem" and "ac_mode s = mode_FAN"
  shows "status_at p (ac_BuildStatusRegisterResponse s p mem) =
    (status_at p mem)\<lparr>v_enabled := ac_enabled s, v_mode := mode_FAN, v_fan := ac_fan s,
      v_swing := ac_swing s, v_swing_step := ac_swing_step s\<rparr>"
  using assms by (simp add: status_at_Build show_state_def)

end
