(* ===== verification/Fuji_Frame.thy ===== *)
theory Fuji_Frame
  imports Fuji_Register
begin

text \<open>
  \<^verbatim>\<open>protocol/fuji_frame.h\<close> and \<^verbatim>\<open>fuji_frame.cc\<close>: the eight-byte frames of the bus. A
  \<^verbatim>\<open>FujiMasterFrame\<close> comes from the main unit, a \<^verbatim>\<open>FujiControllerFrame\<close> goes to it; both wrap a
  \<^verbatim>\<open>std::array<uint8_t, 8>\<close>, here a list of bytes with the invariant that its length is 8.
  Both headers are register layouts (\<open>Register_Layout\<close>), and the payload is the STATUS
  register at offset 3 of the frame.
\<close>

section \<open>Addresses and register types\<close>

datatype DestinationAddr = dest_UNKNOWN | dest_WIRED_CONTROLLER_ADDR | dest_OTHER

fun dest_code :: "DestinationAddr \<Rightarrow> byte" where
  "dest_code dest_UNKNOWN = 0"
| "dest_code dest_WIRED_CONTROLLER_ADDR = 32"
| "dest_code dest_OTHER = 1"

fun dest_ToString :: "DestinationAddr \<Rightarrow> string" where
  "dest_ToString dest_OTHER = ''OTHER''"
| "dest_ToString dest_WIRED_CONTROLLER_ADDR = ''WIRED_CONTROLLER_ADDR''"
| "dest_ToString dest_UNKNOWN = ''UNKNOWN''"

definition dest_put :: "ostream \<Rightarrow> DestinationAddr \<Rightarrow> ostream" where
  "dest_put os da = os @ dest_ToString da"

datatype RegisterType = reg_STATUS | reg_ERROR | reg_LOGIN | reg_UNKNOWN

fun type_code :: "RegisterType \<Rightarrow> byte" where
  "type_code reg_STATUS = 0"
| "type_code reg_ERROR = 1"
| "type_code reg_LOGIN = 2"
| "type_code reg_UNKNOWN = 3"

fun type_ToString :: "RegisterType \<Rightarrow> string" where
  "type_ToString reg_STATUS = ''STATUS''"
| "type_ToString reg_ERROR = ''ERROR''"
| "type_ToString reg_LOGIN = ''LOGIN''"
| "type_ToString reg_UNKNOWN = ''UNKNOWN''"

definition type_put :: "ostream \<Rightarrow> RegisterType \<Rightarrow> ostream" where
  "type_put os rt = os @ type_ToString rt"

definition bool_ToString :: "bool \<Rightarrow> string" where
  "bool_ToString b = (if b then ''true'' else ''false'')"

text \<open>The five numbers that both \<^verbatim>\<open>DebugInfo\<close> functions print, separated by spaces.\<close>

definition payload_ToString :: "bytes \<Rightarrow> string" where
  "payload_ToString d = to_string (unat (d ! 0)) @ '' '' @ to_string (unat (d ! 1)) @ '' '' @
     to_string (unat (d ! 2)) @ '' '' @ to_string (unat (d ! 3)) @ '' '' @ to_string (unat (d ! 4))"

section \<open>Master frames\<close>

record FujiMasterFrame =
  mf_data :: bytes

definition MasterFrame :: "bytes \<Rightarrow> FujiMasterFrame" where
  "MasterFrame d = \<lparr>mf_data = d\<rparr>"

definition mf_ok :: "FujiMasterFrame \<Rightarrow> bool" where
  "mf_ok f \<longleftrightarrow> length (mf_data f) = 8"

definition mf_UnknownBit :: "FujiMasterFrame \<Rightarrow> bool" where
  "mf_UnknownBit f \<longleftrightarrow> mf_data f ! 1 AND 0b10000000 > 0"

definition mf_WithUnknownBit :: "bool \<Rightarrow> FujiMasterFrame \<Rightarrow> FujiMasterFrame" where
  "mf_WithUnknownBit b f =
     (let d = mf_data f;
          d = d[1 := d ! 1 AND 0b01111111];
          d = (if b then d[1 := d ! 1 OR 0b10000000] else d)
      in f\<lparr>mf_data := d\<rparr>)"

definition mf_Destination :: "FujiMasterFrame \<Rightarrow> DestinationAddr" where
  "mf_Destination f =
     (let a = mf_data f ! 1 AND 0b01111111 in
      if a = dest_code dest_WIRED_CONTROLLER_ADDR then dest_WIRED_CONTROLLER_ADDR
      else if a = dest_code dest_OTHER then dest_OTHER
      else dest_UNKNOWN)"

definition mf_WithDestination :: "DestinationAddr \<Rightarrow> FujiMasterFrame \<Rightarrow> FujiMasterFrame" where
  "mf_WithDestination dest f =
     (let d = mf_data f;
          d = d[1 := d ! 1 AND 0b10000000];
          d = d[1 := d ! 1 OR (dest_code dest AND 0b01111111)]
      in f\<lparr>mf_data := d\<rparr>)"

definition mf_Type :: "FujiMasterFrame \<Rightarrow> RegisterType" where
  "mf_Type f =
     (let t = drop_bit 4 (mf_data f ! 2) AND 0b11 in
      if t = type_code reg_STATUS then reg_STATUS
      else if t = type_code reg_ERROR then reg_ERROR
      else if t = type_code reg_LOGIN then reg_LOGIN
      else reg_UNKNOWN)"

definition mf_WithType :: "RegisterType \<Rightarrow> FujiMasterFrame \<Rightarrow> FujiMasterFrame" where
  "mf_WithType t f =
     (let d = mf_data f;
          d = d[2 := d ! 2 AND 0b11001111];
          d = d[2 := d ! 2 OR push_bit 4 (type_code t)]
      in f\<lparr>mf_data := d\<rparr>)"

definition mf_Payload :: "FujiMasterFrame \<Rightarrow> bytes" where
  "mf_Payload f = drop 3 (mf_data f)"

definition mf_FullFrame :: "FujiMasterFrame \<Rightarrow> bytes" where
  "mf_FullFrame f = mf_data f"

text \<open>The STATUS case has no \<^verbatim>\<open>break\<close>: it prints the decoded register and then the raw payload.\<close>

definition mf_DebugInfo :: "FujiMasterFrame \<Rightarrow> string" where
  "mf_DebugInfo f =
     ''Register type: '' @ type_ToString (mf_Type f) @
     '' Unknown bit: '' @ bool_ToString (mf_UnknownBit f) @
     '' Destination: '' @ dest_ToString (mf_Destination f) @
     (case mf_Type f of
        reg_STATUS \<Rightarrow> '' Status register: '' @ reg_DebugInfo 0 (mf_Payload f) @
          '' Payload: '' @ payload_ToString (mf_Payload f)
      | _ \<Rightarrow> '' Payload: '' @ payload_ToString (mf_Payload f))"

definition mf_put :: "ostream \<Rightarrow> FujiMasterFrame \<Rightarrow> ostream" where
  "mf_put os mf = os @ mf_DebugInfo mf"

definition mf_eq :: "FujiMasterFrame \<Rightarrow> FujiMasterFrame \<Rightarrow> bool" where
  "mf_eq a b \<longleftrightarrow> mf_FullFrame a = mf_FullFrame b"

section \<open>Controller frames\<close>

record FujiControllerFrame =
  cf_data :: bytes

definition ControllerFrame :: "bytes \<Rightarrow> FujiControllerFrame" where
  "ControllerFrame d = \<lparr>cf_data = d\<rparr>"

definition cf_ok :: "FujiControllerFrame \<Rightarrow> bool" where
  "cf_ok f \<longleftrightarrow> length (cf_data f) = 8"

text \<open>A controller frame that no wired controller takes for a master frame, should it read it back.\<close>

definition echo_harmless :: "FujiControllerFrame \<Rightarrow> bool" where
  "echo_harmless f \<longleftrightarrow> mf_Destination (MasterFrame (cf_data f)) \<noteq> dest_WIRED_CONTROLLER_ADDR"

definition cf_default :: FujiControllerFrame where
  "cf_default =
     (let f = ControllerFrame [0, 129, 0, 0, 0, 0, 0, 0]
      in f\<lparr>cf_data := (cf_data f)[0 := dest_code dest_WIRED_CONTROLLER_ADDR]\<rparr>)"

definition cf_ControllerAddress :: "FujiControllerFrame \<Rightarrow> DestinationAddr" where
  "cf_ControllerAddress f = dest_WIRED_CONTROLLER_ADDR"

definition cf_WithQueryRegister :: "RegisterType \<Rightarrow> FujiControllerFrame \<Rightarrow> FujiControllerFrame" where
  "cf_WithQueryRegister t f =
     (let d = cf_data f;
          d = d[2 := d ! 2 AND 0b11001111];
          d = d[2 := d ! 2 OR push_bit 4 (type_code t)]
      in f\<lparr>cf_data := d\<rparr>)"

definition cf_QueryRegister :: "FujiControllerFrame \<Rightarrow> RegisterType" where
  "cf_QueryRegister f =
     (let t = drop_bit 4 (cf_data f ! 2 AND 0b00110000) in
      if t = 0 then reg_STATUS else if t = 1 then reg_ERROR
      else if t = 2 then reg_LOGIN else reg_UNKNOWN)"

definition cf_WithLoginBit :: "bool \<Rightarrow> FujiControllerFrame \<Rightarrow> FujiControllerFrame" where
  "cf_WithLoginBit login f =
     (let d = cf_data f in
      if login then f\<lparr>cf_data := d[1 := d ! 1 OR 0b00100000]\<rparr>
      else f\<lparr>cf_data := d[1 := d ! 1 AND 0b11011111]\<rparr>)"

definition cf_LoginBit :: "FujiControllerFrame \<Rightarrow> bool" where
  "cf_LoginBit f \<longleftrightarrow> cf_data f ! 1 AND 0b00100000 \<noteq> 0"

definition cf_WithWriteBit :: "bool \<Rightarrow> FujiControllerFrame \<Rightarrow> FujiControllerFrame" where
  "cf_WithWriteBit write f =
     (let d = cf_data f in
      if write then f\<lparr>cf_data := d[2 := d ! 2 OR 0b00001000]\<rparr>
      else f\<lparr>cf_data := d[2 := d ! 2 AND 0b11110111]\<rparr>)"

definition cf_WriteBit :: "FujiControllerFrame \<Rightarrow> bool" where
  "cf_WriteBit f \<longleftrightarrow> cf_data f ! 2 AND 0b00001000 \<noteq> 0"

definition cf_Payload :: "FujiControllerFrame \<Rightarrow> bytes" where
  "cf_Payload f = drop 3 (cf_data f)"

definition cf_FullFrame :: "FujiControllerFrame \<Rightarrow> bytes" where
  "cf_FullFrame f = cf_data f"

text \<open>\<^verbatim>\<open>std::copy(payload.begin(), payload.end(), data_.begin() + 3)\<close>.\<close>

definition cf_WithPayload :: "bytes \<Rightarrow> FujiControllerFrame \<Rightarrow> FujiControllerFrame" where
  "cf_WithPayload payload f =
     f\<lparr>cf_data := take 3 (cf_data f) @ payload @ drop (3 + length payload) (cf_data f)\<rparr>"

definition cf_BuildFrame :: "FujiControllerFrame \<Rightarrow> bytes" where
  "cf_BuildFrame f = cf_data f"

definition cf_DebugInfo :: "FujiControllerFrame \<Rightarrow> string" where
  "cf_DebugInfo f =
     ''Query register: '' @ type_ToString (cf_QueryRegister f) @
     '' Login bit: '' @ bool_ToString (cf_LoginBit f) @
     '' Write bit: '' @ bool_ToString (cf_WriteBit f) @
     '' Payload: '' @ payload_ToString (cf_Payload f)"

definition cf_put :: "ostream \<Rightarrow> FujiControllerFrame \<Rightarrow> ostream" where
  "cf_put os cf = os @ cf_DebugInfo cf"

definition cf_eq :: "FujiControllerFrame \<Rightarrow> FujiControllerFrame \<Rightarrow> bool" where
  "cf_eq a b \<longleftrightarrow> cf_FullFrame a = cf_FullFrame b"

definition cf_neq :: "FujiControllerFrame \<Rightarrow> FujiControllerFrame \<Rightarrow> bool" where
  "cf_neq a b \<longleftrightarrow> \<not> cf_eq a b"

lemma cf_eq_iff [simp]: "cf_eq a b \<longleftrightarrow> a = b"
  by (cases a; cases b) (simp add: cf_eq_def cf_FullFrame_def)

lemma mf_eq_iff [simp]: "mf_eq a b \<longleftrightarrow> a = b"
  by (cases a; cases b) (simp add: mf_eq_def mf_FullFrame_def)

section \<open>Both headers are register layouts\<close>

datatype mf_field = M_UnknownBit | M_Destination | M_Type

fun mf_index :: "mf_field \<Rightarrow> nat" where
  "mf_index M_UnknownBit = 1" | "mf_index M_Destination = 1" | "mf_index M_Type = 2"

fun mf_mask :: "mf_field \<Rightarrow> byte" where
  "mf_mask M_UnknownBit = 0b10000000" | "mf_mask M_Destination = 0b01111111"
| "mf_mask M_Type = 0b00110000"

fun mf_offset :: "mf_field \<Rightarrow> nat" where
  "mf_offset M_UnknownBit = 7" | "mf_offset M_Destination = 0" | "mf_offset M_Type = 4"

interpretation mf_header: register_layout mf_index mf_mask mf_offset 3
proof unfold_locales
  fix f g :: mf_field
  show "mf_index f < 3" by (cases f) simp_all
  show "push_bit (mf_offset f) (drop_bit (mf_offset f) (mf_mask f)) = mf_mask f"
    by (cases f) (simp_all add: push_bit_eq_mult drop_bit_eq_div)
  assume "f \<noteq> g" and "mf_index f = mf_index g"
  then show "mf_mask f AND mf_mask g = 0" by (cases f; cases g) simp_all
qed

datatype cf_field = C_Login | C_Query | C_Write

fun cf_index :: "cf_field \<Rightarrow> nat" where
  "cf_index C_Login = 1" | "cf_index C_Query = 2" | "cf_index C_Write = 2"

fun cf_mask :: "cf_field \<Rightarrow> byte" where
  "cf_mask C_Login = 0b00100000" | "cf_mask C_Query = 0b00110000" | "cf_mask C_Write = 0b00001000"

fun cf_offset :: "cf_field \<Rightarrow> nat" where
  "cf_offset C_Login = 5" | "cf_offset C_Query = 4" | "cf_offset C_Write = 3"

interpretation cf_header: register_layout cf_index cf_mask cf_offset 3
proof unfold_locales
  fix f g :: cf_field
  show "cf_index f < 3" by (cases f) simp_all
  show "push_bit (cf_offset f) (drop_bit (cf_offset f) (cf_mask f)) = cf_mask f"
    by (cases f) (simp_all add: push_bit_eq_mult drop_bit_eq_div)
  assume "f \<noteq> g" and "cf_index f = cf_index g"
  then show "cf_mask f AND cf_mask g = 0" by (cases f; cases g) simp_all
qed

text \<open>The header's read-modify-write statements, on the byte they change.\<close>

lemma single_bit_fld:
  fixes b :: byte
  shows "fld b 128 7 = of_bool (bit b 7)" "fld b 32 5 = of_bool (bit b 5)" "fld b 8 3 = of_bool (bit b 3)"
  by (rule byte_eqI; simp add: fld_byte bit_simps)+

lemma single_bit_and:
  fixes b :: byte
  shows "b AND 128 = (if bit b 7 then 128 else 0)" "b AND 32 = (if bit b 5 then 32 else 0)"
    "b AND 8 = (if bit b 3 then 8 else 0)"
  by (rule byte_eqI; simp add: bit_simps)+

lemma header_bytes:
  fixes b v :: byte
  shows "b AND 127 = rmw b 128 7 0" "(b AND 127) OR 128 = rmw b 128 7 1"
    "(b AND 128) OR (v AND 127) = rmw b 127 0 (v AND 127)"
    "(b AND 207) OR push_bit 4 (v AND 3) = rmw b 48 4 (v AND 3)"
    "b OR 32 = rmw b 32 5 1" "b AND 223 = rmw b 32 5 0"
    "b OR 8 = rmw b 8 3 1" "b AND 247 = rmw b 8 3 0"
  by (rule byte_eqI; simp add: rmw_byte bit_simps)+

lemma header_reads:
  fixes b :: byte
  shows "b AND 127 = fld b 127 0" "drop_bit 4 b AND 3 = fld b 48 4" "drop_bit 4 (b AND 48) = fld b 48 4"
  by (rule byte_eqI; simp add: fld_byte bit_simps)+

lemma type_code_3: "type_code t AND 3 = type_code t"
  by (cases t) simp_all

lemma dest_code_127: "dest_code d AND 127 = dest_code d"
  by (cases d) simp_all

lemma mf_setters_put:
  "mf_data (mf_WithUnknownBit b f) = mf_header.put M_UnknownBit 0 (of_bool b) (mf_data f)"
  "mf_data (mf_WithDestination d f) = mf_header.put M_Destination 0 (dest_code d) (mf_data f)"
  "mf_data (mf_WithType t f) = mf_header.put M_Type 0 (type_code t) (mf_data f)"
proof -
  let ?d = "mf_data f"
  have two: "xs[i := a, i := (xs[i := a]) ! i OR c] = xs[i := a OR c]" for xs :: bytes and i a c
    by (cases "i < length xs") (simp_all add: list_update_beyond)
  show "mf_data (mf_WithUnknownBit b f) = mf_header.put M_UnknownBit 0 (of_bool b) ?d"
    using header_bytes(1,2)[of "?d ! 1"]
    by (simp add: mf_WithUnknownBit_def put_field_def Let_def two del: list_update_overwrite)
  show "mf_data (mf_WithDestination d f) = mf_header.put M_Destination 0 (dest_code d) ?d"
    using header_bytes(3)[of "?d ! 1" "dest_code d"]
    by (simp add: mf_WithDestination_def put_field_def Let_def two dest_code_127
        del: list_update_overwrite)
  show "mf_data (mf_WithType t f) = mf_header.put M_Type 0 (type_code t) ?d"
    using header_bytes(4)[of "?d ! 2" "type_code t"]
    by (simp add: mf_WithType_def put_field_def Let_def two type_code_3
        del: list_update_overwrite add_2_eq_Suc')
qed

lemma cf_setters_put:
  "cf_data (cf_WithLoginBit b f) = cf_header.put C_Login 0 (of_bool b) (cf_data f)"
  "cf_data (cf_WithWriteBit b f) = cf_header.put C_Write 0 (of_bool b) (cf_data f)"
  "cf_data (cf_WithQueryRegister t f) = cf_header.put C_Query 0 (type_code t) (cf_data f)"
proof -
  let ?d = "cf_data f"
  have two: "xs[i := a, i := (xs[i := a]) ! i OR c] = xs[i := a OR c]" for xs :: bytes and i a c
    by (cases "i < length xs") (simp_all add: list_update_beyond)
  show "cf_data (cf_WithLoginBit b f) = cf_header.put C_Login 0 (of_bool b) ?d"
    "cf_data (cf_WithWriteBit b f) = cf_header.put C_Write 0 (of_bool b) ?d"
    by (simp_all add: cf_WithLoginBit_def cf_WithWriteBit_def put_field_def Let_def header_bytes
        del: add_2_eq_Suc')
  show "cf_data (cf_WithQueryRegister t f) = cf_header.put C_Query 0 (type_code t) ?d"
    using header_bytes(4)[of "?d ! 2" "type_code t"]
    by (simp add: cf_WithQueryRegister_def put_field_def Let_def two type_code_3
        del: list_update_overwrite add_2_eq_Suc')
qed

lemma decode_type_code [simp]:
  "(if type_code t = 0 then reg_STATUS else if type_code t = 1 then reg_ERROR
    else if type_code t = 2 then reg_LOGIN else reg_UNKNOWN) = t"
  by (cases t) simp_all

lemma decode_dest_code [simp]:
  "(if dest_code d = 32 then dest_WIRED_CONTROLLER_ADDR
    else if dest_code d = 1 then dest_OTHER else dest_UNKNOWN) = d"
  by (cases d) simp_all

lemma mf_getters_get:
  "mf_UnknownBit f = (mf_header.get M_UnknownBit 0 (mf_data f) \<noteq> 0)"
  "mf_Destination f =
     (let a = mf_header.get M_Destination 0 (mf_data f) in
      if a = 32 then dest_WIRED_CONTROLLER_ADDR else if a = 1 then dest_OTHER else dest_UNKNOWN)"
  "mf_Type f =
     (let t = mf_header.get M_Type 0 (mf_data f) in
      if t = 0 then reg_STATUS else if t = 1 then reg_ERROR
      else if t = 2 then reg_LOGIN else reg_UNKNOWN)"
proof -
  show "mf_UnknownBit f = (mf_header.get M_UnknownBit 0 (mf_data f) \<noteq> 0)"
    by (simp add: mf_UnknownBit_def get_field_def single_bit_fld single_bit_and)
  show "mf_Destination f =
     (let a = mf_header.get M_Destination 0 (mf_data f) in
      if a = 32 then dest_WIRED_CONTROLLER_ADDR else if a = 1 then dest_OTHER else dest_UNKNOWN)"
    by (simp add: mf_Destination_def get_field_def header_reads Let_def)
  show "mf_Type f =
     (let t = mf_header.get M_Type 0 (mf_data f) in
      if t = 0 then reg_STATUS else if t = 1 then reg_ERROR
      else if t = 2 then reg_LOGIN else reg_UNKNOWN)"
    by (simp add: mf_Type_def get_field_def header_reads Let_def del: add_2_eq_Suc')
qed

lemma cf_getters_get:
  "cf_LoginBit f = (cf_header.get C_Login 0 (cf_data f) \<noteq> 0)"
  "cf_WriteBit f = (cf_header.get C_Write 0 (cf_data f) \<noteq> 0)"
  "cf_QueryRegister f =
     (let t = cf_header.get C_Query 0 (cf_data f) in
      if t = 0 then reg_STATUS else if t = 1 then reg_ERROR
      else if t = 2 then reg_LOGIN else reg_UNKNOWN)"
proof -
  show "cf_LoginBit f = (cf_header.get C_Login 0 (cf_data f) \<noteq> 0)"
    "cf_WriteBit f = (cf_header.get C_Write 0 (cf_data f) \<noteq> 0)"
    by (simp_all add: cf_LoginBit_def cf_WriteBit_def get_field_def single_bit_fld single_bit_and
        del: add_2_eq_Suc')
  show "cf_QueryRegister f =
     (let t = cf_header.get C_Query 0 (cf_data f) in
      if t = 0 then reg_STATUS else if t = 1 then reg_ERROR
      else if t = 2 then reg_LOGIN else reg_UNKNOWN)"
    unfolding cf_QueryRegister_def get_field_def header_reads by (simp del: add_2_eq_Suc')
qed

lemma header_fits:
  "mf_header.fits M_UnknownBit (of_bool b)" "mf_header.fits M_Destination (dest_code d)"
  "mf_header.fits M_Type (type_code t)" "cf_header.fits C_Login (of_bool b)"
  "cf_header.fits C_Write (of_bool b)" "cf_header.fits C_Query (type_code t)"
  by (simp_all add: drop_bit_eq_div dest_code_127 type_code_3)

declare mf_index.simps [simp del] mf_mask.simps [simp del] mf_offset.simps [simp del]
  cf_index.simps [simp del] cf_mask.simps [simp del] cf_offset.simps [simp del]

section \<open>Frame laws\<close>

lemma mf_setters_ok [simp]:
  "mf_ok (mf_WithUnknownBit b f) = mf_ok f" "mf_ok (mf_WithDestination d f) = mf_ok f"
  "mf_ok (mf_WithType t f) = mf_ok f" "mf_ok (MasterFrame xs) = (length xs = 8)"
  by (simp_all add: mf_ok_def mf_setters_put MasterFrame_def)

lemma cf_setters_ok [simp]:
  "cf_ok (cf_WithLoginBit b f) = cf_ok f" "cf_ok (cf_WithWriteBit b f) = cf_ok f"
  "cf_ok (cf_WithQueryRegister t f) = cf_ok f" "cf_ok (ControllerFrame xs) = (length xs = 8)"
  "length payload = 5 \<Longrightarrow> cf_ok f \<Longrightarrow> cf_ok (cf_WithPayload payload f)"
  by (auto simp: cf_ok_def cf_setters_put ControllerFrame_def cf_WithPayload_def)

lemma cf_default_ok [simp]: "cf_ok cf_default"
  by (simp add: cf_ok_def cf_default_def ControllerFrame_def Let_def)

lemma mf_ok_width: "mf_ok f \<Longrightarrow> 0 + 3 \<le> length (mf_data f)"
  by (simp add: mf_ok_def)

lemma cf_ok_width: "cf_ok f \<Longrightarrow> 0 + 3 \<le> length (cf_data f)"
  by (simp add: cf_ok_def)

lemmas mf_laws = mf_getters_get mf_setters_put mf_header.get_put_same[OF mf_ok_width]
  mf_header.get_put_other header_fits
lemmas cf_laws = cf_getters_get cf_setters_put cf_header.get_put_same[OF cf_ok_width]
  cf_header.get_put_other header_fits

lemma mf_With [simp]:
  assumes "mf_ok f"
  shows "mf_UnknownBit (mf_WithUnknownBit b f) = b" "mf_Destination (mf_WithUnknownBit b f) = mf_Destination f"
    "mf_Type (mf_WithUnknownBit b f) = mf_Type f" "mf_UnknownBit (mf_WithDestination d f) = mf_UnknownBit f"
    "mf_Destination (mf_WithDestination d f) = d" "mf_Type (mf_WithDestination d f) = mf_Type f"
    "mf_UnknownBit (mf_WithType t f) = mf_UnknownBit f" "mf_Destination (mf_WithType t f) = mf_Destination f"
    "mf_Type (mf_WithType t f) = t"
  using assms by (simp_all add: mf_laws Let_def)

lemma cf_With [simp]:
  assumes "cf_ok f"
  shows "cf_LoginBit (cf_WithLoginBit b f) = b" "cf_WriteBit (cf_WithLoginBit b f) = cf_WriteBit f"
    "cf_QueryRegister (cf_WithLoginBit b f) = cf_QueryRegister f"
    "cf_LoginBit (cf_WithWriteBit b f) = cf_LoginBit f" "cf_WriteBit (cf_WithWriteBit b f) = b"
    "cf_QueryRegister (cf_WithWriteBit b f) = cf_QueryRegister f"
    "cf_LoginBit (cf_WithQueryRegister t f) = cf_LoginBit f"
    "cf_WriteBit (cf_WithQueryRegister t f) = cf_WriteBit f"
    "cf_QueryRegister (cf_WithQueryRegister t f) = t"
  using assms by (simp_all add: cf_laws Let_def)

text \<open>The header and the payload do not interfere.\<close>

lemma mf_With_Payload [simp]:
  "mf_Payload (mf_WithUnknownBit b f) = mf_Payload f" "mf_Payload (mf_WithDestination d f) = mf_Payload f"
  "mf_Payload (mf_WithType t f) = mf_Payload f" "mf_Payload (MasterFrame xs) = drop 3 xs"
  using mf_header.drop_put[of 0]
  by (simp_all add: mf_Payload_def mf_setters_put MasterFrame_def)

lemma cf_With_Payload [simp]:
  "cf_Payload (cf_WithLoginBit b f) = cf_Payload f" "cf_Payload (cf_WithWriteBit b f) = cf_Payload f"
  "cf_Payload (cf_WithQueryRegister t f) = cf_Payload f" "cf_Payload (ControllerFrame xs) = drop 3 xs"
  using cf_header.drop_put[of 0]
  by (simp_all add: cf_Payload_def cf_setters_put ControllerFrame_def)

lemma cf_WithPayload_laws [simp]:
  assumes "cf_ok f" and "length payload = 5"
  shows "cf_Payload (cf_WithPayload payload f) = payload"
    "cf_LoginBit (cf_WithPayload payload f) = cf_LoginBit f"
    "cf_WriteBit (cf_WithPayload payload f) = cf_WriteBit f"
    "cf_QueryRegister (cf_WithPayload payload f) = cf_QueryRegister f"
  using assms
  by (simp_all add: cf_ok_def cf_Payload_def cf_WithPayload_def cf_LoginBit_def cf_WriteBit_def
      cf_QueryRegister_def nth_append)

lemma cf_default_simps [simp]:
  "cf_QueryRegister cf_default = reg_STATUS" "\<not> cf_LoginBit cf_default" "\<not> cf_WriteBit cf_default"
  "cf_Payload cf_default = [0, 0, 0, 0, 0]"
  by (simp_all add: cf_default_def ControllerFrame_def cf_QueryRegister_def cf_LoginBit_def
      cf_WriteBit_def cf_Payload_def)

lemma payload_reg_ok:
  "mf_ok f \<Longrightarrow> reg_ok 0 (mf_Payload f)" "cf_ok f' \<Longrightarrow> reg_ok 0 (cf_Payload f')"
  "mf_ok f \<Longrightarrow> length (mf_Payload f) = 5" "cf_ok f' \<Longrightarrow> length (cf_Payload f') = 5"
  by (simp_all add: reg_ok_def mf_ok_def cf_ok_def mf_Payload_def cf_Payload_def)

section \<open>The debug lines\<close>

definition payload_words :: "bytes \<Rightarrow> (string \<times> string) list" where
  "payload_words d = (''Payload: '', to_string (unat (d ! 0))) #
     map (\<lambda>i. ('''', to_string (unat (d ! i)))) [1, 2, 3, 4]"

definition cf_words :: "FujiControllerFrame \<Rightarrow> (string \<times> string) list" where
  "cf_words f =
     (''Query register: '', type_ToString (cf_QueryRegister f)) #
     (''Login bit: '', bool_ToString (cf_LoginBit f)) #
     (''Write bit: '', bool_ToString (cf_WriteBit f)) # payload_words (cf_Payload f)"

definition mf_words :: "FujiMasterFrame \<Rightarrow> (string \<times> string) list" where
  "mf_words f =
     (''Unknown bit: '', bool_ToString (mf_UnknownBit f)) #
     (''Destination: '', dest_ToString (mf_Destination f)) #
     (if mf_Type f = reg_STATUS
      then (''Status register: '', '''') # status_words (status_at 0 (mf_Payload f)) else []) @
     payload_words (mf_Payload f)"

lemma type_ToString_word [simp]:
  "type_ToString t = type_ToString t' \<longleftrightarrow> t = t'" "spaceless (type_ToString t)"
  by (cases t; cases t'; simp)+

lemma dest_ToString_word [simp]:
  "dest_ToString d = dest_ToString d' \<longleftrightarrow> d = d'" "spaceless (dest_ToString d)"
  by (cases d; cases d'; simp)+

lemma bool_ToString_word [simp]:
  "bool_ToString b = bool_ToString b' \<longleftrightarrow> b = b'" "spaceless (bool_ToString b)"
  by (simp_all add: bool_ToString_def)

lemma labelled_append: "labelled (xs @ ys) = labelled xs @ labelled ys"
  by (induction xs rule: labelled.induct) simp_all

lemma cf_DebugInfo_words: "CHR '' '' # cf_DebugInfo f = labelled (cf_words f)"
  by (simp add: cf_DebugInfo_def cf_words_def payload_words_def payload_ToString_def)

lemma mf_DebugInfo_words:
  "mf_DebugInfo f = ''Register type: '' @ type_ToString (mf_Type f) @ labelled (mf_words f)"
  by (cases "mf_Type f")
    (simp_all add: mf_DebugInfo_def mf_words_def payload_words_def payload_ToString_def labelled_append
      DebugInfo_status)

lemma payload_words_inject:
  assumes "payload_words d = payload_words d'" and "length d = 5" and "length d' = 5"
  shows "d = d'"
  using assms by (elim length_5E) (simp add: payload_words_def word_unat_eq_iff)

lemma spaceless_words [simp]:
  "\<forall>(l, a) \<in> set (cf_words f). spaceless a" "\<forall>(l, a) \<in> set (mf_words m). spaceless a"
  by (simp add: cf_words_def payload_words_def)
    (cases "mf_Type m = reg_STATUS"; simp add: mf_words_def payload_words_def status_words_def)

lemma words_labels:
  "map fst (cf_words f) = map fst (cf_words g)"
  "mf_Type m = mf_Type k \<Longrightarrow> map fst (mf_words m) = map fst (mf_words k)"
  by (simp_all add: cf_words_def mf_words_def payload_words_def status_words_def)

lemma mf_words_start: "\<exists>x. labelled (mf_words f) = CHR '' '' # x"
  by (simp add: mf_words_def)

lemma mf_DebugInfo_type:
  assumes "mf_DebugInfo f = mf_DebugInfo g"
  shows "mf_Type f = mf_Type g \<and> labelled (mf_words f) = labelled (mf_words g)"
proof -
  obtain x y where w: "labelled (mf_words f) = CHR '' '' # x" "labelled (mf_words g) = CHR '' '' # y"
    using mf_words_start by metis
  have "type_ToString (mf_Type f) @ CHR '' '' # x = type_ToString (mf_Type g) @ CHR '' '' # y"
    using assms by (simp add: mf_DebugInfo_words w)
  then show ?thesis by (simp add: space_split w)
qed

section \<open>Properties\<close>

text \<open>
  C23. The header of a controller frame is three independent fields: each setter is read back by
  its own getter, leaves the other two and the payload alone, and replacing the payload leaves
  the header alone.
\<close>

theorem controller_frame_fields:
  assumes "cf_ok f" and "length payload = 5"
  shows "cf_LoginBit (cf_WithLoginBit b f) = b \<and> cf_WriteBit (cf_WithLoginBit b f) = cf_WriteBit f \<and>
    cf_QueryRegister (cf_WithLoginBit b f) = cf_QueryRegister f \<and>
    cf_Payload (cf_WithLoginBit b f) = cf_Payload f \<and>
    cf_WriteBit (cf_WithWriteBit b f) = b \<and> cf_LoginBit (cf_WithWriteBit b f) = cf_LoginBit f \<and>
    cf_QueryRegister (cf_WithWriteBit b f) = cf_QueryRegister f \<and>
    cf_Payload (cf_WithWriteBit b f) = cf_Payload f \<and>
    cf_QueryRegister (cf_WithQueryRegister t f) = t \<and>
    cf_LoginBit (cf_WithQueryRegister t f) = cf_LoginBit f \<and>
    cf_WriteBit (cf_WithQueryRegister t f) = cf_WriteBit f \<and>
    cf_Payload (cf_WithQueryRegister t f) = cf_Payload f \<and>
    cf_Payload (cf_WithPayload payload f) = payload \<and>
    cf_LoginBit (cf_WithPayload payload f) = cf_LoginBit f \<and>
    cf_WriteBit (cf_WithPayload payload f) = cf_WriteBit f \<and>
    cf_QueryRegister (cf_WithPayload payload f) = cf_QueryRegister f"
  using assms by (intro conjI) simp_all

theorem controller_frame_fields_witness:
  "cf_QueryRegister (cf_WithQueryRegister reg_LOGIN cf_default) = reg_LOGIN \<and>
   cf_Payload (cf_WithPayload [1, 2, 3, 4, 5] cf_default) = [1, 2, 3, 4, 5]"
  using controller_frame_fields[of cf_default "[1, 2, 3, 4, 5]" True reg_LOGIN] by simp

text \<open>
  C24. The header of a master frame is three independent fields, on every frame of eight bytes:
  each setter is read back by its own getter and leaves the other two and the payload alone.
\<close>

theorem master_frame_fields:
  assumes "mf_ok f"
  shows "mf_UnknownBit (mf_WithUnknownBit b f) = b \<and>
    mf_Destination (mf_WithUnknownBit b f) = mf_Destination f \<and>
    mf_Type (mf_WithUnknownBit b f) = mf_Type f \<and> mf_Payload (mf_WithUnknownBit b f) = mf_Payload f \<and>
    mf_Destination (mf_WithDestination d f) = d \<and>
    mf_UnknownBit (mf_WithDestination d f) = mf_UnknownBit f \<and>
    mf_Type (mf_WithDestination d f) = mf_Type f \<and> mf_Payload (mf_WithDestination d f) = mf_Payload f \<and>
    mf_Type (mf_WithType t f) = t \<and> mf_UnknownBit (mf_WithType t f) = mf_UnknownBit f \<and>
    mf_Destination (mf_WithType t f) = mf_Destination f \<and> mf_Payload (mf_WithType t f) = mf_Payload f"
  using assms by (intro conjI) simp_all

theorem master_frame_fields_witness:
  "mf_Destination (mf_WithDestination dest_OTHER (MasterFrame [0, 255, 48, 1, 2, 3, 4, 5])) = dest_OTHER \<and>
   mf_Type (mf_WithDestination dest_OTHER (MasterFrame [0, 255, 48, 1, 2, 3, 4, 5])) = reg_UNKNOWN"
proof -
  let ?f = "MasterFrame [0, 255, 48, 1, 2, 3, 4, 5]"
  have "mf_ok ?f" and "mf_Type ?f = reg_UNKNOWN"
    by (simp_all add: mf_Type_def MasterFrame_def mf_ok_def drop_bit_eq_div)
  then show ?thesis using master_frame_fields[of ?f True dest_OTHER reg_ERROR] by simp
qed

text \<open>
  C39. What is logged of frames loses nothing: two controller frames that leave the same text on
  a stream agree on the register asked for, both bits and the payload, and two master frames that
  do so agree on type, destination, unknown bit and payload.
\<close>

theorem frame_DebugInfo_faithful:
  assumes "cf_ok f" and "cf_ok g" and "cf_put os f = cf_put os g"
    and "mf_ok m" and "mf_ok k" and "mf_put os m = mf_put os k"
  shows "cf_QueryRegister f = cf_QueryRegister g \<and> cf_LoginBit f = cf_LoginBit g \<and>
    cf_WriteBit f = cf_WriteBit g \<and> cf_Payload f = cf_Payload g \<and>
    mf_Type m = mf_Type k \<and> mf_Destination m = mf_Destination k \<and>
    mf_UnknownBit m = mf_UnknownBit k \<and> mf_Payload m = mf_Payload k"
proof -
  have len: "length (cf_Payload f) = 5" "length (cf_Payload g) = 5"
    "length (mf_Payload m) = 5" "length (mf_Payload k) = 5"
    using assms by (simp_all add: cf_ok_def mf_ok_def cf_Payload_def mf_Payload_def)
  have "labelled (cf_words f) = labelled (cf_words g)"
    using assms(3) by (simp only: cf_put_def same_append_eq cf_DebugInfo_words[symmetric])
  then have c: "cf_words f = cf_words g"
    by (rule labelled_inject) (rule words_labels spaceless_words)+
  have "mf_DebugInfo m = mf_DebugInfo k" using assms(6) by (simp add: mf_put_def)
  note t = mf_DebugInfo_type[OF this]
  have "mf_words m = mf_words k"
    by (rule labelled_inject[OF conjunct2[OF t]])
      (rule words_labels(2)[OF conjunct1[OF t]] spaceless_words)+
  then have "mf_UnknownBit m = mf_UnknownBit k \<and> mf_Destination m = mf_Destination k \<and>
      payload_words (mf_Payload m) = payload_words (mf_Payload k)"
    using t by (cases "mf_Type m = reg_STATUS") (simp_all add: mf_words_def status_words_def)
  moreover from c have "cf_QueryRegister f = cf_QueryRegister g \<and> cf_LoginBit f = cf_LoginBit g \<and>
      cf_WriteBit f = cf_WriteBit g \<and> payload_words (cf_Payload f) = payload_words (cf_Payload g)"
    by (simp add: cf_words_def)
  ultimately show ?thesis
    using t len payload_words_inject by blast
qed

theorem frame_DebugInfo_faithful_witness:
  "mf_Payload (MasterFrame [0, 160, 16, 1, 2, 3, 4, 5]) = mf_Payload (MasterFrame [9, 160, 16, 1, 2, 3, 4, 5]) \<and>
   cf_Payload cf_default = cf_Payload (ControllerFrame [7, 129, 0, 0, 0, 0, 0, 0])"
proof -
  let ?m = "MasterFrame [0, 160, 16, 1, 2, 3, 4, 5]" and ?k = "MasterFrame [9, 160, 16, 1, 2, 3, 4, 5]"
    and ?g = "ControllerFrame [7, 129, 0, 0, 0, 0, 0, 0]"
  have "mf_Type ?m = mf_Type ?k" "mf_UnknownBit ?m = mf_UnknownBit ?k"
    "mf_Destination ?m = mf_Destination ?k" "mf_Payload ?m = mf_Payload ?k"
    by (simp_all add: mf_Type_def mf_UnknownBit_def mf_Destination_def mf_Payload_def MasterFrame_def)
  then have m: "mf_put [] ?m = mf_put [] ?k" by (simp only: mf_put_def mf_DebugInfo_def)
  have "cf_QueryRegister cf_default = cf_QueryRegister ?g" "cf_LoginBit cf_default = cf_LoginBit ?g"
    "cf_WriteBit cf_default = cf_WriteBit ?g" "cf_Payload cf_default = cf_Payload ?g"
    by (simp_all add: cf_QueryRegister_def cf_LoginBit_def cf_WriteBit_def cf_Payload_def
        cf_default_def ControllerFrame_def)
  then have "cf_put [] cf_default = cf_put [] ?g" by (simp only: cf_put_def cf_DebugInfo_def)
  from frame_DebugInfo_faithful[OF _ _ this _ _ m] show ?thesis
    by (simp add: cf_ok_def mf_ok_def cf_default_def ControllerFrame_def MasterFrame_def)
qed

end
