(* ===== verification/Fuji_Ac_Protocol_Handler.thy ===== *)
theory Fuji_Ac_Protocol_Handler
  imports Fuji_Ac_State Fuji_Frame
begin

text \<open>
  \<^verbatim>\<open>protocol/fuji_ac_protocol_handler.h\<close> and \<^verbatim>\<open>.cc\<close>: the wired controller's side of the bus
  protocol. The handler owns the \<^verbatim>\<open>FujiAcState\<close>; each operation takes the handler and returns
  it updated, with the controller frame to send (or \<open>None\<close> for \<^verbatim>\<open>absl::nullopt\<close>).
\<close>

record FujiAcProtocolHandler =
  ac_state :: FujiAcState
  error_read :: bool
  login_read :: bool

definition Handler_init :: "FujiAcState \<Rightarrow> FujiAcProtocolHandler" where
  "Handler_init s = \<lparr>ac_state = s, error_read = False, login_read = True\<rparr>"

definition SendLoginFrame :: FujiControllerFrame where
  "SendLoginFrame = cf_WithQueryRegister reg_LOGIN cf_default"

definition SendErrorQueryFrame :: FujiControllerFrame where
  "SendErrorQueryFrame = cf_WithQueryRegister reg_ERROR cf_default"

definition SendStatusFrame ::
    "FujiAcProtocolHandler \<Rightarrow> FujiControllerFrame \<times> FujiAcProtocolHandler" where
  "SendStatusFrame h =
     (let f = cf_default;
          payload = replicate 5 0;
          payload = payload[3 := 47];
          payload = ac_BuildStatusRegisterResponse (ac_state h) 0 payload;
          f = cf_WithPayload payload f;
          f = cf_WithQueryRegister reg_STATUS f
      in if \<not> ac_merged (ac_state h) then
           (let f = cf_WithWriteBit True f in
            if ac_swing_step (ac_state h) then
              (f, h\<lparr>ac_state := ac_SetMerged False (ac_SetSwingStep False (ac_state h))\<rparr>)
            else (f, h\<lparr>ac_state := ac_SetMerged True (ac_state h)\<rparr>))
         else (f, h))"

definition SendLoggedInFrame :: "FujiAcProtocolHandler \<Rightarrow> FujiControllerFrame" where
  "SendLoggedInFrame h =
     (let f = cf_default;
          payload = replicate 5 0;
          f = cf_WithLoginBit True f;
          payload = payload[3 := 47];
          payload = ac_BuildStatusRegisterResponse (ac_state h) 0 payload;
          f = cf_WithPayload payload f
      in cf_WithQueryRegister reg_STATUS f)"

definition UpdateFromMasterStatusRegister ::
    "FujiMasterFrame \<Rightarrow> FujiAcProtocolHandler \<Rightarrow> FujiAcProtocolHandler" where
  "UpdateFromMasterStatusRegister mf h =
     (let payload = mf_Payload mf;
          h = (if ac_error_flag (ac_state h) \<noteq> reg_Error 0 payload
               then h\<lparr>error_read := True\<rparr> else h);
          h = h\<lparr>ac_state := ac_MergeFromMasterStatusRegister 0 payload (ac_state h)\<rparr>
      in if \<not> ac_controller_present (ac_state h) then h\<lparr>login_read := True\<rparr> else h)"

definition UpdateFromMasterErrorRegister ::
    "FujiMasterFrame \<Rightarrow> FujiAcProtocolHandler \<Rightarrow> FujiAcProtocolHandler" where
  "UpdateFromMasterErrorRegister mf h = h"

text \<open>
  The ERROR case falls through to \<^verbatim>\<open>default\<close>, so it answers nothing, like an unknown type.
\<close>

definition HandleMasterFrame ::
    "FujiMasterFrame \<Rightarrow> FujiAcProtocolHandler \<Rightarrow>
       FujiControllerFrame option \<times> FujiAcProtocolHandler" where
  "HandleMasterFrame mf h =
     (if mf_Destination mf \<noteq> dest_WIRED_CONTROLLER_ADDR then (None, h)
      else case mf_Type mf of
        reg_LOGIN \<Rightarrow> (Some (SendLoggedInFrame h), h)
      | reg_ERROR \<Rightarrow> (None, UpdateFromMasterErrorRegister mf h)
      | reg_UNKNOWN \<Rightarrow> (None, h)
      | reg_STATUS \<Rightarrow>
          (let h = (if ac_merged (ac_state h) then UpdateFromMasterStatusRegister mf h else h)
           in if login_read h then (Some SendLoginFrame, h\<lparr>login_read := False\<rparr>)
              else if error_read h then (Some SendErrorQueryFrame, h\<lparr>error_read := False\<rparr>)
              else (let (f, h) = SendStatusFrame h in (Some f, h))))"

section \<open>Frames the handler sends\<close>

text \<open>
  The status frame as a function of the state it shows: \<open>status_frame w s\<close> has write bit \<open>w\<close>;
  \<open>logged_in_frame s\<close> is the answer to a LOGIN frame.
\<close>

definition status_payload :: "FujiAcState \<Rightarrow> bytes" where
  "status_payload s = ac_BuildStatusRegisterResponse s 0 [0, 0, 0, 47, 0]"

definition status_frame :: "bool \<Rightarrow> FujiAcState \<Rightarrow> FujiControllerFrame" where
  "status_frame w s =
     (let f = cf_WithQueryRegister reg_STATUS (cf_WithPayload (status_payload s) cf_default)
      in if w then cf_WithWriteBit True f else f)"

definition logged_in_frame :: "FujiAcState \<Rightarrow> FujiControllerFrame" where
  "logged_in_frame s =
     cf_WithQueryRegister reg_STATUS (cf_WithPayload (status_payload s) (cf_WithLoginBit True cf_default))"

lemma payload_start: "(replicate 5 0)[3 := 47] = [0, 0, 0, 47, 0 :: byte]"
  by (simp add: numeral_eq_Suc)

lemma SendStatusFrame_eq:
  "SendStatusFrame h =
     (status_frame (\<not> ac_merged (ac_state h)) (ac_state h),
      if ac_merged (ac_state h) then h
      else h\<lparr>ac_state := (ac_state h)\<lparr>ac_swing_step := False,
             ac_merged := \<not> ac_swing_step (ac_state h)\<rparr>\<rparr>)"
  by (simp add: SendStatusFrame_def status_frame_def status_payload_def payload_start
      ac_setter_defs Let_def)

lemma SendLoggedInFrame_eq: "SendLoggedInFrame h = logged_in_frame (ac_state h)"
  by (simp add: SendLoggedInFrame_def logged_in_frame_def status_payload_def payload_start Let_def)

lemma length_status_payload [simp]: "length (status_payload s) = 5"
  by (simp add: status_payload_def)

lemma sent_frames_ok [simp]:
  "cf_ok (status_frame w s)" "cf_ok (logged_in_frame s)" "cf_ok SendLoginFrame" "cf_ok SendErrorQueryFrame"
  by (simp_all add: status_frame_def logged_in_frame_def SendLoginFrame_def SendErrorQueryFrame_def Let_def)

lemma sent_frames_simps [simp]:
  "cf_QueryRegister (status_frame w s) = reg_STATUS" "cf_QueryRegister (logged_in_frame s) = reg_STATUS"
  "cf_QueryRegister SendLoginFrame = reg_LOGIN" "cf_QueryRegister SendErrorQueryFrame = reg_ERROR"
  "cf_WriteBit (status_frame w s) = w" "\<not> cf_WriteBit (logged_in_frame s)"
  "\<not> cf_WriteBit SendLoginFrame" "\<not> cf_WriteBit SendErrorQueryFrame"
  "\<not> cf_LoginBit (status_frame w s)" "cf_LoginBit (logged_in_frame s)"
  "\<not> cf_LoginBit SendLoginFrame" "\<not> cf_LoginBit SendErrorQueryFrame"
  "cf_Payload (status_frame w s) = status_payload s" "cf_Payload (logged_in_frame s) = status_payload s"
  by (simp_all add: status_frame_def logged_in_frame_def SendLoginFrame_def SendErrorQueryFrame_def Let_def)

text \<open>The payload as the receiver decodes it.\<close>

definition blank_status :: unit_status where
  "blank_status =
     \<lparr>v_mode = mode_UNKNOWN, v_fan = fan_AUTO, v_enabled = False, v_error = False,
      v_economy = False, v_temperature = 0, v_magic = 0, v_swing = False,
      v_swing_step = False, v_present = True\<rparr>"

lemma status_at_start: "status_at 0 [0, 0, 0, 47, 0] = blank_status"
  by (simp add: status_at_def blank_status_def getters_get get_field_def status_layout fld_byte
      decode_mode_def decode_fan_def drop_bit_eq_div)

lemma status_at_payload [view_simps]: "status_at 0 (status_payload s) = show_state s blank_status"
  by (simp add: status_payload_def view_simps reg_ok_def status_at_start)

section \<open>What the handler does, case by case\<close>

lemma UpdateFromMaster_eq:
  assumes "mf_ok mf"
  shows "UpdateFromMasterStatusRegister mf h =
    (let v = status_at 0 (mf_Payload mf) in
     h\<lparr>ac_state := read_state v (ac_state h),
       error_read := (error_read h \<or> ac_error_flag (ac_state h) \<noteq> v_error v),
       login_read := (login_read h \<or> \<not> v_present v)\<rparr>)"
  by (simp add: UpdateFromMasterStatusRegister_def Merge_read_state Let_def)
    (simp add: read_state_def status_at_def)

lemma handle_not_for_us:
  "mf_Destination mf \<noteq> dest_WIRED_CONTROLLER_ADDR \<Longrightarrow> HandleMasterFrame mf h = (None, h)"
  by (simp add: HandleMasterFrame_def)

lemma handle_login:
  "mf_Destination mf = dest_WIRED_CONTROLLER_ADDR \<Longrightarrow> mf_Type mf = reg_LOGIN \<Longrightarrow>
     HandleMasterFrame mf h = (Some (logged_in_frame (ac_state h)), h)"
  by (simp add: HandleMasterFrame_def SendLoggedInFrame_eq)

lemma handle_no_answer:
  "mf_Type mf = reg_ERROR \<or> mf_Type mf = reg_UNKNOWN \<Longrightarrow> HandleMasterFrame mf h = (None, h)"
  by (auto simp: HandleMasterFrame_def UpdateFromMasterErrorRegister_def)

definition after_status :: "FujiMasterFrame \<Rightarrow> FujiAcProtocolHandler \<Rightarrow> FujiAcProtocolHandler" where
  "after_status mf h = (if ac_merged (ac_state h) then UpdateFromMasterStatusRegister mf h else h)"

lemma handle_status:
  assumes "mf_Destination mf = dest_WIRED_CONTROLLER_ADDR" and "mf_Type mf = reg_STATUS"
  shows "HandleMasterFrame mf h =
    (let h' = after_status mf h in
     if login_read h' then (Some SendLoginFrame, h'\<lparr>login_read := False\<rparr>)
     else if error_read h' then (Some SendErrorQueryFrame, h'\<lparr>error_read := False\<rparr>)
     else (Some (status_frame (\<not> ac_merged (ac_state h')) (ac_state h')), snd (SendStatusFrame h')))"
  using assms by (simp add: HandleMasterFrame_def after_status_def SendStatusFrame_eq Let_def)

text \<open>Every answer is one of four kinds of frame.\<close>

lemma handle_answer_cases:
  assumes "HandleMasterFrame mf h = (Some f, h')"
  obtains "f = SendLoginFrame" | "f = SendErrorQueryFrame"
  | s where "f = logged_in_frame s" | w s where "f = status_frame w s"
  using assms
  by (auto simp: HandleMasterFrame_def SendLoggedInFrame_eq SendStatusFrame_eq Let_def
      split: if_splits RegisterType.splits)

text \<open>Byte 1 of a frame this controller sends names no address it listens to.\<close>

lemma cf_byte1:
  assumes "cf_ok f"
  shows "cf_data (cf_WithQueryRegister t f) ! 1 = cf_data f ! 1"
    "cf_data (cf_WithWriteBit b f) ! 1 = cf_data f ! 1"
    "cf_data (cf_WithPayload payload f) ! 1 = cf_data f ! 1"
    "cf_data (cf_WithLoginBit True f) ! 1 = cf_data f ! 1 OR 32"
  using assms
  by (simp_all add: cf_WithQueryRegister_def cf_WithWriteBit_def cf_WithPayload_def
      cf_WithLoginBit_def cf_ok_def Let_def nth_append)

lemma sent_byte1:
  "cf_data SendLoginFrame ! 1 = 129" "cf_data SendErrorQueryFrame ! 1 = 129"
  "cf_data (status_frame w s) ! 1 = 129" "cf_data (logged_in_frame s) ! 1 = 161"
proof -
  have d: "cf_data cf_default ! 1 = 129"
    by (simp add: cf_default_def ControllerFrame_def)
  then show "cf_data SendLoginFrame ! 1 = 129" "cf_data SendErrorQueryFrame ! 1 = 129"
    "cf_data (status_frame w s) ! 1 = 129" "cf_data (logged_in_frame s) ! 1 = 161"
    by (simp_all add: SendLoginFrame_def SendErrorQueryFrame_def status_frame_def
        logged_in_frame_def cf_byte1 Let_def del: One_nat_def)
qed

lemma echo_destination:
  assumes "HandleMasterFrame mf h = (Some f, h')"
  shows "echo_harmless f"
  using assms
  by (rule handle_answer_cases) (simp_all add: echo_harmless_def mf_Destination_def MasterFrame_def sent_byte1 Let_def
        del: One_nat_def)

section \<open>Properties\<close>

lemma SendStatusFrame_snd:
  "\<not> ac_merged (ac_state h) \<Longrightarrow> snd (SendStatusFrame h) =
     h\<lparr>ac_state := (ac_state h)\<lparr>ac_swing_step := False, ac_merged := \<not> ac_swing_step (ac_state h)\<rparr>\<rparr>"
  by (simp add: SendStatusFrame_eq)

lemma handle_status_unmerged:
  assumes "mf_Destination mf = dest_WIRED_CONTROLLER_ADDR" and "mf_Type mf = reg_STATUS"
    and "\<not> ac_merged (ac_state h)" and "\<not> login_read h" and "\<not> error_read h"
  shows "HandleMasterFrame mf h = (Some (status_frame True (ac_state h)),
    h\<lparr>ac_state := (ac_state h)\<lparr>ac_swing_step := False, ac_merged := \<not> ac_swing_step (ac_state h)\<rparr>\<rparr>)"
  using assms by (simp add: handle_status after_status_def SendStatusFrame_snd)

definition status_for_us :: FujiMasterFrame where
  "status_for_us = MasterFrame [0x00, 0xa0, 0x00, 0x46, 0x12, 0xa0, 0x01, 0x20]"

definition login_for_us :: FujiMasterFrame where
  "login_for_us = MasterFrame [0x00, 0xa0, 0x20, 0x1f, 0x1f, 0x05, 0x01, 0x00]"

lemma for_us_simps [simp]:
  "mf_ok status_for_us" "mf_Destination status_for_us = dest_WIRED_CONTROLLER_ADDR"
  "mf_Type status_for_us = reg_STATUS" "mf_ok login_for_us"
  "mf_Destination login_for_us = dest_WIRED_CONTROLLER_ADDR" "mf_Type login_for_us = reg_LOGIN"
  by (simp_all add: status_for_us_def login_for_us_def MasterFrame_def mf_ok_def mf_Destination_def
      mf_Type_def drop_bit_eq_div)

lemma for_us_status:
  "status_at 0 (mf_Payload status_for_us) =
     \<lparr>v_mode = mode_COOL, v_fan = fan_MAX, v_enabled = False, v_error = False, v_economy = False,
      v_temperature = 18, v_magic = 10, v_swing = False, v_swing_step = False, v_present = True\<rparr>"
  by (simp add: status_for_us_def MasterFrame_def mf_Payload_def status_at_def getters_get get_field_def
      status_layout fld_byte decode_mode_def decode_fan_def drop_bit_eq_div)

text \<open>
  C14. While a local change is not yet written, what the main unit reports is ignored: the answer
  to a STATUS frame and the handler after it do not depend on the frame's payload, and the
  settings the handler holds are the local ones.
\<close>

theorem local_change_takes_precedence:
  assumes "mf_Destination mf = dest_WIRED_CONTROLLER_ADDR" and "mf_Type mf = reg_STATUS"
    and "mf_Destination mf' = dest_WIRED_CONTROLLER_ADDR" and "mf_Type mf' = reg_STATUS"
    and "\<not> ac_merged (ac_state h)"
  shows "HandleMasterFrame mf h = HandleMasterFrame mf' h \<and>
    ac_state (snd (HandleMasterFrame mf h)) = (ac_state h)
      \<lparr>ac_swing_step := ac_swing_step (ac_state (snd (HandleMasterFrame mf h))),
       ac_merged := ac_merged (ac_state (snd (HandleMasterFrame mf h)))\<rparr>"
  using assms by (cases h; cases "ac_state h")
    (simp add: handle_status after_status_def SendStatusFrame_snd Let_def)

theorem local_change_takes_precedence_witness:
  "HandleMasterFrame status_for_us (Handler_init (ac_SetFan fan_LOW FujiAcState_init)) =
   HandleMasterFrame (mf_WithUnknownBit False status_for_us) (Handler_init (ac_SetFan fan_LOW FujiAcState_init))"
  using local_change_takes_precedence[of status_for_us "mf_WithUnknownBit False status_for_us"
      "Handler_init (ac_SetFan fan_LOW FujiAcState_init)"]
  by (simp add: Handler_init_def ac_SetFan_def)

text \<open>
  C11. A local change is written in the answer to the next STATUS frame: with no login and no
  error query due, the answer is a STATUS frame with the write bit whose payload decodes to the
  local settings, and the handler counts as merged afterwards, unless a swing step was in it.
\<close>

theorem local_change_is_written:
  assumes "mf_Destination mf = dest_WIRED_CONTROLLER_ADDR" and "mf_Type mf = reg_STATUS"
    and "\<not> ac_merged (ac_state h)" and "\<not> login_read h" and "\<not> error_read h"
  shows "\<exists>f h'. HandleMasterFrame mf h = (Some f, h') \<and> cf_WriteBit f \<and> \<not> cf_LoginBit f \<and>
    cf_QueryRegister f = reg_STATUS \<and> status_at 0 (cf_Payload f) = show_state (ac_state h) blank_status \<and>
    ac_merged (ac_state h') = (\<not> ac_swing_step (ac_state h))"
  by (simp add: handle_status_unmerged[OF assms] view_simps)

theorem local_change_is_written_witness:
  "\<exists>f h'. HandleMasterFrame status_for_us
       ((Handler_init (ac_SetFan fan_LOW FujiAcState_init))\<lparr>login_read := False\<rparr>) = (Some f, h') \<and>
     cf_WriteBit f \<and> v_fan (status_at 0 (cf_Payload f)) = fan_LOW"
  using local_change_is_written[of status_for_us
      "(Handler_init (ac_SetFan fan_LOW FujiAcState_init))\<lparr>login_read := False\<rparr>"]
  by (auto simp: Handler_init_def ac_SetFan_def FujiAcState_init_def show_state_def)

text \<open>
  C13. A swing step is a one-shot command: the first STATUS frame is answered by a write that has
  the step, the second by a write of the same settings without it, and only then is the local
  state merged. (The simulator and a real unit clear the bit themselves.)
\<close>

theorem swing_step_is_written_once:
  assumes "mf_Destination mf1 = dest_WIRED_CONTROLLER_ADDR" and "mf_Type mf1 = reg_STATUS"
    and "mf_Destination mf2 = dest_WIRED_CONTROLLER_ADDR" and "mf_Type mf2 = reg_STATUS"
    and "\<not> ac_merged (ac_state h)" and "\<not> login_read h" and "\<not> error_read h"
    and "ac_swing_step (ac_state h)"
  shows "\<exists>f1 h1 f2 h2. HandleMasterFrame mf1 h = (Some f1, h1) \<and> HandleMasterFrame mf2 h1 = (Some f2, h2) \<and>
    cf_WriteBit f1 \<and> v_swing_step (status_at 0 (cf_Payload f1)) \<and> \<not> ac_merged (ac_state h1) \<and>
    cf_WriteBit f2 \<and>
    status_at 0 (cf_Payload f2) = (status_at 0 (cf_Payload f1))\<lparr>v_swing_step := False\<rparr> \<and>
    ac_state h2 = (ac_state h)\<lparr>ac_swing_step := False, ac_merged := True\<rparr>"
proof -
  let ?h1 = "h\<lparr>ac_state := (ac_state h)\<lparr>ac_swing_step := False, ac_merged := False\<rparr>\<rparr>"
  have 1: "HandleMasterFrame mf1 h = (Some (status_frame True (ac_state h)), ?h1)"
    using assms by (simp add: handle_status_unmerged)
  have 2: "HandleMasterFrame mf2 ?h1 = (Some (status_frame True (ac_state ?h1)),
      h\<lparr>ac_state := (ac_state h)\<lparr>ac_swing_step := False, ac_merged := True\<rparr>\<rparr>)"
    using assms by (simp add: handle_status_unmerged)
  show ?thesis
    by (simp add: 1 2 view_simps show_state_def blank_status_def assms)
qed

theorem swing_step_is_written_once_witness:
  "\<exists>f1 h1 f2 h2. HandleMasterFrame status_for_us
       ((Handler_init (ac_SetSwingStep True FujiAcState_init))\<lparr>login_read := False\<rparr>) = (Some f1, h1) \<and>
     HandleMasterFrame status_for_us h1 = (Some f2, h2) \<and> cf_WriteBit f1 \<and> cf_WriteBit f2 \<and>
     ac_state h2 = FujiAcState_init"
  using swing_step_is_written_once[of status_for_us status_for_us
      "(Handler_init (ac_SetSwingStep True FujiAcState_init))\<lparr>login_read := False\<rparr>"]
  by (auto simp: Handler_init_def ac_SetSwingStep_def FujiAcState_init_def)

text \<open>The settings a handler holds after a STATUS frame.\<close>

definition settings_after :: "FujiMasterFrame \<Rightarrow> FujiAcState \<Rightarrow> FujiAcState" where
  "settings_after mf s = (if ac_merged s then read_state (status_at 0 (mf_Payload mf)) s else s)"

text \<open>
  C12. The login handshake: a handler that is to log in answers a STATUS frame with a query for
  the LOGIN register; the LOGIN frame with the login bit and a payload that decodes to its settings,
  and no write bit; and the STATUS frame of a unit that now has it registered with one whose
  payload decodes to its settings, with the write bit if they are local ones. Its settings are the
  last ones the unit has sent, or the local ones as long as these are to be written. No second
  login is due.
\<close>

theorem login_handshake:
  assumes "\<forall>mf \<in> {m1, m2, m3}. mf_ok mf \<and> mf_Destination mf = dest_WIRED_CONTROLLER_ADDR"
    and "mf_Type m1 = reg_STATUS" and "mf_Type m2 = reg_LOGIN" and "mf_Type m3 = reg_STATUS"
    and "login_read h" and "\<not> error_read h" and "v_present (status_at 0 (mf_Payload m3))"
    and "v_error (status_at 0 (mf_Payload m1)) = ac_error_flag (ac_state h)"
    and "v_error (status_at 0 (mf_Payload m3)) = ac_error_flag (ac_state h)"
  shows "\<exists>h1 f2 f3 h3. HandleMasterFrame m1 h = (Some SendLoginFrame, h1) \<and>
    ac_state h1 = settings_after m1 (ac_state h) \<and>
    HandleMasterFrame m2 h1 = (Some f2, h1) \<and> cf_LoginBit f2 \<and> \<not> cf_WriteBit f2 \<and>
    cf_QueryRegister f2 = reg_STATUS \<and>
    status_at 0 (cf_Payload f2) = show_state (settings_after m1 (ac_state h)) blank_status \<and>
    HandleMasterFrame m3 h1 = (Some f3, h3) \<and> cf_QueryRegister f3 = reg_STATUS \<and> \<not> cf_LoginBit f3 \<and>
    cf_WriteBit f3 = (\<not> ac_merged (ac_state h)) \<and> \<not> login_read h3 \<and>
    status_at 0 (cf_Payload f3) =
      show_state (settings_after m3 (settings_after m1 (ac_state h))) blank_status"
proof (cases "ac_merged (ac_state h)")
  case True
  then show ?thesis
    using assms by (simp add: handle_status handle_login after_status_def UpdateFromMaster_eq
        SendStatusFrame_eq settings_after_def view_simps read_state_def Let_def)
next
  case False
  then show ?thesis
    using assms by (simp add: handle_status handle_login after_status_def SendStatusFrame_eq
        settings_after_def view_simps Let_def)
qed

theorem login_handshake_witness:
  "\<exists>h1 f2 f3 h3. HandleMasterFrame status_for_us (Handler_init FujiAcState_init) = (Some SendLoginFrame, h1) \<and>
    HandleMasterFrame login_for_us h1 = (Some f2, h1) \<and> cf_LoginBit f2 \<and>
    v_mode (status_at 0 (cf_Payload f2)) = mode_COOL \<and> v_fan (status_at 0 (cf_Payload f2)) = fan_MAX \<and>
    HandleMasterFrame status_for_us h1 = (Some f3, h3) \<and> \<not> cf_WriteBit f3 \<and> \<not> login_read h3"
  using login_handshake[of status_for_us login_for_us status_for_us "Handler_init FujiAcState_init"]
  by (auto simp: for_us_status Handler_init_def FujiAcState_init_def settings_after_def show_state_def read_state_def)

text \<open>
  C26. A change of the unit's error bit, in either direction, is followed by one query of the
  ERROR register, and the flag is then the unit's.
\<close>

theorem error_change_queries_error_register:
  assumes "mf_ok mf" and "mf_Destination mf = dest_WIRED_CONTROLLER_ADDR" and "mf_Type mf = reg_STATUS"
    and "ac_merged (ac_state h)" and "\<not> login_read h" and "v_present (status_at 0 (mf_Payload mf))"
    and "v_error (status_at 0 (mf_Payload mf)) \<noteq> ac_error_flag (ac_state h)"
  shows "\<exists>f h'. HandleMasterFrame mf h = (Some f, h') \<and> cf_QueryRegister f = reg_ERROR \<and>
    \<not> error_read h' \<and> ac_error_flag (ac_state h') = v_error (status_at 0 (mf_Payload mf))"
  using assms
  by (simp add: handle_status after_status_def UpdateFromMaster_eq read_state_def Let_def)

theorem error_change_queries_error_register_witness:
  "\<exists>f h'. HandleMasterFrame status_for_us
       ((Handler_init (FujiAcState_init\<lparr>ac_error_flag := True\<rparr>))\<lparr>login_read := False\<rparr>) = (Some f, h') \<and>
     cf_QueryRegister f = reg_ERROR \<and> \<not> ac_error_flag (ac_state h')"
  using error_change_queries_error_register[of status_for_us
      "(Handler_init (FujiAcState_init\<lparr>ac_error_flag := True\<rparr>))\<lparr>login_read := False\<rparr>"]
  by (auto simp: for_us_status Handler_init_def FujiAcState_init_def)

text \<open>
  C27. What the handler answers: a frame for it of the STATUS or LOGIN register gets one frame of
  eight bytes, which asks for a register that exists, has the login bit exactly when it answers a
  LOGIN frame, and not the write bit while the local settings are merged, so that the handler
  never writes what it has only read; every other frame, also the ERROR frame it has asked for
  itself, gets none and leaves the handler as it was.
\<close>

theorem handler_answers:
  "case HandleMasterFrame mf h of
     (None, h') \<Rightarrow> h' = h \<and>
       \<not> (mf_Destination mf = dest_WIRED_CONTROLLER_ADDR \<and> mf_Type mf \<in> {reg_STATUS, reg_LOGIN})
   | (Some f, h') \<Rightarrow>
       mf_Destination mf = dest_WIRED_CONTROLLER_ADDR \<and> mf_Type mf \<in> {reg_STATUS, reg_LOGIN} \<and>
       cf_ok f \<and> cf_QueryRegister f \<noteq> reg_UNKNOWN \<and> cf_LoginBit f = (mf_Type mf = reg_LOGIN) \<and>
       \<not> (ac_merged (ac_state h) \<and> cf_WriteBit f)"
  by (cases "mf_Type mf")
    (auto simp: HandleMasterFrame_def SendLoggedInFrame_eq SendStatusFrame_eq Let_def
      UpdateFromMasterErrorRegister_def UpdateFromMasterStatusRegister_def Merge_read_state read_state_def)

end
