(* ===== verification/Fuji_Ac_Unit_Sim.thy ===== *)
theory Fuji_Ac_Unit_Sim
  imports Fuji_Frame
begin

text \<open>
  \<^verbatim>\<open>sim/fuji_ac_unit_sim.h\<close> and \<^verbatim>\<open>.cc\<close>: the simulated main unit. Its member \<^verbatim>\<open>status_\<close> is a
  \<^verbatim>\<open>FujiStatusRegister\<close> that points at \<^verbatim>\<open>status_register_.data() + 3\<close>, so every access goes
  through offset 3 of \<open>status_register\<close> and changes the frame the unit will send.
\<close>

record FujiAcUnitSim =
  status_register :: bytes
  error_register :: bytes
  login_register :: bytes
  next_query_register :: RegisterType

definition FujiAcUnitSim_init :: FujiAcUnitSim where
  "FujiAcUnitSim_init =
     \<lparr>status_register = [0x00, 0x00, 0x00, 0x46, 0x12, 0xa0, 0x00, 0x20],
      error_register = [0x00, 0x00, 0x10, 0x00, 0x00, 0x00, 0x00, 0x00],
      login_register = [0x00, 0x00, 0x20, 0x1F, 0x1F, 0x05, 0x01, 0x00],
      next_query_register = reg_STATUS\<rparr>"

text \<open>A member call on \<^verbatim>\<open>status_\<close>.\<close>

definition with_status :: "(nat \<Rightarrow> bytes \<Rightarrow> bytes) \<Rightarrow> FujiAcUnitSim \<Rightarrow> FujiAcUnitSim" where
  "with_status f u = u\<lparr>status_register := f 3 (status_register u)\<rparr>"

definition GetNextMasterFrame :: "FujiAcUnitSim \<Rightarrow> FujiMasterFrame \<times> FujiAcUnitSim" where
  "GetNextMasterFrame u =
     (let (resp, u) =
        (case next_query_register u of
           reg_ERROR \<Rightarrow> (mf_WithType reg_ERROR (MasterFrame (error_register u)), u)
         | reg_LOGIN \<Rightarrow> (mf_WithType reg_LOGIN (MasterFrame (login_register u)), u)
         | _ \<Rightarrow>
             (let u = (if reg_SwingStep 3 (status_register u)
                       then with_status (\<lambda>p. reg_SetSwingStep p False) u else u)
              in (mf_WithType reg_STATUS (MasterFrame (status_register u)), u)));
          resp = mf_WithUnknownBit True resp;
          resp = mf_WithDestination dest_WIRED_CONTROLLER_ADDR resp;
          u = with_status (\<lambda>p. reg_SetUpdateMagic p 10) u
      in (resp, u))"

definition PushControllerFrame :: "FujiControllerFrame \<Rightarrow> FujiAcUnitSim \<Rightarrow> FujiAcUnitSim" where
  "PushControllerFrame frame u =
     (let u = (if cf_QueryRegister frame \<noteq> reg_UNKNOWN
               then u\<lparr>next_query_register := cf_QueryRegister frame\<rparr> else u);
          u = (if cf_LoginBit frame then with_status (\<lambda>p. reg_SetControllerPresent p True) u else u)
      in if cf_QueryRegister frame = reg_STATUS \<and> cf_WriteBit frame then
           (let payload = cf_Payload frame;
                u = with_status (\<lambda>p. reg_SetEnabled p (reg_Enabled 0 payload)) u;
                u = with_status (\<lambda>p. reg_SetMode p (reg_Mode 0 payload)) u;
                u = with_status (\<lambda>p. reg_SetFan p (reg_Fan 0 payload)) u;
                u = with_status (\<lambda>p. reg_SetEconomy p (reg_Economy 0 payload)) u;
                u = with_status (\<lambda>p. reg_SetSwing p (reg_Swing 0 payload)) u;
                u = with_status (\<lambda>p. reg_SetSwingStep p (reg_SwingStep 0 payload)) u
            in if reg_Mode 0 payload \<noteq> mode_FAN then
                 (let u = with_status (\<lambda>p. reg_SetTemperature p (reg_Temperature 0 payload)) u
                  in with_status (\<lambda>p. reg_SetUpdateMagic p 0) u)
               else
                 (let u = with_status (\<lambda>p. reg_SetTemperature p 18) u
                  in with_status (\<lambda>p. reg_SetUpdateMagic p 4) u))
         else u)"

definition sim_Update :: "FujiAcUnitSim \<Rightarrow> FujiAcUnitSim" where
  "sim_Update u = with_status (\<lambda>p. reg_SetUpdateMagic p 4) u"

definition sim_Enabled :: "FujiAcUnitSim \<Rightarrow> bool" where
  "sim_Enabled u = reg_Enabled 3 (status_register u)"

definition sim_SetEnabled :: "bool \<Rightarrow> FujiAcUnitSim \<Rightarrow> FujiAcUnitSim" where
  "sim_SetEnabled b u = sim_Update (with_status (\<lambda>p. reg_SetEnabled p b) u)"

definition sim_Temperature :: "FujiAcUnitSim \<Rightarrow> byte" where
  "sim_Temperature u = reg_Temperature 3 (status_register u)"

definition sim_SetTemperature :: "byte \<Rightarrow> FujiAcUnitSim \<Rightarrow> FujiAcUnitSim" where
  "sim_SetTemperature t u = sim_Update (with_status (\<lambda>p. reg_SetTemperature p t) u)"

definition sim_Fan :: "FujiAcUnitSim \<Rightarrow> fan_t" where
  "sim_Fan u = reg_Fan 3 (status_register u)"

definition sim_SetFan :: "fan_t \<Rightarrow> FujiAcUnitSim \<Rightarrow> FujiAcUnitSim" where
  "sim_SetFan f u = sim_Update (with_status (\<lambda>p. reg_SetFan p f) u)"

definition sim_Mode :: "FujiAcUnitSim \<Rightarrow> mode_t" where
  "sim_Mode u = reg_Mode 3 (status_register u)"

definition sim_SetMode :: "mode_t \<Rightarrow> FujiAcUnitSim \<Rightarrow> FujiAcUnitSim" where
  "sim_SetMode m u = sim_Update (with_status (\<lambda>p. reg_SetMode p m) u)"

definition sim_Economy :: "FujiAcUnitSim \<Rightarrow> bool" where
  "sim_Economy u = reg_Economy 3 (status_register u)"

definition sim_SetEconomy :: "bool \<Rightarrow> FujiAcUnitSim \<Rightarrow> FujiAcUnitSim" where
  "sim_SetEconomy b u = sim_Update (with_status (\<lambda>p. reg_SetEconomy p b) u)"

definition sim_Swing :: "FujiAcUnitSim \<Rightarrow> bool" where
  "sim_Swing u = reg_Swing 3 (status_register u)"

definition sim_SetSwing :: "bool \<Rightarrow> FujiAcUnitSim \<Rightarrow> FujiAcUnitSim" where
  "sim_SetSwing b u = sim_Update (with_status (\<lambda>p. reg_SetSwing p b) u)"

definition sim_SwingStep :: "FujiAcUnitSim \<Rightarrow> bool" where
  "sim_SwingStep u = reg_SwingStep 3 (status_register u)"

definition sim_SetSwingStep :: "bool \<Rightarrow> FujiAcUnitSim \<Rightarrow> FujiAcUnitSim" where
  "sim_SetSwingStep b u = sim_Update (with_status (\<lambda>p. reg_SetSwingStep p b) u)"

definition sim_ControllerPresent :: "FujiAcUnitSim \<Rightarrow> bool" where
  "sim_ControllerPresent u = reg_ControllerPresent 3 (status_register u)"

section \<open>The invariant and the abstract unit\<close>

definition sim_ok :: "FujiAcUnitSim \<Rightarrow> bool" where
  "sim_ok u \<longleftrightarrow> length (status_register u) = 8 \<and> length (error_register u) = 8 \<and>
     length (login_register u) = 8"

definition unit_view :: "FujiAcUnitSim \<Rightarrow> unit_status" where
  "unit_view u = status_at 3 (status_register u)"

text \<open>
  What a write frame does to the unit: the register shown in its payload, except that in FAN
  mode the unit keeps its own fixed temperature.
\<close>

definition unit_accept :: "unit_status \<Rightarrow> unit_status \<Rightarrow> unit_status" where
  "unit_accept w v =
     v\<lparr>v_enabled := v_enabled w, v_mode := v_mode w, v_fan := v_fan w,
       v_economy := v_economy w, v_swing := v_swing w, v_swing_step := v_swing_step w,
       v_temperature := (if v_mode w = mode_FAN then 18 else v_temperature w),
       v_magic := (if v_mode w = mode_FAN then 4 else 0)\<rparr>"

lemma sim_ok_init [simp]: "sim_ok FujiAcUnitSim_init"
  by (simp add: sim_ok_def FujiAcUnitSim_init_def)

lemma sim_init_query [simp]: "next_query_register FujiAcUnitSim_init = reg_STATUS"
  by (simp add: FujiAcUnitSim_init_def)

lemma sim_reg_ok: "sim_ok u \<Longrightarrow> reg_ok 3 (status_register u)"
  by (simp add: sim_ok_def reg_ok_def)

lemma with_status_simps [simp]:
  "status_register (with_status f u) = f 3 (status_register u)"
  "error_register (with_status f u) = error_register u"
  "login_register (with_status f u) = login_register u"
  "next_query_register (with_status f u) = next_query_register u"
  by (simp_all add: with_status_def)

lemma sim_ok_with_status [simp]:
  "length (f 3 (status_register u)) = length (status_register u) \<Longrightarrow> sim_ok (with_status f u) = sim_ok u"
  by (simp add: sim_ok_def)

lemma unit_view_with_status [view_simps]: "unit_view (with_status f u) = status_at 3 (f 3 (status_register u))"
  by (simp add: unit_view_def)

lemma unit_view_query [simp]: "unit_view (u\<lparr>next_query_register := q\<rparr>) = unit_view u"
  by (simp add: unit_view_def)

lemma sim_ok_query [simp]: "sim_ok (u\<lparr>next_query_register := q\<rparr>) = sim_ok u"
  by (simp add: sim_ok_def)

lemma status_at_step_clear:
  "reg_ok p mem \<Longrightarrow> (if reg_SwingStep p mem then status_at p (reg_SetSwingStep p False mem)
    else status_at p mem) = (status_at p mem)\<lparr>v_swing_step := False\<rparr>"
  by (simp add: view_simps) (simp add: status_at_def)

subsection \<open>Polling\<close>

lemma next_frame:
  assumes "sim_ok u"
  shows "mf_ok (fst (GetNextMasterFrame u))"
    "mf_Destination (fst (GetNextMasterFrame u)) = dest_WIRED_CONTROLLER_ADDR"
    "mf_Type (fst (GetNextMasterFrame u)) =
       (if next_query_register u = reg_UNKNOWN then reg_STATUS else next_query_register u)"
  using assms
  by (auto simp: GetNextMasterFrame_def sim_ok_def Let_def split: RegisterType.split)

lemma next_state:
  assumes "sim_ok u"
  shows "sim_ok (snd (GetNextMasterFrame u))"
    "next_query_register (snd (GetNextMasterFrame u)) = next_query_register u"
    "error_register (snd (GetNextMasterFrame u)) = error_register u"
    "login_register (snd (GetNextMasterFrame u)) = login_register u"
  using assms
  by (auto simp: GetNextMasterFrame_def Let_def split: RegisterType.split)

lemma next_view:
  assumes "sim_ok u"
  shows "unit_view (snd (GetNextMasterFrame u)) = (unit_view u)\<lparr>v_magic := 10,
      v_swing_step := (v_swing_step (unit_view u) \<and>
        (next_query_register u = reg_ERROR \<or> next_query_register u = reg_LOGIN))\<rparr>"
  using sim_reg_ok[OF assms]
  by (auto simp: GetNextMasterFrame_def view_simps Let_def unit_view_def split: RegisterType.split)
    (simp_all add: status_at_def)

lemma next_payload:
  assumes "sim_ok u" and "next_query_register u = reg_STATUS \<or> next_query_register u = reg_UNKNOWN"
  shows "status_at 0 (mf_Payload (fst (GetNextMasterFrame u))) = (unit_view u)\<lparr>v_swing_step := False\<rparr>"
proof -
  let ?d = "status_register u"
  have ok: "reg_ok 3 ?d" using assms(1) by (rule sim_reg_ok)
  have drop: "status_at 0 (drop 3 d) = status_at 3 d" if "length d = 8" for d
    using that status_at_drop[of 3 0 d] by (simp add: reg_ok_def)
  have len: "length ?d = 8" using assms(1) by (simp add: sim_ok_def)
  show ?thesis
    using assms(2) status_at_step_clear[OF ok]
    by (auto simp: GetNextMasterFrame_def Let_def unit_view_def drop len split: if_splits)
qed

subsection \<open>Receiving\<close>

lemma push_state:
  assumes "sim_ok u"
  shows "sim_ok (PushControllerFrame f u)"
    "next_query_register (PushControllerFrame f u) =
       (if cf_QueryRegister f = reg_UNKNOWN then next_query_register u else cf_QueryRegister f)"
    "error_register (PushControllerFrame f u) = error_register u"
    "login_register (PushControllerFrame f u) = login_register u"
  using assms by (simp_all add: PushControllerFrame_def Let_def)

lemma push_view:
  assumes "sim_ok u" and "cf_ok f"
  shows "unit_view (PushControllerFrame f u) =
    (let v = (unit_view u)\<lparr>v_present := (v_present (unit_view u) \<or> cf_LoginBit f)\<rparr>
     in if cf_QueryRegister f = reg_STATUS \<and> cf_WriteBit f
        then unit_accept (status_at 0 (cf_Payload f)) v else v)"
proof -
  have ok: "reg_ok 3 (status_register u)" using assms(1) by (rule sim_reg_ok)
  have t: "\<not> 128 \<le> reg_Temperature 0 (cf_Payload f)"
    "reg_Temperature 0 (cf_Payload f) AND 127 = reg_Temperature 0 (cf_Payload f)"
    using temperature_bound byte_below_128 by (simp_all add: not_le)
  show ?thesis
    using ok by (simp add: PushControllerFrame_def unit_view_def view_simps Let_def t)
      (simp add: unit_accept_def status_at_def)
qed

section \<open>The unit as a record of settings\<close>

text \<open>
  What can happen to the simulated unit: a poll, a frame from the controller, or a key of the
  infrared remote (the public setters).
\<close>

datatype remote_key = R_Enabled bool | R_Temperature byte | R_Fan fan_t | R_Mode mode_t
  | R_Economy bool | R_Swing bool | R_SwingStep bool

fun sim_remote :: "remote_key \<Rightarrow> FujiAcUnitSim \<Rightarrow> FujiAcUnitSim" where
  "sim_remote (R_Enabled b) = sim_SetEnabled b"
| "sim_remote (R_Temperature t) = sim_SetTemperature t"
| "sim_remote (R_Fan f) = sim_SetFan f"
| "sim_remote (R_Mode m) = sim_SetMode m"
| "sim_remote (R_Economy b) = sim_SetEconomy b"
| "sim_remote (R_Swing b) = sim_SetSwing b"
| "sim_remote (R_SwingStep b) = sim_SetSwingStep b"

datatype unit_event = Ev_Poll | Ev_Push FujiControllerFrame | Ev_Remote remote_key

fun sim_event :: "unit_event \<Rightarrow> FujiAcUnitSim \<Rightarrow> FujiAcUnitSim" where
  "sim_event Ev_Poll u = snd (GetNextMasterFrame u)"
| "sim_event (Ev_Push f) u = PushControllerFrame f u"
| "sim_event (Ev_Remote k) u = sim_remote k u"

text \<open>The abstract unit: the settings, and the register the next poll answers with.\<close>

record abstract_unit =
  au_status :: unit_status
  au_query :: RegisterType

definition abs_unit :: "FujiAcUnitSim \<Rightarrow> abstract_unit" where
  "abs_unit u = \<lparr>au_status = unit_view u, au_query = next_query_register u\<rparr>"

fun remote_op :: "remote_key \<Rightarrow> reg_op" where
  "remote_op (R_Enabled b) = Op_Enabled b"
| "remote_op (R_Temperature t) = Op_Temperature t"
| "remote_op (R_Fan f) = Op_Fan f"
| "remote_op (R_Mode m) = Op_Mode m"
| "remote_op (R_Economy b) = Op_Economy b"
| "remote_op (R_Swing b) = Op_Swing b"
| "remote_op (R_SwingStep b) = Op_SwingStep b"

fun spec_event :: "unit_event \<Rightarrow> abstract_unit \<Rightarrow> abstract_unit" where
  "spec_event Ev_Poll a =
     a\<lparr>au_status := (au_status a)\<lparr>v_magic := 10,
         v_swing_step := (v_swing_step (au_status a) \<and>
           (au_query a = reg_ERROR \<or> au_query a = reg_LOGIN))\<rparr>\<rparr>"
| "spec_event (Ev_Push f) a =
     \<lparr>au_status =
        (let v = (au_status a)\<lparr>v_present := (v_present (au_status a) \<or> cf_LoginBit f)\<rparr>
         in if cf_QueryRegister f = reg_STATUS \<and> cf_WriteBit f
            then unit_accept (status_at 0 (cf_Payload f)) v else v),
      au_query = (if cf_QueryRegister f = reg_UNKNOWN then au_query a else cf_QueryRegister f)\<rparr>"
| "spec_event (Ev_Remote k) a =
     a\<lparr>au_status := spec_run [remote_op k, Op_UpdateMagic 4] (au_status a)\<rparr>"

fun event_ok :: "unit_event \<Rightarrow> bool" where
  "event_ok (Ev_Push f) = cf_ok f"
| "event_ok _ = True"

lemma sim_setter_defs:
  "sim_remote k u = with_status (\<lambda>p mem. reg_run p [remote_op k, Op_UpdateMagic 4] mem) u"
  by (cases k) (simp_all add: sim_SetEnabled_def sim_SetTemperature_def sim_SetFan_def sim_SetMode_def
      sim_SetEconomy_def sim_SetSwing_def sim_SetSwingStep_def sim_Update_def with_status_def
      reg_run_def)

lemma remote_state [simp]:
  "sim_ok (sim_remote k u) = sim_ok u" "next_query_register (sim_remote k u) = next_query_register u"
  by (simp_all add: sim_setter_defs sim_ok_def reg_run_def reg_apply_local(1))

lemma remote_view:
  "sim_ok u \<Longrightarrow> unit_view (sim_remote k u) = spec_run [remote_op k, Op_UpdateMagic 4] (unit_view u)"
  by (simp add: sim_setter_defs view_simps reg_run_refines sim_reg_ok unit_view_def)

lemma sim_event_ok: "sim_ok u \<Longrightarrow> sim_ok (sim_event e u)"
  by (cases e) (simp_all add: next_state push_state)

lemma sim_event_refines:
  "sim_ok u \<Longrightarrow> event_ok e \<Longrightarrow> abs_unit (sim_event e u) = spec_event e (abs_unit u)"
  by (cases e) (simp_all add: abs_unit_def next_view next_state push_view push_state remote_view)

section \<open>Properties\<close>

lemma sim_events_refine:
  "sim_ok u \<Longrightarrow> \<forall>e \<in> set es. event_ok e \<Longrightarrow>
     sim_ok (fold sim_event es u) \<and> abs_unit (fold sim_event es u) = fold spec_event es (abs_unit u)"
  by (induction es arbitrary: u) (simp_all add: sim_event_ok sim_event_refines)

text \<open>
  C6. The simulated unit implements a record of settings: after any sequence of polls, controller
  frames and keys of the remote, its eight bytes decode to what the same sequence does to the
  record, and its three frames still have eight bytes. The next poll then sends a frame for the
  wired controller, of the register asked for last (STATUS if that is unknown), and a STATUS frame
  shows the record's settings, with the swing step already cleared.
\<close>

theorem sim_refines_unit:
  assumes "sim_ok u" and "\<forall>e \<in> set es. event_ok e"
  shows "let u' = fold sim_event es u; a = fold spec_event es (abs_unit u); mf = fst (GetNextMasterFrame u')
    in abs_unit u' = a \<and> sim_ok u' \<and> mf_Destination mf = dest_WIRED_CONTROLLER_ADDR \<and>
       mf_Type mf = (if au_query a = reg_UNKNOWN then reg_STATUS else au_query a) \<and>
       (mf_Type mf = reg_STATUS \<longrightarrow>
          status_at 0 (mf_Payload mf) = (au_status a)\<lparr>v_swing_step := False\<rparr>)"
proof -
  define u' where "u' = fold sim_event es u"
  have ok: "sim_ok u'" and a: "fold spec_event es (abs_unit u) = abs_unit u'"
    using sim_events_refine[OF assms] by (simp_all add: u'_def)
  show ?thesis
    unfolding u'_def[symmetric] a using ok next_payload[OF ok]
    by (simp add: abs_unit_def next_frame)
qed

theorem sim_refines_unit_witness:
  "abs_unit (fold sim_event [Ev_Poll, Ev_Push cf_default, Ev_Remote (R_Temperature 22)] FujiAcUnitSim_init) =
   fold spec_event [Ev_Poll, Ev_Push cf_default, Ev_Remote (R_Temperature 22)] (abs_unit FujiAcUnitSim_init)"
  using sim_refines_unit[of FujiAcUnitSim_init "[Ev_Poll, Ev_Push cf_default, Ev_Remote (R_Temperature 22)]"]
  by (simp add: Let_def)

end
