(* ===== verification/Fuji_Ac_Serial.thy ===== *)
theory Fuji_Ac_Serial
  imports Fuji_Ac_Unit_Sim
begin

text \<open>
  \<^verbatim>\<open>controller/fuji_ac_serial_interface.h\<close>, the virtual interface the controller reads and
  writes frames through, and its two implementations: \<^verbatim>\<open>fuji_ac_serial_reader.cc\<close> over a tty,
  and the simulator service of \<^verbatim>\<open>fuji_ac_server.cc\<close>. The interface is the locale
  \<open>serial_interface\<close>; \<open>polled_bus\<close> adds what a main unit promises: it answers with the register
  that the last controller frame asked for. Reading can fail fatally, so both operations return
  \<open>or_fatal\<close> values; \<open>None\<close> is an incomplete read.
\<close>

section \<open>The interface\<close>

locale serial_interface =
  fixes rd :: "'w \<Rightarrow> (FujiMasterFrame option \<times> 'w) or_fatal"
    and wr :: "FujiControllerFrame \<Rightarrow> 'w \<Rightarrow> 'w or_fatal"
    and bus_ok :: "'w \<Rightarrow> bool"
  assumes rd_frame: "bus_ok w \<Longrightarrow> rd w = Inr (Some mf, w') \<Longrightarrow> mf_ok mf"
    and rd_bus_ok: "bus_ok w \<Longrightarrow> rd w = Inr (x, w') \<Longrightarrow> bus_ok w'"
    and wr_bus_ok: "bus_ok w \<Longrightarrow> cf_ok f \<Longrightarrow> echo_harmless f \<Longrightarrow> wr f w = Inr w' \<Longrightarrow> bus_ok w'"

locale polled_bus = serial_interface rd wr bus_ok
  for rd :: "'w \<Rightarrow> (FujiMasterFrame option \<times> 'w) or_fatal"
    and wr :: "FujiControllerFrame \<Rightarrow> 'w \<Rightarrow> 'w or_fatal"
    and bus_ok :: "'w \<Rightarrow> bool" +
  fixes asked :: "'w \<Rightarrow> RegisterType"
    and env :: "'w \<Rightarrow> 'w \<Rightarrow> bool"
  assumes rd_type: "bus_ok w \<Longrightarrow> rd w = Inr (Some mf, w') \<Longrightarrow>
      mf_Destination mf = dest_WIRED_CONTROLLER_ADDR \<Longrightarrow> asked w \<noteq> reg_UNKNOWN \<Longrightarrow>
      mf_Type mf = asked w"
    and rd_asked: "bus_ok w \<Longrightarrow> rd w = Inr (x, w') \<Longrightarrow> asked w' = asked w"
    and wr_asked: "bus_ok w \<Longrightarrow> cf_ok f \<Longrightarrow> echo_harmless f \<Longrightarrow> cf_QueryRegister f \<noteq> reg_UNKNOWN \<Longrightarrow>
      wr f w = Inr w' \<Longrightarrow> asked w' = cf_QueryRegister f"
    and env_bus_ok: "bus_ok w \<Longrightarrow> env w w' \<Longrightarrow> bus_ok w'"
    and env_asked: "bus_ok w \<Longrightarrow> env w w' \<Longrightarrow> asked w' = asked w"

section \<open>The simulated unit as a bus\<close>

text \<open>
  Between the controller's reads and writes the remote acts on the unit (\<open>sim_env\<close>), or its error
  bit changes as well (\<open>unit_env\<close>). Both are environments of the same bus.
\<close>

definition sim_ReadMasterFrame ::
    "FujiAcUnitSim \<Rightarrow> (FujiMasterFrame option \<times> FujiAcUnitSim) or_fatal" where
  "sim_ReadMasterFrame u = (let (mf, u) = GetNextMasterFrame u in Inr (Some mf, u))"

definition sim_WriteControllerFrame ::
    "FujiControllerFrame \<Rightarrow> FujiAcUnitSim \<Rightarrow> FujiAcUnitSim or_fatal" where
  "sim_WriteControllerFrame frame u = Inr (PushControllerFrame frame u)"

definition sim_env :: "FujiAcUnitSim \<Rightarrow> FujiAcUnitSim \<Rightarrow> bool" where
  "sim_env u u' \<longleftrightarrow> (\<exists>k. u' = sim_remote k u)"

definition unit_env :: "FujiAcUnitSim \<Rightarrow> FujiAcUnitSim \<Rightarrow> bool" where
  "unit_env u u' \<longleftrightarrow> sim_env u u' \<or> (\<exists>b. u' = with_status (\<lambda>p. reg_SetError p b) u)"

lemma unit_env_cases:
  assumes "unit_env u u'"
  obtains k where "u' = sim_remote k u" | b where "u' = with_status (\<lambda>p. reg_SetError p b) u"
  using assms by (auto simp: unit_env_def sim_env_def)

lemma env_state:
  "sim_env u u' \<Longrightarrow> sim_ok u' = sim_ok u \<and> next_query_register u' = next_query_register u"
  "unit_env u u' \<Longrightarrow> sim_ok u' = sim_ok u \<and> next_query_register u' = next_query_register u"
  by (auto simp: unit_env_def sim_env_def)

lemma sim_polled_bus:
  assumes "\<And>u u'. env u u' \<Longrightarrow> sim_ok u' = sim_ok u \<and> next_query_register u' = next_query_register u"
  shows "polled_bus sim_ReadMasterFrame sim_WriteControllerFrame sim_ok next_query_register env"
proof unfold_locales
  fix w w' :: FujiAcUnitSim and mf x
  assume ok: "sim_ok w"
  show "sim_ReadMasterFrame w = Inr (Some mf, w') \<Longrightarrow> mf_ok mf"
    using next_frame(1)[OF ok] by (auto simp: sim_ReadMasterFrame_def split: prod.splits)
  show "sim_ReadMasterFrame w = Inr (x, w') \<Longrightarrow> sim_ok w'"
    using next_state(1)[OF ok] by (auto simp: sim_ReadMasterFrame_def split: prod.splits)
  show "sim_ReadMasterFrame w = Inr (Some mf, w') \<Longrightarrow>
      mf_Destination mf = dest_WIRED_CONTROLLER_ADDR \<Longrightarrow> next_query_register w \<noteq> reg_UNKNOWN \<Longrightarrow>
      mf_Type mf = next_query_register w"
    using next_frame(3)[OF ok] by (auto simp: sim_ReadMasterFrame_def split: prod.splits)
  show "sim_ReadMasterFrame w = Inr (x, w') \<Longrightarrow> next_query_register w' = next_query_register w"
    using next_state(2)[OF ok] by (auto simp: sim_ReadMasterFrame_def split: prod.splits)
qed (auto simp: sim_WriteControllerFrame_def push_state assms)

interpretation sim_bus: polled_bus sim_ReadMasterFrame sim_WriteControllerFrame sim_ok
  next_query_register sim_env
  by (rule sim_polled_bus) (rule env_state)

interpretation unit_bus: polled_bus sim_ReadMasterFrame sim_WriteControllerFrame sim_ok
  next_query_register unit_env
  by (rule sim_polled_bus) (rule env_state)

section \<open>The serial reader\<close>

text \<open>
  \<^verbatim>\<open>for (int i = 0; i < 8; i++) data[i] ^= 0xFF\<close>: the line is inverted.
\<close>

definition flip_bytes :: "bytes \<Rightarrow> bytes" where
  "flip_bytes data = fold (\<lambda>i d. d[i := d ! i XOR 0xFF]) [0..<8] data"

text \<open>
  \<^verbatim>\<open>read(fd, data, 8)\<close> and \<^verbatim>\<open>write(fd, data, 8)\<close> are calls of the operating system: parameters
  on the device's state. \<open>os_read\<close> gives the return value and the eight-byte buffer as the call
  leaves it, \<open>os_write\<close> the return value.
\<close>

definition reader_WriteControllerFrame ::
    "(bytes \<Rightarrow> 't \<Rightarrow> int \<times> 't) \<Rightarrow> FujiControllerFrame \<Rightarrow> 't \<Rightarrow> 't or_fatal" where
  "reader_WriteControllerFrame os_write frame t =
     (let data = flip_bytes (cf_FullFrame frame);
          (n, t) = os_write data t
      in if n \<noteq> 8 then Inl ''Failed to write to device'' else Inr t)"

definition reader_ReadMasterFrame ::
    "('t \<Rightarrow> (int \<times> bytes) \<times> 't) \<Rightarrow> 't \<Rightarrow> (FujiMasterFrame option \<times> 't) or_fatal" where
  "reader_ReadMasterFrame os_read t =
     (let ((n, data), t) = os_read t
      in if n < 0 then Inl ''Failed to read from device''
         else if n < 8 then Inr (None, t)
         else Inr (Some (MasterFrame (flip_bytes data)), t))"

lemma flip_bytes_map: "length d = 8 \<Longrightarrow> flip_bytes d = map (\<lambda>b. b XOR 0xFF) d"
  by (erule length_8E) (simp add: flip_bytes_def upt_rec)

lemma length_flip_bytes [simp]: "length (flip_bytes d) = length d"
  by (simp add: flip_bytes_def upt_rec)

lemma flip_flip: "length d = 8 \<Longrightarrow> flip_bytes (flip_bytes d) = d"
  by (simp add: flip_bytes_map o_def xor.assoc)

lemma reader_serial_interface:
  assumes "\<And>t. length (snd (fst (os_read t))) = 8"
  shows "serial_interface (reader_ReadMasterFrame os_read) (reader_WriteControllerFrame os_write) (\<lambda>_. True)"
proof unfold_locales
  fix t t' mf
  assume "reader_ReadMasterFrame os_read t = Inr (Some mf, t')"
  then show "mf_ok mf"
    using assms[of t] by (auto simp: reader_ReadMasterFrame_def Let_def split: if_splits prod.splits)
qed simp_all

section \<open>Properties\<close>

text \<open>
  C25. The line is inverted on both sides: writing a frame hands the device the complement of its
  eight bytes, and when a read returns the eight bytes that were written, it yields a master
  frame with exactly the bytes of the controller frame.
\<close>

theorem wire_round_trip:
  assumes "cf_ok f" and "os_write (map (\<lambda>b. b XOR 0xFF) (cf_data f)) t = (8, t')"
    and "os_read t' = ((8, map (\<lambda>b. b XOR 0xFF) (cf_data f)), t'')"
  shows "reader_WriteControllerFrame os_write f t = Inr t' \<and>
    reader_ReadMasterFrame os_read t' = Inr (Some (MasterFrame (cf_data f)), t'')"
proof -
  have "length (cf_data f) = 8" using assms(1) by (simp add: cf_ok_def)
  with assms(2,3) show ?thesis
    by (simp add: reader_WriteControllerFrame_def reader_ReadMasterFrame_def cf_FullFrame_def
        flip_bytes_map o_def xor.assoc)
qed

theorem wire_round_trip_witness:
  "reader_ReadMasterFrame (\<lambda>t. ((8, t), t)) (map (\<lambda>b. b XOR 0xFF) (cf_data cf_default)) =
     Inr (Some (MasterFrame (cf_data cf_default)), map (\<lambda>b. b XOR 0xFF) (cf_data cf_default))"
  using wire_round_trip[of cf_default "\<lambda>d t. (8, d)" "[]" "map (\<lambda>b. b XOR 0xFF) (cf_data cf_default)"
      "\<lambda>t. ((8, t), t)" "map (\<lambda>b. b XOR 0xFF) (cf_data cf_default)"]
  by simp

end
