(* ===== verification/Fuji_Ac_Controller.thy ===== *)
theory Fuji_Ac_Controller
  imports Fuji_Ac_Protocol_Handler Fuji_Ac_Serial
begin

text \<open>
  \<^verbatim>\<open>controller/fuji_ac_controller.h\<close> and \<^verbatim>\<open>.cc\<close>: the controller that joins the protocol handler
  to a serial interface and serves \<^verbatim>\<open>Update\<close> and \<^verbatim>\<open>GetStatus\<close>. The pointer \<^verbatim>\<open>state_\<close> is the
  object the handler owns, so the model has one \<open>ac_state\<close>, reached by both. \<^verbatim>\<open>Update\<close> is split
  at its \<^verbatim>\<open>Await\<close>: \<open>Update_begin\<close> is the critical section before it, and the call returns when
  \<open>ready\<close> holds.
\<close>

section \<open>Messages\<close>

text \<open>Open enumerations of \<^verbatim>\<open>fuji_ac_controller.proto\<close>: proto3 keeps unrecognized numbers.\<close>

datatype proto_Mode = MODE_UNKNOWN | MODE_FAN | MODE_DRY | MODE_COOL | MODE_HEAT | MODE_AUTO
  | MODE_OFF | MODE_unrecognized int

datatype proto_Fan = FAN_UNKNOWN | FAN_AUTO | FAN_LOW | FAN_MEDIUM | FAN_HIGH | FAN_MAX
  | FAN_unrecognized int

record ACUnitState =
  pb_mode :: proto_Mode
  pb_fan :: proto_Fan
  pb_setpoint_temperature :: "32 word"

definition ACUnitState_default :: ACUnitState where
  "ACUnitState_default = \<lparr>pb_mode = MODE_UNKNOWN, pb_fan = FAN_UNKNOWN, pb_setpoint_temperature = 0\<rparr>"

section \<open>State and operations\<close>

record FujiAcController =
  client :: FujiAcProtocolHandler
  last_frame :: FujiControllerFrame
  shutdown :: bool
  ready :: bool

definition MakeFujiAcController :: FujiAcController where
  "MakeFujiAcController =
     \<lparr>client = Handler_init FujiAcState_init, last_frame = cf_default,
      shutdown = False, ready = False\<rparr>"

text \<open>A call through \<^verbatim>\<open>state_\<close>.\<close>

definition on_state :: "(FujiAcState \<Rightarrow> FujiAcState) \<Rightarrow> FujiAcController \<Rightarrow> FujiAcController" where
  "on_state g c = c\<lparr>client := (client c)\<lparr>ac_state := g (ac_state (client c))\<rparr>\<rparr>"

definition Update_begin :: "ACUnitState \<Rightarrow> FujiAcController \<Rightarrow> FujiAcController" where
  "Update_begin new_state c =
     (let c = c\<lparr>ready := False\<rparr>;
          c = (case pb_mode new_state of
                 MODE_OFF \<Rightarrow> on_state (ac_SetEnabled False) c
               | MODE_AUTO \<Rightarrow> on_state (ac_SetMode mode_AUTO) (on_state (ac_SetEnabled True) c)
               | MODE_COOL \<Rightarrow> on_state (ac_SetMode mode_COOL) (on_state (ac_SetEnabled True) c)
               | MODE_HEAT \<Rightarrow> on_state (ac_SetMode mode_HEAT) (on_state (ac_SetEnabled True) c)
               | MODE_DRY \<Rightarrow> on_state (ac_SetMode mode_DRY) (on_state (ac_SetEnabled True) c)
               | MODE_FAN \<Rightarrow> on_state (ac_SetMode mode_FAN) (on_state (ac_SetEnabled True) c)
               | _ \<Rightarrow> c);
          c = (case pb_fan new_state of
                 FAN_AUTO \<Rightarrow> on_state (ac_SetFan fan_AUTO) c
               | FAN_MAX \<Rightarrow> on_state (ac_SetFan fan_MAX) c
               | FAN_HIGH \<Rightarrow> on_state (ac_SetFan fan_HIGH) c
               | FAN_MEDIUM \<Rightarrow> on_state (ac_SetFan fan_MEDIUM) c
               | FAN_LOW \<Rightarrow> on_state (ac_SetFan fan_LOW) c
               | _ \<Rightarrow> c)
      in if pb_setpoint_temperature new_state \<noteq> 0
         then on_state (ac_SetTemperature (ucast (pb_setpoint_temperature new_state))) c
         else c)"

text \<open>\<^verbatim>\<open>GetStatus\<close> blocks (\<open>None\<close>) until \<open>ready\<close> holds.\<close>

definition status_message :: "FujiAcState \<Rightarrow> ACUnitState" where
  "status_message s =
     (let ret = ACUnitState_default;
          ret = (if ac_enabled s then
                   (case ac_mode s of
                      mode_AUTO \<Rightarrow> ret\<lparr>pb_mode := MODE_AUTO\<rparr>
                    | mode_COOL \<Rightarrow> ret\<lparr>pb_mode := MODE_COOL\<rparr>
                    | mode_DRY \<Rightarrow> ret\<lparr>pb_mode := MODE_DRY\<rparr>
                    | mode_FAN \<Rightarrow> ret\<lparr>pb_mode := MODE_FAN\<rparr>
                    | mode_HEAT \<Rightarrow> ret\<lparr>pb_mode := MODE_HEAT\<rparr>
                    | mode_UNKNOWN \<Rightarrow> ret)
                 else ret\<lparr>pb_mode := MODE_OFF\<rparr>);
          ret = (case ac_fan s of
                   fan_AUTO \<Rightarrow> ret\<lparr>pb_fan := FAN_AUTO\<rparr>
                 | fan_MAX \<Rightarrow> ret\<lparr>pb_fan := FAN_MAX\<rparr>
                 | fan_HIGH \<Rightarrow> ret\<lparr>pb_fan := FAN_HIGH\<rparr>
                 | fan_MEDIUM \<Rightarrow> ret\<lparr>pb_fan := FAN_MEDIUM\<rparr>
                 | fan_LOW \<Rightarrow> ret\<lparr>pb_fan := FAN_LOW\<rparr>
                 | fan_UNKNOWN \<Rightarrow> ret)
      in ret\<lparr>pb_setpoint_temperature := ucast (ac_temperature s)\<rparr>)"

definition GetStatus :: "FujiAcController \<Rightarrow> ACUnitState option" where
  "GetStatus c = (if ready c then Some (status_message (ac_state (client c))) else None)"

text \<open>
  \<^verbatim>\<open>Shutdown\<close> sets the flag; the \<^verbatim>\<open>join\<close> that follows waits for the loop thread to leave its loop
  (\<open>check_exit\<close> of \<open>Controller_System\<close>) and changes nothing.
\<close>

definition Shutdown :: "FujiAcController \<Rightarrow> FujiAcController or_fatal" where
  "Shutdown c = (if shutdown c then Inl ''already shut down.'' else Inr (c\<lparr>shutdown := True\<rparr>))"

definition controller_destroy :: "FujiAcController \<Rightarrow> FujiAcController or_fatal" where
  "controller_destroy c = (if \<not> shutdown c then Shutdown c else Inr c)"

text \<open>
  A controller can be shut down once, and destroyed at any time: destroying shuts it down if need
  be.
\<close>

lemma Shutdown_once:
  "Shutdown c = Inr c' \<Longrightarrow> Shutdown c' = Inl ''already shut down.'' \<and> controller_destroy c' = Inr c'"
  by (auto simp: Shutdown_def controller_destroy_def split: if_splits)

lemma controller_destroy_stops: "controller_destroy c = Inr (c\<lparr>shutdown := True\<rparr>)"
  by (simp add: Shutdown_def controller_destroy_def)

section \<open>The loop\<close>

text \<open>
  The critical section of one iteration: handle the frame, note whether the answer repeats the
  last one. The second component is the frame to write, if any.
\<close>

definition handle_frame ::
    "FujiMasterFrame \<Rightarrow> FujiAcController \<Rightarrow> FujiControllerFrame option \<times> FujiAcController" where
  "handle_frame mf c =
     (let (cf, h) = HandleMasterFrame mf (client c);
          c = c\<lparr>client := h\<rparr>
      in case cf of
           None \<Rightarrow> (None, c)
         | Some f \<Rightarrow>
             (let c = (if cf_eq f (last_frame c) then c\<lparr>ready := True\<rparr> else c)
              in (Some f, c\<lparr>last_frame := f\<rparr>)))"

definition write_answer ::
    "(FujiControllerFrame \<Rightarrow> 'w \<Rightarrow> 'w or_fatal) \<Rightarrow> FujiControllerFrame option \<Rightarrow> 'w \<Rightarrow> 'w or_fatal" where
  "write_answer wr cf w = (case cf of None \<Rightarrow> Inr w | Some f \<Rightarrow> wr f w)"

definition loop_body ::
    "('w \<Rightarrow> (FujiMasterFrame option \<times> 'w) or_fatal) \<Rightarrow> (FujiControllerFrame \<Rightarrow> 'w \<Rightarrow> 'w or_fatal) \<Rightarrow>
       FujiAcController \<times> 'w \<Rightarrow> (FujiAcController \<times> 'w) or_fatal" where
  "loop_body rd wr s =
     (let (c, w) = s in
      case rd w of
        Inl e \<Rightarrow> Inl e
      | Inr (None, w) \<Rightarrow> Inr (c, w)
      | Inr (Some mf, w) \<Rightarrow>
          (let (cf, c) = handle_frame mf c in
           case write_answer wr cf w of Inl e \<Rightarrow> Inl e | Inr w \<Rightarrow> Inr (c, w)))"

text \<open>
  \<^verbatim>\<open>while (!shutdown_) { ... }\<close> with \<open>n\<close> iterations allowed: \<open>None\<close> when the loop is still
  running after them.
\<close>

fun DoLoop ::
    "('w \<Rightarrow> (FujiMasterFrame option \<times> 'w) or_fatal) \<Rightarrow> (FujiControllerFrame \<Rightarrow> 'w \<Rightarrow> 'w or_fatal) \<Rightarrow>
       nat \<Rightarrow> FujiAcController \<times> 'w \<Rightarrow> (FujiAcController \<times> 'w) or_fatal option" where
  "DoLoop rd wr 0 s = (if shutdown (fst s) then Some (Inr s) else None)"
| "DoLoop rd wr (Suc n) s =
     (if shutdown (fst s) then Some (Inr s)
      else case loop_body rd wr s of Inl e \<Rightarrow> Some (Inl e) | Inr s \<Rightarrow> DoLoop rd wr n s)"

end
