(* ===== verification/Controller_System.thy ===== *)
theory Controller_System
  imports Fuji_Ac_Controller
begin

text \<open>
  The controller as a concurrent system: the loop thread, any number of RPC threads inside
  \<^verbatim>\<open>Update\<close> or \<^verbatim>\<open>GetStatus\<close>, \<^verbatim>\<open>Shutdown\<close>, and an environment that acts on the bus. \<^verbatim>\<open>mu_\<close> makes
  each critical section one step; the read of the next frame happens outside the lock, so a
  frame can be read before an \<^verbatim>\<open>Update\<close> and handled after it. A fatal error ends the process:
  no step leaves such a state. \<open>sys_wire\<close> is a history variable, the frames written so far,
  newest first.
\<close>

datatype loop_pc = At_check | Reading | Handling FujiMasterFrame | Exited

datatype rpc_pc = Rpc_idle | In_Update ACUnitState | In_GetStatus

record 'w system =
  sys_ctl :: FujiAcController
  sys_bus :: 'w
  sys_pc :: loop_pc
  sys_rpc :: "nat \<Rightarrow> rpc_pc"
  sys_wire :: "FujiControllerFrame list"

definition sys_init :: "'w \<Rightarrow> 'w system" where
  "sys_init w = \<lparr>sys_ctl = MakeFujiAcController, sys_bus = w, sys_pc = At_check,
     sys_rpc = (\<lambda>_. Rpc_idle), sys_wire = []\<rparr>"

inductive sys_step ::
    "('w \<Rightarrow> (FujiMasterFrame option \<times> 'w) or_fatal) \<Rightarrow> (FujiControllerFrame \<Rightarrow> 'w \<Rightarrow> 'w or_fatal) \<Rightarrow>
       ('w \<Rightarrow> 'w \<Rightarrow> bool) \<Rightarrow> 'w system \<Rightarrow> 'w system \<Rightarrow> bool"
  for rd wr env where
  check_continue: "sys_pc s = At_check \<Longrightarrow> \<not> shutdown (sys_ctl s) \<Longrightarrow>
    sys_step rd wr env s (s\<lparr>sys_pc := Reading\<rparr>)"
| check_exit: "sys_pc s = At_check \<Longrightarrow> shutdown (sys_ctl s) \<Longrightarrow>
    sys_step rd wr env s (s\<lparr>sys_pc := Exited\<rparr>)"
| read_incomplete: "sys_pc s = Reading \<Longrightarrow> rd (sys_bus s) = Inr (None, w) \<Longrightarrow>
    sys_step rd wr env s (s\<lparr>sys_bus := w, sys_pc := At_check\<rparr>)"
| read_frame: "sys_pc s = Reading \<Longrightarrow> rd (sys_bus s) = Inr (Some mf, w) \<Longrightarrow>
    sys_step rd wr env s (s\<lparr>sys_bus := w, sys_pc := Handling mf\<rparr>)"
| handle: "sys_pc s = Handling mf \<Longrightarrow> handle_frame mf (sys_ctl s) = (cf, c) \<Longrightarrow>
    write_answer wr cf (sys_bus s) = Inr w \<Longrightarrow>
    sys_step rd wr env s
      (s\<lparr>sys_ctl := c, sys_bus := w, sys_pc := At_check,
         sys_wire := (case cf of None \<Rightarrow> sys_wire s | Some f \<Rightarrow> f # sys_wire s)\<rparr>)"
| update_call: "sys_rpc s i = Rpc_idle \<Longrightarrow>
    sys_step rd wr env s
      (s\<lparr>sys_ctl := Update_begin ns (sys_ctl s), sys_rpc := (sys_rpc s)(i := In_Update ns)\<rparr>)"
| update_return: "sys_rpc s i = In_Update ns \<Longrightarrow> ready (sys_ctl s) \<Longrightarrow>
    sys_step rd wr env s (s\<lparr>sys_rpc := (sys_rpc s)(i := Rpc_idle)\<rparr>)"
| status_call: "sys_rpc s i = Rpc_idle \<Longrightarrow>
    sys_step rd wr env s (s\<lparr>sys_rpc := (sys_rpc s)(i := In_GetStatus)\<rparr>)"
| status_return: "sys_rpc s i = In_GetStatus \<Longrightarrow> GetStatus (sys_ctl s) = Some m \<Longrightarrow>
    sys_step rd wr env s (s\<lparr>sys_rpc := (sys_rpc s)(i := Rpc_idle)\<rparr>)"
| shutdown_call: "Shutdown (sys_ctl s) = Inr c \<Longrightarrow>
    sys_step rd wr env s (s\<lparr>sys_ctl := c\<rparr>)"
| environment: "env (sys_bus s) w \<Longrightarrow>
    sys_step rd wr env s (s\<lparr>sys_bus := w\<rparr>)"

inductive_cases sys_step_cases: "sys_step rd wr env s t"

inductive sys_reachable ::
    "('w \<Rightarrow> (FujiMasterFrame option \<times> 'w) or_fatal) \<Rightarrow> (FujiControllerFrame \<Rightarrow> 'w \<Rightarrow> 'w or_fatal) \<Rightarrow>
       ('w \<Rightarrow> 'w \<Rightarrow> bool) \<Rightarrow> 'w \<Rightarrow> 'w system \<Rightarrow> bool"
  for rd wr env w0 where
  reach_init: "sys_reachable rd wr env w0 (sys_init w0)"
| reach_step: "sys_reachable rd wr env w0 s \<Longrightarrow> sys_step rd wr env s t \<Longrightarrow>
    sys_reachable rd wr env w0 t"

lemma reachable_run:
  "(sys_step rd wr env)\<^sup>*\<^sup>* s t \<Longrightarrow> sys_reachable rd wr env w0 s \<Longrightarrow> sys_reachable rd wr env w0 t"
  by (induction rule: rtranclp_induct) (auto intro: reach_step)

section \<open>What one call of the handler does to the merge state\<close>

abbreviation ctl_state :: "FujiAcController \<Rightarrow> FujiAcState" where
  "ctl_state c \<equiv> ac_state (client c)"

lemma read_state_simps [simp]:
  "ac_merged (read_state v s)" "ac_swing_step (read_state v s) = ac_swing_step s"
  "ac_controller_present (read_state v s) = v_present v" "ac_error_flag (read_state v s) = v_error v"
  "ac_mode (read_state v s) = v_mode v" "ac_fan (read_state v s) = v_fan v"
  "ac_enabled (read_state v s) = v_enabled v" "ac_temperature (read_state v s) = v_temperature v"
  "ac_economy (read_state v s) = v_economy v" "ac_swing (read_state v s) = v_swing v"
  by (simp_all add: read_state_def)

lemma UpdateFromMaster_simps [simp]:
  "ac_merged (ac_state (UpdateFromMasterStatusRegister mf h))"
  "ac_swing_step (ac_state (UpdateFromMasterStatusRegister mf h)) = ac_swing_step (ac_state h)"
  by (simp_all add: UpdateFromMasterStatusRegister_def Merge_read_state Let_def)

lemma after_status_simps [simp]:
  "ac_merged (ac_state (after_status mf h)) = ac_merged (ac_state h)"
  "ac_swing_step (ac_state (after_status mf h)) = ac_swing_step (ac_state h)"
  "\<not> ac_merged (ac_state h) \<Longrightarrow> after_status mf h = h"
  by (simp_all add: after_status_def)

lemma handle_merge:
  assumes "HandleMasterFrame mf h = (cf, h')" and "\<not> ac_swing_step (ac_state h)"
  shows "\<not> ac_swing_step (ac_state h')"
    and "ac_merged (ac_state h) \<Longrightarrow> ac_merged (ac_state h')"
    and "\<not> ac_merged (ac_state h) \<Longrightarrow> ac_merged (ac_state h') \<Longrightarrow>
      cf = Some (status_frame True (ac_state h)) \<and> ac_state h' = (ac_state h)\<lparr>ac_merged := True\<rparr>"
    and "\<not> ac_merged (ac_state h) \<Longrightarrow> \<not> ac_merged (ac_state h') \<Longrightarrow> ac_state h' = ac_state h"
proof (atomize (full), goal_cases)
  case 1
  show ?case
  proof (cases "mf_Destination mf = dest_WIRED_CONTROLLER_ADDR \<and> mf_Type mf = reg_STATUS")
    case True
    then show ?thesis
      using assms by (auto simp: handle_status SendStatusFrame_eq Let_def split: if_splits)
  next
    case False
    then have "h' = h"
      using assms by (auto simp: HandleMasterFrame_def UpdateFromMasterErrorRegister_def
          split: if_splits RegisterType.splits)
    then show ?thesis using assms by simp
  qed
qed

lemma handle_unmerged_answer:
  assumes "HandleMasterFrame mf h = (Some f, h')" and "\<not> ac_swing_step (ac_state h)"
    and "\<not> ac_merged (ac_state h')"
  shows "cf_QueryRegister f \<noteq> mf_Type mf"
proof (cases "mf_Type mf")
  case reg_STATUS
  then show ?thesis
    using assms by (auto simp: HandleMasterFrame_def SendStatusFrame_eq Let_def split: if_splits)
qed (use assms in \<open>auto simp: HandleMasterFrame_def SendLoggedInFrame_eq split: if_splits\<close>)

lemma handle_answer_ok:
  assumes "HandleMasterFrame mf h = (Some f, h')"
  shows "cf_ok f" "cf_QueryRegister f \<noteq> reg_UNKNOWN" "echo_harmless f"
  using assms echo_destination by (auto elim!: handle_answer_cases)

lemma handle_answer_dest:
  "HandleMasterFrame mf h = (Some f, h') \<Longrightarrow> mf_Destination mf = dest_WIRED_CONTROLLER_ADDR"
  by (simp add: HandleMasterFrame_def split: if_splits)

lemma handle_frame_None:
  "handle_frame mf c = (None, c') \<longleftrightarrow>
     (\<exists>h. HandleMasterFrame mf (client c) = (None, h) \<and> c' = c\<lparr>client := h\<rparr>)"
  by (auto simp: handle_frame_def Let_def split: prod.splits option.splits)

lemma handle_frame_Some:
  "handle_frame mf c = (Some f, c') \<longleftrightarrow>
     (\<exists>h. HandleMasterFrame mf (client c) = (Some f, h) \<and>
        c' = c\<lparr>client := h, ready := (ready c \<or> f = last_frame c), last_frame := f\<rparr>)"
  by (auto simp: handle_frame_def Let_def split: prod.splits option.splits)

lemma on_state_simps [simp]:
  "ctl_state (on_state g c) = g (ctl_state c)" "last_frame (on_state g c) = last_frame c"
  "ready (on_state g c) = ready c" "shutdown (on_state g c) = shutdown c"
  "error_read (client (on_state g c)) = error_read (client c)"
  "login_read (client (on_state g c)) = login_read (client c)"
  by (simp_all add: on_state_def)

text \<open>
  What an \<^verbatim>\<open>Update\<close> request means for the local settings: each of mode, fan and set point
  changes them only when it is given, and the state is un-merged exactly when one is given.
\<close>

fun requested_mode :: "proto_Mode \<Rightarrow> mode_t option" where
  "requested_mode MODE_AUTO = Some mode_AUTO"
| "requested_mode MODE_COOL = Some mode_COOL"
| "requested_mode MODE_HEAT = Some mode_HEAT"
| "requested_mode MODE_DRY = Some mode_DRY"
| "requested_mode MODE_FAN = Some mode_FAN"
| "requested_mode _ = None"

fun requested_fan :: "proto_Fan \<Rightarrow> fan_t option" where
  "requested_fan FAN_AUTO = Some fan_AUTO"
| "requested_fan FAN_MAX = Some fan_MAX"
| "requested_fan FAN_HIGH = Some fan_HIGH"
| "requested_fan FAN_MEDIUM = Some fan_MEDIUM"
| "requested_fan FAN_LOW = Some fan_LOW"
| "requested_fan _ = None"

definition is_request :: "ACUnitState \<Rightarrow> bool" where
  "is_request ns \<longleftrightarrow> pb_mode ns = MODE_OFF \<or> requested_mode (pb_mode ns) \<noteq> None \<or>
     requested_fan (pb_fan ns) \<noteq> None \<or> pb_setpoint_temperature ns \<noteq> 0"

definition requested_state :: "ACUnitState \<Rightarrow> FujiAcState \<Rightarrow> FujiAcState" where
  "requested_state ns s =
     s\<lparr>ac_enabled := (if pb_mode ns = MODE_OFF then False
                      else requested_mode (pb_mode ns) \<noteq> None \<or> ac_enabled s),
       ac_mode := (case requested_mode (pb_mode ns) of None \<Rightarrow> ac_mode s | Some m \<Rightarrow> m),
       ac_fan := (case requested_fan (pb_fan ns) of None \<Rightarrow> ac_fan s | Some f \<Rightarrow> f),
       ac_temperature := (if pb_setpoint_temperature ns = 0 then ac_temperature s
                          else ucast (pb_setpoint_temperature ns)),
       ac_merged := (ac_merged s \<and> \<not> is_request ns)\<rparr>"

lemma Update_begin_eq:
  "Update_begin ns c = (on_state (requested_state ns) c)\<lparr>ready := False\<rparr>"
proof -
  obtain m f t where ns: "ns = \<lparr>pb_mode = m, pb_fan = f, pb_setpoint_temperature = t\<rparr>"
    by (cases ns)
  show ?thesis
    unfolding ns
    by (cases m; cases f; cases "t = 0";
        simp add: Update_begin_def on_state_def requested_state_def is_request_def ac_setter_defs)
qed

lemma requested_state_simps [simp]:
  "ac_swing_step (requested_state ns s) = ac_swing_step s"
  "ac_swing (requested_state ns s) = ac_swing s" "ac_economy (requested_state ns s) = ac_economy s"
  "ac_error_flag (requested_state ns s) = ac_error_flag s"
  "ac_controller_present (requested_state ns s) = ac_controller_present s"
  "ac_merged (requested_state ns s) \<longleftrightarrow> ac_merged s \<and> \<not> is_request ns"
  by (simp_all add: requested_state_def)

lemma Update_begin_simps [simp]:
  "last_frame (Update_begin ns c) = last_frame c" "shutdown (Update_begin ns c) = shutdown c"
  "\<not> ready (Update_begin ns c)" "ctl_state (Update_begin ns c) = requested_state ns (ctl_state c)"
  "error_read (client (Update_begin ns c)) = error_read (client c)"
  "login_read (client (Update_begin ns c)) = login_read (client c)"
  using on_state_simps by (simp_all add: Update_begin_eq)

section \<open>The invariant of the system\<close>

definition pc_ok :: "RegisterType \<Rightarrow> loop_pc \<Rightarrow> bool" where
  "pc_ok q pc = (case pc of
     Handling mf \<Rightarrow> mf_ok mf \<and> (mf_Destination mf = dest_WIRED_CONTROLLER_ADDR \<longrightarrow> mf_Type mf = q)
   | _ \<Rightarrow> True)"

text \<open>
  The bus will answer what the last frame asked for, the frame in hand is such an answer, and
  a controller that reports itself ready has nothing left to write.
\<close>

definition sys_inv :: "('w \<Rightarrow> bool) \<Rightarrow> ('w \<Rightarrow> RegisterType) \<Rightarrow> 'w system \<Rightarrow> bool" where
  "sys_inv bus_ok asked s \<longleftrightarrow>
     bus_ok (sys_bus s) \<and> cf_ok (last_frame (sys_ctl s)) \<and>
     asked (sys_bus s) = cf_QueryRegister (last_frame (sys_ctl s)) \<and>
     asked (sys_bus s) \<noteq> reg_UNKNOWN \<and>
     pc_ok (asked (sys_bus s)) (sys_pc s) \<and>
     \<not> ac_swing_step (ctl_state (sys_ctl s)) \<and>
     (ready (sys_ctl s) \<longrightarrow> ac_merged (ctl_state (sys_ctl s)))"

lemma pc_ok_simps [simp]:
  "pc_ok q At_check" "pc_ok q Reading" "pc_ok q Exited"
  "pc_ok q (Handling mf) \<longleftrightarrow>
     mf_ok mf \<and> (mf_Destination mf = dest_WIRED_CONTROLLER_ADDR \<longrightarrow> mf_Type mf = q)"
  by (simp_all add: pc_ok_def)

lemma MakeFujiAcController_simps [simp]:
  "last_frame MakeFujiAcController = cf_default" "\<not> ready MakeFujiAcController"
  "\<not> shutdown MakeFujiAcController" "ctl_state MakeFujiAcController = FujiAcState_init"
  "login_read (client MakeFujiAcController)" "\<not> error_read (client MakeFujiAcController)"
  by (simp_all add: MakeFujiAcController_def Handler_init_def)

context polled_bus
begin

lemma inv_init: "bus_ok w \<Longrightarrow> asked w = reg_STATUS \<Longrightarrow> sys_inv bus_ok asked (sys_init w)"
  by (simp add: sys_inv_def sys_init_def FujiAcState_init_def)

lemma inv_handle:
  assumes inv: "sys_inv bus_ok asked s" and pc: "sys_pc s = Handling mf"
    and h: "handle_frame mf (sys_ctl s) = (cf, c)" and w: "write_answer wr cf (sys_bus s) = Inr w"
  shows "sys_inv bus_ok asked
    (s\<lparr>sys_ctl := c, sys_bus := w, sys_pc := At_check,
       sys_wire := (case cf of None \<Rightarrow> sys_wire s | Some f \<Rightarrow> f # sys_wire s)\<rparr>)"
proof (cases cf)
  case None
  with h obtain h' where h': "HandleMasterFrame mf (client (sys_ctl s)) = (None, h')"
    and c: "c = (sys_ctl s)\<lparr>client := h'\<rparr>"
    by (auto simp: handle_frame_None)
  show ?thesis
    using inv w handle_merge(1,2)[OF h'] None c
    by (auto simp: sys_inv_def write_answer_def)
next
  case (Some f)
  with h obtain h' where h': "HandleMasterFrame mf (client (sys_ctl s)) = (Some f, h')"
    and c: "c = (sys_ctl s)\<lparr>client := h', ready := (ready (sys_ctl s) \<or> f = last_frame (sys_ctl s)),
      last_frame := f\<rparr>"
    by (auto simp: handle_frame_Some)
  have step: "\<not> ac_swing_step (ctl_state (sys_ctl s))"
    and bus: "bus_ok (sys_bus s)" "wr f (sys_bus s) = Inr w"
    using inv w Some by (auto simp: sys_inv_def write_answer_def)
  have "mf_Type mf = cf_QueryRegister (last_frame (sys_ctl s))"
    using inv pc handle_answer_dest[OF h'] by (simp add: sys_inv_def)
  then have "f = last_frame (sys_ctl s) \<Longrightarrow> ac_merged (ac_state h')"
    using handle_unmerged_answer[OF h' step] by auto
  moreover have "bus_ok w" "asked w = cf_QueryRegister f"
    using wr_bus_ok wr_asked bus handle_answer_ok[OF h'] by blast+
  ultimately show ?thesis
    using inv handle_merge(1,2)[OF h' step] handle_answer_ok[OF h'] c
    by (auto simp: sys_inv_def)
qed

lemma inv_step: "sys_step rd wr env s t \<Longrightarrow> sys_inv bus_ok asked s \<Longrightarrow> sys_inv bus_ok asked t"
proof (induction rule: sys_step.induct)
  case (read_frame s mf w)
  then show ?case
    using rd_frame rd_bus_ok rd_type rd_asked by (auto simp: sys_inv_def)
next
  case (handle s mf cf c w)
  then show ?case by (intro inv_handle)
next
  case (environment s w)
  then show ?case using env_bus_ok env_asked by (auto simp: sys_inv_def)
next
  case (read_incomplete s w)
  then show ?case using rd_bus_ok rd_asked by (auto simp: sys_inv_def)
qed (auto simp: sys_inv_def Shutdown_def split: if_splits)

lemma reachable_inv:
  assumes "sys_reachable rd wr env w0 s" and "bus_ok w0" and "asked w0 = reg_STATUS"
  shows "sys_inv bus_ok asked s"
  using assms by (induction rule: sys_reachable.induct) (auto intro: inv_init inv_step)

lemma reachable_ready_merged:
  assumes "sys_reachable rd wr env w0 s" and "bus_ok w0" and "asked w0 = reg_STATUS"
    and "ready (sys_ctl s)"
  shows "ac_merged (ctl_state (sys_ctl s))"
  using reachable_inv[OF assms(1-3)] assms(4) by (simp add: sys_inv_def)

text \<open>A run that merges an un-merged state has written it.\<close>

lemma merge_step_writes:
  assumes "sys_step rd wr env s t" and "sys_inv bus_ok asked s"
    and "\<not> ac_merged (ctl_state (sys_ctl s))" and "ac_merged (ctl_state (sys_ctl t))"
  shows "sys_wire t = status_frame True (ctl_state (sys_ctl s)) # sys_wire s"
  using assms(1)
proof cases
  case (handle mf cf c w)
  have step: "\<not> ac_swing_step (ctl_state (sys_ctl s))" using assms(2) by (simp add: sys_inv_def)
  obtain h' where "HandleMasterFrame mf (client (sys_ctl s)) = (cf, h')" "client c = h'"
    using handle(3) by (cases cf) (auto simp: handle_frame_None handle_frame_Some)
  then show ?thesis
    using handle_merge(3)[OF _ step] assms(3,4) handle(1) by fastforce
next
  case (update_call i ns)
  then show ?thesis using assms(3,4) by simp
qed (use assms(3,4) in \<open>auto simp: Shutdown_def split: if_splits\<close>)

lemma wire_grows:
  "sys_step rd wr env s t \<Longrightarrow> \<exists>fs. sys_wire t = fs @ sys_wire s"
  by (induction rule: sys_step.induct) (auto split: option.splits)

lemma merge_run_writes:
  assumes "(sys_step rd wr env)\<^sup>*\<^sup>* s t" and "sys_inv bus_ok asked s"
    and "\<not> ac_merged (ctl_state (sys_ctl s))" and "ac_merged (ctl_state (sys_ctl t))"
  shows "\<exists>fs f. sys_wire t = fs @ sys_wire s \<and> f \<in> set fs \<and> cf_WriteBit f"
  using assms
proof (induction rule: converse_rtranclp_induct)
  case base
  then show ?case by simp
next
  case (step s u)
  show ?case
  proof (cases "ac_merged (ctl_state (sys_ctl u))")
    case True
    from merge_step_writes[OF step.hyps(1) step.prems(1,2) True]
    have u: "sys_wire u = status_frame True (ctl_state (sys_ctl s)) # sys_wire s" .
    from step.hyps(2) have "\<exists>fs. sys_wire t = fs @ sys_wire u"
      by (induction rule: rtranclp_induct) (use wire_grows in \<open>fastforce+\<close>)
    then obtain fs where "sys_wire t = fs @ sys_wire u" by blast
    with u show ?thesis
      by (intro exI[of _ "fs @ [status_frame True (ctl_state (sys_ctl s))]"]
          exI[of _ "status_frame True (ctl_state (sys_ctl s))"]) simp
  next
    case False
    from step.IH[OF inv_step[OF step.hyps(1) step.prems(1)] False step.prems(3)]
    obtain fs f where fs: "sys_wire t = fs @ sys_wire u" "f \<in> set fs" "cf_WriteBit f" by blast
    moreover obtain gs where "sys_wire u = gs @ sys_wire s" using wire_grows[OF step.hyps(1)] by blast
    ultimately show ?thesis by (intro exI[of _ "fs @ gs"] exI[of _ f]) simp
  qed
qed

text \<open>
  Where the bus was asked for its ERROR register, the frame in hand is for somebody else or of
  that register: no step of any thread writes a frame, or makes the controller ready.
\<close>

lemma error_step:
  assumes "sys_step rd wr env s t" and inv: "sys_inv bus_ok asked s" and err: "asked (sys_bus s) = reg_ERROR"
  shows "asked (sys_bus t) = reg_ERROR \<and> sys_wire t = sys_wire s \<and>
    (\<not> ready (sys_ctl s) \<longrightarrow> \<not> ready (sys_ctl t) \<and>
       (sys_rpc s i = In_Update ns \<longrightarrow> sys_rpc t i = In_Update ns))"
  using assms(1)
proof cases
  case (handle mf cf c w)
  have "HandleMasterFrame mf (client (sys_ctl s)) = (None, client (sys_ctl s))"
    using inv err handle(2)
    by (cases "mf_Destination mf = dest_WIRED_CONTROLLER_ADDR")
      (simp_all add: sys_inv_def handle_not_for_us handle_no_answer)
  then have "handle_frame mf (sys_ctl s) = (None, sys_ctl s)" by (simp add: handle_frame_None)
  with handle err show ?thesis by (simp add: write_answer_def)
next
  case (read_frame mf w)
  then show ?thesis using rd_asked[of "sys_bus s"] inv err by (simp add: sys_inv_def)
next
  case (read_incomplete w)
  then show ?thesis using rd_asked[of "sys_bus s"] inv err by (simp add: sys_inv_def)
next
  case (environment w)
  then show ?thesis using env_asked[of "sys_bus s"] inv err by (simp add: sys_inv_def)
qed (use err in \<open>auto simp: GetStatus_def Shutdown_def split: if_splits\<close>)

lemma error_run:
  assumes "(sys_step rd wr env)\<^sup>*\<^sup>* s t" and "sys_inv bus_ok asked s" and "asked (sys_bus s) = reg_ERROR"
  shows "sys_inv bus_ok asked t \<and> asked (sys_bus t) = reg_ERROR \<and> sys_wire t = sys_wire s \<and>
    (\<not> ready (sys_ctl s) \<longrightarrow> \<not> ready (sys_ctl t) \<and>
       (sys_rpc s i = In_Update ns \<longrightarrow> sys_rpc t i = In_Update ns))"
  using assms
proof (induction rule: rtranclp_induct)
  case base
  then show ?case by simp
next
  case (step t u)
  then have t: "sys_inv bus_ok asked t" "asked (sys_bus t) = reg_ERROR" by simp_all
  from error_step[OF step.hyps(2) t, of i ns] inv_step[OF step.hyps(2) t(1)] step.IH step.prems
  show ?case by simp
qed

end

text \<open>The frame that is compared with the next answer is the one written last.\<close>

lemma reachable_last_frame:
  "sys_reachable rd wr env w0 s \<Longrightarrow> sys_wire s \<noteq> [] \<Longrightarrow> last_frame (sys_ctl s) = hd (sys_wire s)"
proof (induction rule: sys_reachable.induct)
  case reach_init
  then show ?case by (simp add: sys_init_def)
next
  case (reach_step s t)
  from reach_step.hyps(2) show ?case
  proof cases
    case (handle mf cf c w)
    with reach_step show ?thesis
      by (cases cf) (auto simp: handle_frame_None handle_frame_Some)
  qed (use reach_step in \<open>auto simp: Shutdown_def split: if_splits\<close>)
qed

lemma sys_step_mono:
  assumes "sys_step rd wr env s t" and "\<And>w w'. env w w' \<Longrightarrow> env' w w'"
  shows "sys_step rd wr env' s t"
  using assms(1)
proof cases
  case (environment w)
  with assms(2) show ?thesis by (auto intro: sys_step.environment)
qed (auto intro: sys_step.intros)

section \<open>The end of the loop\<close>

lemma step_shutdown: "sys_step rd wr env s t \<Longrightarrow> shutdown (sys_ctl s) \<Longrightarrow> shutdown (sys_ctl t)"
proof (induction rule: sys_step.induct)
  case (handle s mf cf c w)
  then show ?case by (cases cf) (auto simp: handle_frame_None handle_frame_Some)
qed (auto simp: Shutdown_def split: if_splits)

lemma exited_shutdown:
  "sys_reachable rd wr env w0 s \<Longrightarrow> sys_pc s = Exited \<Longrightarrow> shutdown (sys_ctl s)"
proof (induction rule: sys_reachable.induct)
  case reach_init
  then show ?case by (simp add: sys_init_def)
next
  case (reach_step s t)
  show ?case
  proof (cases "sys_pc s = Exited")
    case True
    with reach_step step_shutdown show ?thesis by blast
  next
    case False
    from reach_step.hyps(2) reach_step.prems False show ?thesis
      by - (erule sys_step_cases; auto)
  qed
qed

lemma exited_step:
  assumes "sys_step rd wr env s t" and "sys_pc s = Exited"
  shows "sys_pc t = Exited \<and> sys_wire t = sys_wire s"
  using assms by - (erule sys_step_cases; auto)

text \<open>
  Once \<^verbatim>\<open>Shutdown\<close> has set the flag and the loop is at its test, or has left, nothing sets \<^verbatim>\<open>ready_\<close>
  and no frame is written any more: a call that waits then waits for ever.
\<close>

definition doomed :: "'w system \<Rightarrow> bool" where
  "doomed s \<longleftrightarrow> shutdown (sys_ctl s) \<and> \<not> ready (sys_ctl s) \<and> (sys_pc s = At_check \<or> sys_pc s = Exited)"

lemma doomed_step:
  assumes "sys_step rd wr env s t" and "doomed s"
  shows "doomed t \<and> sys_wire t = sys_wire s \<and> (sys_rpc s i \<noteq> Rpc_idle \<longrightarrow> sys_rpc t i = sys_rpc s i)"
  using assms by - (erule sys_step_cases; auto simp: doomed_def Shutdown_def GetStatus_def split: if_splits)

lemma doomed_run:
  assumes "(sys_step rd wr env)\<^sup>*\<^sup>* s t" and "doomed s"
  shows "doomed t \<and> sys_wire t = sys_wire s \<and> (sys_rpc s i \<noteq> Rpc_idle \<longrightarrow> sys_rpc t i = sys_rpc s i)"
  using assms(1)
proof (induction rule: rtranclp_induct)
  case base
  then show ?case using assms(2) by simp
next
  case (step t u)
  with doomed_step[OF step.hyps(2), of i] show ?case by auto
qed

text \<open>
  Runs of all threads, indexed by the number of steps of the loop thread (the steps that move its
  program counter), and the steps it has left once the flag is set.
\<close>

inductive loop_run ::
    "('w \<Rightarrow> (FujiMasterFrame option \<times> 'w) or_fatal) \<Rightarrow> (FujiControllerFrame \<Rightarrow> 'w \<Rightarrow> 'w or_fatal) \<Rightarrow>
       ('w \<Rightarrow> 'w \<Rightarrow> bool) \<Rightarrow> nat \<Rightarrow> 'w system \<Rightarrow> 'w system \<Rightarrow> bool"
  for rd wr env where
  loop_start: "loop_run rd wr env 0 s s"
| loop_own: "loop_run rd wr env n s t \<Longrightarrow> sys_step rd wr env t u \<Longrightarrow> sys_pc u \<noteq> sys_pc t \<Longrightarrow>
    loop_run rd wr env (Suc n) s u"
| loop_other: "loop_run rd wr env n s t \<Longrightarrow> sys_step rd wr env t u \<Longrightarrow> sys_pc u = sys_pc t \<Longrightarrow>
    loop_run rd wr env n s u"

fun loop_left :: "loop_pc \<Rightarrow> nat" where
  "loop_left At_check = 1"
| "loop_left Reading = 3"
| "loop_left (Handling mf) = 2"
| "loop_left Exited = 0"

fun answers_left :: "loop_pc \<Rightarrow> nat" where
  "answers_left At_check = 0"
| "answers_left Reading = 1"
| "answers_left (Handling mf) = 1"
| "answers_left Exited = 0"

lemma shutdown_step_left:
  assumes "sys_step rd wr env s t" and "shutdown (sys_ctl s)"
  shows "of_bool (sys_pc t \<noteq> sys_pc s) + loop_left (sys_pc t) \<le> loop_left (sys_pc s)"
    and "length (sys_wire t) + answers_left (sys_pc t) \<le> length (sys_wire s) + answers_left (sys_pc s)"
  using assms by - ((erule sys_step_cases; auto split: option.split)+)

lemma shutdown_run_left:
  assumes "loop_run rd wr env n s t" and "shutdown (sys_ctl s)"
  shows "shutdown (sys_ctl t) \<and> n + loop_left (sys_pc t) \<le> loop_left (sys_pc s) \<and>
    length (sys_wire t) + answers_left (sys_pc t) \<le> length (sys_wire s) + answers_left (sys_pc s)"
  using assms
proof (induction rule: loop_run.induct)
  case (loop_start s)
  then show ?case by simp
next
  case (loop_own n s t u)
  then have t: "shutdown (sys_ctl t)" by simp
  from shutdown_step_left[OF loop_own.hyps(2) t] step_shutdown[OF loop_own.hyps(2) t] loop_own show ?case by simp
next
  case (loop_other n s t u)
  then have t: "shutdown (sys_ctl t)" by simp
  from shutdown_step_left[OF loop_other.hyps(2) t] step_shutdown[OF loop_other.hyps(2) t] loop_other show ?case by simp
qed

text \<open>On a device that does not fail the loop thread can always take its next step.\<close>

definition device_works ::
    "('w \<Rightarrow> (FujiMasterFrame option \<times> 'w) or_fatal) \<Rightarrow> (FujiControllerFrame \<Rightarrow> 'w \<Rightarrow> 'w or_fatal) \<Rightarrow> bool" where
  "device_works rd wr \<longleftrightarrow> (\<forall>w. \<exists>x w'. rd w = Inr (x, w')) \<and> (\<forall>f w. \<exists>w'. wr f w = Inr w')"

lemma loop_progress:
  assumes "device_works rd wr" and "sys_pc s \<noteq> Exited"
  shows "\<exists>t. sys_step rd wr env s t \<and> sys_pc t \<noteq> sys_pc s"
proof (cases "sys_pc s")
  case At_check
  then show ?thesis
    using sys_step.check_continue[OF At_check] sys_step.check_exit[OF At_check]
    by (cases "shutdown (sys_ctl s)") force+
next
  case Reading
  obtain x w where r: "rd (sys_bus s) = Inr (x, w)" using assms(1) unfolding device_works_def by blast
  then show ?thesis
    using sys_step.read_incomplete[OF Reading, where rd = rd] sys_step.read_frame[OF Reading, where rd = rd] r Reading
    by (cases x) force+
next
  case (Handling mf)
  obtain cf c where h: "handle_frame mf (sys_ctl s) = (cf, c)" by fastforce
  have "\<exists>w. write_answer wr cf (sys_bus s) = Inr w"
    using assms(1) by (cases cf) (auto simp: write_answer_def device_works_def)
  then obtain w where "write_answer wr cf (sys_bus s) = Inr w" ..
  from sys_step.handle[where env = env, OF Handling h this] Handling show ?thesis by force
qed (use assms(2) in simp)

lemma loop_run_exits:
  assumes "device_works rd wr" and "shutdown (sys_ctl s)"
  shows "\<exists>n t. loop_run rd wr env n s t \<and> sys_pc t = Exited"
proof -
  have "\<exists>m t. loop_run rd wr env m s t \<and> sys_pc t = Exited" if "loop_run rd wr env n s r" for n r
    using that
  proof (induction "loop_left (sys_pc r)" arbitrary: n r rule: less_induct)
    case less
    show ?case
    proof (cases "sys_pc r = Exited")
      case False
      from loop_progress[OF assms(1) this] obtain t where t: "sys_step rd wr env r t" "sys_pc t \<noteq> sys_pc r" by blast
      have "shutdown (sys_ctl r)" using shutdown_run_left[OF less.prems assms(2)] by simp
      from shutdown_step_left(1)[OF t(1) this] t(2) have "loop_left (sys_pc t) < loop_left (sys_pc r)" by simp
      from less.hyps[OF this loop_own[OF less.prems t]] show ?thesis .
    qed (use less.prems in blast)
  qed
  from this[OF loop_start] show ?thesis .
qed

section \<open>Who asks for a write\<close>

text \<open>Runs indexed by the \<^verbatim>\<open>Update\<close> calls made in them that set something.\<close>

definition starts_request :: "'w system \<Rightarrow> 'w system \<Rightarrow> bool" where
  "starts_request s t \<longleftrightarrow> (\<exists>i ns. sys_rpc s i = Rpc_idle \<and> sys_rpc t i = In_Update ns \<and> is_request ns)"

inductive request_run ::
    "('w \<Rightarrow> (FujiMasterFrame option \<times> 'w) or_fatal) \<Rightarrow> (FujiControllerFrame \<Rightarrow> 'w \<Rightarrow> 'w or_fatal) \<Rightarrow>
       ('w \<Rightarrow> 'w \<Rightarrow> bool) \<Rightarrow> nat \<Rightarrow> 'w system \<Rightarrow> 'w system \<Rightarrow> bool"
  for rd wr env where
  request_start: "request_run rd wr env 0 s s"
| request_call: "request_run rd wr env n s t \<Longrightarrow> sys_step rd wr env t u \<Longrightarrow> starts_request t u \<Longrightarrow>
    request_run rd wr env (Suc n) s u"
| request_other: "request_run rd wr env n s t \<Longrightarrow> sys_step rd wr env t u \<Longrightarrow> \<not> starts_request t u \<Longrightarrow>
    request_run rd wr env n s u"

abbreviation unwritten :: "'w system \<Rightarrow> nat" where
  "unwritten s \<equiv> of_bool (\<not> ac_merged (ctl_state (sys_ctl s)))"

abbreviation write_frames :: "FujiControllerFrame list \<Rightarrow> nat" where
  "write_frames fs \<equiv> length (filter cf_WriteBit fs)"

lemma handle_write:
  assumes "HandleMasterFrame mf h = (Some f, h')" and "\<not> ac_swing_step (ac_state h)" and "cf_WriteBit f"
  shows "\<not> ac_merged (ac_state h)" and "ac_merged (ac_state h')"
proof -
  have "mf_Type mf = reg_STATUS"
    using assms(1,3) by (cases "mf_Type mf")
      (auto simp: HandleMasterFrame_def SendLoggedInFrame_eq UpdateFromMasterErrorRegister_def split: if_splits)
  moreover have "mf_Destination mf = dest_WIRED_CONTROLLER_ADDR" using handle_answer_dest[OF assms(1)] .
  ultimately show "\<not> ac_merged (ac_state h)" and "ac_merged (ac_state h')"
    using assms by (auto simp: handle_status SendStatusFrame_eq Let_def split: if_splits)
qed

context polled_bus
begin

lemma write_step:
  assumes "sys_step rd wr env s t" and "sys_inv bus_ok asked s"
  shows "\<exists>fs. sys_wire t = fs @ sys_wire s \<and>
    write_frames fs + unwritten t \<le> of_bool (starts_request s t) + unwritten s"
  using assms(1)
proof cases
  case (handle mf cf c w)
  have step: "\<not> ac_swing_step (ctl_state (sys_ctl s))" using assms(2) by (simp add: sys_inv_def)
  show ?thesis
  proof (cases cf)
    case None
    with handle have "HandleMasterFrame mf (client (sys_ctl s)) = (None, client c)" by (auto simp: handle_frame_None)
    from handle_merge(2)[OF this step] show ?thesis using handle(1) None by auto
  next
    case (Some f)
    with handle have h: "HandleMasterFrame mf (client (sys_ctl s)) = (Some f, client c)" by (auto simp: handle_frame_Some)
    show ?thesis
      using handle(1) Some handle_merge(2)[OF h step] handle_write[OF h step] by (cases "cf_WriteBit f") auto
  qed
next
  case (update_call i ns)
  have "starts_request s t" if "is_request ns"
    using that update_call unfolding starts_request_def by (intro exI[of _ i] exI[of _ ns]) simp
  with update_call(1) show ?thesis by (cases "is_request ns") auto
qed (auto simp: Shutdown_def split: if_splits)

lemma write_run:
  assumes "request_run rd wr env n s t" and "sys_inv bus_ok asked s"
  shows "sys_inv bus_ok asked t \<and>
    (\<exists>fs. sys_wire t = fs @ sys_wire s \<and> write_frames fs + unwritten t \<le> n + unwritten s)"
  using assms
proof (induction rule: request_run.induct)
  case (request_start s)
  then show ?case by simp
next
  case (request_call n s t u)
  then obtain fs where fs: "sys_inv bus_ok asked t" "sys_wire t = fs @ sys_wire s"
    "write_frames fs + unwritten t \<le> n + unwritten s" by blast
  obtain gs where gs: "sys_wire u = gs @ sys_wire t" "write_frames gs + unwritten u \<le> 1 + unwritten t"
    using write_step[OF request_call.hyps(2) fs(1)] request_call.hyps(3) by auto
  show ?case
    using inv_step[OF request_call.hyps(2) fs(1)] fs gs by (intro conjI exI[of _ "gs @ fs"]) simp_all
next
  case (request_other n s t u)
  then obtain fs where fs: "sys_inv bus_ok asked t" "sys_wire t = fs @ sys_wire s"
    "write_frames fs + unwritten t \<le> n + unwritten s" by blast
  obtain gs where gs: "sys_wire u = gs @ sys_wire t" "write_frames gs + unwritten u \<le> unwritten t"
    using write_step[OF request_other.hyps(2) fs(1)] request_other.hyps(3) by auto
  show ?case
    using inv_step[OF request_other.hyps(2) fs(1)] fs gs by (intro conjI exI[of _ "gs @ fs"]) simp_all
qed

end

lemma request_run_exists: "(sys_step rd wr env)\<^sup>*\<^sup>* s t \<Longrightarrow> \<exists>n. request_run rd wr env n s t"
  by (induction rule: rtranclp_induct) (blast intro: request_run.intros)+

section \<open>Properties\<close>

text \<open>
  C36. The loop ends by \<^verbatim>\<open>Shutdown\<close>, over any serial interface: in every reachable state of all
  threads the loop thread has left its loop only if the flag is set, also when reads were
  incomplete; and from a state with the flag set, wherever in its iteration the thread is and
  whatever the other threads do, it takes at most three more steps and writes at most one more
  frame, and it can go on to its end, unless the device fails. (So \<^verbatim>\<open>Shutdown\<close>'s join returns.)
\<close>

theorem shutdown_ends_loop:
  assumes "sys_reachable rd wr env w0 s"
  shows "(sys_pc s = Exited \<longrightarrow> shutdown (sys_ctl s)) \<and>
    (shutdown (sys_ctl s) \<longrightarrow>
      (loop_run rd wr env n s t \<longrightarrow> n \<le> 3 \<and> length (sys_wire t) \<le> Suc (length (sys_wire s))) \<and>
      (device_works rd wr \<longrightarrow> (\<exists>m u. loop_run rd wr env m s u \<and> sys_pc u = Exited)))"
proof -
  have "loop_left (sys_pc s) \<le> 3" "answers_left (sys_pc s) \<le> 1" by (cases "sys_pc s"; simp)+
  then show ?thesis
    using exited_shutdown[OF assms] shutdown_run_left[of rd wr env n s t] loop_run_exits[of rd wr s env] by auto
qed

theorem shutdown_ends_loop_witness:
  "\<exists>s n t. sys_reachable sim_ReadMasterFrame sim_WriteControllerFrame sim_env FujiAcUnitSim_init s \<and>
    sys_pc s = Reading \<and> loop_run sim_ReadMasterFrame sim_WriteControllerFrame sim_env n s t \<and>
    sys_pc t = Exited \<and> n \<le> 3 \<and> length (sys_wire t) \<le> 1"
proof -
  let ?i = "sys_init FujiAcUnitSim_init" let ?r = "?i\<lparr>sys_pc := Reading\<rparr>"
  let ?s = "?r\<lparr>sys_ctl := (sys_ctl ?r)\<lparr>shutdown := True\<rparr>\<rparr>"
  have "sys_step sim_ReadMasterFrame sim_WriteControllerFrame sim_env ?i ?r"
    by (rule sys_step.check_continue) (simp_all add: sys_init_def)
  moreover have "sys_step sim_ReadMasterFrame sim_WriteControllerFrame sim_env ?r ?s"
    by (rule sys_step.shutdown_call) (simp add: Shutdown_def sys_init_def)
  ultimately have s: "sys_reachable sim_ReadMasterFrame sim_WriteControllerFrame sim_env FujiAcUnitSim_init ?s"
    by (blast intro: sys_reachable.intros)
  have w: "device_works sim_ReadMasterFrame sim_WriteControllerFrame"
    by (auto simp: device_works_def sim_ReadMasterFrame_def sim_WriteControllerFrame_def split: prod.split)
  have "shutdown (sys_ctl ?s)" by simp
  with shutdown_ends_loop[OF s] w obtain n t
    where t: "loop_run sim_ReadMasterFrame sim_WriteControllerFrame sim_env n ?s t" "sys_pc t = Exited" by blast
  from shutdown_ends_loop[OF s, of n t] t s show ?thesis
    by (intro exI[of _ ?s] exI[of _ n] exI[of _ t]) (simp add: sys_init_def)
qed

end
