(* ===== verification/Closed_Loop.thy ===== *)
theory Closed_Loop
  imports Controller_System
begin

text \<open>
  The controller connected to the simulated unit, as \<^verbatim>\<open>FujiACControllerSimServiceImpl\<close> and the
  integration test connect them. The loop settles: after at most five iterations without
  outside events the controller is ready, it shows the unit's settings, and what an \<^verbatim>\<open>Update\<close>
  asked for is what the unit has. The measure \<open>rank\<close> counts the iterations that are left.
\<close>

section \<open>Iterating the loop\<close>

fun loop_iters ::
    "('w \<Rightarrow> (FujiMasterFrame option \<times> 'w) or_fatal) \<Rightarrow> (FujiControllerFrame \<Rightarrow> 'w \<Rightarrow> 'w or_fatal) \<Rightarrow>
       nat \<Rightarrow> FujiAcController \<times> 'w \<Rightarrow> (FujiAcController \<times> 'w) or_fatal" where
  "loop_iters rd wr 0 s = Inr s"
| "loop_iters rd wr (Suc n) s =
     (case loop_body rd wr s of Inl e \<Rightarrow> Inl e | Inr s \<Rightarrow> loop_iters rd wr n s)"

text \<open>One iteration against the simulator, which never fails.\<close>

definition sim_step :: "FujiAcController \<times> FujiAcUnitSim \<Rightarrow> FujiAcController \<times> FujiAcUnitSim" where
  "sim_step s =
     (let (mf, u) = GetNextMasterFrame (snd s); (cf, c) = handle_frame mf (fst s)
      in (c, case cf of None \<Rightarrow> u | Some f \<Rightarrow> PushControllerFrame f u))"

lemma loop_body_sim: "loop_body sim_ReadMasterFrame sim_WriteControllerFrame s = Inr (sim_step s)"
  by (auto simp: loop_body_def sim_step_def sim_ReadMasterFrame_def sim_WriteControllerFrame_def
      write_answer_def Let_def split: prod.splits option.splits sum.splits)

lemma loop_iters_sim:
  "loop_iters sim_ReadMasterFrame sim_WriteControllerFrame n s = Inr ((sim_step ^^ n) s)"
  by (induction n arbitrary: s) (simp_all add: loop_body_sim funpow_swap1)

section \<open>The invariant of the closed loop\<close>

definition closed_inv :: "FujiAcController \<Rightarrow> FujiAcUnitSim \<Rightarrow> bool" where
  "closed_inv c u \<longleftrightarrow>
     sim_ok u \<and> cf_ok (last_frame c) \<and>
     next_query_register u = cf_QueryRegister (last_frame c) \<and>
     (next_query_register u = reg_STATUS \<or>
      next_query_register u = reg_LOGIN \<and> \<not> login_read (client c)) \<and>
     \<not> ac_swing_step (ctl_state c) \<and> \<not> error_read (client c) \<and>
     \<not> ac_error_flag (ctl_state c) \<and> \<not> v_error (unit_view u) \<and>
     (ready c \<longrightarrow> ac_merged (ctl_state c))"

text \<open>The frame in the loop's hand: it may be older than the unit's present settings.\<close>

definition frame_fits :: "FujiAcUnitSim \<Rightarrow> FujiMasterFrame \<Rightarrow> bool" where
  "frame_fits u mf \<longleftrightarrow> mf_ok mf \<and> mf_Destination mf = dest_WIRED_CONTROLLER_ADDR \<and>
     mf_Type mf = next_query_register u \<and>
     (mf_Type mf = reg_STATUS \<longrightarrow> \<not> v_error (status_at 0 (mf_Payload mf)))"

text \<open>The settings of a unit as a merged controller state.\<close>

definition unit_state :: "unit_status \<Rightarrow> FujiAcState" where
  "unit_state v = read_state v FujiAcState_init"

lemma read_unit_state: "\<not> ac_swing_step s \<Longrightarrow> read_state v s = unit_state v"
  by (cases s) (simp add: unit_state_def read_state_def FujiAcState_init_def)

lemma unit_state_simps [simp]:
  "ac_merged (unit_state v)" "\<not> ac_swing_step (unit_state v)" "ac_error_flag (unit_state v) = v_error v"
  "ac_mode (unit_state v) = v_mode v" "ac_enabled (unit_state v) = v_enabled v"
  "ac_fan (unit_state v) = v_fan v" "ac_temperature (unit_state v) = v_temperature v"
  "ac_economy (unit_state v) = v_economy v" "ac_swing (unit_state v) = v_swing v"
  "unit_state (v\<lparr>v_magic := m\<rparr>) = unit_state v"
  "unit_state (v\<lparr>v_swing_step := b\<rparr>) = unit_state v"
  by (simp_all add: unit_state_def FujiAcState_init_def)

lemma unit_state_merged [simp]: "(unit_state v)\<lparr>ac_merged := True\<rparr> = unit_state v"
  by (simp add: unit_state_def read_state_def)

text \<open>What the handler answers in the closed loop.\<close>

definition next_state_of :: "unit_status \<Rightarrow> FujiAcState \<Rightarrow> FujiAcState" where
  "next_state_of v s = (if ac_merged s then unit_state v else s)"

lemma handle_closed_login:
  assumes "closed_inv c u" and "frame_fits u mf" and "mf_Type mf = reg_LOGIN"
  shows "handle_frame mf c =
    (Some (logged_in_frame (ctl_state c)), c\<lparr>last_frame := logged_in_frame (ctl_state c)\<rparr>)"
proof -
  have "cf_QueryRegister (last_frame c) = reg_LOGIN"
    using assms by (simp add: closed_inv_def frame_fits_def)
  then have "cf_QueryRegister (logged_in_frame (ctl_state c)) \<noteq> cf_QueryRegister (last_frame c)"
    by simp
  then have "logged_in_frame (ctl_state c) \<noteq> last_frame c" by metis
  then show ?thesis
    using assms handle_login[of mf "client c"]
    by (simp add: handle_frame_def frame_fits_def)
qed

lemma handle_closed_status:
  assumes inv: "closed_inv c u" and fits: "frame_fits u mf" and type: "mf_Type mf = reg_STATUS"
  defines "s \<equiv> ctl_state c" and "v \<equiv> status_at 0 (mf_Payload mf)"
  shows "handle_frame mf c =
    (let s' = next_state_of v s; F = status_frame (\<not> ac_merged s) s' in
     if login_read (client c) \<or> ac_merged s \<and> \<not> v_present v
     then (Some SendLoginFrame,
       c\<lparr>client := (client c)\<lparr>ac_state := s', login_read := False\<rparr>, last_frame := SendLoginFrame\<rparr>)
     else (Some F,
       c\<lparr>client := (client c)\<lparr>ac_state := s'\<lparr>ac_merged := True\<rparr>\<rparr>,
         ready := (ready c \<or> F = last_frame c), last_frame := F\<rparr>))"
proof -
  have ok: "mf_ok mf" and dest: "mf_Destination mf = dest_WIRED_CONTROLLER_ADDR"
    and err: "\<not> v_error v" and q: "cf_QueryRegister (last_frame c) = reg_STATUS"
    using inv fits type by (auto simp: frame_fits_def closed_inv_def v_def)
  have st: "\<not> ac_swing_step s" "\<not> error_read (client c)" "\<not> ac_error_flag s"
    using inv by (simp_all add: closed_inv_def s_def)
  have "cf_QueryRegister SendLoginFrame \<noteq> cf_QueryRegister (last_frame c)"
    using q by simp
  then have neq: "SendLoginFrame \<noteq> last_frame c" by metis
  have step: "\<not> ac_swing_step (next_state_of v s)"
    using st by (simp add: next_state_of_def)
  have h: "after_status mf (client c) =
    (client c)\<lparr>ac_state := next_state_of v s,
       login_read := (login_read (client c) \<or> ac_merged s \<and> \<not> v_present v)\<rparr>"
    using st err read_unit_state[OF st(1)]
    by (cases "ac_merged s")
      (simp_all add: after_status_def UpdateFromMaster_eq[OF ok] next_state_of_def s_def v_def Let_def)
  have m: "ac_merged (next_state_of v s) \<longleftrightarrow> ac_merged s"
    by (simp add: next_state_of_def)
  have same: "(next_state_of v s)\<lparr>ac_merged := True\<rparr> = next_state_of v s" if "ac_merged s"
    using that m by simp
  have drop: "s'\<lparr>ac_swing_step := False, ac_merged := b\<rparr> = s'\<lparr>ac_merged := b\<rparr>"
    if "\<not> ac_swing_step s'" for s' b
    using that by simp
  show ?thesis
    using neq st step m
    by (cases "ac_merged s")
      (simp_all add: handle_frame_def handle_status[OF dest type] h SendStatusFrame_eq same drop Let_def)
qed

lemma closed_inv_handle:
  assumes inv: "closed_inv c u" and fits: "frame_fits u mf"
    and h: "handle_frame mf c = (cf, c')"
  shows "\<exists>f. cf = Some f \<and> closed_inv c' (PushControllerFrame f u)"
proof (cases "mf_Type mf")
  case reg_LOGIN
  show ?thesis
    using inv h handle_closed_login[OF inv fits reg_LOGIN]
    by (auto simp: closed_inv_def push_state push_view Let_def)
next
  case reg_STATUS
  have e: "\<not> v_error (status_at 0 (mf_Payload mf))" using fits reg_STATUS by (simp add: frame_fits_def)
  show ?thesis
    using inv h handle_closed_status[OF inv fits reg_STATUS] e
    by (auto simp: closed_inv_def push_state push_view Let_def next_state_of_def unit_accept_def
        split: if_splits)
qed (use inv fits in \<open>auto simp: closed_inv_def frame_fits_def\<close>)

lemma closed_inv_init: "closed_inv MakeFujiAcController FujiAcUnitSim_init"
  by (simp add: closed_inv_def FujiAcState_init_def)
    (simp add: FujiAcUnitSim_init_def unit_view_def status_at_def getters_get get_field_def
      status_layout fld_byte drop_bit_eq_div)

lemma poll_fits:
  assumes "closed_inv c u"
  shows "closed_inv c (snd (GetNextMasterFrame u))"
    and "frame_fits (snd (GetNextMasterFrame u)) (fst (GetNextMasterFrame u))"
proof -
  have ok: "sim_ok u" using assms by (simp add: closed_inv_def)
  have q: "next_query_register u = reg_STATUS \<or> next_query_register u = reg_LOGIN"
    using assms by (auto simp: closed_inv_def)
  show "closed_inv c (snd (GetNextMasterFrame u))"
    using assms by (auto simp: closed_inv_def next_state[OF ok] next_view[OF ok])
  show "frame_fits (snd (GetNextMasterFrame u)) (fst (GetNextMasterFrame u))"
    using assms q next_payload[OF ok]
    by (auto simp: frame_fits_def closed_inv_def next_state[OF ok] next_frame[OF ok])
qed

lemma closed_inv_update: "closed_inv c u \<Longrightarrow> closed_inv (Update_begin ns c) u"
  by (auto simp: closed_inv_def)

lemma v_error_remote: "v_error (unit_view u) = v_error (unit_view (sim_remote k u))" if "sim_ok u"
  using remote_view[OF that, of k] by (cases k) (simp_all add: spec_run_def)

lemma closed_inv_remote: "closed_inv c u \<Longrightarrow> closed_inv c (sim_remote k u)"
  using v_error_remote[of u k] by (auto simp: closed_inv_def)

lemma frame_fits_remote: "frame_fits u mf \<Longrightarrow> frame_fits (sim_remote k u) mf"
  by (simp add: frame_fits_def)

text \<open>
  Every reachable state of the concurrent system, with the remote acting on the unit and any
  number of RPC threads, satisfies the invariant, and a frame in hand fits it.
\<close>

fun hand_fits :: "FujiAcUnitSim \<Rightarrow> loop_pc \<Rightarrow> bool" where
  "hand_fits u (Handling mf) = frame_fits u mf"
| "hand_fits u _ = True"

lemma hand_fits_remote: "hand_fits u pc \<Longrightarrow> hand_fits (sim_remote k u) pc"
  by (cases pc) (simp_all add: frame_fits_remote)

lemma closed_inv_shutdown: "closed_inv c u \<Longrightarrow> closed_inv (c\<lparr>shutdown := b\<rparr>) u"
  by (auto simp: closed_inv_def)

lemma closed_inv_step:
  assumes "sys_step sim_ReadMasterFrame sim_WriteControllerFrame sim_env s t"
    and "closed_inv (sys_ctl s) (sys_bus s)" and "hand_fits (sys_bus s) (sys_pc s)"
  shows "closed_inv (sys_ctl t) (sys_bus t) \<and> hand_fits (sys_bus t) (sys_pc t)"
  using assms
proof (induction rule: sys_step.induct)
  case (read_frame s mf w)
  then show ?case
    using poll_fits[of "sys_ctl s" "sys_bus s"]
    by (auto simp: sim_ReadMasterFrame_def split: prod.splits)
next
  case (handle s mf cf c w)
  then have fits: "frame_fits (sys_bus s) mf" by simp
  from closed_inv_handle[OF handle.prems(1) fits handle.hyps(2)] handle.hyps(3)
  show ?case
    by (auto simp: write_answer_def sim_WriteControllerFrame_def)
next
  case (environment s w)
  then show ?case
    using closed_inv_remote hand_fits_remote by (auto simp: sim_env_def)
next
  case (shutdown_call s c)
  then show ?case by (auto simp: Shutdown_def closed_inv_shutdown split: if_splits)
qed (auto simp: sim_ReadMasterFrame_def closed_inv_update split: prod.splits)

lemma reachable_closed_inv:
  assumes "sys_reachable sim_ReadMasterFrame sim_WriteControllerFrame sim_env FujiAcUnitSim_init s"
  shows "closed_inv (sys_ctl s) (sys_bus s) \<and> hand_fits (sys_bus s) (sys_pc s)"
  using assms
proof (induction rule: sys_reachable.induct)
  case reach_init
  then show ?case using closed_inv_init by (simp add: sys_init_def)
next
  case (reach_step s t)
  then show ?case using closed_inv_step by blast
qed

lemma closed_inv_sim_step:
  assumes "closed_inv c u" and "sim_step (c, u) = (c', u')"
  shows "closed_inv c' u'"
proof -
  obtain mf u1 where n: "GetNextMasterFrame u = (mf, u1)" by fastforce
  obtain cf c1 where h: "handle_frame mf c = (cf, c1)" by fastforce
  from poll_fits[OF assms(1)] n have "closed_inv c u1" "frame_fits u1 mf" by simp_all
  from closed_inv_handle[OF this h] assms(2) n h show ?thesis
    by (auto simp: sim_step_def)
qed

section \<open>One undisturbed iteration\<close>

lemma sim_step_login:
  assumes inv: "closed_inv c u" and q: "next_query_register u = reg_LOGIN"
  defines "LF \<equiv> logged_in_frame (ctl_state c)"
  shows "sim_step (c, u) = (c\<lparr>last_frame := LF\<rparr>, PushControllerFrame LF (snd (GetNextMasterFrame u)))"
proof -
  let ?n = "GetNextMasterFrame u"
  have ok: "sim_ok u" using inv by (simp add: closed_inv_def)
  have t: "mf_Type (fst ?n) = reg_LOGIN" using next_frame(3)[OF ok] q by simp
  show ?thesis
    using handle_closed_login[OF poll_fits(1)[OF inv] poll_fits(2)[OF inv] t]
    by (simp add: sim_step_def LF_def split_beta)
qed

lemma sim_step_status:
  assumes inv: "closed_inv c u" and q: "next_query_register u = reg_STATUS"
  defines "s \<equiv> ctl_state c" and "v \<equiv> unit_view u" and "u1 \<equiv> snd (GetNextMasterFrame u)"
  shows "sim_step (c, u) =
    (let s' = next_state_of v s; F = status_frame (\<not> ac_merged s) s' in
     if login_read (client c) \<or> ac_merged s \<and> \<not> v_present v
     then (c\<lparr>client := (client c)\<lparr>ac_state := s', login_read := False\<rparr>, last_frame := SendLoginFrame\<rparr>,
           PushControllerFrame SendLoginFrame u1)
     else (c\<lparr>client := (client c)\<lparr>ac_state := s'\<lparr>ac_merged := True\<rparr>\<rparr>,
             ready := (ready c \<or> F = last_frame c), last_frame := F\<rparr>,
           PushControllerFrame F u1))"
proof -
  let ?n = "GetNextMasterFrame u"
  have ok: "sim_ok u" using inv by (simp add: closed_inv_def)
  have t: "mf_Type (fst ?n) = reg_STATUS" using next_frame(3)[OF ok] q by simp
  have p: "status_at 0 (mf_Payload (fst ?n)) = v\<lparr>v_swing_step := False\<rparr>"
    using next_payload[OF ok] q by (simp add: v_def)
  have n: "next_state_of (v\<lparr>v_swing_step := False\<rparr>) s = next_state_of v s"
    by (simp add: next_state_of_def)
  show ?thesis
    using handle_closed_status[OF poll_fits(1)[OF inv] poll_fits(2)[OF inv] t]
    unfolding p n s_def[symmetric]
    by (simp add: sim_step_def u1_def split_beta Let_def)
qed

section \<open>The loop settles\<close>

text \<open>
  The iterations left until the controller is ready and shows the unit's settings: a LOGIN
  exchange where one is due, one write where the local state is un-merged, and two equal
  status frames.
\<close>

definition settled :: "FujiAcController \<Rightarrow> FujiAcUnitSim \<Rightarrow> bool" where
  "settled c u \<longleftrightarrow> ready c \<and> ctl_state c = unit_state (unit_view u)\<lparr>ac_controller_present := ac_controller_present (ctl_state c)\<rparr>"

definition rank :: "FujiAcController \<Rightarrow> FujiAcUnitSim \<Rightarrow> nat" where
  "rank c u =
     (let m = ac_merged (ctl_state c); present = v_present (unit_view u) in
      if next_query_register u = reg_LOGIN then (if m then 3 else 4)
      else if login_read (client c) then (if m then 4 else 5)
      else if \<not> m then (if present then 3 else 5)
      else if \<not> present then 4
      else if last_frame c \<noteq> status_frame False (unit_state (unit_view u)) then 2
      else if settled c u then 0 else 1)"

lemma rank_bound: "rank c u \<le> 5"
  by (simp add: rank_def Let_def)

lemma rank_0: "rank c u = 0 \<Longrightarrow> settled c u"
  by (simp add: rank_def Let_def split: if_splits)

lemma push_after_poll:
  assumes "sim_ok u" and "cf_ok f"
  shows "unit_view (PushControllerFrame f (snd (GetNextMasterFrame u))) =
    (let v = (unit_view u)\<lparr>v_magic := 10,
         v_swing_step := (v_swing_step (unit_view u) \<and>
           (next_query_register u = reg_ERROR \<or> next_query_register u = reg_LOGIN)),
         v_present := (v_present (unit_view u) \<or> cf_LoginBit f)\<rparr>
     in if cf_QueryRegister f = reg_STATUS \<and> cf_WriteBit f
        then unit_accept (status_at 0 (cf_Payload f)) v else v)"
  using assms by (simp add: push_view next_state next_view Let_def)

lemma status_frame_differs:
  "status_frame True s \<noteq> status_frame False s'" "logged_in_frame s \<noteq> status_frame w s'"
  by (metis sent_frames_simps(5), metis sent_frames_simps(9,10))

lemma unit_state_present [simp]:
  "unit_state (v\<lparr>v_present := b\<rparr>) = (unit_state v)\<lparr>ac_controller_present := b\<rparr>"
  by (simp add: unit_state_def read_state_def)

lemma push_state_query:
  "sim_ok u \<Longrightarrow> cf_QueryRegister f \<noteq> reg_UNKNOWN \<Longrightarrow>
     next_query_register (PushControllerFrame f (snd (GetNextMasterFrame u))) = cf_QueryRegister f"
  by (simp add: push_state next_state)

text \<open>The four kinds of iteration, each with what it leaves for the next one.\<close>

lemma rank_login:
  assumes inv: "closed_inv c u" and q: "next_query_register u = reg_LOGIN"
    and s: "sim_step (c, u) = (c', u')"
  shows "rank c' u' < rank c u"
proof -
  have ok: "sim_ok u" and l: "\<not> login_read (client c)" using inv q by (auto simp: closed_inv_def)
  show ?thesis
    using s sim_step_login[OF inv q] l q
    by (auto simp: rank_def Let_def push_state_query ok push_after_poll status_frame_differs)
qed

lemma rank_status_login:
  assumes inv: "closed_inv c u" and q: "next_query_register u = reg_STATUS"
    and l: "login_read (client c) \<or> ac_merged (ctl_state c) \<and> \<not> v_present (unit_view u)"
    and s: "sim_step (c, u) = (c', u')"
  shows "rank c' u' < rank c u"
proof -
  have ok: "sim_ok u" using inv by (simp add: closed_inv_def)
  show ?thesis
    using s sim_step_status[OF inv q] l q
    by (auto simp: rank_def Let_def push_state_query ok next_state_of_def)
qed

lemma rank_write:
  assumes inv: "closed_inv c u" and q: "next_query_register u = reg_STATUS"
    and l: "\<not> login_read (client c)" and m: "\<not> ac_merged (ctl_state c)"
    and s: "sim_step (c, u) = (c', u')"
  shows "rank c' u' < rank c u"
proof -
  have ok: "sim_ok u" using inv by (simp add: closed_inv_def)
  show ?thesis
    using s sim_step_status[OF inv q] l m q status_frame_differs(1)
    by (auto simp: rank_def Let_def push_state_query ok next_state_of_def push_after_poll unit_accept_def)
qed

lemma rank_show:
  assumes inv: "closed_inv c u" and q: "next_query_register u = reg_STATUS"
    and l: "\<not> login_read (client c)" and m: "ac_merged (ctl_state c)" and p: "v_present (unit_view u)"
    and s: "sim_step (c, u) = (c', u')"
  shows "rank c' u' \<le> rank c u - 1"
proof -
  let ?v = "unit_view u" let ?F = "status_frame False (unit_state ?v)"
  have ok: "sim_ok u" using inv by (simp add: closed_inv_def)
  have c': "c' = c\<lparr>client := (client c)\<lparr>ac_state := unit_state ?v\<rparr>,
      ready := (ready c \<or> ?F = last_frame c), last_frame := ?F\<rparr>"
    and u': "u' = PushControllerFrame ?F (snd (GetNextMasterFrame u))"
    using s sim_step_status[OF inv q] l m p by (simp_all add: next_state_of_def Let_def)
  have v': "unit_view u' = ?v\<lparr>v_magic := 10, v_swing_step := False\<rparr>"
    using push_after_poll[OF ok, of ?F] q p by (simp add: u' Let_def)
  show ?thesis
    using l m p q push_state_query[OF ok, of ?F]
    by (auto simp: rank_def Let_def settled_def v' c') (simp_all add: u')
qed

lemma rank_step:
  assumes "closed_inv c u" and "sim_step (c, u) = (c', u')"
  shows "rank c' u' \<le> rank c u - 1"
proof -
  consider "next_query_register u = reg_LOGIN"
    | "next_query_register u = reg_STATUS"
      "login_read (client c) \<or> ac_merged (ctl_state c) \<and> \<not> v_present (unit_view u)"
    | "next_query_register u = reg_STATUS" "\<not> login_read (client c)" "\<not> ac_merged (ctl_state c)"
    | "next_query_register u = reg_STATUS" "\<not> login_read (client c)" "ac_merged (ctl_state c)"
      "v_present (unit_view u)"
    using assms(1) unfolding closed_inv_def by blast
  then show ?thesis
  proof cases
    case 1
    from rank_login[OF assms(1) 1 assms(2)] show ?thesis by simp
  next
    case 2
    from rank_status_login[OF assms(1) 2 assms(2)] show ?thesis by simp
  next
    case 3
    from rank_write[OF assms(1) 3 assms(2)] show ?thesis by simp
  next
    case 4
    from rank_show[OF assms(1) 4 assms(2)] show ?thesis .
  qed
qed

section \<open>What the unit ends up with\<close>

text \<open>
  The settings of a unit: all of the register except the swing step (a one-shot command), the
  update magic and the presence of a controller. The settings the loop steers towards are the
  unit's own, or what it makes of the local ones when these are still to be written.
\<close>

definition settings :: "unit_status \<Rightarrow> unit_status" where
  "settings v = v\<lparr>v_magic := 0, v_swing_step := False, v_present := False\<rparr>"

definition target :: "FujiAcController \<Rightarrow> FujiAcUnitSim \<Rightarrow> unit_status" where
  "target c u = settings
     (if ac_merged (ctl_state c) then unit_view u
      else unit_accept (show_state (ctl_state c) blank_status) (unit_view u))"

lemma settings_simps [simp]:
  "settings (v\<lparr>v_magic := m\<rparr>) = settings v" "settings (v\<lparr>v_swing_step := b\<rparr>) = settings v"
  "settings (v\<lparr>v_present := b\<rparr>) = settings v" "settings (settings v) = settings v"
  "v_mode (settings v) = v_mode v" "v_fan (settings v) = v_fan v" "v_enabled (settings v) = v_enabled v"
  "v_error (settings v) = v_error v" "v_economy (settings v) = v_economy v"
  "v_temperature (settings v) = v_temperature v" "v_swing (settings v) = v_swing v"
  by (simp_all add: settings_def)

lemma settings_eqD:
  assumes "settings v = settings w"
  shows "v_mode v = v_mode w" "v_fan v = v_fan w" "v_enabled v = v_enabled w" "v_error v = v_error w"
    "v_economy v = v_economy w" "v_temperature v = v_temperature w" "v_swing v = v_swing w"
  using assms by (cases v; cases w; simp add: settings_def)+

lemma settings_accept: "settings v = settings v' \<Longrightarrow> settings (unit_accept w v) = settings (unit_accept w v')"
  by (cases v; cases v') (simp add: settings_def unit_accept_def)

lemma target_handle:
  assumes inv: "closed_inv c u" and fits: "frame_fits u mf" and h: "handle_frame mf c = (Some f, c')"
  shows "target c' (PushControllerFrame f u) = target c u"
proof -
  have ok: "sim_ok u" using inv by (simp add: closed_inv_def)
  show ?thesis
  proof (cases "mf_Type mf = reg_LOGIN")
    case True
    from h handle_closed_login[OF inv fits True] ok show ?thesis
      by (auto simp: target_def push_view Let_def intro!: settings_accept)
  next
    case False
    with inv fits have t: "mf_Type mf = reg_STATUS" by (auto simp: closed_inv_def frame_fits_def)
    from h handle_closed_status[OF inv fits t] ok show ?thesis
      by (auto simp: target_def push_view Let_def next_state_of_def view_simps split: if_splits
          intro!: settings_accept)
  qed
qed

lemma target_poll: "sim_ok u \<Longrightarrow> target c (snd (GetNextMasterFrame u)) = target c u"
  by (auto simp: target_def next_view intro!: settings_accept)

lemma target_step:
  assumes inv: "closed_inv c u" and s: "sim_step (c, u) = (c', u')"
  shows "target c' u' = target c u"
proof -
  obtain mf u1 where n: "GetNextMasterFrame u = (mf, u1)" by fastforce
  obtain cf c1 where h: "handle_frame mf c = (cf, c1)" by fastforce
  have ok: "sim_ok u" using inv by (simp add: closed_inv_def)
  from poll_fits[OF inv] n have p: "closed_inv c u1" "frame_fits u1 mf" by simp_all
  with closed_inv_handle[OF p h] obtain f where "cf = Some f" by blast
  with target_handle[OF p] target_poll[OF ok, of c] s n h show ?thesis
    by (auto simp: sim_step_def)
qed

text \<open>Five iterations are enough, whatever the state.\<close>

lemma sim_steps:
  assumes "closed_inv c u" and "(sim_step ^^ n) (c, u) = (c', u')"
  shows "closed_inv c' u' \<and> rank c' u' \<le> rank c u - n \<and> target c' u' = target c u"
  using assms
proof (induction n arbitrary: c u)
  case 0
  then show ?case by simp
next
  case (Suc n)
  obtain c1 u1 where s: "sim_step (c, u) = (c1, u1)" by fastforce
  with Suc.prems have "(sim_step ^^ n) (c1, u1) = (c', u')" by (simp add: funpow_swap1)
  from Suc.IH[OF closed_inv_sim_step[OF Suc.prems(1) s] this]
    rank_step[OF Suc.prems(1) s] target_step[OF Suc.prems(1) s]
  show ?case by auto
qed

lemma settles:
  assumes "closed_inv c u" and "5 \<le> n"
  obtains c' u' where
    "loop_iters sim_ReadMasterFrame sim_WriteControllerFrame n (c, u) = Inr (c', u')"
    "closed_inv c' u'" "settled c' u'" "target c u = settings (unit_view u')"
proof -
  obtain c' u' where s: "(sim_step ^^ n) (c, u) = (c', u')" by fastforce
  have "rank c u - n = 0" using rank_bound[of c u] assms(2) by simp
  with sim_steps[OF assms(1) s] have "closed_inv c' u'" "rank c' u' = 0" "target c' u' = target c u"
    by simp_all
  moreover from this(2) have st: "settled c' u'" by (rule rank_0)
  moreover from st have "target c' u' = settings (unit_view u')"
    using \<open>closed_inv c' u'\<close> by (simp add: target_def settled_def closed_inv_def)
  ultimately show thesis using that s by (simp add: loop_iters_sim)
qed

text \<open>
  A thread that finds the loop in the middle of an iteration sees the frame in hand handled
  first: \<open>finish_iteration\<close> is the rest of that iteration.
\<close>

definition finish_iteration ::
    "(FujiControllerFrame \<Rightarrow> 'w \<Rightarrow> 'w or_fatal) \<Rightarrow> loop_pc \<Rightarrow> FujiAcController \<times> 'w \<Rightarrow>
       (FujiAcController \<times> 'w) or_fatal" where
  "finish_iteration wr pc s =
     (case pc of
        Handling mf \<Rightarrow>
          (let (cf, c) = handle_frame mf (fst s) in
           case write_answer wr cf (snd s) of Inl e \<Rightarrow> Inl e | Inr w \<Rightarrow> Inr (c, w))
      | _ \<Rightarrow> Inr s)"

definition run_on ::
    "('w \<Rightarrow> (FujiMasterFrame option \<times> 'w) or_fatal) \<Rightarrow> (FujiControllerFrame \<Rightarrow> 'w \<Rightarrow> 'w or_fatal) \<Rightarrow>
       nat \<Rightarrow> loop_pc \<Rightarrow> FujiAcController \<times> 'w \<Rightarrow> (FujiAcController \<times> 'w) or_fatal" where
  "run_on rd wr n pc s =
     (if pc = Exited then Inr s
      else case finish_iteration wr pc s of Inl e \<Rightarrow> Inl e | Inr s \<Rightarrow> loop_iters rd wr n s)"

text \<open>
  A turn of the loop thread, from wherever it is: the rest of its iteration, or at the top of the
  loop the test of the flag and a whole one. A thread that has left the loop does nothing.
\<close>

type_synonym 'w loop_thread = "loop_pc \<times> FujiAcController \<times> 'w"

definition back_to_check :: "(FujiAcController \<times> 'w) or_fatal \<Rightarrow> 'w loop_thread or_fatal" where
  "back_to_check r = (case r of Inl e \<Rightarrow> Inl e | Inr (c, w) \<Rightarrow> Inr (At_check, c, w))"

definition loop_turn ::
    "('w \<Rightarrow> (FujiMasterFrame option \<times> 'w) or_fatal) \<Rightarrow> (FujiControllerFrame \<Rightarrow> 'w \<Rightarrow> 'w or_fatal) \<Rightarrow>
       'w loop_thread \<Rightarrow> 'w loop_thread or_fatal" where
  "loop_turn rd wr s =
     (let (pc, c, w) = s in
      case pc of
        At_check \<Rightarrow> if shutdown c then Inr (Exited, c, w) else back_to_check (loop_body rd wr (c, w))
      | Reading \<Rightarrow> back_to_check (loop_body rd wr (c, w))
      | Handling mf \<Rightarrow> back_to_check (finish_iteration wr pc (c, w))
      | Exited \<Rightarrow> Inr (Exited, c, w))"

fun frames_in_hand :: "loop_pc \<Rightarrow> nat" where
  "frames_in_hand (Handling mf) = 1"
| "frames_in_hand _ = 0"

lemma back_to_check_simps [simp]:
  "back_to_check (Inl e) = Inl e" "back_to_check (Inr (c, w)) = Inr (At_check, c, w)"
  by (simp_all add: back_to_check_def)

lemma loop_turn_simps [simp]:
  "loop_turn rd wr (At_check, c, w) =
     (if shutdown c then Inr (Exited, c, w) else back_to_check (loop_body rd wr (c, w)))"
  "loop_turn rd wr (Reading, c, w) = back_to_check (loop_body rd wr (c, w))"
  "loop_turn rd wr (Handling mf, c, w) = back_to_check (finish_iteration wr (Handling mf) (c, w))"
  "loop_turn rd wr (Exited, c, w) = Inr (Exited, c, w)"
  by (simp_all add: loop_turn_def)

lemma finish_sim:
  assumes "closed_inv c u" and "hand_fits u pc"
  obtains c' u' where "finish_iteration sim_WriteControllerFrame pc (c, u) = Inr (c', u')"
    "closed_inv c' u'" "target c' u' = target c u"
proof (cases "\<exists>mf. pc = Handling mf")
  case True
  then obtain mf where pc: "pc = Handling mf" by blast
  with assms(2) have fits: "frame_fits u mf" by simp
  obtain cf c1 where h: "handle_frame mf c = (cf, c1)" by fastforce
  from closed_inv_handle[OF assms(1) fits h] obtain f
    where f: "cf = Some f" "closed_inv c1 (PushControllerFrame f u)" by blast
  with h have "handle_frame mf c = (Some f, c1)" by simp
  from that[OF _ f(2) target_handle[OF assms(1) fits this]] this show thesis
    by (simp add: finish_iteration_def pc write_answer_def sim_WriteControllerFrame_def)
next
  case False
  then show thesis using that[OF _ assms(1)] by (cases pc) (auto simp: finish_iteration_def)
qed

lemma run_on_settles:
  assumes "closed_inv c u" and "hand_fits u pc" and "pc \<noteq> Exited" and "5 \<le> n"
  obtains c' u' where
    "run_on sim_ReadMasterFrame sim_WriteControllerFrame n pc (c, u) = Inr (c', u')"
    "closed_inv c' u'" "settled c' u'" "target c u = settings (unit_view u')"
proof -
  obtain c1 u1 where f: "finish_iteration sim_WriteControllerFrame pc (c, u) = Inr (c1, u1)"
    "closed_inv c1 u1" "target c1 u1 = target c u"
    using finish_sim[OF assms(1,2)] .
  show thesis
    using settles[OF f(2) assms(4)] f that assms(3) by (auto simp: run_on_def)
qed

lemma settled_simps:
  assumes "settled c u"
  shows "ready c" "ac_merged (ctl_state c)" "ac_mode (ctl_state c) = v_mode (unit_view u)"
    "ac_enabled (ctl_state c) = v_enabled (unit_view u)" "ac_fan (ctl_state c) = v_fan (unit_view u)"
    "ac_temperature (ctl_state c) = v_temperature (unit_view u)"
    "ac_economy (ctl_state c) = v_economy (unit_view u)" "ac_swing (ctl_state c) = v_swing (unit_view u)"
proof -
  obtain b where "ctl_state c = (unit_state (unit_view u))\<lparr>ac_controller_present := b\<rparr>"
    using assms unfolding settled_def by blast
  then show "ac_merged (ctl_state c)" "ac_mode (ctl_state c) = v_mode (unit_view u)"
    "ac_enabled (ctl_state c) = v_enabled (unit_view u)" "ac_fan (ctl_state c) = v_fan (unit_view u)"
    "ac_temperature (ctl_state c) = v_temperature (unit_view u)"
    "ac_economy (ctl_state c) = v_economy (unit_view u)" "ac_swing (ctl_state c) = v_swing (unit_view u)"
    by simp_all
  show "ready c" using assms by (simp add: settled_def)
qed

text \<open>The message \<^verbatim>\<open>GetStatus\<close> returns depends on four settings only.\<close>

definition unit_message :: "unit_status \<Rightarrow> ACUnitState" where
  "unit_message v = status_message (unit_state v)"

lemma status_message_cong:
  "ac_mode s = ac_mode s' \<Longrightarrow> ac_enabled s = ac_enabled s' \<Longrightarrow> ac_fan s = ac_fan s' \<Longrightarrow>
     ac_temperature s = ac_temperature s' \<Longrightarrow> status_message s = status_message s'"
  by (simp add: status_message_def)

lemma settled_GetStatus: "settled c u \<Longrightarrow> GetStatus c = Some (unit_message (unit_view u))"
  by (auto simp: GetStatus_def unit_message_def settled_simps intro: status_message_cong)

section \<open>The loop as a run of the concurrent system\<close>

lemma reading_run:
  assumes "loop_body rd wr (sys_ctl s, sys_bus s) = Inr (c', w')" and "sys_pc s = Reading"
  shows "\<exists>fs. (sys_step rd wr env)\<^sup>*\<^sup>* s
    (s\<lparr>sys_ctl := c', sys_bus := w', sys_pc := At_check, sys_wire := fs\<rparr>)"
proof -
  obtain x w where rd: "rd (sys_bus s) = Inr (x, w)"
    using assms(1) by (auto simp: loop_body_def split: sum.splits prod.splits)
  show ?thesis
  proof (cases x)
    case None
    with rd have "sys_step rd wr env s (s\<lparr>sys_bus := w, sys_pc := At_check\<rparr>)"
      using assms(2) by (intro read_incomplete) simp_all
    moreover have "s\<lparr>sys_bus := w, sys_pc := At_check\<rparr> =
        s\<lparr>sys_ctl := c', sys_bus := w', sys_pc := At_check, sys_wire := sys_wire s\<rparr>"
      using assms(1) rd None by (cases s) (auto simp: loop_body_def)
    ultimately show ?thesis by (intro exI[of _ "sys_wire s"]) (simp only: r_into_rtranclp)
  next
    case (Some mf)
    let ?h = "s\<lparr>sys_bus := w, sys_pc := Handling mf\<rparr>"
    from rd Some have 1: "sys_step rd wr env s ?h" using assms(2) by (intro read_frame) simp_all
    obtain cf c where h: "handle_frame mf (sys_ctl s) = (cf, c)" by fastforce
    with assms(1) rd Some have w: "write_answer wr cf w = Inr w'" "c = c'"
      by (auto simp: loop_body_def split: sum.splits)
    let ?fs = "case cf of None \<Rightarrow> sys_wire s | Some f \<Rightarrow> f # sys_wire s"
    have "sys_step rd wr env ?h
      (?h\<lparr>sys_ctl := c', sys_bus := w', sys_pc := At_check,
         sys_wire := (case cf of None \<Rightarrow> sys_wire ?h | Some f \<Rightarrow> f # sys_wire ?h)\<rparr>)"
      using h w by (intro handle[of _ mf]) simp_all
    moreover have "?h\<lparr>sys_ctl := c', sys_bus := w', sys_pc := At_check,
         sys_wire := (case cf of None \<Rightarrow> sys_wire ?h | Some f \<Rightarrow> f # sys_wire ?h)\<rparr> =
        s\<lparr>sys_ctl := c', sys_bus := w', sys_pc := At_check, sys_wire := ?fs\<rparr>"
      by (cases s; cases cf) simp_all
    ultimately have 2: "sys_step rd wr env ?h
        (s\<lparr>sys_ctl := c', sys_bus := w', sys_pc := At_check, sys_wire := ?fs\<rparr>)"
      by (simp only:)
    show ?thesis
      using converse_rtranclp_into_rtranclp[of "sys_step rd wr env", OF 1
          r_into_rtranclp[of "sys_step rd wr env", OF 2]]
      by (rule exI)
  qed
qed

lemma loop_body_run:
  assumes "loop_body rd wr (sys_ctl s, sys_bus s) = Inr (c', w')"
    and "sys_pc s = At_check" and "\<not> shutdown (sys_ctl s)"
  shows "\<exists>fs. (sys_step rd wr env)\<^sup>*\<^sup>* s (s\<lparr>sys_ctl := c', sys_bus := w', sys_wire := fs\<rparr>)"
proof -
  let ?r = "s\<lparr>sys_pc := Reading\<rparr>"
  have 1: "sys_step rd wr env s ?r" using assms by (intro check_continue)
  have "loop_body rd wr (sys_ctl ?r, sys_bus ?r) = Inr (c', w')" using assms(1) by simp
  from reading_run[OF this, of env] obtain fs where
    "(sys_step rd wr env)\<^sup>*\<^sup>* ?r (?r\<lparr>sys_ctl := c', sys_bus := w', sys_pc := At_check, sys_wire := fs\<rparr>)" by auto
  moreover have "?r\<lparr>sys_ctl := c', sys_bus := w', sys_pc := At_check, sys_wire := fs\<rparr> =
      s\<lparr>sys_ctl := c', sys_bus := w', sys_wire := fs\<rparr>"
    using assms(2) by (cases s) simp
  ultimately show ?thesis using 1 by (metis converse_rtranclp_into_rtranclp)
qed

text \<open>A turn of the loop thread is a run of it.\<close>

lemma loop_turn_run:
  assumes "loop_turn rd wr (sys_pc s, sys_ctl s, sys_bus s) = Inr (pc, c, w)"
  shows "\<exists>fs. (sys_step rd wr env)\<^sup>*\<^sup>* s (s\<lparr>sys_ctl := c, sys_bus := w, sys_pc := pc, sys_wire := fs\<rparr>)"
proof (cases "sys_pc s")
  case At_check
  show ?thesis
  proof (cases "shutdown (sys_ctl s)")
    case True
    have "sys_step rd wr env s (s\<lparr>sys_pc := Exited\<rparr>)" by (rule check_exit[OF At_check True])
    moreover have "s\<lparr>sys_pc := Exited\<rparr> = s\<lparr>sys_ctl := c, sys_bus := w, sys_pc := pc, sys_wire := sys_wire s\<rparr>"
      using assms At_check True by (cases s) (auto simp: loop_turn_def)
    ultimately show ?thesis by (intro exI[of _ "sys_wire s"]) (simp only: r_into_rtranclp)
  next
    case False
    with assms At_check have b: "loop_body rd wr (sys_ctl s, sys_bus s) = Inr (c, w)" and pc: "pc = At_check"
      by (auto simp: loop_turn_def back_to_check_def split: sum.splits prod.splits)
    from loop_body_run[OF b At_check False, of env] obtain fs where
      "(sys_step rd wr env)\<^sup>*\<^sup>* s (s\<lparr>sys_ctl := c, sys_bus := w, sys_wire := fs\<rparr>)" ..
    moreover have "s\<lparr>sys_ctl := c, sys_bus := w, sys_wire := fs\<rparr> =
        s\<lparr>sys_ctl := c, sys_bus := w, sys_pc := pc, sys_wire := fs\<rparr>"
      using At_check pc by (cases s) simp
    ultimately show ?thesis by auto
  qed
next
  case Reading
  with assms have b: "loop_body rd wr (sys_ctl s, sys_bus s) = Inr (c, w)" and pc: "pc = At_check"
    by (auto simp: loop_turn_def back_to_check_def split: sum.splits prod.splits)
  from reading_run[OF b Reading, of env] pc show ?thesis by simp
next
  case (Handling mf)
  obtain cf c1 where h: "handle_frame mf (sys_ctl s) = (cf, c1)" by fastforce
  with assms Handling have w: "write_answer wr cf (sys_bus s) = Inr w" and "c1 = c" "pc = At_check"
    by (auto simp: loop_turn_def back_to_check_def finish_iteration_def split: sum.splits)
  with r_into_rtranclp[of "sys_step rd wr env", OF sys_step.handle[OF Handling h w]] show ?thesis by blast
next
  case Exited
  with assms have "s\<lparr>sys_ctl := c, sys_bus := w, sys_pc := pc, sys_wire := sys_wire s\<rparr> = s"
    by (cases s) (auto simp: loop_turn_def)
  then show ?thesis by (intro exI[of _ "sys_wire s"]) simp
qed

lemma handle_frame_shutdown [simp]: "handle_frame mf c = (cf, c') \<Longrightarrow> shutdown c' = shutdown c"
  by (cases cf) (auto simp: handle_frame_None handle_frame_Some)

lemma loop_body_shutdown: "loop_body rd wr (c, w) = Inr (c', w') \<Longrightarrow> shutdown c' = shutdown c"
  by (auto simp: loop_body_def split: sum.splits prod.splits option.splits)

lemma loop_iters_run:
  assumes "loop_iters rd wr n (sys_ctl s, sys_bus s) = Inr (c', w')"
    and "sys_pc s = At_check" and "\<not> shutdown (sys_ctl s)"
  shows "\<exists>fs. (sys_step rd wr env)\<^sup>*\<^sup>* s (s\<lparr>sys_ctl := c', sys_bus := w', sys_wire := fs\<rparr>)"
  using assms
proof (induction n arbitrary: s)
  case 0
  then have "s\<lparr>sys_ctl := c', sys_bus := w', sys_wire := sys_wire s\<rparr> = s" by simp
  then show ?case by (intro exI[of _ "sys_wire s"]) simp
next
  case (Suc n)
  obtain c1 w1 where b: "loop_body rd wr (sys_ctl s, sys_bus s) = Inr (c1, w1)"
    using Suc.prems(1) by (auto split: sum.splits)
  from loop_body_run[OF b Suc.prems(2,3), of env] obtain fs
    where r: "(sys_step rd wr env)\<^sup>*\<^sup>* s (s\<lparr>sys_ctl := c1, sys_bus := w1, sys_wire := fs\<rparr>)" by blast
  have "\<not> shutdown c1" using loop_body_shutdown[OF b] Suc.prems(3) by simp
  with Suc.IH[of "s\<lparr>sys_ctl := c1, sys_bus := w1, sys_wire := fs\<rparr>"] Suc.prems(1,2) b
  obtain fs' where "(sys_step rd wr env)\<^sup>*\<^sup>* (s\<lparr>sys_ctl := c1, sys_bus := w1, sys_wire := fs\<rparr>)
      (s\<lparr>sys_ctl := c', sys_bus := w', sys_wire := fs'\<rparr>)" by auto
  with r show ?case by (meson rtranclp_trans)
qed

section \<open>Runs of the whole system over the simulator\<close>

abbreviation sim_reachable :: "FujiAcUnitSim system \<Rightarrow> bool" where
  "sim_reachable \<equiv> sys_reachable sim_ReadMasterFrame sim_WriteControllerFrame sim_env FujiAcUnitSim_init"

abbreviation sim_sys_step :: "FujiAcUnitSim system \<Rightarrow> FujiAcUnitSim system \<Rightarrow> bool" where
  "sim_sys_step \<equiv> sys_step sim_ReadMasterFrame sim_WriteControllerFrame sim_env"

lemma sim_reachable_init: "sim_reachable (sys_init FujiAcUnitSim_init)"
  by (rule reach_init)

lemma running: "sim_reachable s \<Longrightarrow> \<not> shutdown (sys_ctl s) \<Longrightarrow> sys_pc s \<noteq> Exited"
  using exited_shutdown[of sim_ReadMasterFrame sim_WriteControllerFrame sim_env FujiAcUnitSim_init s]
  by auto

text \<open>The loop thread can always get back to the top of its loop.\<close>

lemma handling_to_check:
  assumes "sim_reachable s" and "sys_pc s = Handling mf"
  shows "\<exists>t. sim_sys_step s t \<and> sys_pc t = At_check \<and> sys_rpc t = sys_rpc s \<and>
    shutdown (sys_ctl t) = shutdown (sys_ctl s)"
proof -
  obtain cf c where h: "handle_frame mf (sys_ctl s) = (cf, c)" by fastforce
  have "\<exists>w. write_answer sim_WriteControllerFrame cf (sys_bus s) = Inr w"
    by (cases cf) (simp_all add: write_answer_def sim_WriteControllerFrame_def)
  then obtain w where "write_answer sim_WriteControllerFrame cf (sys_bus s) = Inr w" ..
  with assms(2) h have "sim_sys_step s
      (s\<lparr>sys_ctl := c, sys_bus := w, sys_pc := At_check,
         sys_wire := (case cf of None \<Rightarrow> sys_wire s | Some f \<Rightarrow> f # sys_wire s)\<rparr>)"
    by (intro sys_step.handle)
  moreover have "shutdown c = shutdown (sys_ctl s)" using h by simp
  ultimately show ?thesis by (intro exI[of _ "s\<lparr>sys_ctl := c, sys_bus := w, sys_pc := At_check,
         sys_wire := (case cf of None \<Rightarrow> sys_wire s | Some f \<Rightarrow> f # sys_wire s)\<rparr>"]) simp
qed

lemma reading_to_handling:
  assumes "sys_pc s = Reading"
  shows "\<exists>t mf. sim_sys_step s t \<and> sys_pc t = Handling mf \<and> sys_rpc t = sys_rpc s \<and> sys_ctl t = sys_ctl s"
proof -
  obtain mf w where "sim_ReadMasterFrame (sys_bus s) = Inr (Some mf, w)"
    by (cases "GetNextMasterFrame (sys_bus s)") (simp add: sim_ReadMasterFrame_def)
  with assms have "sim_sys_step s (s\<lparr>sys_bus := w, sys_pc := Handling mf\<rparr>)"
    by (intro sys_step.read_frame)
  then show ?thesis
    by (intro exI[of _ "s\<lparr>sys_bus := w, sys_pc := Handling mf\<rparr>"] exI[of _ mf]) simp
qed

lemma to_check:
  assumes "sim_reachable s" and "\<not> shutdown (sys_ctl s)"
  shows "\<exists>t. sim_sys_step\<^sup>*\<^sup>* s t \<and> sys_pc t = At_check \<and> sys_rpc t = sys_rpc s \<and> \<not> shutdown (sys_ctl t)"
proof (cases "sys_pc s")
  case At_check
  with assms(2) show ?thesis by blast
next
  case Reading
  then obtain t mf where t: "sim_sys_step s t" "sys_pc t = Handling mf" "sys_rpc t = sys_rpc s"
    "sys_ctl t = sys_ctl s" using reading_to_handling by blast
  from handling_to_check[OF reach_step[OF assms(1) t(1)] t(2)] t(1,3,4) assms(2) show ?thesis
    by (metis converse_rtranclp_into_rtranclp r_into_rtranclp)
next
  case (Handling mf)
  from handling_to_check[OF assms(1) this] assms(2) show ?thesis
    by (metis r_into_rtranclp)
next
  case Exited
  with running[OF assms] show ?thesis by simp
qed

lemma loop_iters_shutdown:
  "loop_iters rd wr n (c, w) = Inr (c', w') \<Longrightarrow> shutdown c' = shutdown c"
proof (induction n arbitrary: c w)
  case 0
  then show ?case by simp
next
  case (Suc n)
  then obtain c1 w1 where b: "loop_body rd wr (c, w) = Inr (c1, w1)"
    and r: "loop_iters rd wr n (c1, w1) = Inr (c', w')"
    by (auto split: sum.splits)
  from Suc.IH[OF r] loop_body_shutdown[OF b] show ?case by simp
qed

lemma run_settles:
  assumes "sim_reachable s" and "\<not> shutdown (sys_ctl s)"
  obtains t where "sim_sys_step\<^sup>*\<^sup>* s t" "settled (sys_ctl t) (sys_bus t)" "sys_rpc t = sys_rpc s"
    "sys_pc t = At_check" "\<not> shutdown (sys_ctl t)" "sim_reachable t"
proof -
  obtain r where r: "sim_sys_step\<^sup>*\<^sup>* s r" "sys_pc r = At_check" "sys_rpc r = sys_rpc s"
    "\<not> shutdown (sys_ctl r)" using to_check[OF assms] by blast
  have "closed_inv (sys_ctl r) (sys_bus r)"
    using reachable_closed_inv[OF reachable_run[OF r(1) assms(1)]] by simp
  then obtain c' u' where
    i: "loop_iters sim_ReadMasterFrame sim_WriteControllerFrame 5 (sys_ctl r, sys_bus r) = Inr (c', u')"
    and st: "settled c' u'" by (rule settles[of _ _ 5]) simp_all
  from loop_iters_run[OF i r(2,4), of sim_env] obtain fs
    where "sim_sys_step\<^sup>*\<^sup>* r (r\<lparr>sys_ctl := c', sys_bus := u', sys_wire := fs\<rparr>)" by blast
  with r(1) have run: "sim_sys_step\<^sup>*\<^sup>* s (r\<lparr>sys_ctl := c', sys_bus := u', sys_wire := fs\<rparr>)" by simp
  show thesis
    by (rule that[OF run]) (use st r loop_iters_shutdown[OF i] reachable_run[OF run assms(1)] in simp_all)
qed

section \<open>How soon the unit's own changes are seen\<close>

text \<open>The controller shows what the unit has, up to the presence bit of the last frame.\<close>

definition in_sync :: "FujiAcController \<Rightarrow> FujiAcUnitSim \<Rightarrow> bool" where
  "in_sync c u \<longleftrightarrow> ctl_state c =
     (unit_state (unit_view u))\<lparr>ac_controller_present := ac_controller_present (ctl_state c)\<rparr>"

lemma settled_in_sync: "settled c u \<longleftrightarrow> ready c \<and> in_sync c u"
  by (simp add: settled_def in_sync_def)

lemma step_reads:
  assumes inv: "closed_inv c u" and m: "ac_merged (ctl_state c)" and s: "sim_step (c, u) = (c', u')"
  shows "ac_merged (ctl_state c')" and "ready c \<Longrightarrow> ready c'"
    and "next_query_register u = reg_LOGIN \<Longrightarrow> next_query_register u' = reg_STATUS"
    and "next_query_register u = reg_STATUS \<or> in_sync c u \<Longrightarrow> in_sync c' u'"
proof -
  have ok: "sim_ok u" using inv by (simp add: closed_inv_def)
  consider "next_query_register u = reg_LOGIN" | "next_query_register u = reg_STATUS"
    using inv unfolding closed_inv_def by blast
  then have "ac_merged (ctl_state c') \<and> (ready c \<longrightarrow> ready c') \<and>
      (next_query_register u = reg_LOGIN \<longrightarrow> next_query_register u' = reg_STATUS) \<and>
      (next_query_register u = reg_STATUS \<or> in_sync c u \<longrightarrow> in_sync c' u')"
  proof cases
    case 1
    from s sim_step_login[OF inv 1] m ok 1 show ?thesis
      by (auto simp: push_state_query in_sync_def push_after_poll Let_def)
  next
    case 2
    from s sim_step_status[OF inv 2] m ok 2 show ?thesis
      by (auto simp: in_sync_def push_after_poll Let_def next_state_of_def split: if_splits)
  qed
  then show "ac_merged (ctl_state c')" and "ready c \<Longrightarrow> ready c'"
    and "next_query_register u = reg_LOGIN \<Longrightarrow> next_query_register u' = reg_STATUS"
    and "next_query_register u = reg_STATUS \<or> in_sync c u \<Longrightarrow> in_sync c' u'" by simp_all
qed

lemma steps_keep_in_sync:
  assumes "closed_inv c u" and "ac_merged (ctl_state c)" and "ready c" and "in_sync c u"
    and "(sim_step ^^ n) (c, u) = (c', u')"
  shows "ready c' \<and> in_sync c' u'"
  using assms
proof (induction n arbitrary: c u)
  case 0
  then show ?case by simp
next
  case (Suc n)
  obtain c1 u1 where s: "sim_step (c, u) = (c1, u1)" by fastforce
  with Suc.prems have r: "(sim_step ^^ n) (c1, u1) = (c', u')" by (simp add: funpow_swap1)
  note reads = step_reads[OF Suc.prems(1,2) s]
  from Suc.IH[OF closed_inv_sim_step[OF Suc.prems(1) s] reads(1) reads(2)[OF Suc.prems(3)] _ r]
    reads(4) Suc.prems(4) show ?case by simp
qed

end
