(* ===== verification/Fuji_Serial_Setup.thy ===== *)
theory Fuji_Serial_Setup
  imports Fuji_Ac_Serial
begin

text \<open>
  \<^verbatim>\<open>FujiAcSerialReader::Build\<close> of \<^verbatim>\<open>controller/fuji_ac_serial_reader.cc\<close>: opening, locking and
  configuring the tty. The operating system is not part of the program, so its calls are the
  fields of a record \<open>tty_os\<close> over the state of the machine, and the flag constants of
  \<^verbatim>\<open><termios.h>\<close> and \<^verbatim>\<open><asm/termios.h>\<close> those of \<open>tty_consts\<close>. What the code does with
  them, in which order, and what it makes of each failure, is the definition \<open>reader_Build\<close>.
\<close>

section \<open>The operating system's interface\<close>

text \<open>
  The flag arguments of the calls are fixed in the code and part of the field: \<open>os_open\<close> is
  \<^verbatim>\<open>open(name, O_RDWR | O_NOCTTY | O_NONBLOCK)\<close>, \<open>os_flock\<close> is \<^verbatim>\<open>flock(fd, LOCK_EX | LOCK_NB)\<close>,
  \<open>os_tcsetattr\<close> is \<^verbatim>\<open>tcsetattr(fd, TCSANOW, tty)\<close> and \<open>os_set_blocking\<close> is
  \<^verbatim>\<open>fcntl(fd, F_SETFL, 0)\<close>. A result below 0 is a failure, which the code makes a fatal error.
\<close>

type_synonym flags = "32 word"

record termios =
  c_iflag :: flags
  c_oflag :: flags
  c_cflag :: flags
  c_lflag :: flags
  c_cc_VMIN :: byte
  c_cc_VTIME :: byte

record termios2 =
  c2_cflag :: flags
  c_ispeed :: flags
  c_ospeed :: flags

record tty_consts =
  kCLOCAL :: flags   kCREAD :: flags   kCSIZE :: flags    kCS8 :: flags
  kCSTOPB :: flags   kPARODD :: flags  kCMSPAR :: flags   kPARENB :: flags
  kCRTSCTS :: flags  kICANON :: flags  kECHO :: flags     kECHOE :: flags
  kECHOK :: flags    kECHONL :: flags  kISIG :: flags     kIEXTEN :: flags
  kOPOST :: flags    kONLCR :: flags   kOCRNL :: flags    kINLCR :: flags
  kIGNCR :: flags    kICRNL :: flags   kIGNBRK :: flags   kIUCLC :: flags
  kPARMRK :: flags   kINPCK :: flags   kISTRIP :: flags   kIXON :: flags
  kIXOFF :: flags    kIXANY :: flags   kCBAUD :: flags    kBOTHER :: flags

record 't tty_os =
  os_open :: "string \<Rightarrow> 't \<Rightarrow> int \<times> 't"
  os_flock :: "int \<Rightarrow> 't \<Rightarrow> int \<times> 't"
  os_tcgetattr :: "int \<Rightarrow> termios \<Rightarrow> 't \<Rightarrow> (int \<times> termios) \<times> 't"
  os_tcsetattr :: "int \<Rightarrow> termios \<Rightarrow> 't \<Rightarrow> int \<times> 't"
  os_TCGETS2 :: "int \<Rightarrow> 't \<Rightarrow> (int \<times> termios2) \<times> 't"
  os_TCSETS2 :: "int \<Rightarrow> termios2 \<Rightarrow> 't \<Rightarrow> int \<times> 't"
  os_set_blocking :: "int \<Rightarrow> 't \<Rightarrow> int \<times> 't"
  os_close :: "int \<Rightarrow> 't \<Rightarrow> int \<times> 't"

section \<open>Configuring and opening the device\<close>

definition termios_zero :: termios where
  "termios_zero =
     \<lparr>c_iflag = 0, c_oflag = 0, c_cflag = 0, c_lflag = 0, c_cc_VMIN = 0, c_cc_VTIME = 0\<rparr>"

definition configure_tty :: "tty_consts \<Rightarrow> termios \<Rightarrow> termios" where
  "configure_tty k tty =
     (let tty = tty\<lparr>c_cflag := c_cflag tty OR (kCLOCAL k OR kCREAD k)\<rparr>;
          tty = tty\<lparr>c_lflag := c_lflag tty AND NOT (kICANON k OR kECHO k OR kECHOE k OR kECHOK k OR
                  kECHONL k OR kISIG k OR kIEXTEN k)\<rparr>;
          tty = tty\<lparr>c_oflag := c_oflag tty AND NOT (kOPOST k OR kONLCR k OR kOCRNL k)\<rparr>;
          tty = tty\<lparr>c_iflag := c_iflag tty AND NOT (kINLCR k OR kIGNCR k OR kICRNL k OR kIGNBRK k)\<rparr>;
          tty = tty\<lparr>c_iflag := c_iflag tty AND NOT (kIUCLC k)\<rparr>;
          tty = tty\<lparr>c_iflag := c_iflag tty AND NOT (kPARMRK k)\<rparr>;
          tty = tty\<lparr>c_cflag := c_cflag tty AND NOT (kCSIZE k)\<rparr>;
          tty = tty\<lparr>c_cflag := c_cflag tty OR kCS8 k\<rparr>;
          tty = tty\<lparr>c_cflag := c_cflag tty AND NOT (kCSTOPB k)\<rparr>;
          tty = tty\<lparr>c_iflag := c_iflag tty AND NOT (kINPCK k OR kISTRIP k)\<rparr>;
          tty = tty\<lparr>c_cflag := c_cflag tty AND NOT (kPARODD k OR kCMSPAR k)\<rparr>;
          tty = tty\<lparr>c_cflag := c_cflag tty OR kPARENB k\<rparr>;
          tty = tty\<lparr>c_iflag := c_iflag tty AND NOT (kIXON k OR kIXOFF k OR kIXANY k)\<rparr>;
          tty = tty\<lparr>c_cflag := c_cflag tty AND NOT (kCRTSCTS k)\<rparr>;
          tty = tty\<lparr>c_cc_VMIN := 0\<rparr>
      in tty\<lparr>c_cc_VTIME := 3\<rparr>)"

definition configure_baud :: "tty_consts \<Rightarrow> termios2 \<Rightarrow> termios2" where
  "configure_baud k tio =
     (let tio = tio\<lparr>c2_cflag := c2_cflag tio AND NOT (kCBAUD k)\<rparr>;
          tio = tio\<lparr>c2_cflag := c2_cflag tio OR kBOTHER k\<rparr>;
          tio = tio\<lparr>c_ispeed := 500\<rparr>
      in tio\<lparr>c_ospeed := 500\<rparr>)"

definition reader_Build :: "tty_consts \<Rightarrow> 't tty_os \<Rightarrow> string \<Rightarrow> 't \<Rightarrow> (int \<times> 't) or_fatal" where
  "reader_Build k os device_name t =
     (let (fd, t) = os_open os device_name t in
      if fd < 0 then Inl (''Failed to open device: '' @ device_name) else
      let (r, t) = os_flock os fd t in
      if r < 0 then Inl ''Failed to exclisively lock tty device'' else
      let ((r, tty), t) = os_tcgetattr os fd termios_zero t in
      if r < 0 then Inl (''Error getting attributes from: '' @ device_name) else
      let (r, t) = os_tcsetattr os fd (configure_tty k tty) t in
      if r < 0 then Inl (''Error setting attributes on: '' @ device_name) else
      let ((r, tio), t) = os_TCGETS2 os fd t in
      if r < 0 then Inl (''Failed TCGETS2 ioctl to device: '' @ device_name) else
      let (r, t) = os_TCSETS2 os fd (configure_baud k tio) t in
      if r < 0 then Inl (''Failed TCSETS2 ioctl to device: '' @ device_name) else
      let ((r, tio), t) = os_TCGETS2 os fd t in
      if r < 0 then Inl (''Failed TCGETS2 ioctl to device: '' @ device_name) else
      let (r, t) = os_set_blocking os fd t in
      if r < 0 then Inl (''Failed to set blocking mode: '' @ device_name) else
      Inr (fd, t))"

text \<open>\<^verbatim>\<open>~FujiAcSerialReader\<close> closes the descriptor and ignores the result.\<close>

definition reader_destroy :: "'t tty_os \<Rightarrow> int \<Rightarrow> 't \<Rightarrow> 't" where
  "reader_destroy os fd t = snd (os_close os fd t)"

section \<open>A kernel that records what it is asked\<close>

text \<open>
  To state the order of the calls, the machine's state is the list of the calls made so far,
  and \<open>ok i\<close> decides whether the \<open>i\<close>-th call succeeds. The two attribute blocks are arbitrary.
\<close>

datatype tty_call = C_open string | C_flock int | C_tcgetattr int | C_tcsetattr int termios
  | C_TCGETS2 int | C_TCSETS2 int termios2 | C_set_blocking int
  | C_close int

definition logged :: "(nat \<Rightarrow> bool) \<Rightarrow> int \<Rightarrow> tty_call \<Rightarrow> tty_call list \<Rightarrow> int \<times> tty_call list" where
  "logged ok r x calls = (if ok (length calls) then r else - 1, calls @ [x])"

definition logging_os :: "(nat \<Rightarrow> bool) \<Rightarrow> int \<Rightarrow> termios \<Rightarrow> termios2 \<Rightarrow> tty_call list tty_os" where
  "logging_os ok fd tty tio =
     \<lparr>os_open = (\<lambda>n t. logged ok fd (C_open n) t),
      os_flock = (\<lambda>fd t. logged ok 0 (C_flock fd) t),
      os_tcgetattr = (\<lambda>fd _ t. case logged ok 0 (C_tcgetattr fd) t of (r, t) \<Rightarrow> ((r, tty), t)),
      os_tcsetattr = (\<lambda>fd x t. logged ok 0 (C_tcsetattr fd x) t),
      os_TCGETS2 = (\<lambda>fd t. case logged ok 0 (C_TCGETS2 fd) t of (r, t) \<Rightarrow> ((r, tio), t)),
      os_TCSETS2 = (\<lambda>fd x t. logged ok 0 (C_TCSETS2 fd x) t),
      os_set_blocking = (\<lambda>fd t. logged ok 0 (C_set_blocking fd) t),
      os_close = (\<lambda>fd t. logged ok 0 (C_close fd) t)\<rparr>"

text \<open>The message of the first call that fails.\<close>

definition setup_error :: "string \<Rightarrow> nat \<Rightarrow> string" where
  "setup_error name i =
     (if i = 0 then ''Failed to open device: '' @ name
      else if i = 1 then ''Failed to exclisively lock tty device''
      else if i = 2 then ''Error getting attributes from: '' @ name
      else if i = 3 then ''Error setting attributes on: '' @ name
      else if i = 4 \<or> i = 6 then ''Failed TCGETS2 ioctl to device: '' @ name
      else if i = 5 then ''Failed TCSETS2 ioctl to device: '' @ name
      else ''Failed to set blocking mode: '' @ name)"

definition setup_calls :: "tty_consts \<Rightarrow> string \<Rightarrow> int \<Rightarrow> termios \<Rightarrow> termios2 \<Rightarrow> tty_call list" where
  "setup_calls k name fd tty tio =
     [C_open name, C_flock fd, C_tcgetattr fd, C_tcsetattr fd (configure_tty k tty), C_TCGETS2 fd,
      C_TCSETS2 fd (configure_baud k tio), C_TCGETS2 fd, C_set_blocking fd]"

lemmas logging_simps = logging_os_def logged_def

text \<open>The values of the constants on Linux, for the witnesses.\<close>

definition linux_consts :: tty_consts where
  "linux_consts =
     \<lparr>kCLOCAL = 0x800, kCREAD = 0x80, kCSIZE = 0x30, kCS8 = 0x30, kCSTOPB = 0x40, kPARODD = 0x200,
      kCMSPAR = 0x40000000, kPARENB = 0x100, kCRTSCTS = 0x80000000, kICANON = 0x2, kECHO = 0x8,
      kECHOE = 0x10, kECHOK = 0x20, kECHONL = 0x40, kISIG = 0x1, kIEXTEN = 0x8000, kOPOST = 0x1,
      kONLCR = 0x4, kOCRNL = 0x8, kINLCR = 0x40, kIGNCR = 0x80, kICRNL = 0x100, kIGNBRK = 0x1,
      kIUCLC = 0x200, kPARMRK = 0x8, kINPCK = 0x10, kISTRIP = 0x20, kIXON = 0x400, kIXOFF = 0x1000,
      kIXANY = 0x800, kCBAUD = 0x100F, kBOTHER = 0x1000\<rparr>"

section \<open>Properties\<close>

text \<open>
  C37. Setting up the serial port is a fixed sequence of eight calls: if all succeed, the result
  is the open descriptor and exactly these calls were made, with the configured attributes, and
  destroying the reader adds the one call that closes that descriptor; the first one that fails
  ends the process with its own message.
\<close>

theorem setup_sequence:
  assumes "0 \<le> fd"
  shows "reader_Build k (logging_os ok fd tty tio) name [] =
    (case find (\<lambda>i. \<not> ok i) [0..<8] of
       None \<Rightarrow> Inr (fd, setup_calls k name fd tty tio)
     | Some i \<Rightarrow> Inl (setup_error name i)) \<and>
    reader_destroy (logging_os ok fd tty tio) fd calls = calls @ [C_close fd]"
proof -
  have "[0..<8] = [0, 1, 2, 3, 4, 5, 6, 7 :: nat]" by (simp add: upt_rec)
  then show ?thesis
    using assms
    by (simp add: reader_Build_def logging_simps setup_error_def setup_calls_def
        reader_destroy_def eval_nat_numeral)
qed

theorem setup_sequence_witness:
  "reader_Build linux_consts (logging_os (\<lambda>i. i \<noteq> 1) 3 termios_zero \<lparr>c2_cflag = 0, c_ispeed = 0, c_ospeed = 0\<rparr>)
     ''/dev/ttyAMA0'' [] = Inl ''Failed to exclisively lock tty device''"
  using setup_sequence[of 3 linux_consts "\<lambda>i. i \<noteq> 1"] by (simp add: upt_rec setup_error_def)

text \<open>
  C38. The line is set to eight data bits, even parity, one stop bit, no modem control and with the
  receiver on; no flow control of either kind (IXON, IXOFF, IXANY, CRTSCTS); no line editing, echo
  or signals; no translation of what is read (case, CR and NL, breaks, parity marks, the eighth
  bit) or written; reads that return what there is, after 0.3 seconds at most (VMIN 0, VTIME 3);
  and 500 baud both ways; whatever attributes the device had, provided the flag constants are bits
  that do not overlap (as the kernel headers define them).
\<close>

theorem line_settings:
  assumes "kCS8 k AND NOT (kCSIZE k) = 0"
    and "kCS8 k AND (kCSTOPB k OR kPARODD k OR kCMSPAR k OR kCRTSCTS k OR kPARENB k) = 0"
    and "kPARENB k AND (kCSIZE k OR kCSTOPB k OR kPARODD k OR kCMSPAR k OR kCRTSCTS k) = 0"
    and "(kCLOCAL k OR kCREAD k) AND (kCSIZE k OR kCSTOPB k OR kPARODD k OR kCMSPAR k OR kCRTSCTS k) = 0"
    and "kBOTHER k AND NOT (kCBAUD k) = 0"
  shows "c_cflag (configure_tty k tty) AND kCSIZE k = kCS8 k \<and>
    c_cflag (configure_tty k tty) AND kPARENB k = kPARENB k \<and>
    c_cflag (configure_tty k tty) AND
      (kCSTOPB k OR kPARODD k OR kCMSPAR k OR kCRTSCTS k) = 0 \<and>
    c_cflag (configure_tty k tty) AND (kCLOCAL k OR kCREAD k) = kCLOCAL k OR kCREAD k \<and>
    c_lflag (configure_tty k tty) AND
      (kICANON k OR kECHO k OR kECHOE k OR kECHOK k OR kECHONL k OR kISIG k OR kIEXTEN k) = 0 \<and>
    c_oflag (configure_tty k tty) AND (kOPOST k OR kONLCR k OR kOCRNL k) = 0 \<and>
    c_iflag (configure_tty k tty) AND
      (kINLCR k OR kIGNCR k OR kICRNL k OR kIGNBRK k OR kIUCLC k OR kPARMRK k OR kINPCK k OR kISTRIP k) = 0 \<and>
    c_iflag (configure_tty k tty) AND (kIXON k OR kIXOFF k OR kIXANY k) = 0 \<and>
    c_cc_VMIN (configure_tty k tty) = 0 \<and> c_cc_VTIME (configure_tty k tty) = 3 \<and>
    c2_cflag (configure_baud k tio) AND kCBAUD k = kBOTHER k \<and>
    c_ispeed (configure_baud k tio) = 500 \<and> c_ospeed (configure_baud k tio) = 500"
  using assms
  by (intro conjI; auto simp: configure_tty_def configure_baud_def Let_def bit_eq_iff bit_simps)

theorem line_settings_witness:
  "c_cflag (configure_tty linux_consts (termios_zero\<lparr>c_cflag := 0xFFFFFFFF\<rparr>)) AND 0x30 = 0x30 \<and>
   c_cflag (configure_tty linux_consts (termios_zero\<lparr>c_cflag := 0xFFFFFFFF\<rparr>)) AND 0x100 = 0x100"
  using line_settings[of linux_consts "termios_zero\<lparr>c_cflag := 0xFFFFFFFF\<rparr>"]
  by (simp add: linux_consts_def)

end
