(* ===== verification/Fuji_Ac_Service.thy ===== *)
theory Fuji_Ac_Service
  imports Closed_Loop Fuji_Serial_Setup
begin

text \<open>
  \<^verbatim>\<open>controller/fuji_ac_server.cc\<close>: the two gRPC services, whose handlers call the blocking
  \<^verbatim>\<open>Update\<close> and \<^verbatim>\<open>GetStatus\<close> of the controller, and the server program. A call blocks in
  \<^verbatim>\<open>mu_.Await(ready_)\<close> while the loop thread goes on from wherever it is: \<open>Await\<close> gives that thread its
  turns, each with the loop's own test of \<^verbatim>\<open>shutdown_\<close>, until \<open>ready\<close> holds, with \<open>n\<close> turns allowed
  (\<open>None\<close>: still blocked after them). These are the calls of one RPC thread with the loop; other RPC
  threads that come between are those of \<open>Controller_System\<close>.
  Transport, channel and credentials are gRPC's.
\<close>

section \<open>Blocking calls of the controller\<close>

fun Await ::
    "('w \<Rightarrow> (FujiMasterFrame option \<times> 'w) or_fatal) \<Rightarrow> (FujiControllerFrame \<Rightarrow> 'w \<Rightarrow> 'w or_fatal) \<Rightarrow>
       nat \<Rightarrow> 'w loop_thread \<Rightarrow> 'w loop_thread or_fatal option" where
  "Await rd wr 0 s = (if ready (fst (snd s)) then Some (Inr s) else None)"
| "Await rd wr (Suc n) s =
     (if ready (fst (snd s)) then Some (Inr s)
      else case loop_turn rd wr s of Inl e \<Rightarrow> Some (Inl e) | Inr s \<Rightarrow> Await rd wr n s)"

datatype absl_Status = absl_Ok | absl_Error string

definition Controller_Update ::
    "('w \<Rightarrow> (FujiMasterFrame option \<times> 'w) or_fatal) \<Rightarrow> (FujiControllerFrame \<Rightarrow> 'w \<Rightarrow> 'w or_fatal) \<Rightarrow>
       nat \<Rightarrow> ACUnitState \<Rightarrow> 'w loop_thread \<Rightarrow> (absl_Status \<times> 'w loop_thread) or_fatal option" where
  "Controller_Update rd wr n new_state s =
     (let (pc, c, w) = s in
      case Await rd wr n (pc, Update_begin new_state c, w) of
        None \<Rightarrow> None
      | Some (Inl e) \<Rightarrow> Some (Inl e)
      | Some (Inr s) \<Rightarrow> Some (Inr (absl_Ok, s)))"

definition Controller_GetStatus ::
    "('w \<Rightarrow> (FujiMasterFrame option \<times> 'w) or_fatal) \<Rightarrow> (FujiControllerFrame \<Rightarrow> 'w \<Rightarrow> 'w or_fatal) \<Rightarrow>
       nat \<Rightarrow> 'w loop_thread \<Rightarrow> (ACUnitState \<times> 'w loop_thread) or_fatal option" where
  "Controller_GetStatus rd wr n s =
     (case Await rd wr n s of
        None \<Rightarrow> None
      | Some (Inl e) \<Rightarrow> Some (Inl e)
      | Some (Inr (pc, c, w)) \<Rightarrow> Some (Inr (status_message (ac_state (client c)), pc, c, w)))"

section \<open>The services\<close>

datatype grpc_Status = grpc_OK | grpc_INTERNAL string

text \<open>
  The handlers fill in \<^verbatim>\<open>response\<close> and return a status: the pair is (status, response), the
  response an \<open>ACUnitState option\<close> that starts as \<open>None\<close> (no \<^verbatim>\<open>state\<close> set).
\<close>

definition Service_GetStatus ::
    "('w \<Rightarrow> (FujiMasterFrame option \<times> 'w) or_fatal) \<Rightarrow> (FujiControllerFrame \<Rightarrow> 'w \<Rightarrow> 'w or_fatal) \<Rightarrow>
       nat \<Rightarrow> 'w loop_thread \<Rightarrow>
       ((grpc_Status \<times> ACUnitState option) \<times> 'w loop_thread) or_fatal option" where
  "Service_GetStatus rd wr n s =
     (case Controller_GetStatus rd wr n s of
        None \<Rightarrow> None
      | Some (Inl e) \<Rightarrow> Some (Inl e)
      | Some (Inr (state, s)) \<Rightarrow> Some (Inr ((grpc_OK, Some state), s)))"

definition Service_Update ::
    "('w \<Rightarrow> (FujiMasterFrame option \<times> 'w) or_fatal) \<Rightarrow> (FujiControllerFrame \<Rightarrow> 'w \<Rightarrow> 'w or_fatal) \<Rightarrow>
       nat \<Rightarrow> ACUnitState \<Rightarrow> 'w loop_thread \<Rightarrow>
       ((grpc_Status \<times> ACUnitState option) \<times> 'w loop_thread) or_fatal option" where
  "Service_Update rd wr n new_state s =
     (case Controller_Update rd wr n new_state s of
        None \<Rightarrow> None
      | Some (Inl e) \<Rightarrow> Some (Inl e)
      | Some (Inr (absl_Ok, s)) \<Rightarrow>
          (case Controller_GetStatus rd wr n s of
             None \<Rightarrow> None
           | Some (Inl e) \<Rightarrow> Some (Inl e)
           | Some (Inr (state, s)) \<Rightarrow> Some (Inr ((grpc_OK, Some state), s)))
      | Some (Inr (absl_Error e, s)) \<Rightarrow>
          Some (Inr ((grpc_INTERNAL ''Failed to update the controller.'', None), s)))"

text \<open>
  The handlers of the simulator service have the same text as those of the real one, over the
  simulated unit.
\<close>

definition SimService_GetStatus ::
    "nat \<Rightarrow> FujiAcUnitSim loop_thread \<Rightarrow>
       ((grpc_Status \<times> ACUnitState option) \<times> FujiAcUnitSim loop_thread) or_fatal option" where
  "SimService_GetStatus = Service_GetStatus sim_ReadMasterFrame sim_WriteControllerFrame"

definition SimService_Update ::
    "nat \<Rightarrow> ACUnitState \<Rightarrow> FujiAcUnitSim loop_thread \<Rightarrow>
       ((grpc_Status \<times> ACUnitState option) \<times> FujiAcUnitSim loop_thread) or_fatal option" where
  "SimService_Update = Service_Update sim_ReadMasterFrame sim_WriteControllerFrame"

text \<open>
  The constructors. The real service reads and writes through its \<^verbatim>\<open>reader_\<close>, here the
  descriptor together with the state \<open>'t\<close> of the machine the operating system's calls act on. The
  controller's loop thread starts at the top of its loop (\<open>At_check\<close>).
\<close>

definition SimServiceImpl :: "FujiAcController \<times> FujiAcUnitSim" where
  "SimServiceImpl = (let sim = FujiAcUnitSim_init; controller = MakeFujiAcController in (controller, sim))"

definition RealServiceImpl ::
    "tty_consts \<Rightarrow> 't tty_os \<Rightarrow> string \<Rightarrow> 't \<Rightarrow> (FujiAcController \<times> int \<times> 't) or_fatal" where
  "RealServiceImpl k os FLAGS_serial_port t =
     (case reader_Build k os FLAGS_serial_port t of
        Inl e \<Rightarrow> Inl e
      | Inr reader \<Rightarrow> Inr (MakeFujiAcController, reader))"

definition real_WriteControllerFrame ::
    "(int \<Rightarrow> bytes \<Rightarrow> 't \<Rightarrow> int \<times> 't) \<Rightarrow> FujiControllerFrame \<Rightarrow> int \<times> 't \<Rightarrow> (int \<times> 't) or_fatal" where
  "real_WriteControllerFrame os_write frame reader =
     (let (fd, t) = reader in
      case reader_WriteControllerFrame (os_write fd) frame t of Inl e \<Rightarrow> Inl e | Inr t \<Rightarrow> Inr (fd, t))"

definition real_ReadMasterFrame ::
    "(int \<Rightarrow> 't \<Rightarrow> (int \<times> bytes) \<times> 't) \<Rightarrow> int \<times> 't \<Rightarrow> (FujiMasterFrame option \<times> int \<times> 't) or_fatal" where
  "real_ReadMasterFrame os_read reader =
     (let (fd, t) = reader in
      case reader_ReadMasterFrame (os_read fd) t of Inl e \<Rightarrow> Inl e | Inr (mf, t) \<Rightarrow> Inr (mf, fd, t))"

text \<open>
  \<^verbatim>\<open>RunServer\<close>. Building and starting the gRPC server is a parameter (false: a null pointer);
  \<^verbatim>\<open>server->Wait()\<close> then runs until the process ends. A bind port is printed in decimal.
\<close>

definition int_to_string :: "int \<Rightarrow> string" where
  "int_to_string i = (if i < 0 then ''-'' @ to_string (nat (- i)) else to_string (nat i))"

text \<open>The command line flags, with their defaults.\<close>

record server_flags =
  FLAGS_serial_port :: string
  FLAGS_sim :: bool
  FLAGS_bind_address :: string
  FLAGS_bind_port :: "32 word"

definition server_flags_default :: server_flags where
  "server_flags_default =
     \<lparr>FLAGS_serial_port = ''/dev/ttyAMA0'', FLAGS_sim = False, FLAGS_bind_address = [], FLAGS_bind_port = 12345\<rparr>"

datatype service = Sim_service FujiAcController FujiAcUnitSim | Real_service FujiAcController int

definition RunServer ::
    "tty_consts \<Rightarrow> 't tty_os \<Rightarrow> (string \<Rightarrow> service \<Rightarrow> 't \<Rightarrow> bool \<times> 't) \<Rightarrow>
       server_flags \<Rightarrow> 't \<Rightarrow> (service \<times> 't) or_fatal" where
  "RunServer k os build_and_start fl t =
     (let server_address = FLAGS_bind_address fl @ '':'' @ int_to_string (sint (FLAGS_bind_port fl)) in
      case (if FLAGS_sim fl
            then (case SimServiceImpl of (c, u) \<Rightarrow> Inr (Sim_service c u, t))
            else (case RealServiceImpl k os (FLAGS_serial_port fl) t of
                    Inl e \<Rightarrow> Inl e
                  | Inr (c, fd, t) \<Rightarrow> Inr (Real_service c fd, t))) of
        Inl e \<Rightarrow> Inl e
      | Inr (service, t) \<Rightarrow>
          (let (started, t) = build_and_start server_address service t
           in if started then Inr (service, t) else Inl ''Failed to create server''))"

text \<open>
  \<^verbatim>\<open>main\<close>. The parsing of the command line is gflags': the parameter \<open>parse\<close> gives the flags that
  the arguments make of the defaults.
\<close>

definition server_main ::
    "tty_consts \<Rightarrow> 't tty_os \<Rightarrow> (string \<Rightarrow> service \<Rightarrow> 't \<Rightarrow> bool \<times> 't) \<Rightarrow>
       (string list \<Rightarrow> server_flags \<Rightarrow> server_flags) \<Rightarrow> string list \<Rightarrow> 't \<Rightarrow> (int \<times> service \<times> 't) or_fatal" where
  "server_main k os build_and_start parse argv t =
     (case RunServer k os build_and_start (parse argv server_flags_default) t of
        Inl e \<Rightarrow> Inl e
      | Inr r \<Rightarrow> Inr (0, r))"

text \<open>
  With \<^verbatim>\<open>--sim\<close> no device is touched; without it the device is set up before the server is built,
  and a device that cannot be set up ends the process with the reader's message.
\<close>

abbreviation bind_to :: "server_flags \<Rightarrow> string" where
  "bind_to fl \<equiv> FLAGS_bind_address fl @ '':'' @ int_to_string (sint (FLAGS_bind_port fl))"

lemma RunServer_sim:
  "FLAGS_sim fl \<Longrightarrow> RunServer k os build fl t =
     (case build (bind_to fl) (Sim_service MakeFujiAcController FujiAcUnitSim_init) t of
        (started, t) \<Rightarrow> if started then Inr (Sim_service MakeFujiAcController FujiAcUnitSim_init, t)
                        else Inl ''Failed to create server'')"
  by (simp add: RunServer_def SimServiceImpl_def Let_def)

lemma RunServer_real:
  "\<not> FLAGS_sim fl \<Longrightarrow> reader_Build k os (FLAGS_serial_port fl) t = Inr (fd, t') \<Longrightarrow>
     RunServer k os build fl t =
     (case build (bind_to fl) (Real_service MakeFujiAcController fd) t' of
        (started, t) \<Rightarrow> if started then Inr (Real_service MakeFujiAcController fd, t)
                        else Inl ''Failed to create server'')"
  "\<not> FLAGS_sim fl \<Longrightarrow> reader_Build k os (FLAGS_serial_port fl) t = Inl e \<Longrightarrow> RunServer k os build fl t = Inl e"
  by (simp_all add: RunServer_def RealServiceImpl_def Let_def)

section \<open>What a blocking call returns\<close>

lemma Await_ready: "ready c \<Longrightarrow> Await rd wr n (pc, c, w) = Some (Inr (pc, c, w))"
  by (cases n) simp_all

lemma Await_Suc: "Await rd wr n s = Some r \<Longrightarrow> Await rd wr (Suc n) s = Some r"
proof (induction n arbitrary: s)
  case 0
  then show ?case by (simp split: if_splits)
next
  case (Suc n)
  show ?case
  proof (cases "ready (fst (snd s))")
    case False
    with Suc.prems Suc.IH show ?thesis
      by (cases "loop_turn rd wr s") (auto simp del: Await.simps(2) simp add: Await.simps(2)[of _ _ _ s])
  qed (use Suc.prems in simp)
qed

lemma Await_returns_ready: "Await rd wr n s = Some (Inr s') \<Longrightarrow> ready (fst (snd s'))"
  by (induction n arbitrary: s) (auto split: if_splits sum.splits)

text \<open>A call that returns is a run of the loop thread in the concurrent system.\<close>

lemma Await_run:
  assumes "Await rd wr n (sys_pc s, sys_ctl s, sys_bus s) = Some (Inr (pc, c, w))"
  shows "\<exists>fs. (sys_step rd wr env)\<^sup>*\<^sup>* s (s\<lparr>sys_ctl := c, sys_bus := w, sys_pc := pc, sys_wire := fs\<rparr>)"
  using assms
proof (induction n arbitrary: s)
  case 0
  then have "s\<lparr>sys_ctl := c, sys_bus := w, sys_pc := pc, sys_wire := sys_wire s\<rparr> = s"
    by (cases s) (simp split: if_splits)
  then show ?case by (intro exI[of _ "sys_wire s"]) simp
next
  case (Suc n)
  show ?case
  proof (cases "ready (sys_ctl s)")
    case True
    with Suc.prems have "s\<lparr>sys_ctl := c, sys_bus := w, sys_pc := pc, sys_wire := sys_wire s\<rparr> = s"
      by (cases s) simp
    then show ?thesis by (intro exI[of _ "sys_wire s"]) simp
  next
    case False
    with Suc.prems obtain pc1 c1 w1 where t: "loop_turn rd wr (sys_pc s, sys_ctl s, sys_bus s) = Inr (pc1, c1, w1)"
      and a: "Await rd wr n (pc1, c1, w1) = Some (Inr (pc, c, w))"
      by (auto split: sum.splits)
    from loop_turn_run[OF t, of env] obtain fs where
      run: "(sys_step rd wr env)\<^sup>*\<^sup>* s (s\<lparr>sys_ctl := c1, sys_bus := w1, sys_pc := pc1, sys_wire := fs\<rparr>)" ..
    from Suc.IH[of "s\<lparr>sys_ctl := c1, sys_bus := w1, sys_pc := pc1, sys_wire := fs\<rparr>"] a obtain gs where
      "(sys_step rd wr env)\<^sup>*\<^sup>* (s\<lparr>sys_ctl := c1, sys_bus := w1, sys_pc := pc1, sys_wire := fs\<rparr>)
         (s\<lparr>sys_ctl := c, sys_bus := w, sys_pc := pc, sys_wire := gs\<rparr>)" by auto
    with run show ?thesis by (meson rtranclp_trans)
  qed
qed

text \<open>Once the flag is set and the thread is at its test, or has left, a call never returns.\<close>

lemma Await_shut_down:
  assumes "shutdown c" and "\<not> ready c" and "pc = At_check \<or> pc = Exited"
  shows "Await rd wr n (pc, c, w) = None"
  using assms by (induction n arbitrary: pc) auto

text \<open>
  When the controller becomes ready, the settings it shows are the unit's. (Its temperature and
  economy flag may be those it has just written, before the unit reports what it made of them.)
\<close>

definition shows_unit :: "FujiAcController \<Rightarrow> FujiAcUnitSim \<Rightarrow> bool" where
  "shows_unit c u \<longleftrightarrow> ac_mode (ctl_state c) = v_mode (unit_view u) \<and>
     ac_enabled (ctl_state c) = v_enabled (unit_view u) \<and> ac_fan (ctl_state c) = v_fan (unit_view u) \<and>
     (ac_mode (ctl_state c) \<noteq> mode_FAN \<longrightarrow>
        ac_temperature (ctl_state c) AND 127 = v_temperature (unit_view u))"

lemma unit_temperature_127 [simp]: "v_temperature (unit_view u) AND 127 = v_temperature (unit_view u)"
  by (simp add: byte_below_128 unit_view_def status_at_temperature)

lemma step_shows:
  assumes inv: "closed_inv c u" and "\<not> ready c" and s: "sim_step (c, u) = (c', u')" and "ready c'"
  shows "shows_unit c' u'"
proof -
  have ok: "sim_ok u" using inv by (simp add: closed_inv_def)
  have q: "next_query_register u = reg_STATUS"
  proof (rule ccontr)
    assume "next_query_register u \<noteq> reg_STATUS"
    with inv have "next_query_register u = reg_LOGIN" by (auto simp: closed_inv_def)
    from sim_step_login[OF inv this] assms show False by auto
  qed
  let ?s = "next_state_of (unit_view u) (ctl_state c)"
    and ?u = "snd (GetNextMasterFrame u)" and ?m = "ac_merged (ctl_state c)"
  have "\<not> (login_read (client c) \<or> ?m \<and> \<not> v_present (unit_view u))"
    using sim_step_status[OF inv q] assms by (auto simp: Let_def split: if_splits)
  with sim_step_status[OF inv q] s have c': "ctl_state c' = ?s\<lparr>ac_merged := True\<rparr>"
    and u': "u' = PushControllerFrame (status_frame (\<not> ?m) ?s) ?u"
    by (auto simp: Let_def)
  show ?thesis
    by (cases ?m) (simp_all add: shows_unit_def c' u' push_after_poll ok next_state_of_def Let_def
        view_simps show_state_def blank_status_def unit_accept_def)
qed

lemma hand_shows:
  assumes inv: "closed_inv c u" and fits: "frame_fits u mf" and "\<not> ready c" and m: "\<not> ac_merged (ctl_state c)"
    and h: "handle_frame mf c = (Some f, c')" and "ready c'"
  shows "shows_unit c' (PushControllerFrame f u)"
proof -
  have ok: "sim_ok u" using inv by (simp add: closed_inv_def)
  have t: "mf_Type mf = reg_STATUS"
    using inv fits handle_closed_login[OF inv fits] h assms(3,6) by (auto simp: closed_inv_def frame_fits_def)
  from h handle_closed_status[OF inv fits t] m assms(3,6) have c': "ctl_state c' = (ctl_state c)\<lparr>ac_merged := True\<rparr>"
    and f: "f = status_frame True (ctl_state c)"
    by (auto simp: next_state_of_def Let_def split: if_splits)
  show ?thesis
    using ok by (simp add: shows_unit_def c' f push_view view_simps show_state_def blank_status_def
        unit_accept_def Let_def)
qed

text \<open>From the top of the loop, or a read that is under way, five turns are enough.\<close>

lemma turn_sim:
  "\<not> shutdown c \<Longrightarrow> pc = At_check \<or> pc = Reading \<Longrightarrow>
     loop_turn sim_ReadMasterFrame sim_WriteControllerFrame (pc, c, u) = Inr (At_check, sim_step (c, u))"
  by (cases "sim_step (c, u)") (auto simp: loop_body_sim)

lemma sim_step_shutdown: "sim_step (c, u) = (c', u') \<Longrightarrow> shutdown c' = shutdown c"
  using loop_body_shutdown[of sim_ReadMasterFrame sim_WriteControllerFrame c u c' u'] by (simp add: loop_body_sim)

lemma Await_top:
  assumes "closed_inv c u" and "\<not> shutdown c" and "\<not> ready c" and "rank c u \<le> n" and "pc = At_check \<or> pc = Reading"
  shows "\<exists>c' u'. Await sim_ReadMasterFrame sim_WriteControllerFrame n (pc, c, u) = Some (Inr (At_check, c', u')) \<and>
      closed_inv c' u' \<and> ready c' \<and> shows_unit c' u' \<and> target c u = settings (unit_view u')"
  using assms
proof (induction n arbitrary: pc c u)
  case 0
  then have "rank c u = 0" by simp
  with rank_0 settled_simps(1) 0 show ?case by blast
next
  case (Suc n)
  obtain c1 u1 where s: "sim_step (c, u) = (c1, u1)" by fastforce
  note inv1 = closed_inv_sim_step[OF Suc.prems(1) s] and t = target_step[OF Suc.prems(1) s]
  have sd: "\<not> shutdown c1" using sim_step_shutdown[OF s] Suc.prems(2) by simp
  have A: "Await sim_ReadMasterFrame sim_WriteControllerFrame (Suc n) (pc, c, u) =
      Await sim_ReadMasterFrame sim_WriteControllerFrame n (At_check, c1, u1)"
    using turn_sim[OF Suc.prems(2,5), of u] Suc.prems(3) s by simp
  show ?case
  proof (cases "ready c1")
    case True
    moreover have "target c1 u1 = settings (unit_view u1)"
      using True inv1 by (simp add: target_def closed_inv_def)
    moreover have "shows_unit c1 u1" by (rule step_shows[OF Suc.prems(1,3) s True])
    ultimately show ?thesis using inv1 t A by (simp add: Await_ready)
  next
    case False
    have "rank c1 u1 \<le> n" using rank_step[OF Suc.prems(1) s] Suc.prems(4) by simp
    from Suc.IH[OF inv1 sd False this, of At_check] show ?thesis by (simp only: A t simp_thms)
  qed
qed

text \<open>
  From any point of an iteration one more is, for a frame in hand. A frame that is older than a
  key of the remote may make a merged controller ready with what the unit had then.
\<close>

lemma Await_sim:
  assumes inv: "closed_inv c u" and hand: "hand_fits u pc" and "pc \<noteq> Exited" and sd: "\<not> shutdown c"
    and nr: "\<not> ready c" and "5 + frames_in_hand pc \<le> n"
  obtains c' u' where "Await sim_ReadMasterFrame sim_WriteControllerFrame n (pc, c, u) = Some (Inr (At_check, c', u'))"
    "closed_inv c' u'" "ready c'" "target c u = settings (unit_view u')"
    "\<not> ac_merged (ctl_state c) \<or> frames_in_hand pc = 0 \<longrightarrow> shows_unit c' u'"
proof (cases "\<exists>mf. pc = Handling mf")
  case True
  then obtain mf where pc: "pc = Handling mf" ..
  with hand have fits: "frame_fits u mf" by simp
  obtain cf c1 where h: "handle_frame mf c = (cf, c1)" by fastforce
  from closed_inv_handle[OF inv fits h] obtain f
    where f: "cf = Some f" and inv1: "closed_inv c1 (PushControllerFrame f u)" by blast
  let ?u = "PushControllerFrame f u"
  note h = h[unfolded f] and tgt = target_handle[OF inv fits h[unfolded f]]
  obtain m where n: "n = Suc m" "5 \<le> m" using assms(6) pc by (cases n) auto
  have A: "Await sim_ReadMasterFrame sim_WriteControllerFrame n (pc, c, u) =
      Await sim_ReadMasterFrame sim_WriteControllerFrame m (At_check, c1, ?u)"
    using nr h by (simp add: n pc finish_iteration_def write_answer_def sim_WriteControllerFrame_def)
  show thesis
  proof (cases "ready c1")
    case True
    have "target c u = settings (unit_view ?u)" using True inv1 tgt by (simp add: target_def closed_inv_def)
    with A True inv1 show thesis
      by (rule_tac that[of c1 ?u]) (auto simp: Await_ready pc intro: hand_shows[OF inv fits nr _ h True])
  next
    case False
    have "rank c1 ?u \<le> m" using rank_bound[of c1 ?u] n by simp
    with Await_top[OF inv1 _ False this, of At_check] handle_frame_shutdown[OF h] sd A tgt that
    show thesis by auto
  qed
next
  case False
  have "rank c u \<le> n" using rank_bound[of c u] assms(6) by simp
  moreover have "pc = At_check \<or> pc = Reading" using False assms(3) by (cases pc) auto
  ultimately show thesis using Await_top[OF inv sd nr] that by blast
qed

lemma turn_closed_inv:
  assumes "closed_inv c u" and "hand_fits u pc" and "pc \<noteq> Exited" and "\<not> shutdown c"
    and "loop_turn sim_ReadMasterFrame sim_WriteControllerFrame (pc, c, u) = Inr (pc', c', u')"
  shows "closed_inv c' u' \<and> \<not> shutdown c'"
proof (cases "\<exists>mf. pc = Handling mf")
  case True
  then obtain mf where pc: "pc = Handling mf" ..
  with assms(2) have fits: "frame_fits u mf" by simp
  obtain cf c1 where h: "handle_frame mf c = (cf, c1)" by fastforce
  from closed_inv_handle[OF assms(1) fits h] obtain f
    where f: "cf = Some f" "closed_inv c1 (PushControllerFrame f u)" by blast
  with assms(4,5) h handle_frame_shutdown[OF h] show ?thesis
    by (auto simp: pc finish_iteration_def write_answer_def sim_WriteControllerFrame_def)
next
  case False
  with assms(3) have "pc = At_check \<or> pc = Reading" by (cases pc) auto
  from turn_sim[OF assms(4) this, of u] assms(5) have "sim_step (c, u) = (c', u')" by simp
  from closed_inv_sim_step[OF assms(1) this] sim_step_shutdown[OF this] assms(4) show ?thesis by simp
qed

lemma Service_Update_sim:
  assumes "closed_inv c u" and "hand_fits u pc" and "pc \<noteq> Exited" and "\<not> shutdown c"
    and "5 + frames_in_hand pc \<le> n"
  obtains c' u' where "SimService_Update n ns (pc, c, u) =
      Some (Inr ((grpc_OK, Some (status_message (ctl_state c'))), At_check, c', u'))"
    "closed_inv c' u'" "ready c'" "target (Update_begin ns c) u = settings (unit_view u')"
    "is_request ns \<or> frames_in_hand pc = 0 \<longrightarrow> shows_unit c' u'"
proof -
  have sd: "\<not> shutdown (Update_begin ns c)" and nr: "\<not> ready (Update_begin ns c)" using assms(4) by simp_all
  obtain c' u' where
    "Await sim_ReadMasterFrame sim_WriteControllerFrame n (pc, Update_begin ns c, u) = Some (Inr (At_check, c', u'))"
    "closed_inv c' u'" "ready c'" "target (Update_begin ns c) u = settings (unit_view u')"
    and "\<not> ac_merged (ctl_state (Update_begin ns c)) \<or> frames_in_hand pc = 0 \<longrightarrow> shows_unit c' u'"
    using Await_sim[OF closed_inv_update[OF assms(1)] assms(2,3) sd nr assms(5)] .
  then show thesis
    using that by (simp add: SimService_Update_def Service_Update_def Controller_Update_def Controller_GetStatus_def Await_ready)
qed

text \<open>The status call returns as soon as the controller is ready and leaves the unit's settings alone.\<close>

lemma Service_GetStatus_sim:
  assumes "closed_inv c u" and "hand_fits u pc" and "pc \<noteq> Exited" and "\<not> shutdown c"
    and "5 + frames_in_hand pc \<le> n"
  obtains pc' c' u' where "SimService_GetStatus n (pc, c, u) =
      Some (Inr ((grpc_OK, Some (status_message (ctl_state c'))), pc', c', u'))"
    "closed_inv c' u'" "ready c'" "target c u = settings (unit_view u')"
proof (cases "ready c")
  case True
  with assms(1) have "target c u = settings (unit_view u)" by (simp add: target_def closed_inv_def)
  with True assms(1) show thesis
    by (intro that) (simp_all add: SimService_GetStatus_def Service_GetStatus_def
        Controller_GetStatus_def Await_ready)
next
  case False
  obtain c' u' where
    A: "Await sim_ReadMasterFrame sim_WriteControllerFrame n (pc, c, u) = Some (Inr (At_check, c', u'))"
    and r: "closed_inv c' u'" "ready c'" "target c u = settings (unit_view u')"
    using Await_sim[OF assms(1-4) False assms(5)] .
  show thesis
    by (rule that[OF _ r]) (simp add: SimService_GetStatus_def Service_GetStatus_def Controller_GetStatus_def A)
qed

lemma target_update:
  "is_request ns \<Longrightarrow> target (Update_begin ns c) u =
     settings (unit_accept (show_state (requested_state ns (ctl_state c)) blank_status) (unit_view u))"
  "\<not> is_request ns \<Longrightarrow> target (Update_begin ns c) u = target c u"
  by (simp_all add: target_def requested_state_def is_request_def show_state_def)

lemma unit_accept_shown [simp]:
  "v_mode (unit_accept (show_state s v) w) = ac_mode s"
  "v_enabled (unit_accept (show_state s v) w) = ac_enabled s"
  "v_fan (unit_accept (show_state s v) w) = ac_fan s"
  "v_swing (unit_accept (show_state s v) w) = ac_swing s"
  "v_error (unit_accept (show_state s v) w) = v_error w"
  "v_temperature (unit_accept (show_state s v) w) =
     (if ac_mode s = mode_FAN then 18 else ac_temperature s AND 127)"
  by (simp_all add: unit_accept_def show_state_def)

lemma unit_accept_economy:
  "v_economy (unit_accept (show_state s blank_status) w) =
     (if ac_mode s = mode_FAN then False else ac_economy s \<or> 128 \<le> ac_temperature s)"
  by (simp add: unit_accept_def show_state_def blank_status_def)

lemma unit_temperature_below: "\<not> 128 \<le> v_temperature (unit_view u)"
  using temperature_bound by (simp add: not_le unit_view_def status_at_def)

text \<open>A message shows mode, power state and fan.\<close>

lemma pb_mode_message:
  "pb_mode (status_message s) =
     (if ac_enabled s then
        (case ac_mode s of mode_AUTO \<Rightarrow> MODE_AUTO | mode_COOL \<Rightarrow> MODE_COOL | mode_DRY \<Rightarrow> MODE_DRY
         | mode_FAN \<Rightarrow> MODE_FAN | mode_HEAT \<Rightarrow> MODE_HEAT | mode_UNKNOWN \<Rightarrow> MODE_UNKNOWN)
      else MODE_OFF)"
  by (cases "ac_enabled s"; cases "ac_mode s"; cases "ac_fan s")
    (simp_all add: status_message_def ACUnitState_default_def Let_def)

lemma pb_fan_message:
  "pb_fan (status_message s) =
     (case ac_fan s of fan_AUTO \<Rightarrow> FAN_AUTO | fan_MAX \<Rightarrow> FAN_MAX | fan_HIGH \<Rightarrow> FAN_HIGH
      | fan_MEDIUM \<Rightarrow> FAN_MEDIUM | fan_LOW \<Rightarrow> FAN_LOW | fan_UNKNOWN \<Rightarrow> FAN_UNKNOWN)"
  by (cases "ac_enabled s"; cases "ac_mode s"; cases "ac_fan s")
    (simp_all add: status_message_def ACUnitState_default_def Let_def)

lemma status_message_temperature:
  "pb_setpoint_temperature (status_message s) = ucast (ac_temperature s)"
  by (cases "ac_enabled s"; cases "ac_mode s"; cases "ac_fan s")
    (simp_all add: status_message_def ACUnitState_default_def Let_def)

text \<open>Requests that set a mode, or a fan speed, and their echo in the message.\<close>

definition sets_mode :: "ACUnitState \<Rightarrow> bool" where
  "sets_mode ns \<longleftrightarrow> pb_mode ns \<in> {MODE_OFF, MODE_AUTO, MODE_COOL, MODE_HEAT, MODE_DRY, MODE_FAN}"

definition sets_fan :: "ACUnitState \<Rightarrow> bool" where
  "sets_fan ns \<longleftrightarrow> pb_fan ns \<in> {FAN_AUTO, FAN_MAX, FAN_HIGH, FAN_MEDIUM, FAN_LOW}"

lemma sets_is_request: "sets_mode ns \<Longrightarrow> is_request ns" "sets_fan ns \<Longrightarrow> is_request ns"
  by (auto simp: sets_mode_def sets_fan_def is_request_def)

lemma message_echo:
  "sets_mode ns \<Longrightarrow> ac_enabled s = ac_enabled (requested_state ns s0) \<Longrightarrow>
     ac_mode s = ac_mode (requested_state ns s0) \<Longrightarrow> pb_mode (status_message s) = pb_mode ns"
  "sets_fan ns \<Longrightarrow> ac_fan s = ac_fan (requested_state ns s0) \<Longrightarrow>
     pb_fan (status_message s) = pb_fan ns"
  by (auto simp: sets_mode_def sets_fan_def requested_state_def pb_mode_message pb_fan_message)

lemma target_update_settings:
  assumes "is_request ns" and "target (Update_begin ns c) u = settings (unit_view u')"
  shows "v_mode (unit_view u') = ac_mode (requested_state ns (ctl_state c))"
    "v_enabled (unit_view u') = ac_enabled (requested_state ns (ctl_state c))"
    "v_fan (unit_view u') = ac_fan (requested_state ns (ctl_state c))"
    "v_temperature (unit_view u') = (if ac_mode (requested_state ns (ctl_state c)) = mode_FAN then 18
       else ac_temperature (requested_state ns (ctl_state c)) AND 127)"
  using settings_eqD[OF assms(2)[unfolded target_update(1)[OF assms(1)]]] by simp_all

end
