(* ===== verification/Real_Line.thy ===== *)
theory Real_Line
  imports Fuji_Ac_Service
begin

text \<open>
  The real service, with the tty reader of \<^verbatim>\<open>fuji_ac_serial_reader.cc\<close>, on a half-duplex line with a
  main unit at its other end. The calls \<^verbatim>\<open>read\<close> and \<^verbatim>\<open>write\<close> are the operating system's: parameters
  \<open>os_read\<close>, \<open>os_write\<close> on its state \<open>'t\<close>, of which is assumed what \<open>read_contract\<close> and
  \<open>write_contract\<close> say and nothing else. A line that keeps them provides the interface the
  controller's properties are proved for.
\<close>

section \<open>What is assumed of the line\<close>

text \<open>
  Two observations of the state: \<open>on_line\<close>, the frames on the line that the program has not read,
  oldest first, each as the bytes that are left of it; and \<open>main_unit\<close>, the unit. The unit sends
  its next frame only when there is nothing on the line, and its frames come with gaps between
  them: a read gets bytes of one frame. It gets the first bytes that are left of it, which are then
  gone, whole frame or not; so the rest of a frame that was cut short is read by the next calls. A
  read may time out with nothing. Without the gaps the program would lose the frame boundaries,
  since it never looks for them.
\<close>

fun receives :: "nat \<Rightarrow> bytes \<Rightarrow> bytes list \<Rightarrow> bytes list \<Rightarrow> bool" where
  "receives k buf [] fs' \<longleftrightarrow> k = 0 \<and> fs' = []"
| "receives k buf (f # fs) fs' \<longleftrightarrow> k \<le> length f \<and> take k buf = take k f \<and>
     fs' = (if k < length f then drop k f # fs else fs)"

definition line_offers ::
    "('t \<Rightarrow> bytes list) \<Rightarrow> ('t \<Rightarrow> FujiAcUnitSim) \<Rightarrow> 't \<Rightarrow> bytes list \<times> FujiAcUnitSim \<Rightarrow> bool" where
  "line_offers on_line main_unit t r \<longleftrightarrow> r = (on_line t, main_unit t) \<or>
     on_line t = [] \<and> (case GetNextMasterFrame (main_unit t) of (mf, u) \<Rightarrow> r = ([flip_bytes (mf_data mf)], u))"

definition read_contract ::
    "(int \<Rightarrow> 't \<Rightarrow> (int \<times> bytes) \<times> 't) \<Rightarrow> ('t \<Rightarrow> bytes list) \<Rightarrow> ('t \<Rightarrow> FujiAcUnitSim) \<Rightarrow> int \<Rightarrow> bool" where
  "read_contract os_read on_line main_unit fd \<longleftrightarrow>
     (\<forall>t n buf t'. os_read fd t = ((n, buf), t') \<and> 0 \<le> n \<longrightarrow>
        length buf = 8 \<and>
        (n = 0 \<longrightarrow> on_line t' = on_line t \<and> main_unit t' = main_unit t) \<and>
        (\<exists>fs. line_offers on_line main_unit t (fs, main_unit t') \<and> receives (nat n) buf fs (on_line t')))"

text \<open>
  A write of all eight bytes reaches the unit, and its bytes may come back on the line (on a line
  with separate wires they do not).
\<close>

definition write_contract ::
    "(int \<Rightarrow> bytes \<Rightarrow> 't \<Rightarrow> int \<times> 't) \<Rightarrow> ('t \<Rightarrow> bytes list) \<Rightarrow> ('t \<Rightarrow> FujiAcUnitSim) \<Rightarrow> int \<Rightarrow> bool" where
  "write_contract os_write on_line main_unit fd \<longleftrightarrow>
     (\<forall>d t t'. length d = 8 \<and> os_write fd d t = (8, t') \<longrightarrow>
        (on_line t' = on_line t \<or> on_line t' = on_line t @ [d]) \<and>
        main_unit t' = PushControllerFrame (ControllerFrame (flip_bytes d)) (main_unit t))"

text \<open>
  What the world does to the line between the controller's calls: the remote or an error of the
  unit; frames that get lost, or lose bytes.
\<close>

definition line_env ::
    "('t \<Rightarrow> bytes list) \<Rightarrow> ('t \<Rightarrow> FujiAcUnitSim) \<Rightarrow> int \<times> 't \<Rightarrow> int \<times> 't \<Rightarrow> bool" where
  "line_env on_line main_unit r r' \<longleftrightarrow> fst r' = fst r \<and>
     (on_line (snd r') = on_line (snd r) \<and> unit_env (main_unit (snd r)) (main_unit (snd r')) \<or>
      main_unit (snd r') = main_unit (snd r) \<and>
        (\<forall>f \<in> set (on_line (snd r')). f \<in> set (on_line (snd r)) \<or> (\<exists>g \<in> set (on_line (snd r)). length f < length g)))"

section \<open>Such a line provides the controller's interface\<close>

text \<open>
  On all lines that can come up no piece has more than eight bytes, and a whole frame on the line
  is one that the handler has sent, so not one for it.
\<close>

definition piece_ok :: "bytes \<Rightarrow> bool" where
  "piece_ok d \<longleftrightarrow> length d \<le> 8 \<and>
     (length d = 8 \<longrightarrow> mf_Destination (MasterFrame (flip_bytes d)) \<noteq> dest_WIRED_CONTROLLER_ADDR)"

definition line_ok ::
    "('t \<Rightarrow> bytes list) \<Rightarrow> ('t \<Rightarrow> FujiAcUnitSim) \<Rightarrow> int \<Rightarrow> int \<times> 't \<Rightarrow> bool" where
  "line_ok on_line main_unit fd r \<longleftrightarrow> fst r = fd \<and> sim_ok (main_unit (snd r)) \<and>
     (\<forall>d \<in> set (on_line (snd r)). piece_ok d)"

abbreviation line_asked :: "('t \<Rightarrow> FujiAcUnitSim) \<Rightarrow> int \<times> 't \<Rightarrow> RegisterType" where
  "line_asked main_unit r \<equiv> next_query_register (main_unit (snd r))"

lemma MasterFrame_flip [simp]: "mf_ok mf \<Longrightarrow> MasterFrame (flip_bytes (flip_bytes (mf_data mf))) = mf"
  by (simp add: mf_ok_def flip_flip MasterFrame_def)

lemma ControllerFrame_flip [simp]: "cf_ok f \<Longrightarrow> ControllerFrame (flip_bytes (flip_bytes (cf_data f))) = f"
  by (simp add: cf_ok_def flip_flip ControllerFrame_def)

lemma piece_short: "length d < 8 \<Longrightarrow> piece_ok d"
  by (simp add: piece_ok_def)

lemma receives_ok:
  assumes "receives k buf fs fs'" and "\<forall>d \<in> set (tl fs). piece_ok d" and "fs \<noteq> [] \<Longrightarrow> length (hd fs) \<le> 8" and "0 < k"
  shows "\<forall>d \<in> set fs'. piece_ok d"
  using assms by (cases fs) (auto simp: piece_short split: if_splits)

text \<open>A read of the program on such a line: nothing, a frame of its own, or the unit's next one.\<close>

lemma line_read_cases:
  assumes con: "read_contract os_read on_line main_unit fd" and ok: "line_ok on_line main_unit fd (fd, t)"
    and rd: "real_ReadMasterFrame os_read (fd, t) = Inr (x, r)"
  obtains (short) t' where "r = (fd, t')" "x = None" "line_ok on_line main_unit fd (fd, t')"
      "line_asked main_unit (fd, t') = line_asked main_unit (fd, t)"
  | (echo) t' d fs where "r = (fd, t')" "on_line t = d # fs" "on_line t' = fs" "main_unit t' = main_unit t"
      "length d = 8" "x = Some (MasterFrame (flip_bytes d))"
  | (poll) t' where "r = (fd, t')" "on_line t = []" "on_line t' = []"
      "GetNextMasterFrame (main_unit t) = (the x, main_unit t')" "x \<noteq> None"
proof -
  obtain n buf t' where o: "os_read fd t = ((n, buf), t')" by (metis prod.exhaust)
  have n: "0 \<le> n" and r: "r = (fd, t')"
    and x: "x = (if n < 8 then None else Some (MasterFrame (flip_bytes buf)))"
    using rd o by (auto simp: real_ReadMasterFrame_def reader_ReadMasterFrame_def split: if_splits)
  obtain fs where len: "length buf = 8"
    and z: "n = 0 \<Longrightarrow> on_line t' = on_line t \<and> main_unit t' = main_unit t"
    and offers: "line_offers on_line main_unit t (fs, main_unit t')"
    and rec: "receives (nat n) buf fs (on_line t')"
    using con o n unfolding read_contract_def by blast
  have u: "sim_ok (main_unit t)" and pieces: "\<forall>d \<in> set (on_line t). piece_ok d" using ok by (simp_all add: line_ok_def)
  obtain mf u1 where g: "GetNextMasterFrame (main_unit t) = (mf, u1)" by fastforce
  then have mf: "mf_ok mf" using next_frame(1)[OF u] by simp
  consider (old) "fs = on_line t" "main_unit t' = main_unit t"
    | (new) "on_line t = []" "fs = [flip_bytes (mf_data mf)]" "main_unit t' = u1"
    using offers g by (auto simp: line_offers_def)
  then show thesis
  proof cases
    case old
    show thesis
    proof (cases "n < 8")
      case True
      have "\<forall>d \<in> set (on_line t'). piece_ok d"
      proof (cases "n = 0")
        case False
        with receives_ok[OF rec] old pieces n show ?thesis by (cases "on_line t") (auto simp: piece_ok_def)
      qed (use z pieces in auto)
      with True x r u old show thesis by (intro short[of t']) (simp_all add: line_ok_def)
    next
      case False
      with rec old obtain d ds where d: "on_line t = d # ds" by (cases "on_line t") auto
      then have "length d \<le> 8" using pieces by (simp add: piece_ok_def)
      with False rec old d len have "length d = 8" "buf = d" "on_line t' = ds" by (auto split: if_splits)
      with d old False x r show thesis by (intro echo[of t' d ds]) simp_all
    qed
  next
    case new
    have l: "length (flip_bytes (mf_data mf)) = 8" using mf by (simp add: mf_ok_def)
    have u1: "sim_ok u1" "next_query_register u1 = next_query_register (main_unit t)"
      using next_state(1,2)[OF u] g by simp_all
    show thesis
    proof (cases "n < 8")
      case True
      have "\<forall>d \<in> set (on_line t'). piece_ok d"
        using z new receives_ok[OF rec] n l by (cases "n = 0") auto
      with True x r u1 new show thesis by (intro short[of t']) (simp_all add: line_ok_def)
    next
      case False
      with rec new l len have "buf = flip_bytes (mf_data mf)" "on_line t' = []" by (auto split: if_splits)
      with False new x r g mf show thesis by (intro poll[of t']) simp_all
    qed
  qed
qed

lemma line_write_frame:
  assumes "write_contract os_write on_line main_unit fd" and "cf_ok f"
    and "real_WriteControllerFrame os_write f (fd, t) = Inr r"
  obtains t' where "r = (fd, t')" "main_unit t' = PushControllerFrame f (main_unit t)"
    "on_line t' = on_line t \<or> on_line t' = on_line t @ [flip_bytes (cf_data f)]"
proof -
  let ?d = "flip_bytes (cf_data f)"
  obtain n t' where o: "os_write fd ?d t = (n, t')" by fastforce
  then have n: "n = 8" and r: "r = (fd, t')"
    using assms(3) by (auto simp: real_WriteControllerFrame_def reader_WriteControllerFrame_def cf_FullFrame_def
        split: if_splits)
  have "length ?d = 8" using assms(2) by (simp add: cf_ok_def)
  with assms(1,2) o n have "(on_line t' = on_line t \<or> on_line t' = on_line t @ [?d]) \<and>
      main_unit t' = PushControllerFrame f (main_unit t)"
    unfolding write_contract_def by (metis ControllerFrame_flip)
  with r that show thesis by blast
qed

lemma line_polled_bus:
  assumes rc: "read_contract os_read on_line main_unit fd" and wc: "write_contract os_write on_line main_unit fd"
  shows "polled_bus (real_ReadMasterFrame os_read) (real_WriteControllerFrame os_write)
    (line_ok on_line main_unit fd) (line_asked main_unit) (line_env on_line main_unit)"
proof unfold_locales
  fix w w' :: "int \<times> 'a" and mf x f
  assume ok: "line_ok on_line main_unit fd w"
  then obtain t where w: "w = (fd, t)" by (cases w) (auto simp: line_ok_def)
  note ok' = ok[unfolded w]
  have u: "sim_ok (main_unit t)" and pieces: "\<forall>d \<in> set (on_line t). piece_ok d" using ok' by (simp_all add: line_ok_def)
  note cases = line_read_cases[OF rc ok']
  show "real_ReadMasterFrame os_read w = Inr (Some mf, w') \<Longrightarrow> mf_ok mf" unfolding w
    by (erule cases) (use next_frame(1)[OF u] in \<open>auto simp: mf_ok_def MasterFrame_def\<close>)
  show "real_ReadMasterFrame os_read w = Inr (x, w') \<Longrightarrow> line_ok on_line main_unit fd w'" unfolding w
    by (erule cases) (use u pieces next_state(1)[OF u] in \<open>auto simp: line_ok_def\<close>)
  show "real_ReadMasterFrame os_read w = Inr (Some mf, w') \<Longrightarrow>
      mf_Destination mf = dest_WIRED_CONTROLLER_ADDR \<Longrightarrow> line_asked main_unit w \<noteq> reg_UNKNOWN \<Longrightarrow>
      mf_Type mf = line_asked main_unit w" unfolding w
    by (erule cases) (use pieces next_frame(3)[OF u] in \<open>auto simp: piece_ok_def\<close>)
  show "real_ReadMasterFrame os_read w = Inr (x, w') \<Longrightarrow> line_asked main_unit w' = line_asked main_unit w" unfolding w
    by (erule cases) (use next_state(2)[OF u] in auto)
  show "line_ok on_line main_unit fd w'"
    if "cf_ok f" "echo_harmless f" "real_WriteControllerFrame os_write f w = Inr w'"
    by (rule line_write_frame[OF wc that(1) that(3)[unfolded w]])
      (use that u pieces in \<open>auto simp: line_ok_def piece_ok_def echo_harmless_def push_state cf_ok_def flip_flip\<close>)
  show "line_asked main_unit w' = cf_QueryRegister f"
    if "cf_ok f" "echo_harmless f" "cf_QueryRegister f \<noteq> reg_UNKNOWN" "real_WriteControllerFrame os_write f w = Inr w'"
    by (rule line_write_frame[OF wc that(1) that(4)[unfolded w]]) (use that u in \<open>auto simp: push_state\<close>)
  show "line_ok on_line main_unit fd w'" if e: "line_env on_line main_unit w w'"
  proof -
    have "piece_ok f" if f: "f \<in> set (on_line (snd w'))" for f
    proof (cases "f \<in> set (on_line t)")
      case False
      with e f obtain g where "g \<in> set (on_line t)" "length f < length g" by (auto simp: w line_env_def)
      with pieces have "length f < 8" by (force simp: piece_ok_def)
      then show ?thesis by (rule piece_short)
    qed (use pieces in blast)
    moreover have "fst w' = fd" "sim_ok (main_unit (snd w'))" using e u by (auto simp: w line_env_def env_state)
    ultimately show ?thesis by (simp add: line_ok_def)
  qed
  show "line_env on_line main_unit w w' \<Longrightarrow> line_asked main_unit w' = line_asked main_unit w"
    by (auto simp: line_env_def env_state)
qed

abbreviation line_reachable ::
    "(int \<Rightarrow> 't \<Rightarrow> (int \<times> bytes) \<times> 't) \<Rightarrow> (int \<Rightarrow> bytes \<Rightarrow> 't \<Rightarrow> int \<times> 't) \<Rightarrow>
       ('t \<Rightarrow> bytes list) \<Rightarrow> ('t \<Rightarrow> FujiAcUnitSim) \<Rightarrow> int \<times> 't \<Rightarrow> (int \<times> 't) system \<Rightarrow> bool" where
  "line_reachable os_read os_write on_line main_unit \<equiv>
     sys_reachable (real_ReadMasterFrame os_read) (real_WriteControllerFrame os_write) (line_env on_line main_unit)"

abbreviation line_sys_step ::
    "(int \<Rightarrow> 't \<Rightarrow> (int \<times> bytes) \<times> 't) \<Rightarrow> (int \<Rightarrow> bytes \<Rightarrow> 't \<Rightarrow> int \<times> 't) \<Rightarrow>
       ('t \<Rightarrow> bytes list) \<Rightarrow> ('t \<Rightarrow> FujiAcUnitSim) \<Rightarrow> (int \<times> 't) system \<Rightarrow> (int \<times> 't) system \<Rightarrow> bool" where
  "line_sys_step os_read os_write on_line main_unit \<equiv>
     sys_step (real_ReadMasterFrame os_read) (real_WriteControllerFrame os_write) (line_env on_line main_unit)"

text \<open>The state of a quiet line with a unit that was just turned on.\<close>

definition line_start :: "('t \<Rightarrow> bytes list) \<Rightarrow> ('t \<Rightarrow> FujiAcUnitSim) \<Rightarrow> 't \<Rightarrow> bool" where
  "line_start on_line main_unit t \<longleftrightarrow> on_line t = [] \<and> main_unit t = FujiAcUnitSim_init"

lemma line_start_ok: "line_start on_line main_unit t \<Longrightarrow>
    line_ok on_line main_unit fd (fd, t) \<and> line_asked main_unit (fd, t) = reg_STATUS"
  by (simp add: line_start_def line_ok_def)

section \<open>The real service on a line where frames arrive whole\<close>

text \<open>As long as whole frames are on the line, a read gets one, and writes succeed.\<close>

definition whole_frames ::
    "(int \<Rightarrow> 't \<Rightarrow> (int \<times> bytes) \<times> 't) \<Rightarrow> (int \<Rightarrow> bytes \<Rightarrow> 't \<Rightarrow> int \<times> 't) \<Rightarrow>
       ('t \<Rightarrow> bytes list) \<Rightarrow> ('t \<Rightarrow> FujiAcUnitSim) \<Rightarrow> int \<Rightarrow> bool" where
  "whole_frames os_read os_write on_line main_unit fd \<longleftrightarrow>
     (\<forall>t. (\<forall>d \<in> set (on_line t). length d = 8) \<and> sim_ok (main_unit t) \<longrightarrow> fst (fst (os_read fd t)) = 8) \<and>
     (\<forall>d t. length d = 8 \<longrightarrow> fst (os_write fd d t) = 8)"

definition echo_piece :: "bytes \<Rightarrow> bool" where
  "echo_piece d \<longleftrightarrow> length d = 8 \<and> mf_Destination (MasterFrame (flip_bytes d)) \<noteq> dest_WIRED_CONTROLLER_ADDR"

text \<open>The line shows the unit, and at most the frame the program has just written is on it.\<close>

definition shows_line ::
    "('t \<Rightarrow> bytes list) \<Rightarrow> ('t \<Rightarrow> FujiAcUnitSim) \<Rightarrow> FujiAcUnitSim \<Rightarrow> 't \<Rightarrow> bool" where
  "shows_line on_line main_unit u t \<longleftrightarrow> main_unit t = u \<and>
     (on_line t = [] \<or> (\<exists>d. on_line t = [d] \<and> echo_piece d))"

lemma echo_piece_answer:
  assumes "handle_frame mf c = (Some f, c')"
  shows "echo_piece (flip_bytes (cf_data f))" and "cf_ok f"
proof -
  obtain h where h: "HandleMasterFrame mf (client c) = (Some f, h)" using assms by (auto simp: handle_frame_Some)
  show ok: "cf_ok f" by (rule handle_answer_ok(1)[OF h])
  show "echo_piece (flip_bytes (cf_data f))"
    using ok echo_destination[OF h] by (simp add: echo_piece_def echo_harmless_def cf_ok_def flip_flip)
qed

lemma loop_body_read:
  "rd w = Inr (Some mf, w') \<Longrightarrow> loop_body rd wr (c, w) = finish_iteration wr (Handling mf) (c, w')"
  by (simp add: loop_body_def finish_iteration_def)

lemma whole_read:
  assumes rc: "read_contract os_read on_line main_unit fd" and wf: "whole_frames os_read os_write on_line main_unit fd"
    and sh: "shows_line on_line main_unit u t" and u: "sim_ok u"
  obtains x t' where "real_ReadMasterFrame os_read (fd, t) = Inr (Some x, fd, t')" "on_line t' = []"
    "on_line t = [] \<and> GetNextMasterFrame u = (x, main_unit t') \<or>
     (\<exists>d. on_line t = [d] \<and> main_unit t' = u \<and> x = MasterFrame (flip_bytes d))"
proof -
  obtain n buf t' where o: "os_read fd t = ((n, buf), t')" by (metis prod.exhaust)
  have len: "\<forall>d \<in> set (on_line t). length d = 8" and mu: "main_unit t = u" using sh by (auto simp: shows_line_def echo_piece_def)
  then have "fst (fst (os_read fd t)) = 8" using wf u by (simp add: whole_frames_def)
  with o have rd: "real_ReadMasterFrame os_read (fd, t) = Inr (Some (MasterFrame (flip_bytes buf)), fd, t')"
    by (simp add: real_ReadMasterFrame_def reader_ReadMasterFrame_def)
  have ok: "line_ok on_line main_unit fd (fd, t)"
    using sh u by (auto simp: shows_line_def line_ok_def piece_ok_def echo_piece_def)
  show thesis
    by (rule line_read_cases[OF rc ok rd]) (use that[OF rd] sh mu in \<open>auto simp: shows_line_def\<close>)
qed

lemma whole_write:
  assumes wc: "write_contract os_write on_line main_unit fd" and wf: "whole_frames os_read os_write on_line main_unit fd" and f: "cf_ok f"
  obtains t' where "real_WriteControllerFrame os_write f (fd, t) = Inr (fd, t')"
    "main_unit t' = PushControllerFrame f (main_unit t)"
    "on_line t' = on_line t \<or> on_line t' = on_line t @ [flip_bytes (cf_data f)]"
proof -
  obtain n t' where o: "os_write fd (flip_bytes (cf_data f)) t = (n, t')" by fastforce
  have "length (flip_bytes (cf_data f)) = 8" using f by (simp add: cf_ok_def)
  then have "fst (os_write fd (flip_bytes (cf_data f)) t) = 8" using wf by (simp add: whole_frames_def)
  with o have w: "real_WriteControllerFrame os_write f (fd, t) = Inr (fd, t')"
    by (simp add: real_WriteControllerFrame_def reader_WriteControllerFrame_def cf_FullFrame_def)
  show thesis by (rule line_write_frame[OF wc f w]) (use that[OF w] in auto)
qed

text \<open>What is done with a frame in hand.\<close>

lemma line_finish:
  assumes wc: "write_contract os_write on_line main_unit fd" and wf: "whole_frames os_read os_write on_line main_unit fd"
    and t: "main_unit t = u" "on_line t = []" and h: "handle_frame mf c = (cf, c')"
    and w: "write_answer sim_WriteControllerFrame cf u = Inr u'"
  shows "\<exists>t'. write_answer (real_WriteControllerFrame os_write) cf (fd, t) = Inr (fd, t') \<and>
    shows_line on_line main_unit u' t'"
proof (cases cf)
  case None
  with t w show ?thesis by (simp add: write_answer_def shows_line_def)
next
  case (Some f)
  note f = echo_piece_answer[OF h[unfolded Some]]
  obtain t' where "real_WriteControllerFrame os_write f (fd, t) = Inr (fd, t')"
    "main_unit t' = PushControllerFrame f (main_unit t)"
    "on_line t' = on_line t \<or> on_line t' = on_line t @ [flip_bytes (cf_data f)]"
    using whole_write[OF wc wf f(2)] .
  with Some t w f(1) show ?thesis
    by (auto simp: write_answer_def sim_WriteControllerFrame_def shows_line_def)
qed

text \<open>A turn on a free line is the simulator's, but may leave an echo; one with an echo on the line only reads it.\<close>

lemma line_turn:
  assumes rc: "read_contract os_read on_line main_unit fd" and wc: "write_contract os_write on_line main_unit fd"
    and wf: "whole_frames os_read os_write on_line main_unit fd" and u: "sim_ok u" and pc: "pc \<noteq> Exited" and sd: "\<not> shutdown c"
    and t: "main_unit t = u" "on_line t = []"
  shows "\<exists>c' u' t'. loop_turn sim_ReadMasterFrame sim_WriteControllerFrame (pc, c, u) = Inr (At_check, c', u') \<and>
    loop_turn (real_ReadMasterFrame os_read) (real_WriteControllerFrame os_write) (pc, c, fd, t) =
      Inr (At_check, c', fd, t') \<and> shows_line on_line main_unit u' t'"
proof -
  have handle: "\<exists>c' u' t'. finish_iteration sim_WriteControllerFrame (Handling mf) (c, v) = Inr (c', u') \<and>
      finish_iteration (real_WriteControllerFrame os_write) (Handling mf) (c, fd, r) = Inr (c', fd, t') \<and>
      shows_line on_line main_unit u' t'" if r: "main_unit r = v" "on_line r = []" for mf v r
  proof -
    obtain cf c' where h: "handle_frame mf c = (cf, c')" by fastforce
    obtain u' where w: "write_answer sim_WriteControllerFrame cf v = Inr u'"
      by (cases cf) (simp_all add: write_answer_def sim_WriteControllerFrame_def)
    from line_finish[OF wc wf r h w] h w show ?thesis by (auto simp: finish_iteration_def)
  qed
  have top: "\<exists>c' u' t'. loop_body sim_ReadMasterFrame sim_WriteControllerFrame (c, u) = Inr (c', u') \<and>
      loop_body (real_ReadMasterFrame os_read) (real_WriteControllerFrame os_write) (c, fd, t) = Inr (c', fd, t') \<and>
      shows_line on_line main_unit u' t'"
  proof -
    have "shows_line on_line main_unit u t" using t by (simp add: shows_line_def)
    from whole_read[OF rc wf this u] obtain mf r where
      rd: "real_ReadMasterFrame os_read (fd, t) = Inr (Some mf, fd, r)" and r: "on_line r = []"
      and g: "on_line t = [] \<and> GetNextMasterFrame u = (mf, main_unit r) \<or>
        (\<exists>d. on_line t = [d] \<and> main_unit r = u \<and> mf = MasterFrame (flip_bytes d))" .
    from g t have "sim_ReadMasterFrame u = Inr (Some mf, main_unit r)" by (simp add: sim_ReadMasterFrame_def)
    from handle[OF refl r, of mf] show ?thesis
      using loop_body_read[where rd = "real_ReadMasterFrame os_read", OF rd]
        loop_body_read[where rd = sim_ReadMasterFrame, OF \<open>sim_ReadMasterFrame u = _\<close>] by simp
  qed
  show ?thesis
  proof (cases pc)
    case (Handling mf)
    with handle[OF t, of mf] show ?thesis by auto
  next
    case Exited
    with pc show ?thesis by simp
  qed (use top sd in auto)
qed

lemma line_turn_echo:
  assumes rc: "read_contract os_read on_line main_unit fd" and wf: "whole_frames os_read os_write on_line main_unit fd"
    and u: "sim_ok (main_unit t)" and sd: "\<not> shutdown c" and t: "on_line t = [d]" and d: "echo_piece d"
  obtains t' where "loop_turn (real_ReadMasterFrame os_read) (real_WriteControllerFrame os_write) (At_check, c, fd, t) =
    Inr (At_check, c, fd, t')" "on_line t' = []" "main_unit t' = main_unit t"
proof -
  have "shows_line on_line main_unit (main_unit t) t" using t d by (simp add: shows_line_def)
  from whole_read[OF rc wf this u] obtain x t' where
    rd: "real_ReadMasterFrame os_read (fd, t) = Inr (Some x, fd, t')" and t': "on_line t' = []"
    and x: "on_line t = [] \<and> GetNextMasterFrame (main_unit t) = (x, main_unit t') \<or>
      (\<exists>d. on_line t = [d] \<and> main_unit t' = main_unit t \<and> x = MasterFrame (flip_bytes d))" .
  have m: "main_unit t' = main_unit t" and "x = MasterFrame (flip_bytes d)" using x t by auto
  then have "handle_frame x c = (None, c)"
    using d by (simp add: handle_frame_def handle_not_for_us echo_piece_def)
  then have "loop_body (real_ReadMasterFrame os_read) (real_WriteControllerFrame os_write) (c, fd, t) = Inr (c, fd, t')"
    by (simp add: loop_body_read[where rd = "real_ReadMasterFrame os_read", OF rd] finish_iteration_def write_answer_def)
  with sd t' m that show thesis by simp
qed

lemma Await_line:
  assumes rc: "read_contract os_read on_line main_unit fd" and wc: "write_contract os_write on_line main_unit fd"
    and wf: "whole_frames os_read os_write on_line main_unit fd" and "closed_inv c u" and "hand_fits u pc" and "pc \<noteq> Exited" and "\<not> shutdown c"
    and "main_unit t = u" and "on_line t = []"
    and "Await sim_ReadMasterFrame sim_WriteControllerFrame n (pc, c, u) = Some (Inr (pc', c', u'))"
  shows "\<exists>t'. Await (real_ReadMasterFrame os_read) (real_WriteControllerFrame os_write) (2 * n) (pc, c, fd, t) =
      Some (Inr (pc', c', fd, t')) \<and> main_unit t' = u'"
  using assms(4-)
proof (induction n arbitrary: pc c u t)
  case 0
  then show ?case by (auto split: if_splits)
next
  case (Suc n)
  let ?real = "Await (real_ReadMasterFrame os_read) (real_WriteControllerFrame os_write)"
  show ?case
  proof (cases "ready c")
    case True
    with Suc.prems show ?thesis by (auto simp: Await_ready)
  next
    case False
    have u: "sim_ok u" using Suc.prems(1) by (simp add: closed_inv_def)
    from line_turn[OF rc wc wf u Suc.prems(3-6)] obtain c1 u1 t1 where
      s: "loop_turn sim_ReadMasterFrame sim_WriteControllerFrame (pc, c, u) = Inr (At_check, c1, u1)"
      and r: "loop_turn (real_ReadMasterFrame os_read) (real_WriteControllerFrame os_write) (pc, c, fd, t) =
        Inr (At_check, c1, fd, t1)" and sh: "shows_line on_line main_unit u1 t1" by blast
    have inv1: "closed_inv c1 u1" and sd1: "\<not> shutdown c1"
      using turn_closed_inv[OF Suc.prems(1-4) s] by simp_all
    have A: "Await sim_ReadMasterFrame sim_WriteControllerFrame n (At_check, c1, u1) = Some (Inr (pc', c', u'))"
      using Suc.prems(7) False s by simp
    have R: "?real (2 * Suc n) (pc, c, fd, t) = ?real (Suc (2 * n)) (At_check, c1, fd, t1)" using False r by simp
    have u1: "main_unit t1 = u1" using sh by (simp add: shows_line_def)
    show ?thesis
    proof (cases "on_line t1 = []")
      case True
      from Suc.IH[OF inv1 _ _ sd1 u1 True A] obtain t' where
        "?real (2 * n) (At_check, c1, fd, t1) = Some (Inr (pc', c', fd, t'))" "main_unit t' = u'" by auto
      with Await_Suc[OF this(1)] R show ?thesis by auto
    next
      case False
      then obtain d where d: "on_line t1 = [d]" "echo_piece d" using sh by (auto simp: shows_line_def)
      show ?thesis
      proof (cases "ready c1")
        case True
        with A R u1 show ?thesis by (auto simp: Await_ready)
      next
        case False
        have "sim_ok (main_unit t1)" using inv1 u1 by (simp add: closed_inv_def)
        from line_turn_echo[OF rc wf this sd1 d] obtain t2 where
          e: "loop_turn (real_ReadMasterFrame os_read) (real_WriteControllerFrame os_write) (At_check, c1, fd, t1) =
            Inr (At_check, c1, fd, t2)" and t2: "on_line t2 = []" "main_unit t2 = main_unit t1" .
        have "?real (Suc (2 * n)) (At_check, c1, fd, t1) = ?real (2 * n) (At_check, c1, fd, t2)"
          using False e by (simp del: loop_turn_simps)
        moreover from Suc.IH[OF inv1 _ _ sd1 _ t2(1) A] t2(2) u1 have
          "\<exists>t'. ?real (2 * n) (At_check, c1, fd, t2) = Some (Inr (pc', c', fd, t')) \<and> main_unit t' = u'" by auto
        ultimately show ?thesis using R by simp
      qed
    qed
  qed
qed

lemma Service_Update_line:
  assumes rc: "read_contract os_read on_line main_unit fd" and wc: "write_contract os_write on_line main_unit fd"
    and wf: "whole_frames os_read os_write on_line main_unit fd" and inv: "closed_inv c u" and "hand_fits u pc" and "pc \<noteq> Exited"
    and sd: "\<not> shutdown c" and "5 + frames_in_hand pc \<le> n" and t: "main_unit t = u" "on_line t = []"
  obtains m c' u' t' where "SimService_Update n ns (pc, c, u) = Some (Inr ((grpc_OK, Some m), At_check, c', u'))"
    "Service_Update (real_ReadMasterFrame os_read) (real_WriteControllerFrame os_write) (2 * n) ns (pc, c, fd, t) =
       Some (Inr ((grpc_OK, Some m), At_check, c', fd, t'))" "main_unit t' = u'"
proof -
  have sd': "\<not> shutdown (Update_begin ns c)" and nr: "\<not> ready (Update_begin ns c)" using sd by simp_all
  note inv' = closed_inv_update[OF inv, of ns]
  obtain c' u' where
    A: "Await sim_ReadMasterFrame sim_WriteControllerFrame n (pc, Update_begin ns c, u) = Some (Inr (At_check, c', u'))"
    and "ready c'"
    using Await_sim[OF inv' assms(5,6) sd' nr assms(8)] .
  moreover from Await_line[OF rc wc wf inv' assms(5,6) sd' t A] obtain t' where
    "Await (real_ReadMasterFrame os_read) (real_WriteControllerFrame os_write) (2 * n) (pc, Update_begin ns c, fd, t) =
       Some (Inr (At_check, c', fd, t'))" "main_unit t' = u'" by blast
  ultimately show thesis
    by (intro that[of "status_message (ctl_state c')" c' u' t'])
      (simp_all add: SimService_Update_def Service_Update_def Controller_Update_def Controller_GetStatus_def Await_ready)
qed

section \<open>All threads over the line\<close>

lemma line_reachable_inv:
  assumes "read_contract os_read on_line main_unit fd" and "write_contract os_write on_line main_unit fd"
    and "line_start on_line main_unit t" and "line_reachable os_read os_write on_line main_unit (fd, t) s"
  shows "sys_inv (line_ok on_line main_unit fd) (line_asked main_unit) s"
  using polled_bus.reachable_inv[OF line_polled_bus[OF assms(1,2)] assms(4)] line_start_ok[OF assms(3)] by blast

lemma line_reachable_merged:
  assumes "read_contract os_read on_line main_unit fd" and "write_contract os_write on_line main_unit fd"
    and "line_start on_line main_unit t" and "line_reachable os_read os_write on_line main_unit (fd, t) s"
    and "ready (sys_ctl s)"
  shows "ac_merged (ctl_state (sys_ctl s))"
  using line_reachable_inv[OF assms(1-4)] assms(5) by (simp add: sys_inv_def)

section \<open>A kernel that keeps the contracts\<close>

text \<open>
  For the witnesses, an operating system with a queue of pieces of frames. A read gets what there
  is of the first one (an empty piece is an error of the device), or polls the unit; what is
  written comes back.
\<close>

record tty =
  tty_queue :: "bytes list"
  tty_unit :: FujiAcUnitSim

definition tty_take :: "bytes \<Rightarrow> bytes list \<Rightarrow> tty \<Rightarrow> (int \<times> bytes) \<times> tty" where
  "tty_take d ds t =
     (let k = min 8 (length d)
      in ((int k, take 8 (d @ replicate 8 0)), t\<lparr>tty_queue := (if k < length d then drop k d # ds else ds)\<rparr>))"

definition tty_read :: "int \<Rightarrow> tty \<Rightarrow> (int \<times> bytes) \<times> tty" where
  "tty_read fd t =
     (case tty_queue t of
        d # ds \<Rightarrow> if d = [] then ((- 1, []), t) else tty_take d ds t
      | [] \<Rightarrow>
          (let (mf, u) = GetNextMasterFrame (tty_unit t); d = flip_bytes (mf_data mf)
           in if d = [] then ((- 1, []), t) else tty_take d [] (t\<lparr>tty_unit := u\<rparr>)))"

definition tty_write :: "int \<Rightarrow> bytes \<Rightarrow> tty \<Rightarrow> int \<times> tty" where
  "tty_write fd d t =
     (8, \<lparr>tty_queue = tty_queue t @ [d], tty_unit = PushControllerFrame (ControllerFrame (flip_bytes d)) (tty_unit t)\<rparr>)"

lemma tty_take_receives:
  assumes "tty_take d ds t = ((n, buf), t')" and "d \<noteq> []"
  shows "length buf = 8" "n \<noteq> 0" "receives (nat n) buf (d # ds) (tty_queue t')" "tty_unit t' = tty_unit t"
    "length d = 8 \<Longrightarrow> n = 8"
  using assms by (auto simp: tty_take_def Let_def min_def split: if_splits)

lemma tty_contracts:
  "read_contract tty_read tty_queue tty_unit fd" "write_contract tty_write tty_queue tty_unit fd"
  "whole_frames tty_read tty_write tty_queue tty_unit fd"
proof -
  show "read_contract tty_read tty_queue tty_unit fd"
    unfolding read_contract_def
  proof (intro allI impI, elim conjE)
    fix t :: tty and n buf t'
    assume r: "tty_read fd t = ((n, buf), t')" and n: "0 \<le> n"
    obtain mf u where g: "GetNextMasterFrame (tty_unit t) = (mf, u)" by fastforce
    obtain d ds r where "tty_take d ds r = ((n, buf), t')" "d \<noteq> []"
      and o: "line_offers tty_queue tty_unit t (d # ds, tty_unit r)"
      using r n g by (cases "tty_queue t") (auto simp: tty_read_def line_offers_def Let_def split: if_splits)
    from tty_take_receives[OF this(1,2)] o
    show "length buf = 8 \<and> (n = 0 \<longrightarrow> tty_queue t' = tty_queue t \<and> tty_unit t' = tty_unit t) \<and>
        (\<exists>fs. line_offers tty_queue tty_unit t (fs, tty_unit t') \<and> receives (nat n) buf fs (tty_queue t'))"
      by auto
  qed
  show "write_contract tty_write tty_queue tty_unit fd" by (auto simp: write_contract_def tty_write_def)
  have "fst (fst (tty_read fd t)) = 8" if "\<forall>d \<in> set (tty_queue t). length d = 8" "sim_ok (tty_unit t)" for t
  proof -
    obtain mf u where g: "GetNextMasterFrame (tty_unit t) = (mf, u)" by fastforce
    then have "length (mf_data mf) = 8" using next_frame(1)[OF that(2)] by (simp add: mf_ok_def)
    then have "length (flip_bytes (mf_data mf)) = 8" "flip_bytes (mf_data mf) \<noteq> []"
      using length_flip_bytes[of "mf_data mf"] by (simp, fastforce)
    then show ?thesis
      using that(1) g by (cases "tty_queue t") (auto simp: tty_read_def tty_take_def Let_def)
  qed
  then show "whole_frames tty_read tty_write tty_queue tty_unit fd"
    by (simp add: whole_frames_def tty_write_def)
qed

abbreviation tty_start :: tty where
  "tty_start \<equiv> \<lparr>tty_queue = [], tty_unit = FujiAcUnitSim_init\<rparr>"

text \<open>The first \<^verbatim>\<open>Update\<close> call on it has a run in which the controller gets ready.\<close>

lemma tty_update_returns:
  assumes "is_request ns"
  obtains s t where "line_reachable tty_read tty_write tty_queue tty_unit (fd, tty_start) s"
    "(line_sys_step tty_read tty_write tty_queue tty_unit)\<^sup>*\<^sup>* s t" "ready (sys_ctl t)"
    "\<not> ac_merged (ctl_state (sys_ctl s))" "sys_wire s = []"
proof -
  let ?i = "sys_init (fd, tty_start)"
  let ?s = "?i\<lparr>sys_ctl := Update_begin ns (sys_ctl ?i), sys_rpc := (sys_rpc ?i)(0 := In_Update ns)\<rparr>"
  let ?c = "Update_begin ns MakeFujiAcController"
  have s: "line_reachable tty_read tty_write tty_queue tty_unit (fd, tty_start) ?s"
    by (rule reach_step[OF reach_init sys_step.update_call]) (simp add: sys_init_def)
  note inv = closed_inv_update[OF closed_inv_init, of ns]
  have c: "hand_fits FujiAcUnitSim_init At_check" "At_check \<noteq> Exited" "\<not> shutdown ?c" by simp_all
  obtain c' u' where A: "Await sim_ReadMasterFrame sim_WriteControllerFrame 5 (At_check, ?c, FujiAcUnitSim_init) =
      Some (Inr (At_check, c', u'))" and rd: "ready c'"
    by (rule Await_sim[OF inv c, of 5]) simp_all
  from Await_line[OF tty_contracts inv c _ _ A, of tty_start fd] obtain t' where
    "Await (real_ReadMasterFrame tty_read) (real_WriteControllerFrame tty_write) (2 * 5)
       (sys_pc ?s, sys_ctl ?s, sys_bus ?s) = Some (Inr (At_check, c', fd, t'))"
    by (auto simp: sys_init_def)
  from Await_run[OF this, of "line_env tty_queue tty_unit"] obtain fs where
    run: "(line_sys_step tty_read tty_write tty_queue tty_unit)\<^sup>*\<^sup>* ?s
      (?s\<lparr>sys_ctl := c', sys_bus := (fd, t'), sys_pc := At_check, sys_wire := fs\<rparr>)" by blast
  show thesis
    by (rule that[OF s run]) (use rd assms in \<open>simp_all add: sys_init_def\<close>)
qed

end
