(* ===== verification/Logged_In.thy ===== *)
theory Logged_In
  imports Closed_Loop
begin

text \<open>
  The login happens once. A controller over the simulated unit that has logged in is registered
  with it and stays so, in every interleaving: each STATUS frame it is handed from then on shows
  it as present, and a controller that is ready is always asked by a STATUS frame next.
\<close>

definition logged_in :: "FujiAcUnitSim system \<Rightarrow> bool" where
  "logged_in s \<longleftrightarrow>
     (next_query_register (sys_bus s) = reg_STATUS \<and> \<not> login_read (client (sys_ctl s)) \<longrightarrow>
        v_present (unit_view (sys_bus s)) \<and>
        (\<forall>mf. sys_pc s = Handling mf \<longrightarrow> v_present (status_at 0 (mf_Payload mf)))) \<and>
     (ready (sys_ctl s) \<longrightarrow>
        next_query_register (sys_bus s) = reg_STATUS \<and> \<not> login_read (client (sys_ctl s)))"

lemma present_remote [simp]: "v_present (spec_run [remote_op k, Op_UpdateMagic 4] v) = v_present v"
  by (cases k) (simp_all add: spec_run_def)

lemma logged_in_handle:
  assumes inv: "closed_inv (sys_ctl s) (sys_bus s)" and fits: "frame_fits (sys_bus s) mf"
    and l: "logged_in s" and pc: "sys_pc s = Handling mf"
    and h: "handle_frame mf (sys_ctl s) = (Some f, c)"
  shows "logged_in (s\<lparr>sys_ctl := c, sys_bus := PushControllerFrame f (sys_bus s), sys_pc := At_check,
    sys_wire := w\<rparr>)"
proof -
  have ok: "sim_ok (sys_bus s)" using inv by (simp add: closed_inv_def)
  show ?thesis
  proof (cases "mf_Type mf = reg_LOGIN")
    case True
    with h handle_closed_login[OF inv fits True] ok l fits show ?thesis
      by (auto simp: logged_in_def push_view push_state frame_fits_def)
  next
    case False
    with inv fits have t: "mf_Type mf = reg_STATUS" by (auto simp: closed_inv_def frame_fits_def)
    then have q: "next_query_register (sys_bus s) = reg_STATUS" using fits by (simp add: frame_fits_def)
    from h handle_closed_status[OF inv fits t] ok l pc q show ?thesis
      by (auto simp: logged_in_def push_view push_state unit_accept_def Let_def split: if_splits)
  qed
qed

lemma logged_in_step:
  assumes "sim_sys_step s t" and inv: "closed_inv (sys_ctl s) (sys_bus s)"
    and fits: "hand_fits (sys_bus s) (sys_pc s)" and l: "logged_in s"
  shows "logged_in t"
  using assms(1)
proof cases
  case (read_frame mf w)
  have ok: "sim_ok (sys_bus s)" using inv by (simp add: closed_inv_def)
  have g: "mf = fst (GetNextMasterFrame (sys_bus s))" "w = snd (GetNextMasterFrame (sys_bus s))"
    using read_frame(3) by (simp_all add: sim_ReadMasterFrame_def split: prod.splits)
  have p: "v_present (status_at 0 (mf_Payload mf)) = v_present (unit_view (sys_bus s))"
    if "next_query_register (sys_bus s) = reg_STATUS"
    using next_payload[OF ok] that by (simp add: g)
  have w: "next_query_register w = next_query_register (sys_bus s)"
    "v_present (unit_view w) = v_present (unit_view (sys_bus s))"
    by (simp_all add: g next_state[OF ok] next_view[OF ok])
  show ?thesis using l p by (simp add: logged_in_def read_frame(1) w)
next
  case (handle mf cf c w)
  from fits handle(2) have f: "frame_fits (sys_bus s) mf" by simp
  from closed_inv_handle[OF inv f handle(3)] obtain g where g: "cf = Some g" by blast
  then have "w = PushControllerFrame g (sys_bus s)"
    using handle(4) by (simp add: write_answer_def sim_WriteControllerFrame_def)
  with logged_in_handle[OF inv f l handle(2) handle(3)[unfolded g]] show ?thesis
    by (simp add: handle(1) g)
next
  case (environment w)
  then obtain k where w: "w = sim_remote k (sys_bus s)" by (auto simp: sim_env_def)
  have "sim_ok (sys_bus s)" using inv by (simp add: closed_inv_def)
  then have "v_present (unit_view w) = v_present (unit_view (sys_bus s))"
    "next_query_register w = next_query_register (sys_bus s)"
    unfolding w using env_state(1)[of "sys_bus s" "sim_remote k (sys_bus s)"]
    by (auto simp: remote_view sim_env_def simp del: sim_remote.simps)
  with l environment(1) show ?thesis by (simp add: logged_in_def)
qed (use l in \<open>auto simp: logged_in_def Shutdown_def sim_ReadMasterFrame_def split: if_splits prod.splits\<close>)

lemma reachable_logged_in: "sim_reachable s \<Longrightarrow> logged_in s"
proof (induction rule: sys_reachable.induct)
  case reach_init
  then show ?case by (simp add: logged_in_def sys_init_def)
next
  case (reach_step s t)
  then show ?case using logged_in_step reachable_closed_inv by blast
qed

text \<open>A step of a logged-in controller writes no frame that asks for another register.\<close>

lemma logged_in_writes:
  assumes step: "sim_sys_step s t" and r: "sim_reachable s"
    and q: "next_query_register (sys_bus s) = reg_STATUS" and nl: "\<not> login_read (client (sys_ctl s))"
  shows "next_query_register (sys_bus t) = reg_STATUS \<and> \<not> login_read (client (sys_ctl t)) \<and>
    (\<exists>fs. sys_wire t = fs @ sys_wire s \<and> (\<forall>f \<in> set fs. cf_QueryRegister f = reg_STATUS))"
  using step
proof cases
  case (handle mf cf c w)
  have inv: "closed_inv (sys_ctl s) (sys_bus s)" and fits: "frame_fits (sys_bus s) mf"
    using reachable_closed_inv[OF r] handle(2) by simp_all
  have ok: "sim_ok (sys_bus s)" using inv by (simp add: closed_inv_def)
  have t: "mf_Type mf = reg_STATUS" using fits q by (simp add: frame_fits_def)
  have "v_present (status_at 0 (mf_Payload mf))"
    using reachable_logged_in[OF r] q nl handle(2) by (simp add: logged_in_def)
  with handle(3) handle_closed_status[OF inv fits t] nl obtain x where
    "cf = Some (status_frame (\<not> ac_merged (ctl_state (sys_ctl s))) x)" "login_read (client c) = login_read (client (sys_ctl s))"
    by (auto simp: Let_def)
  with handle(4) nl ok show ?thesis
    by (auto simp: handle(1) write_answer_def sim_WriteControllerFrame_def push_state)
next
  case (read_frame mf w)
  have ok: "sim_ok (sys_bus s)" using reachable_closed_inv[OF r] by (simp add: closed_inv_def)
  with read_frame q nl next_state(2)[OF ok] show ?thesis
    by (auto simp: sim_ReadMasterFrame_def split: prod.splits)
next
  case (environment w)
  with q nl env_state(1)[OF environment(2)] show ?thesis by simp
qed (use q nl in \<open>auto simp: Shutdown_def sim_ReadMasterFrame_def split: if_splits prod.splits\<close>)

lemma logged_in_run:
  assumes "sim_sys_step\<^sup>*\<^sup>* s t" and "sim_reachable s"
    and "next_query_register (sys_bus s) = reg_STATUS" and "\<not> login_read (client (sys_ctl s))"
  shows "next_query_register (sys_bus t) = reg_STATUS \<and> \<not> login_read (client (sys_ctl t)) \<and>
    (\<exists>fs. sys_wire t = fs @ sys_wire s \<and> (\<forall>f \<in> set fs. cf_QueryRegister f = reg_STATUS))"
  using assms
proof (induction rule: rtranclp_induct)
  case base
  then show ?case by simp
next
  case (step t u)
  obtain fs where t: "next_query_register (sys_bus t) = reg_STATUS" "\<not> login_read (client (sys_ctl t))"
    "sys_wire t = fs @ sys_wire s" "\<forall>f \<in> set fs. cf_QueryRegister f = reg_STATUS"
    using step.IH step.prems by blast
  from logged_in_writes[OF step.hyps(2) reachable_run[OF step.hyps(1) step.prems(1)] t(1,2)] obtain gs
    where "next_query_register (sys_bus u) = reg_STATUS" "\<not> login_read (client (sys_ctl u))"
      "sys_wire u = gs @ sys_wire t" "\<forall>f \<in> set gs. cf_QueryRegister f = reg_STATUS" by blast
  with t(3,4) show ?case by (intro conjI exI[of _ "gs @ fs"]) auto
qed

lemma ready_polls_status:
  "sim_reachable s \<Longrightarrow> ready (sys_ctl s) \<Longrightarrow> next_query_register (sys_bus s) = reg_STATUS"
  using reachable_logged_in by (simp add: logged_in_def)

text \<open>So a ready controller reads the unit's settings with the next frame.\<close>

lemma ready_steps_read:
  assumes inv: "closed_inv c u" and m: "ac_merged (ctl_state c)" and rd: "ready c"
    and q: "next_query_register u = reg_STATUS"
    and "1 \<le> n" and n: "(sim_step ^^ n) (c, u) = (c', u')"
  shows "ready c' \<and> in_sync c' u'"
proof -
  obtain k where k: "n = Suc k" using assms(5) by (metis One_nat_def Suc_le_D)
  obtain c1 u1 where s1: "sim_step (c, u) = (c1, u1)" by fastforce
  have r: "(sim_step ^^ k) (c1, u1) = (c', u')" using n by (simp add: k funpow_swap1 s1)
  note r1 = step_reads[OF inv m s1]
  show ?thesis
    using steps_keep_in_sync[OF closed_inv_sim_step[OF inv s1] r1(1) r1(2)[OF rd] _ r] r1(4) q by simp
qed

end
