(* ===== verification/Every_Schedule.thy ===== *)
theory Every_Schedule
  imports Logged_In
begin

text \<open>
  How fast a call returns whatever the scheduler does. A quiet run is any interleaving of the loop
  thread with returning calls and with \<^verbatim>\<open>GetStatus\<close> calls, in which nobody calls \<^verbatim>\<open>Update\<close> or
  \<^verbatim>\<open>Shutdown\<close> and nobody touches the remote; it is indexed by the number of frames the loop has
  handled in it. The measure \<open>rank\<close> of \<open>Closed_Loop\<close> is carried through the interior of an
  iteration, so that each handled frame counts once, a frame read before the run among them.
\<close>

section \<open>Quiet runs\<close>

definition quiet_step :: "FujiAcUnitSim system \<Rightarrow> FujiAcUnitSim system \<Rightarrow> bool" where
  "quiet_step s t \<longleftrightarrow> sys_step sim_ReadMasterFrame sim_WriteControllerFrame (\<lambda>_ _. False) s t \<and>
     shutdown (sys_ctl t) = shutdown (sys_ctl s) \<and>
     (\<forall>i ns. sys_rpc t i = In_Update ns \<longrightarrow> sys_rpc s i = In_Update ns)"

definition handles_frame :: "'w system \<Rightarrow> 'w system \<Rightarrow> bool" where
  "handles_frame s t \<longleftrightarrow> (\<exists>mf. sys_pc s = Handling mf) \<and> sys_pc t = At_check"

inductive quiet_run :: "nat \<Rightarrow> FujiAcUnitSim system \<Rightarrow> FujiAcUnitSim system \<Rightarrow> bool" where
  quiet_start: "quiet_run 0 s s"
| quiet_frame: "quiet_run n s t \<Longrightarrow> quiet_step t u \<Longrightarrow> handles_frame t u \<Longrightarrow> quiet_run (Suc n) s u"
| quiet_other: "quiet_run n s t \<Longrightarrow> quiet_step t u \<Longrightarrow> \<not> handles_frame t u \<Longrightarrow> quiet_run n s u"

section \<open>The measure inside an iteration\<close>

text \<open>What the rest of an iteration makes of the controller and the unit.\<close>

definition after_hand ::
    "FujiMasterFrame \<Rightarrow> FujiAcController \<Rightarrow> FujiAcUnitSim \<Rightarrow> FujiAcController \<times> FujiAcUnitSim" where
  "after_hand mf c u =
     (case handle_frame mf c of
        (None, c') \<Rightarrow> (c', u)
      | (Some f, c') \<Rightarrow> (c', PushControllerFrame f u))"

lemma sim_step_after_hand:
  "sim_step (c, u) = after_hand (fst (GetNextMasterFrame u)) c (snd (GetNextMasterFrame u))"
  by (simp add: sim_step_def after_hand_def split: prod.split option.split)

definition on_course :: "nat \<Rightarrow> FujiAcUnitSim system \<Rightarrow> bool" where
  "on_course k s \<longleftrightarrow>
     closed_inv (sys_ctl s) (sys_bus s) \<and> hand_fits (sys_bus s) (sys_pc s) \<and>
     \<not> shutdown (sys_ctl s) \<and>
     (case sys_pc s of
        Handling mf \<Rightarrow>
          (case after_hand mf (sys_ctl s) (sys_bus s) of (c, u) \<Rightarrow> rank c u \<le> k - 1) \<and>
          (k = 0 \<longrightarrow> settled (sys_ctl s) (sys_bus s))
      | Exited \<Rightarrow> False
      | _ \<Rightarrow> rank (sys_ctl s) (sys_bus s) \<le> k)"

lemma settled_poll: "sim_ok u \<Longrightarrow> settled c u \<Longrightarrow> settled c (snd (GetNextMasterFrame u))"
  by (simp add: settled_def next_view)

lemma on_course_settled: "on_course 0 s \<Longrightarrow> settled (sys_ctl s) (sys_bus s)"
  by (auto simp: on_course_def intro: rank_0 split: loop_pc.splits)

lemma on_course_rpc [simp]: "on_course k (s\<lparr>sys_rpc := r\<rparr>) = on_course k s"
  by (cases "sys_pc s") (simp_all add: on_course_def)

lemma handles_frame_rpc [simp]: "\<not> handles_frame s (s\<lparr>sys_rpc := r\<rparr>)"
  by (auto simp: handles_frame_def)

lemma reachable_on_course:
  assumes "sim_reachable s" and "\<not> shutdown (sys_ctl s)"
  shows "on_course 6 s"
proof -
  have "rank c u \<le> 5" "rank c u \<le> 6" for c u using rank_bound[of c u] by simp_all
  then show ?thesis
    using reachable_closed_inv[OF assms(1)] running[OF assms] assms(2)
    by (auto simp: on_course_def split: loop_pc.splits prod.splits)
qed

lemma on_course_read:
  assumes "on_course k s" and "sys_pc s = Reading"
    and "sim_ReadMasterFrame (sys_bus s) = Inr (Some mf, u)"
  shows "on_course k (s\<lparr>sys_bus := u, sys_pc := Handling mf\<rparr>)"
    and "target (sys_ctl s) u = target (sys_ctl s) (sys_bus s)"
proof -
  let ?c = "sys_ctl s" and ?u = "sys_bus s"
  have inv: "closed_inv ?c ?u" and r: "rank ?c ?u \<le> k"
    using assms(1,2) by (simp_all add: on_course_def)
  then have ok: "sim_ok ?u" by (simp add: closed_inv_def)
  have g: "GetNextMasterFrame ?u = (mf, u)"
    using assms(3) by (simp add: sim_ReadMasterFrame_def split: prod.splits)
  obtain c' u' where a: "after_hand mf ?c u = (c', u')" by fastforce
  with g have "sim_step (?c, ?u) = (c', u')" by (simp add: sim_step_after_hand)
  with rank_step[OF inv this] r have "rank c' u' \<le> k - 1" by linarith
  moreover have "settled ?c u" if "k = 0"
    using settled_poll[OF ok rank_0] r that g by simp
  ultimately show "on_course k (s\<lparr>sys_bus := u, sys_pc := Handling mf\<rparr>)"
    using poll_fits[OF inv] g a assms(1) by (simp add: on_course_def)
  show "target ?c u = target ?c ?u"
    using target_poll[OF ok, of ?c] g by simp
qed

lemma on_course_handle:
  assumes "on_course k s" and "sys_pc s = Handling mf" and "handle_frame mf (sys_ctl s) = (cf, c)"
    and "write_answer sim_WriteControllerFrame cf (sys_bus s) = Inr u"
  shows "on_course (k - 1) (s\<lparr>sys_ctl := c, sys_bus := u, sys_pc := At_check, sys_wire := w\<rparr>)"
    and "target c u = target (sys_ctl s) (sys_bus s)"
proof -
  have inv: "closed_inv (sys_ctl s) (sys_bus s)" and fits: "frame_fits (sys_bus s) mf"
    using assms(1,2) by (simp_all add: on_course_def)
  from closed_inv_handle[OF inv fits assms(3)] obtain f
    where f: "cf = Some f" "closed_inv c (PushControllerFrame f (sys_bus s))" by blast
  then have u: "u = PushControllerFrame f (sys_bus s)"
    using assms(4) by (simp add: write_answer_def sim_WriteControllerFrame_def)
  with assms f show "on_course (k - 1) (s\<lparr>sys_ctl := c, sys_bus := u, sys_pc := At_check, sys_wire := w\<rparr>)"
    by (simp add: on_course_def after_hand_def)
  show "target c u = target (sys_ctl s) (sys_bus s)"
    using target_handle[OF inv fits] assms(3) f u by simp
qed

lemma on_course_step:
  assumes "quiet_step s t" and k: "on_course k s"
  shows "on_course (if handles_frame s t then k - 1 else k) t \<and>
    target (sys_ctl t) (sys_bus t) = target (sys_ctl s) (sys_bus s)"
proof -
  have sd: "\<not> shutdown (sys_ctl s)" using k by (simp add: on_course_def)
  have step: "sys_step sim_ReadMasterFrame sim_WriteControllerFrame (\<lambda>_ _. False) s t"
    and q: "shutdown (sys_ctl t) = shutdown (sys_ctl s)"
      "\<And>i ns. sys_rpc t i = In_Update ns \<Longrightarrow> sys_rpc s i = In_Update ns"
    using assms(1) by (auto simp: quiet_step_def)
  from step show ?thesis
  proof cases
    case check_continue
    with k show ?thesis by (simp add: on_course_def handles_frame_def)
  next
    case check_exit
    with sd show ?thesis by simp
  next
    case (read_incomplete w)
    then show ?thesis by (simp add: sim_ReadMasterFrame_def split: prod.splits)
  next
    case (read_frame mf w)
    from on_course_read[OF k read_frame(2,3)] show ?thesis
      by (simp add: read_frame(1,2) handles_frame_def)
  next
    case (handle mf cf c w)
    from on_course_handle[OF k handle(2-4)] show ?thesis
      by (simp add: handle(1,2) handles_frame_def)
  next
    case (update_call i ns)
    with q(2)[of i ns] show ?thesis by simp
  next
    case (shutdown_call c)
    with q(1) sd show ?thesis by (auto simp: Shutdown_def split: if_splits)
  qed (use k in simp_all)
qed

lemma quiet_run_on_course:
  assumes "quiet_run n s t" and "on_course k s"
  shows "on_course (k - n) t \<and> target (sys_ctl t) (sys_bus t) = target (sys_ctl s) (sys_bus s)"
  using assms
proof (induction rule: quiet_run.induct)
  case (quiet_start s)
  then show ?case by simp
next
  case (quiet_frame n s t u)
  from on_course_step[OF quiet_frame(2), of "k - n"] quiet_frame show ?case by simp
next
  case (quiet_other n s t u)
  from on_course_step[OF quiet_other(2), of "k - n"] quiet_other show ?case by simp
qed

lemma quiet_sim_step: "quiet_step s t \<Longrightarrow> sim_sys_step s t"
  unfolding quiet_step_def by (elim conjE sys_step_mono) simp

lemma quiet_sim_run: "quiet_run n s t \<Longrightarrow> sim_sys_step\<^sup>*\<^sup>* s t"
  by (induction rule: quiet_run.induct) (auto intro: quiet_sim_step rtranclp.rtrancl_into_rtrancl)

text \<open>No \<^verbatim>\<open>Update\<close> is called in a quiet run.\<close>

lemma quiet_request:
  assumes "quiet_run n s t"
  shows "request_run sim_ReadMasterFrame sim_WriteControllerFrame env 0 s t"
proof -
  have step: "sys_step sim_ReadMasterFrame sim_WriteControllerFrame env r u \<and> \<not> starts_request r u"
    if "quiet_step r u" for r u
    using that unfolding quiet_step_def starts_request_def by (auto elim: sys_step_mono dest: sym)
  show ?thesis
    using assms by (induction rule: quiet_run.induct) (blast intro: request_run.intros dest: step)+
qed

section \<open>What quiet runs end with\<close>

lemma quiet_run_settles:
  assumes "sim_reachable s" and "\<not> shutdown (sys_ctl s)" and "quiet_run n s t"
  shows "6 \<le> n \<Longrightarrow> settled (sys_ctl t) (sys_bus t)"
    and "ready (sys_ctl t) \<Longrightarrow> settings (unit_view (sys_bus t)) = target (sys_ctl s) (sys_bus s)"
proof -
  note c = quiet_run_on_course[OF assms(3) reachable_on_course[OF assms(1,2)]]
  show "settled (sys_ctl t) (sys_bus t)" if "6 \<le> n"
    using c that by (intro on_course_settled) simp
  show "settings (unit_view (sys_bus t)) = target (sys_ctl s) (sys_bus s)" if "ready (sys_ctl t)"
    using c that by (auto simp: on_course_def closed_inv_def target_def)
qed

text \<open>
  The loop is never stuck, wherever it is: on its own it makes a quiet run that handles one more
  frame, so there are quiet runs of any length, and every quiet run can be continued.
\<close>

lemma quiet_check:
  assumes "sys_pc s = At_check" and "\<not> shutdown (sys_ctl s)"
  shows "quiet_run 0 s (s\<lparr>sys_pc := Reading\<rparr>)"
proof -
  have "sys_step sim_ReadMasterFrame sim_WriteControllerFrame (\<lambda>_ _. False) s (s\<lparr>sys_pc := Reading\<rparr>)"
    using assms by (intro check_continue)
  then have "quiet_step s (s\<lparr>sys_pc := Reading\<rparr>)" by (simp add: quiet_step_def)
  from quiet_other[OF quiet_start this] show ?thesis by (simp add: handles_frame_def)
qed

lemma quiet_read:
  assumes "sys_pc s = Reading"
  shows "\<exists>u mf. quiet_run 0 s (s\<lparr>sys_bus := u, sys_pc := Handling mf\<rparr>)"
proof -
  obtain mf u where "GetNextMasterFrame (sys_bus s) = (mf, u)" by fastforce
  then have "sys_step sim_ReadMasterFrame sim_WriteControllerFrame (\<lambda>_ _. False) s
      (s\<lparr>sys_bus := u, sys_pc := Handling mf\<rparr>)"
    using assms by (intro read_frame) (simp_all add: sim_ReadMasterFrame_def)
  then have "quiet_step s (s\<lparr>sys_bus := u, sys_pc := Handling mf\<rparr>)" by (simp add: quiet_step_def)
  from quiet_other[OF quiet_start this] show ?thesis
    by (intro exI[of _ u] exI[of _ mf]) (simp add: handles_frame_def)
qed

lemma quiet_handle:
  assumes "sys_pc s = Handling mf"
  shows "\<exists>t. quiet_run 1 s t \<and> sys_pc t = At_check \<and> sys_rpc t = sys_rpc s"
proof -
  obtain cf c where h: "handle_frame mf (sys_ctl s) = (cf, c)" by fastforce
  obtain w where w: "write_answer sim_WriteControllerFrame cf (sys_bus s) = Inr w"
    by (cases cf) (simp_all add: write_answer_def sim_WriteControllerFrame_def)
  let ?t = "s\<lparr>sys_ctl := c, sys_bus := w, sys_pc := At_check,
      sys_wire := (case cf of None \<Rightarrow> sys_wire s | Some f \<Rightarrow> f # sys_wire s)\<rparr>"
  have "sys_step sim_ReadMasterFrame sim_WriteControllerFrame (\<lambda>_ _. False) s ?t"
    by (rule sys_step.handle[OF assms h w])
  then have "quiet_step s ?t" using handle_frame_shutdown[OF h] by (simp add: quiet_step_def)
  from quiet_frame[OF quiet_start this] show ?thesis
    by (intro exI[of _ ?t]) (simp add: handles_frame_def assms)
qed

lemma quiet_run_trans: "quiet_run m t u \<Longrightarrow> quiet_run n s t \<Longrightarrow> quiet_run (n + m) s u"
  by (induction rule: quiet_run.induct) (auto intro: quiet_run.intros)

lemma quiet_iteration:
  assumes "on_course k s"
  shows "\<exists>t. quiet_run 1 s t \<and> sys_pc t = At_check \<and> sys_rpc t = sys_rpc s"
proof -
  have reading: "\<exists>t. quiet_run 1 r t \<and> sys_pc t = At_check \<and> sys_rpc t = sys_rpc r"
    if pc: "sys_pc r = Reading" for r
  proof -
    obtain u mf where h: "quiet_run 0 r (r\<lparr>sys_bus := u, sys_pc := Handling mf\<rparr>)"
      using quiet_read[OF pc] by blast
    obtain t where "quiet_run 1 (r\<lparr>sys_bus := u, sys_pc := Handling mf\<rparr>) t" "sys_pc t = At_check"
      "sys_rpc t = sys_rpc r"
      using quiet_handle[of "r\<lparr>sys_bus := u, sys_pc := Handling mf\<rparr>" mf] by auto
    with quiet_run_trans[OF this(1) h] show ?thesis by auto
  qed
  show ?thesis
  proof (cases "sys_pc s")
    case At_check
    have "\<not> shutdown (sys_ctl s)" using assms by (simp add: on_course_def)
    note check = quiet_check[OF At_check this]
    obtain t where "quiet_run 1 (s\<lparr>sys_pc := Reading\<rparr>) t" "sys_pc t = At_check" "sys_rpc t = sys_rpc s"
      using reading[of "s\<lparr>sys_pc := Reading\<rparr>"] by auto
    with quiet_run_trans[OF this(1) check] show ?thesis by auto
  next
    case Reading
    then show ?thesis by (rule reading)
  next
    case (Handling mf)
    then show ?thesis by (rule quiet_handle)
  next
    case Exited
    with assms show ?thesis by (simp add: on_course_def)
  qed
qed

lemma quiet_runs_exist:
  assumes "on_course k s"
  shows "\<exists>t. quiet_run n s t \<and> (sys_pc s = At_check \<longrightarrow> sys_pc t = At_check) \<and>
    sys_rpc t = sys_rpc s \<and> on_course (k - n) t"
proof (induction n)
  case 0
  then show ?case using assms quiet_start[of s] by auto
next
  case (Suc n)
  then obtain t where t: "quiet_run n s t" "sys_rpc t = sys_rpc s" "on_course (k - n) t" by blast
  obtain u where u: "quiet_run 1 t u" "sys_pc u = At_check" "sys_rpc u = sys_rpc t"
    using quiet_iteration[OF t(3)] by blast
  from quiet_run_on_course[OF u(1) t(3)] have "on_course (k - n - 1) u" by simp
  with quiet_run_trans[OF u(1) t(1)] u t(2) show ?case by (intro exI[of _ u]) simp
qed

lemma quiet_run_continues:
  assumes "sim_reachable s" and "\<not> shutdown (sys_ctl s)" and "quiet_run n s t"
  shows "\<exists>m u. quiet_run m t u \<and> 6 \<le> n + m \<and> ready (sys_ctl u)"
proof -
  from quiet_run_on_course[OF assms(3) reachable_on_course[OF assms(1,2)]] have t: "on_course (6 - n) t" by simp
  from quiet_runs_exist[OF this, of 6] obtain u where u: "quiet_run 6 t u" by blast
  from quiet_run_settles(1)[OF assms(1,2) quiet_run_trans[OF u assms(3)]] have "ready (sys_ctl u)"
    using settled_simps(1) by simp
  with u show ?thesis by (intro exI[of _ 6] exI[of _ u]) simp
qed

section \<open>A quiet run is a number of iterations\<close>

text \<open>
  Returning calls and \<^verbatim>\<open>GetStatus\<close> change neither the controller nor the unit, so what a quiet run
  makes of them depends on the number of frames handled only. A frame in hand at its start is
  handled first; one in hand at its end has been read, and nothing has been done with it.
\<close>

definition in_hand :: "'w system \<Rightarrow> nat" where
  "in_hand s = (case sys_pc s of Handling mf \<Rightarrow> 1 | _ \<Rightarrow> 0)"

definition finished :: "FujiAcUnitSim system \<Rightarrow> FujiAcController \<times> FujiAcUnitSim" where
  "finished s = (case sys_pc s of
     Handling mf \<Rightarrow> after_hand mf (sys_ctl s) (sys_bus s) | _ \<Rightarrow> (sys_ctl s, sys_bus s))"

definition iterated :: "nat \<Rightarrow> FujiAcUnitSim system \<Rightarrow> FujiAcUnitSim system \<Rightarrow> bool" where
  "iterated k s t \<longleftrightarrow> (\<exists>u. (sim_step ^^ k) (finished s) = (sys_ctl t, u) \<and>
     (case sys_pc t of Handling mf \<Rightarrow> GetNextMasterFrame u = (mf, sys_bus t) | _ \<Rightarrow> sys_bus t = u))"

definition untouched :: "FujiAcUnitSim system \<Rightarrow> FujiAcUnitSim system \<Rightarrow> bool" where
  "untouched s t \<longleftrightarrow> sys_ctl t = sys_ctl s \<and> sys_bus t = sys_bus s \<and> sys_pc t = sys_pc s"

lemma in_hand_pc: "in_hand s = frames_in_hand (sys_pc s)"
  by (cases "sys_pc s") (simp_all add: in_hand_def)

lemma in_hand_simps [simp]:
  "in_hand (s\<lparr>sys_bus := u\<rparr>) = in_hand s" "in_hand (s\<lparr>sys_ctl := c\<rparr>) = in_hand s"
  "in_hand (s\<lparr>sys_rpc := r\<rparr>) = in_hand s"
  by (simp_all add: in_hand_def)

lemma handle_after_hand:
  assumes "handle_frame mf c = (cf, c')" and "write_answer sim_WriteControllerFrame cf u = Inr u'"
  shows "after_hand mf c u = (c', u')"
  using assms by (cases cf) (simp_all add: after_hand_def write_answer_def sim_WriteControllerFrame_def)

lemma untouched_step:
  assumes "quiet_step t t'" and "in_hand s = 1" and "untouched s t"
  shows "if handles_frame t t' then iterated 0 s t' else untouched s t'"
proof -
  obtain mf where pc: "sys_pc s = Handling mf" using assms(2) by (auto simp: in_hand_def split: loop_pc.splits)
  have step: "sys_step sim_ReadMasterFrame sim_WriteControllerFrame (\<lambda>_ _. False) t t'"
    and q: "shutdown (sys_ctl t') = shutdown (sys_ctl t)"
      "\<And>i ns. sys_rpc t' i = In_Update ns \<Longrightarrow> sys_rpc t i = In_Update ns"
    using assms(1) by (auto simp: quiet_step_def)
  note same = assms(3)[unfolded untouched_def pc]
  from step show ?thesis
  proof cases
    case (handle mf' cf c w)
    with same handle_after_hand[OF handle(3,4)] show ?thesis
      by (simp add: iterated_def finished_def pc handles_frame_def)
  next
    case (update_call i ns)
    with q(2)[of i ns] show ?thesis by simp
  next
    case (shutdown_call c)
    with q(1) show ?thesis by (auto simp: Shutdown_def split: if_splits)
  qed (use same in \<open>simp_all add: untouched_def pc handles_frame_def\<close>)
qed

lemma iterated_step:
  assumes "quiet_step t t'" and "iterated k s t"
  shows "iterated (if handles_frame t t' then Suc k else k) s t'"
proof -
  have step: "sys_step sim_ReadMasterFrame sim_WriteControllerFrame (\<lambda>_ _. False) t t'"
    and q: "shutdown (sys_ctl t') = shutdown (sys_ctl t)"
      "\<And>i ns. sys_rpc t' i = In_Update ns \<Longrightarrow> sys_rpc t i = In_Update ns"
    using assms(1) by (auto simp: quiet_step_def)
  from assms(2) obtain u where it: "(sim_step ^^ k) (finished s) = (sys_ctl t, u)"
    and u: "case sys_pc t of Handling mf \<Rightarrow> GetNextMasterFrame u = (mf, sys_bus t) | _ \<Rightarrow> sys_bus t = u"
    by (auto simp: iterated_def)
  from step show ?thesis
  proof cases
    case (read_incomplete w)
    then show ?thesis by (simp add: sim_ReadMasterFrame_def split: prod.splits)
  next
    case (read_frame mf w)
    with it u show ?thesis
      by (auto simp: iterated_def handles_frame_def sim_ReadMasterFrame_def split: prod.splits)
  next
    case (handle mf cf c w)
    with u have "GetNextMasterFrame u = (mf, sys_bus t)" by simp
    with handle_after_hand[OF handle(3,4)] have "sim_step (sys_ctl t, u) = (c, w)"
      by (simp add: sim_step_after_hand)
    with handle it show ?thesis by (simp add: iterated_def handles_frame_def)
  next
    case (update_call i ns)
    with q(2)[of i ns] show ?thesis by simp
  next
    case (shutdown_call c)
    with q(1) show ?thesis by (auto simp: Shutdown_def split: if_splits)
  qed (use it u in \<open>simp_all add: iterated_def handles_frame_def split: loop_pc.splits\<close>)
qed

lemma quiet_run_iterated:
  "quiet_run n s t \<Longrightarrow> if n < in_hand s then untouched s t else iterated (n - in_hand s) s t"
proof (induction rule: quiet_run.induct)
  case (quiet_start s)
  then show ?case
    by (auto simp: in_hand_def untouched_def iterated_def finished_def split: loop_pc.splits)
next
  case (quiet_frame n s t u)
  then show ?case
    using untouched_step[OF quiet_frame.hyps(2), of s] iterated_step[OF quiet_frame.hyps(2), of "n - in_hand s" s]
    by (auto simp: Suc_diff_le in_hand_def split: if_splits loop_pc.splits)
next
  case (quiet_other n s t u)
  then show ?case
    using untouched_step[OF quiet_other.hyps(2), of s] iterated_step[OF quiet_other.hyps(2), of "n - in_hand s" s]
    by (auto simp: in_hand_def split: if_splits loop_pc.splits)
qed

section \<open>The unit's own changes are seen\<close>

text \<open>The state after a frame in hand was handled is a reachable one.\<close>

lemma finished_reachable:
  assumes "sim_reachable s"
  obtains r where "sim_reachable r" "finished s = (sys_ctl r, sys_bus r)"
    "ready (sys_ctl s) \<Longrightarrow> ready (sys_ctl r)" "target (sys_ctl r) (sys_bus r) = target (sys_ctl s) (sys_bus s)"
proof (cases "\<exists>mf. sys_pc s = Handling mf")
  case True
  then obtain mf where pc: "sys_pc s = Handling mf" ..
  note inv = reachable_closed_inv[OF assms]
  obtain cf c where h: "handle_frame mf (sys_ctl s) = (cf, c)" by fastforce
  have fits: "frame_fits (sys_bus s) mf" using inv pc by simp
  from closed_inv_handle[OF _ fits h] inv obtain f where f: "cf = Some f" by blast
  let ?r = "s\<lparr>sys_ctl := c, sys_bus := PushControllerFrame f (sys_bus s), sys_pc := At_check,
      sys_wire := (case cf of None \<Rightarrow> sys_wire s | Some f \<Rightarrow> f # sys_wire s)\<rparr>"
  have "sim_sys_step s ?r"
    by (rule sys_step.handle[OF pc h]) (simp add: f write_answer_def sim_WriteControllerFrame_def)
  with assms have "sim_reachable ?r" by (rule reach_step)
  then show thesis
  proof (rule that)
    show "finished s = (sys_ctl ?r, sys_bus ?r)" by (simp add: finished_def after_hand_def pc h f)
    show "ready (sys_ctl s) \<Longrightarrow> ready (sys_ctl ?r)" using h by (auto simp: f handle_frame_Some)
    show "target (sys_ctl ?r) (sys_bus ?r) = target (sys_ctl s) (sys_bus s)"
      using target_handle[OF _ fits h[unfolded f]] inv by simp
  qed
next
  case False
  with assms show thesis
    by (intro that[of s]) (auto simp: finished_def split: loop_pc.splits)
qed

lemma settings_poll: "sim_ok u \<Longrightarrow> settings (unit_view (snd (GetNextMasterFrame u))) = settings (unit_view u)"
  by (simp add: next_view settings_def)

lemma reachable_remote: "sim_reachable s \<Longrightarrow> sim_reachable (s\<lparr>sys_bus := sim_remote k (sys_bus s)\<rparr>)"
  by (rule reach_step, assumption, rule sys_step.environment, unfold sim_env_def, rule exI, rule refl)

lemma quiet_run_reads:
  assumes "sim_reachable s" and "ready (sys_ctl s)" and "quiet_run n s t" and "in_hand s < n"
  shows "GetStatus (sys_ctl t) = Some (unit_message (unit_view (sys_bus t)))"
    and "settings (unit_view (sys_bus t)) = settings (unit_view (sys_bus s))"
proof -
  obtain r where r: "sim_reachable r" "finished s = (sys_ctl r, sys_bus r)" "ready (sys_ctl r)"
    and rt: "target (sys_ctl r) (sys_bus r) = target (sys_ctl s) (sys_bus s)"
    using finished_reachable[OF assms(1)] assms(2) by metis
  have merged: "ac_merged (ctl_state (sys_ctl q))" if "sim_reachable q" "ready (sys_ctl q)" for q
    using reachable_closed_inv[OF that(1)] that(2) by (simp add: closed_inv_def)
  note inv = conjunct1[OF reachable_closed_inv[OF r(1)]] merged[OF r(1,3)] merged[OF assms(1,2)]
  from quiet_run_iterated[OF assms(3)] assms(4) have "iterated (n - in_hand s) s t" "1 \<le> n - in_hand s" by auto
  then obtain k u where k: "1 \<le> k" and it: "(sim_step ^^ k) (sys_ctl r, sys_bus r) = (sys_ctl t, u)"
    and u: "case sys_pc t of Handling mf \<Rightarrow> GetNextMasterFrame u = (mf, sys_bus t) | _ \<Rightarrow> sys_bus t = u"
    by (auto simp: iterated_def r(2))
  from ready_steps_read[OF inv(1,2) r(3) ready_polls_status[OF r(1,3)] k it]
  have st: "settled (sys_ctl t) u" by (simp add: settled_in_sync)
  from sim_steps[OF inv(1) it] have ok: "sim_ok u" and "target (sys_ctl t) u = target (sys_ctl s) (sys_bus s)"
    using rt by (simp_all add: closed_inv_def)
  then have tgt: "settings (unit_view u) = settings (unit_view (sys_bus s))"
    using settled_simps(2)[OF st] inv(3) by (simp add: target_def)
  have "sys_bus t = u \<or> sys_bus t = snd (GetNextMasterFrame u)" using u by (cases "sys_pc t") simp_all
  then have "settled (sys_ctl t) (sys_bus t)" "settings (unit_view (sys_bus t)) = settings (unit_view u)"
    using st settled_poll[OF ok st] settings_poll[OF ok] by auto
  with tgt settled_GetStatus show "GetStatus (sys_ctl t) = Some (unit_message (unit_view (sys_bus t)))"
    and "settings (unit_view (sys_bus t)) = settings (unit_view (sys_bus s))" by auto
qed

section \<open>Counting reads\<close>

text \<open>The same runs, indexed by the frames the loop has read instead of handled.\<close>

definition reads_frame :: "'w system \<Rightarrow> 'w system \<Rightarrow> bool" where
  "reads_frame s t \<longleftrightarrow> sys_pc s = Reading \<and> (\<exists>mf. sys_pc t = Handling mf)"

inductive reads_run :: "nat \<Rightarrow> FujiAcUnitSim system \<Rightarrow> FujiAcUnitSim system \<Rightarrow> bool" where
  reads_start: "reads_run 0 s s"
| reads_one: "reads_run n s t \<Longrightarrow> quiet_step t u \<Longrightarrow> reads_frame t u \<Longrightarrow> reads_run (Suc n) s u"
| reads_other: "reads_run n s t \<Longrightarrow> quiet_step t u \<Longrightarrow> \<not> reads_frame t u \<Longrightarrow> reads_run n s u"

lemma step_hands:
  assumes "quiet_step s t"
  shows "of_bool (handles_frame s t) + in_hand t = of_bool (reads_frame s t) + in_hand s"
proof -
  have "sys_step sim_ReadMasterFrame sim_WriteControllerFrame (\<lambda>_ _. False) s t"
    using assms by (simp add: quiet_step_def)
  then show ?thesis
    by cases (auto simp: handles_frame_def reads_frame_def in_hand_def sim_ReadMasterFrame_def
        split: prod.splits loop_pc.splits)
qed

lemma reads_run_quiet: "reads_run r s t \<Longrightarrow> \<exists>n. quiet_run n s t \<and> n + in_hand t = r + in_hand s"
proof (induction rule: reads_run.induct)
  case (reads_start s)
  then show ?case using quiet_start by fastforce
next
  case (reads_one r s t u)
  then obtain n where n: "quiet_run n s t" "n + in_hand t = r + in_hand s" by blast
  have "\<not> handles_frame t u" using reads_one.hyps(3) by (auto simp: reads_frame_def handles_frame_def)
  with quiet_other[OF n(1) reads_one.hyps(2)] step_hands[OF reads_one.hyps(2)] reads_one.hyps(3) n(2)
  show ?case by (intro exI[of _ n]) simp
next
  case (reads_other r s t u)
  then obtain n where n: "quiet_run n s t" "n + in_hand t = r + in_hand s" by blast
  show ?case
  proof (cases "handles_frame t u")
    case True
    with quiet_frame[OF n(1) reads_other.hyps(2)] step_hands[OF reads_other.hyps(2)] reads_other.hyps(3) n(2)
    show ?thesis by (intro exI[of _ "Suc n"]) simp
  next
    case False
    with quiet_other[OF n(1) reads_other.hyps(2)] step_hands[OF reads_other.hyps(2)] reads_other.hyps(3) n(2)
    show ?thesis by (intro exI[of _ n]) simp
  qed
qed

end
