(* ===== verification/Unit_Faults.thy ===== *)
theory Unit_Faults
  imports Every_Schedule Fuji_Ac_Service
begin

text \<open>
  What becomes of the controller when the error bit of the unit changes: it asks for the ERROR
  register, and that is the last frame it ever sends.
\<close>

section \<open>One thread\<close>

text \<open>A unit that is asked for its ERROR register is never answered again.\<close>

lemma error_frame_unanswered:
  assumes "sim_ok u" and "next_query_register u = reg_ERROR"
  shows "loop_body sim_ReadMasterFrame sim_WriteControllerFrame (c, u) = Inr (c, snd (GetNextMasterFrame u))"
proof -
  have "mf_Type (fst (GetNextMasterFrame u)) = reg_ERROR"
    using next_frame(3)[OF assms(1)] assms(2) by simp
  then show ?thesis
    by (simp add: loop_body_sim sim_step_def split_beta handle_frame_def handle_no_answer)
qed

lemma Await_error_register:
  assumes "sim_ok u" and "next_query_register u = reg_ERROR" and "\<not> ready c" and "frames_in_hand pc = 0"
  shows "Await sim_ReadMasterFrame sim_WriteControllerFrame n (pc, c, u) = None"
  using assms
proof (induction n arbitrary: pc u)
  case 0
  then show ?case by simp
next
  case (Suc n)
  let ?u = "snd (GetNextMasterFrame u)"
  have u: "sim_ok ?u" "next_query_register ?u = reg_ERROR" using Suc.prems by (simp_all add: next_state)
  have "Await sim_ReadMasterFrame sim_WriteControllerFrame n (At_check, c, ?u) = None"
    "Await sim_ReadMasterFrame sim_WriteControllerFrame n (Exited, c, u) = None"
    using Suc.IH[OF u Suc.prems(3)] Suc.IH[OF Suc.prems(1-3)] by simp_all
  with Suc.prems show ?case by (cases pc) (simp_all add: error_frame_unanswered)
qed

lemma error_frames_ignored:
  assumes "sim_ok u" and "next_query_register u = reg_ERROR"
  shows "\<exists>u'. loop_iters sim_ReadMasterFrame sim_WriteControllerFrame n (c, u) = Inr (c, u')"
  using assms by (induction n arbitrary: u) (simp_all add: error_frame_unanswered next_state)

lemma error_bit_answer:
  assumes "sim_ok u" and "next_query_register u = reg_STATUS" and "v_present (unit_view u)"
    and "ac_merged (ctl_state c)" and "\<not> login_read (client c)"
    and "v_error (unit_view u) \<noteq> ac_error_flag (ctl_state c)" and g: "GetNextMasterFrame u = (mf, u1)"
  obtains c' where "handle_frame mf c = (Some SendErrorQueryFrame, c')"
proof -
  have mf: "mf_ok mf" "mf_Destination mf = dest_WIRED_CONTROLLER_ADDR" "mf_Type mf = reg_STATUS"
    and v: "status_at 0 (mf_Payload mf) = (unit_view u)\<lparr>v_swing_step := False\<rparr>"
    using next_frame[OF assms(1)] next_payload[OF assms(1)] assms(2) g by simp_all
  have "fst (HandleMasterFrame mf (client c)) = Some SendErrorQueryFrame"
    using assms(3-6) by (simp add: handle_status[OF mf(2,3)] after_status_def UpdateFromMaster_eq[OF mf(1)] v
        read_state_def Let_def)
  then obtain h where "HandleMasterFrame mf (client c) = (Some SendErrorQueryFrame, h)"
    by (metis prod.collapse)
  with that show thesis by (simp add: handle_frame_Some)
qed

lemma error_bit_asks:
  assumes "sim_ok u" and "next_query_register u = reg_STATUS" and "v_present (unit_view u)"
    and "ac_merged (ctl_state c)" and "\<not> login_read (client c)"
    and "v_error (unit_view u) \<noteq> ac_error_flag (ctl_state c)"
  obtains c' u' where "loop_body sim_ReadMasterFrame sim_WriteControllerFrame (c, u) = Inr (c', u')"
    "sim_ok u'" "next_query_register u' = reg_ERROR"
proof -
  obtain mf u1 where g: "GetNextMasterFrame u = (mf, u1)" by fastforce
  then have u1: "sim_ok u1" using next_state(1)[OF assms(1)] by simp
  obtain c' where "handle_frame mf c = (Some SendErrorQueryFrame, c')"
    using error_bit_answer[OF assms g] .
  with g u1 show thesis
    by (intro that[of c' "PushControllerFrame SendErrorQueryFrame u1"])
      (simp_all add: loop_body_sim sim_step_def push_state)
qed

section \<open>All threads\<close>

text \<open>The system over a unit whose error bit may change at any time.\<close>

abbreviation unit_reachable :: "FujiAcUnitSim system \<Rightarrow> bool" where
  "unit_reachable \<equiv> sys_reachable sim_ReadMasterFrame sim_WriteControllerFrame unit_env FujiAcUnitSim_init"

abbreviation unit_sys_step :: "FujiAcUnitSim system \<Rightarrow> FujiAcUnitSim system \<Rightarrow> bool" where
  "unit_sys_step \<equiv> sys_step sim_ReadMasterFrame sim_WriteControllerFrame unit_env"

text \<open>What can happen over a unit without faults can happen over one with faults.\<close>

lemma sim_unit_step: "sim_sys_step s t \<Longrightarrow> unit_sys_step s t"
  by (erule sys_step_mono) (simp add: unit_env_def sim_env_def)

lemma sim_unit_run: "sim_sys_step\<^sup>*\<^sup>* s t \<Longrightarrow> unit_sys_step\<^sup>*\<^sup>* s t"
  by (erule rtranclp_mono[THEN predicate2D, rotated]) (auto intro: sim_unit_step)

lemma sim_unit_reachable: "sim_reachable s \<Longrightarrow> unit_reachable s"
  by (induction rule: sys_reachable.induct) (auto intro: reach_init reach_step sim_unit_step)

lemma unit_reachable_merged: "unit_reachable s \<Longrightarrow> ready (sys_ctl s) \<Longrightarrow> ac_merged (ctl_state (sys_ctl s))"
  using unit_bus.reachable_ready_merged[of FujiAcUnitSim_init s] by simp

lemma error_query_inv:
  assumes "unit_reachable s" and "sys_wire s = SendErrorQueryFrame # fs"
  shows "sys_inv sim_ok next_query_register s" and "next_query_register (sys_bus s) = reg_ERROR"
proof -
  show inv: "sys_inv sim_ok next_query_register s"
    using unit_bus.reachable_inv[OF assms(1)] by simp
  have "last_frame (sys_ctl s) = SendErrorQueryFrame"
    using reachable_last_frame[OF assms(1)] assms(2) by simp
  with inv show "next_query_register (sys_bus s) = reg_ERROR" by (simp add: sys_inv_def)
qed

text \<open>
  Such a state is reached from a settled one: the error bit comes on, and the next frame is
  answered by the query.
\<close>

lemma error_query_reachable:
  obtains s fs where "unit_reachable s" "sys_wire s = SendErrorQueryFrame # fs" "sys_pc s = At_check"
    "\<not> shutdown (sys_ctl s)" "sys_rpc s = (\<lambda>_. Rpc_idle)"
proof -
  let ?i = "sys_init FujiAcUnitSim_init"
  have "on_course 6 ?i" by (rule reachable_on_course[OF sim_reachable_init]) (simp add: sys_init_def)
  from quiet_runs_exist[OF this, of 6] obtain s where s: "quiet_run 6 ?i s" "sys_pc s = At_check"
    "sys_rpc s = (\<lambda>_. Rpc_idle)" "on_course 0 s" by (auto simp: sys_init_def)
  let ?c = "sys_ctl s" and ?u = "sys_bus s"
  have inv: "closed_inv ?c ?u" and sd: "\<not> shutdown ?c" and r: "rank ?c ?u = 0"
    using s(2,4) by (simp_all add: on_course_def)
  have q: "next_query_register ?u = reg_STATUS" "\<not> login_read (client ?c)" "ac_merged (ctl_state ?c)"
    "v_present (unit_view ?u)" "sim_ok ?u" "\<not> ac_error_flag (ctl_state ?c)"
    using inv r by (auto simp: rank_def closed_inv_def Let_def split: if_splits)
  define w where "w = with_status (\<lambda>p. reg_SetError p True) ?u"
  have w: "sim_ok w" "next_query_register w = reg_STATUS" "v_present (unit_view w)" "v_error (unit_view w)"
    using q sim_reg_ok[OF q(5)] by (simp_all add: w_def view_simps unit_view_def)
  obtain mf u1 where g: "GetNextMasterFrame w = (mf, u1)" by fastforce
  obtain c' where h: "handle_frame mf ?c = (Some SendErrorQueryFrame, c')"
    using error_bit_answer[OF w(1-3) q(3,2), of mf u1] w(4) q(6) g by auto
  let ?e = "s\<lparr>sys_bus := w\<rparr>" let ?r = "?e\<lparr>sys_pc := Reading\<rparr>"
  let ?h = "?r\<lparr>sys_bus := u1, sys_pc := Handling mf\<rparr>"
  let ?t = "?h\<lparr>sys_ctl := c', sys_bus := PushControllerFrame SendErrorQueryFrame u1, sys_pc := At_check,
     sys_wire := (case Some SendErrorQueryFrame of None \<Rightarrow> sys_wire ?h | Some f \<Rightarrow> f # sys_wire ?h)\<rparr>"
  have 0: "unit_sys_step s ?e" by (intro environment) (auto simp: unit_env_def w_def)
  have 1: "unit_sys_step ?e ?r" by (intro check_continue) (simp_all add: s(2) sd)
  have 2: "unit_sys_step ?r ?h" using g by (intro read_frame) (simp_all add: sim_ReadMasterFrame_def)
  have 3: "unit_sys_step ?h ?t"
    by (rule handle[where mf = mf]) (simp_all add: h write_answer_def sim_WriteControllerFrame_def)
  have "unit_reachable s" by (rule reachable_run[OF sim_unit_run[OF quiet_sim_run[OF s(1)]] reach_init])
  then have t: "unit_reachable ?t" using 0 1 2 3 by (blast intro: reach_step)
  show thesis
    by (rule that[OF t]) (use handle_frame_shutdown[OF h] sd s(3) in simp_all)
qed

end
