(* ===== verification/Service_Destruction.thy ===== *)
theory Service_Destruction
  imports Fuji_Ac_Service
begin

text \<open>
  How a service object of \<^verbatim>\<open>controller/fuji_ac_server.cc\<close> is taken apart. C++ destroys the members
  in the reverse of the order in which they are declared, while the loop thread goes on until the
  controller's destructor has joined it. An object that is gone is a bus \<open>None\<close>, on which every
  call fails; \<open>uses_freed\<close> says that the loop thread is about to make such a call.
\<close>

section \<open>Members and their destruction\<close>

datatype service_member = Controller_member | Bus_member | Loop_thread

definition SimService_members :: "service_member list" where
  "SimService_members = [Controller_member, Bus_member]"

definition RealService_members :: "service_member list" where
  "RealService_members = [Controller_member, Bus_member]"

definition on_live :: "('w \<Rightarrow> 'r or_fatal) \<Rightarrow> 'w option \<Rightarrow> 'r or_fatal" where
  "on_live f w = (case w of None \<Rightarrow> Inl ''use after free'' | Some w \<Rightarrow> f w)"

definition live_read ::
    "('w \<Rightarrow> (FujiMasterFrame option \<times> 'w) or_fatal) \<Rightarrow>
       'w option \<Rightarrow> (FujiMasterFrame option \<times> 'w option) or_fatal" where
  "live_read rd = on_live (\<lambda>w. case rd w of Inl e \<Rightarrow> Inl e | Inr (mf, w) \<Rightarrow> Inr (mf, Some w))"

definition live_write ::
    "(FujiControllerFrame \<Rightarrow> 'w \<Rightarrow> 'w or_fatal) \<Rightarrow> FujiControllerFrame \<Rightarrow> 'w option \<Rightarrow> 'w option or_fatal" where
  "live_write wr f = on_live (\<lambda>w. case wr f w of Inl e \<Rightarrow> Inl e | Inr w \<Rightarrow> Inr (Some w))"

text \<open>
  The list holds what the destructor has still to do. Nobody else calls \<^verbatim>\<open>Shutdown\<close>; a controller
  that is shut down already has been joined, and is not joined again.
\<close>

inductive destroy_step ::
    "('w \<Rightarrow> (FujiMasterFrame option \<times> 'w) or_fatal) \<Rightarrow> (FujiControllerFrame \<Rightarrow> 'w \<Rightarrow> 'w or_fatal) \<Rightarrow>
       service_member list \<times> 'w option system \<Rightarrow> service_member list \<times> 'w option system \<Rightarrow> bool"
  for rd wr where
  other_thread: "sys_step (live_read rd) (live_write wr) (\<lambda>_ _. False) s t \<Longrightarrow>
    shutdown (sys_ctl t) = shutdown (sys_ctl s) \<Longrightarrow> destroy_step rd wr (ms, s) (ms, t)"
| free_bus: "destroy_step rd wr (Bus_member # ms, s) (ms, s\<lparr>sys_bus := None\<rparr>)"
| stop_controller: "controller_destroy (sys_ctl s) = Inr c \<Longrightarrow>
    destroy_step rd wr (Controller_member # ms, s)
      (if shutdown (sys_ctl s) then ms else Loop_thread # ms, s\<lparr>sys_ctl := c\<rparr>)"
| join_loop: "sys_pc s = Exited \<Longrightarrow> destroy_step rd wr (Loop_thread # ms, s) (ms, s)"

definition uses_freed :: "'w option system \<Rightarrow> bool" where
  "uses_freed s \<longleftrightarrow> sys_bus s = None \<and>
     (case sys_pc s of
        Reading \<Rightarrow> True
      | Handling mf \<Rightarrow> fst (handle_frame mf (sys_ctl s)) \<noteq> None
      | _ \<Rightarrow> False)"

text \<open>A system with its bus still alive.\<close>

definition live :: "'w system \<Rightarrow> 'w option system" where
  "live s = \<lparr>sys_ctl = sys_ctl s, sys_bus = Some (sys_bus s), sys_pc = sys_pc s,
     sys_rpc = sys_rpc s, sys_wire = sys_wire s\<rparr>"

lemma live_simps [simp]:
  "sys_ctl (live s) = sys_ctl s" "sys_bus (live s) = Some (sys_bus s)" "sys_pc (live s) = sys_pc s"
  by (simp_all add: live_def)

section \<open>The order of destruction\<close>

text \<open>
  In the order of declaration the controller, with its thread, would go first: the bus is freed
  only when the loop thread has left its loop.
\<close>

definition controller_first :: "service_member list \<times> 'w option system \<Rightarrow> bool" where
  "controller_first r \<longleftrightarrow>
     (fst r = [Controller_member, Bus_member] \<and> \<not> shutdown (sys_ctl (snd r)) \<and> sys_bus (snd r) \<noteq> None) \<or>
     (fst r = [Loop_thread, Bus_member] \<and> sys_bus (snd r) \<noteq> None) \<or>
     (fst r = [Bus_member] \<and> sys_pc (snd r) = Exited) \<or>
     (fst r = [] \<and> sys_pc (snd r) = Exited)"

lemma live_bus_step:
  assumes "sys_step (live_read rd) (live_write wr) (\<lambda>_ _. False) s t" and "sys_bus s \<noteq> None"
  shows "sys_bus t \<noteq> None"
  using assms
  by (induction rule: sys_step.induct)
    (auto simp: live_read_def live_write_def on_live_def write_answer_def dest: sym
      split: sum.splits option.splits prod.splits)

lemma controller_first_step: "destroy_step rd wr r r' \<Longrightarrow> controller_first r \<Longrightarrow> controller_first r'"
proof (induction rule: destroy_step.induct)
  case (other_thread s t ms)
  then show ?case
    using live_bus_step[OF other_thread.hyps(1)] exited_step[OF other_thread.hyps(1)]
    by (auto simp: controller_first_def)
qed (auto simp: controller_first_def)

lemma controller_first_run: "(destroy_step rd wr)\<^sup>*\<^sup>* r r' \<Longrightarrow> controller_first r \<Longrightarrow> controller_first r'"
  by (induction rule: rtranclp_induct) (auto intro: controller_first_step)

lemma controller_first_safe: "controller_first (ms, s) \<Longrightarrow> \<not> uses_freed s"
  by (auto simp: controller_first_def uses_freed_def)

text \<open>
  C34. A service object frees its simulated unit, or its reader, under its own loop: the members
  are declared controller first, so the bus is destroyed before the controller's destructor stops
  the loop thread, and a thread at the top of its loop can go on to call an object that is gone,
  over any serial interface. If the members were destroyed in the order of their declaration, no
  run of the threads would do so.
\<close>

theorem destruction_frees_bus_in_use:
  assumes "sys_pc s = At_check" and "\<not> shutdown (sys_ctl s)"
    and "members \<in> {SimService_members, RealService_members}"
  shows "(\<exists>ms t. (destroy_step rd wr)\<^sup>*\<^sup>* (rev members, live s) (ms, t) \<and> uses_freed t) \<and>
    \<not> (\<exists>ms t. (destroy_step rd wr)\<^sup>*\<^sup>* (members, live s) (ms, t) \<and> uses_freed t)"
proof
  have ms: "members = [Controller_member, Bus_member]"
    using assms(3) by (auto simp: SimService_members_def RealService_members_def)
  let ?f = "(live s)\<lparr>sys_bus := None\<rparr>"
  have "destroy_step rd wr (rev members, live s) ([Controller_member], ?f)"
    by (simp add: ms free_bus)
  moreover have "destroy_step rd wr ([Controller_member], ?f) ([Controller_member], ?f\<lparr>sys_pc := Reading\<rparr>)"
    using assms(1,2) by (intro other_thread sys_step.check_continue) simp_all
  ultimately have "(destroy_step rd wr)\<^sup>*\<^sup>* (rev members, live s) ([Controller_member], ?f\<lparr>sys_pc := Reading\<rparr>)"
    by (blast intro: converse_rtranclp_into_rtranclp r_into_rtranclp)
  then show "\<exists>ms t. (destroy_step rd wr)\<^sup>*\<^sup>* (rev members, live s) (ms, t) \<and> uses_freed t"
    by (intro exI conjI) (assumption, simp add: uses_freed_def)
  have "controller_first (members, live s)" using assms(2) by (simp add: controller_first_def ms)
  then show "\<not> (\<exists>ms t. (destroy_step rd wr)\<^sup>*\<^sup>* (members, live s) (ms, t) \<and> uses_freed t)"
    using controller_first_run controller_first_safe by blast
qed

theorem destruction_frees_bus_in_use_witness:
  "\<exists>ms t. (destroy_step sim_ReadMasterFrame sim_WriteControllerFrame)\<^sup>*\<^sup>*
      ([Bus_member, Controller_member], live (sys_init FujiAcUnitSim_init)) (ms, t) \<and> uses_freed t"
  using destruction_frees_bus_in_use[of "sys_init FujiAcUnitSim_init" SimService_members
      sim_ReadMasterFrame sim_WriteControllerFrame]
  by (simp add: sys_init_def SimService_members_def)

end
