(* ===== verification/Fuji_Ac_Client.thy ===== *)
theory Fuji_Ac_Client
  imports Fuji_Ac_Service
begin

text \<open>
  \<^verbatim>\<open>controller/fuji_ac_controller_client.cc\<close>: the command line client. It builds one request from
  its flags and sends it. The channel to an address, with the stub's blocking \<^verbatim>\<open>Update\<close>, is gRPC's
  and a parameter; \<open>service_stub\<close> is the one that reaches the simulator service.
\<close>

section \<open>The program\<close>

record client_flags =
  FLAGS_address :: string
  FLAGS_port :: "32 word"
  FLAGS_mode :: string
  FLAGS_fan :: string
  FLAGS_setpoint :: "32 word"

definition client_flags_default :: client_flags where
  "client_flags_default =
     \<lparr>FLAGS_address = [], FLAGS_port = 12345, FLAGS_mode = [], FLAGS_fan = [], FLAGS_setpoint = 0\<rparr>"

text \<open>\<^verbatim>\<open>FLAGS_setpoint\<close> is a 32-bit signed integer; both comparisons are signed.\<close>

definition client_request :: "client_flags \<Rightarrow> ACUnitState" where
  "client_request fl =
     (let new_state = ACUnitState_default;
          new_state =
            (if FLAGS_mode fl = ''off'' then new_state\<lparr>pb_mode := MODE_OFF\<rparr>
             else if FLAGS_mode fl = ''cool'' then new_state\<lparr>pb_mode := MODE_COOL\<rparr>
             else if FLAGS_mode fl = ''dry'' then new_state\<lparr>pb_mode := MODE_DRY\<rparr>
             else if FLAGS_mode fl = ''fan'' then new_state\<lparr>pb_mode := MODE_FAN\<rparr>
             else if FLAGS_mode fl = ''heat'' then new_state\<lparr>pb_mode := MODE_HEAT\<rparr>
             else new_state);
          new_state =
            (if FLAGS_fan fl = ''low'' then new_state\<lparr>pb_fan := FAN_LOW\<rparr>
             else if FLAGS_fan fl = ''medium'' then new_state\<lparr>pb_fan := FAN_MEDIUM\<rparr>
             else if FLAGS_fan fl = ''high'' then new_state\<lparr>pb_fan := FAN_HIGH\<rparr>
             else if FLAGS_fan fl = ''max'' then new_state\<lparr>pb_fan := FAN_MAX\<rparr>
             else new_state)
      in if 18 \<le>s FLAGS_setpoint fl \<and> FLAGS_setpoint fl \<le>s 28
         then new_state\<lparr>pb_setpoint_temperature := FLAGS_setpoint fl\<rparr> else new_state)"

datatype client_log = Response_Status "ACUnitState option" | Failed_to_send_RPC

definition RunClient ::
    "(string \<Rightarrow> ACUnitState \<Rightarrow> 'w \<Rightarrow> (grpc_Status \<times> ACUnitState option) \<times> 'w) \<Rightarrow>
       client_flags \<Rightarrow> 'w \<Rightarrow> client_log \<times> 'w" where
  "RunClient connect fl w =
     (let stub_Update = connect (FLAGS_address fl @ '':'' @ int_to_string (sint (FLAGS_port fl)));
          ((status, response), w) = stub_Update (client_request fl) w
      in (if status = grpc_OK then Response_Status response else Failed_to_send_RPC, w))"

text \<open>\<^verbatim>\<open>main\<close>; the parsing of the command line is gflags'.\<close>

definition client_main ::
    "(string \<Rightarrow> ACUnitState \<Rightarrow> 'w \<Rightarrow> (grpc_Status \<times> ACUnitState option) \<times> 'w) \<Rightarrow>
       (string list \<Rightarrow> client_flags \<Rightarrow> client_flags) \<Rightarrow> string list \<Rightarrow> 'w \<Rightarrow> int \<times> client_log \<times> 'w" where
  "client_main connect parse argv w = (0, RunClient connect (parse argv client_flags_default) w)"

section \<open>What a request asks for\<close>

text \<open>The names a mode and a fan speed have on the command line.\<close>

definition cli_mode :: "string \<Rightarrow> mode_t option" where
  "cli_mode = map_of [(''cool'', mode_COOL), (''dry'', mode_DRY), (''fan'', mode_FAN), (''heat'', mode_HEAT)]"

definition cli_fan :: "string \<Rightarrow> fan_t option" where
  "cli_fan = map_of [(''low'', fan_LOW), (''medium'', fan_MEDIUM), (''high'', fan_HIGH), (''max'', fan_MAX)]"

abbreviation cli_setpoint :: "client_flags \<Rightarrow> bool" where
  "cli_setpoint fl \<equiv> 18 \<le>s FLAGS_setpoint fl \<and> FLAGS_setpoint fl \<le>s 28"

text \<open>The set point a client can send.\<close>

lemma signed_range:
  fixes t :: "32 word"
  assumes "18 \<le>s t" and "t \<le>s 28"
  shows "18 \<le> t" "t \<le> 28" "ucast t < (128 :: byte)"
proof -
  have "sint t \<in> {18..28}" using assms by (simp add: word_sle_eq)
  then have "sint t \<in> set [18..28]" unfolding set_upto .
  then have "word_of_int (sint t) \<in> set (map word_of_int [18..28] :: 32 word list)"
    unfolding list.set_map by (rule imageI)
  moreover have "word_of_int (sint t) = t" by simp
  ultimately have "t \<in> set (map word_of_int [18..28])" by (simp only:)
  then have "t \<in> {18, 19, 20, 21, 22, 23, 24, 25, 26, 27, 28}"
    by (simp add: upto_rec1)
  then show "18 \<le> t" "t \<le> 28" "ucast t < (128 :: byte)" by auto
qed

lemma client_request_fields:
  "pb_setpoint_temperature (client_request fl) = (if cli_setpoint fl then FLAGS_setpoint fl else 0)"
  "requested_mode (pb_mode (client_request fl)) = cli_mode (FLAGS_mode fl)"
  "requested_fan (pb_fan (client_request fl)) = cli_fan (FLAGS_fan fl)"
  "pb_mode (client_request fl) = MODE_OFF \<longleftrightarrow> FLAGS_mode fl = ''off''"
  by (simp_all add: client_request_def ACUnitState_default_def cli_mode_def cli_fan_def Let_def)

lemma cli_setpoint_values:
  assumes "cli_setpoint fl"
  shows "FLAGS_setpoint fl \<noteq> 0" "(ucast (FLAGS_setpoint fl) :: byte) AND 127 = ucast (FLAGS_setpoint fl)"
  using assms signed_range[of "FLAGS_setpoint fl"] by (auto simp: byte_below_128)

section \<open>The client and the service\<close>

text \<open>
  A call that reaches the service returns what its handler returns; one that is still blocked
  after \<open>n\<close> turns of the loop thread, or whose server has died, counts as failed.
\<close>

definition service_stub ::
    "nat \<Rightarrow> string \<Rightarrow> ACUnitState \<Rightarrow> FujiAcUnitSim loop_thread \<Rightarrow>
       (grpc_Status \<times> ACUnitState option) \<times> FujiAcUnitSim loop_thread" where
  "service_stub n address request s =
     (case SimService_Update n request s of
        Some (Inr (r, s)) \<Rightarrow> (r, s)
      | _ \<Rightarrow> ((grpc_INTERNAL ''UNAVAILABLE'', None), s))"

lemma RunClient_service:
  assumes "closed_inv c u" and "hand_fits u pc" and "pc \<noteq> Exited" and "\<not> shutdown c"
    and "5 + frames_in_hand pc \<le> n"
  obtains m c' u' where
    "RunClient (service_stub n) fl (pc, c, u) = (Response_Status (Some m), At_check, c', u')"
    "target (Update_begin (client_request fl) c) u = settings (unit_view u')"
proof -
  obtain c' u' where "SimService_Update n (client_request fl) (pc, c, u) =
      Some (Inr ((grpc_OK, Some (status_message (ctl_state c'))), At_check, c', u'))"
    and "target (Update_begin (client_request fl) c) u = settings (unit_view u')"
    using Service_Update_sim[OF assms] by metis
  then show thesis
    by (intro that[of "status_message (ctl_state c')" c' u']) (simp_all add: RunClient_def service_stub_def)
qed

end
