(* ===== verification/Golden_Traces.thy ===== *)
theory Golden_Traces
  imports Fuji_Ac_Protocol_Handler Fuji_Ac_Unit_Sim
begin

text \<open>
  The recorded traffic of \<^verbatim>\<open>protocol/fuji_ac_protocol_handler_test.cc\<close> and
  \<^verbatim>\<open>sim/fuji_ac_unit_sim_test.cc\<close>, captured on the wire between a real AC unit and its wired
  controller, as data: each test is a list of checks, run against the model of the handler or
  of the simulator. The properties say that the models reproduce every recorded byte, which
  ties the definitions of this development to the real device.
\<close>

section \<open>Running a recording\<close>

datatype reading = Is_Enabled bool | Is_Temperature byte | Is_Fan fan_t | Is_Mode mode_t
  | Is_Economy bool | Is_Swing bool | Is_SwingStep bool

fun state_reads :: "reading \<Rightarrow> FujiAcState \<Rightarrow> bool" where
  "state_reads (Is_Enabled b) s = (ac_enabled s = b)"
| "state_reads (Is_Temperature t) s = (ac_temperature s = t)"
| "state_reads (Is_Fan f) s = (ac_fan s = f)"
| "state_reads (Is_Mode m) s = (ac_mode s = m)"
| "state_reads (Is_Economy b) s = (ac_economy s = b)"
| "state_reads (Is_Swing b) s = (ac_swing s = b)"
| "state_reads (Is_SwingStep b) s = (ac_swing_step s = b)"

fun unit_reads :: "reading \<Rightarrow> FujiAcUnitSim \<Rightarrow> bool" where
  "unit_reads (Is_Enabled b) u = (sim_Enabled u = b)"
| "unit_reads (Is_Temperature t) u = (sim_Temperature u = t)"
| "unit_reads (Is_Fan f) u = (sim_Fan u = f)"
| "unit_reads (Is_Mode m) u = (sim_Mode u = m)"
| "unit_reads (Is_Economy b) u = (sim_Economy u = b)"
| "unit_reads (Is_Swing b) u = (sim_Swing u = b)"
| "unit_reads (Is_SwingStep b) u = (sim_SwingStep u = b)"

datatype handler_check = Response bytes bytes | Null bytes | Local "FujiAcState \<Rightarrow> FujiAcState"
  | State reading | Clear_login

fun answer_is :: "bytes \<Rightarrow> FujiControllerFrame option \<times> FujiAcProtocolHandler \<Rightarrow> bool \<times> FujiAcProtocolHandler" where
  "answer_is resp (Some f, h) = (cf_BuildFrame f = resp, h)"
| "answer_is resp (None, h) = (False, h)"

fun no_answer :: "FujiControllerFrame option \<times> FujiAcProtocolHandler \<Rightarrow> bool \<times> FujiAcProtocolHandler" where
  "no_answer (Some f, h) = (False, h)"
| "no_answer (None, h) = (True, h)"

fun handler_check_step :: "handler_check \<Rightarrow> FujiAcProtocolHandler \<Rightarrow> bool \<times> FujiAcProtocolHandler" where
  "handler_check_step (Response mf resp) h = answer_is resp (HandleMasterFrame (MasterFrame mf) h)"
| "handler_check_step (Null mf) h = no_answer (HandleMasterFrame (MasterFrame mf) h)"
| "handler_check_step (Local g) h = (True, h\<lparr>ac_state := g (ac_state h)\<rparr>)"
| "handler_check_step (State p) h = (state_reads p (ac_state h), h)"
| "handler_check_step Clear_login h = (True, h\<lparr>login_read := False\<rparr>)"

text \<open>A run keeps the verdict so far together with the state.\<close>

fun checked :: "bool \<Rightarrow> bool \<times> 's \<Rightarrow> bool \<times> 's" where
  "checked ok (ok', s) = (ok \<and> ok', s)"

fun handler_run :: "handler_check list \<Rightarrow> bool \<times> FujiAcProtocolHandler \<Rightarrow> bool" where
  "handler_run [] (ok, h) = ok"
| "handler_run (x # xs) (ok, h) = handler_run xs (checked ok (handler_check_step x h))"

definition handler_passes :: "handler_check list \<Rightarrow> FujiAcProtocolHandler \<Rightarrow> bool" where
  "handler_passes xs h = handler_run xs (True, h)"

datatype unit_check = Exchange bytes bytes | Preset reg_op | Remote remote_key | Reads reading

fun exchanged :: "bytes \<Rightarrow> bytes \<Rightarrow> FujiMasterFrame \<times> FujiAcUnitSim \<Rightarrow> bool \<times> FujiAcUnitSim" where
  "exchanged mf cf (r, u) = (mf_eq (MasterFrame mf) r, PushControllerFrame (ControllerFrame cf) u)"

fun unit_check_step :: "unit_check \<Rightarrow> FujiAcUnitSim \<Rightarrow> bool \<times> FujiAcUnitSim" where
  "unit_check_step (Exchange mf cf) u = exchanged mf cf (GetNextMasterFrame u)"
| "unit_check_step (Preset x) u = (True, with_status (\<lambda>p. reg_apply p x) u)"
| "unit_check_step (Remote k) u = (True, sim_remote k u)"
| "unit_check_step (Reads p) u = (unit_reads p u, u)"

fun unit_run :: "unit_check list \<Rightarrow> bool \<times> FujiAcUnitSim \<Rightarrow> bool" where
  "unit_run [] (ok, u) = ok"
| "unit_run (x # xs) (ok, u) = unit_run xs (checked ok (unit_check_step x u))"

definition unit_passes :: "unit_check list \<Rightarrow> FujiAcUnitSim \<Rightarrow> bool" where
  "unit_passes xs u = unit_run xs (True, u)"

section \<open>Evaluation\<close>

text \<open>
  The simulator's operations as compositions of functions, for evaluation: a state is a value
  before the next function is applied to it.
\<close>

definition push_query :: "FujiControllerFrame \<Rightarrow> FujiAcUnitSim \<Rightarrow> FujiAcUnitSim" where
  "push_query f u = (if cf_QueryRegister f = reg_UNKNOWN then u
     else u\<lparr>next_query_register := cf_QueryRegister f\<rparr>)"

definition push_login :: "FujiControllerFrame \<Rightarrow> FujiAcUnitSim \<Rightarrow> FujiAcUnitSim" where
  "push_login f u = (if cf_LoginBit f then with_status (\<lambda>p. reg_SetControllerPresent p True) u else u)"

definition push_fan_mode :: "bytes \<Rightarrow> FujiAcUnitSim \<Rightarrow> FujiAcUnitSim" where
  "push_fan_mode d u = (if reg_Mode 0 d = mode_FAN
     then with_status (\<lambda>p. reg_SetUpdateMagic p 4) (with_status (\<lambda>p. reg_SetTemperature p 18) u)
     else with_status (\<lambda>p. reg_SetUpdateMagic p 0)
       (with_status (\<lambda>p. reg_SetTemperature p (reg_Temperature 0 d)) u))"

definition push_payload :: "bytes \<Rightarrow> FujiAcUnitSim \<Rightarrow> FujiAcUnitSim" where
  "push_payload d u =
     push_fan_mode d
       (with_status (\<lambda>p. reg_SetSwingStep p (reg_SwingStep 0 d))
         (with_status (\<lambda>p. reg_SetSwing p (reg_Swing 0 d))
           (with_status (\<lambda>p. reg_SetEconomy p (reg_Economy 0 d))
             (with_status (\<lambda>p. reg_SetFan p (reg_Fan 0 d))
               (with_status (\<lambda>p. reg_SetMode p (reg_Mode 0 d))
                 (with_status (\<lambda>p. reg_SetEnabled p (reg_Enabled 0 d)) u))))))"

definition push_write :: "FujiControllerFrame \<Rightarrow> FujiAcUnitSim \<Rightarrow> FujiAcUnitSim" where
  "push_write f u = (if cf_QueryRegister f = reg_STATUS \<and> cf_WriteBit f
     then push_payload (cf_Payload f) u else u)"

lemma PushControllerFrame_code [code]:
  "PushControllerFrame f u = push_write f (push_login f (push_query f u))"
  by (simp add: PushControllerFrame_def push_write_def push_login_def push_query_def
      push_payload_def push_fan_mode_def Let_def)

definition poll_clear_step :: "FujiAcUnitSim \<Rightarrow> FujiAcUnitSim" where
  "poll_clear_step u = (if (next_query_register u \<noteq> reg_ERROR \<and> next_query_register u \<noteq> reg_LOGIN) \<and>
     reg_SwingStep 3 (status_register u) then with_status (\<lambda>p. reg_SetSwingStep p False) u else u)"

definition poll_register :: "FujiAcUnitSim \<Rightarrow> FujiMasterFrame" where
  "poll_register u =
     (case next_query_register u of
        reg_ERROR \<Rightarrow> mf_WithType reg_ERROR (MasterFrame (error_register u))
      | reg_LOGIN \<Rightarrow> mf_WithType reg_LOGIN (MasterFrame (login_register u))
      | _ \<Rightarrow> mf_WithType reg_STATUS (MasterFrame (status_register u)))"

definition poll_answer :: "FujiAcUnitSim \<Rightarrow> FujiMasterFrame \<times> FujiAcUnitSim" where
  "poll_answer u =
     (mf_WithDestination dest_WIRED_CONTROLLER_ADDR (mf_WithUnknownBit True (poll_register u)),
      with_status (\<lambda>p. reg_SetUpdateMagic p 10) u)"

lemma GetNextMasterFrame_code [code]: "GetNextMasterFrame u = poll_answer (poll_clear_step u)"
  by (simp add: GetNextMasterFrame_def poll_answer_def poll_register_def poll_clear_step_def Let_def
      split: RegisterType.split)

lemma rmw_code [code]: "rmw b msk off v = word_of_int (uint ((b AND NOT msk) OR push_bit off v))"
  by (simp add: rmw_byte)

lemma fld_code [code]: "fld b msk off = word_of_int (uint (drop_bit off (b AND msk)))"
  by (simp add: fld_byte)

section \<open>Recordings of the wired controller\<close>

definition recorded_Startup :: "handler_check list" where
  "recorded_Startup =
    [Null [0x00, 0x81, 0x00, 0x46, 0x12, 0xa0, 0x00, 0x20],
     Response [0x00, 0xa0, 0x00, 0x46, 0x12, 0xa0, 0x00, 0x20] [0x20, 0x81, 0x20, 0x00, 0x00, 0x00, 0x00, 0x00],
     Response [0x00, 0xa0, 0x20, 0x1f, 0x1f, 0x05, 0x01, 0x00] [0x20, 0xa1, 0x00, 0x46, 0x12, 0x00, 0x2f, 0x00],
     Response [0x00, 0xa0, 0x00, 0x46, 0x12, 0xa0, 0x01, 0x20] [0x20, 0x81, 0x00, 0x46, 0x12, 0x00, 0x2f, 0x00],
     Response [0x00, 0xa0, 0x00, 0x46, 0x12, 0xa0, 0x01, 0x20] [0x20, 0x81, 0x00, 0x46, 0x12, 0x00, 0x2f, 0x00]]"

definition recorded_TestReconnect :: "handler_check list" where
  "recorded_TestReconnect =
    [Null [0x00, 0x81, 0x00, 0x46, 0x12, 0xa0, 0x01, 0x20],
     Response [0x00, 0xa0, 0x00, 0x46, 0x12, 0xa0, 0x01, 0x20] [0x20, 0x81, 0x20, 0x00, 0x00, 0x00, 0x00, 0x00],
     Response [0x00, 0xa0, 0x20, 0x1f, 0x1f, 0x05, 0x01, 0x00] [0x20, 0xa1, 0x00, 0x46, 0x12, 0x00, 0x2f, 0x00],
     Response [0x00, 0xa0, 0x00, 0x46, 0x12, 0xa0, 0x01, 0x20] [0x20, 0x81, 0x00, 0x46, 0x12, 0x00, 0x2f, 0x00]]"

definition recorded_RemoteTurnOnTurnOff :: "handler_check list" where
  "recorded_RemoteTurnOnTurnOff =
    [Clear_login,
     Response [0x00, 0xa0, 0x00, 0x46, 0x12, 0xa0, 0x01, 0x20] [0x20, 0x81, 0x00, 0x46, 0x12, 0x00, 0x2f, 0x00],
     State (Is_Enabled False),
     State (Is_Temperature 18),
     Null [0x00, 0x80, 0x00, 0x47, 0x16, 0x40, 0x01, 0x20],
     Response [0x00, 0xa0, 0x00, 0x47, 0x16, 0x40, 0x01, 0x20] [0x20, 0x81, 0x00, 0x47, 0x16, 0x00, 0x2f, 0x00],
     Response [0x00, 0xa0, 0x00, 0x47, 0x16, 0xa0, 0x01, 0x20] [0x20, 0x81, 0x00, 0x47, 0x16, 0x00, 0x2f, 0x00],
     State (Is_Enabled True),
     State (Is_Temperature 22),
     Null [0x00, 0x80, 0x00, 0x46, 0x16, 0x40, 0x01, 0x20],
     Response [0x00, 0xa0, 0x00, 0x46, 0x16, 0x40, 0x01, 0x20] [0x20, 0x81, 0x00, 0x46, 0x16, 0x00, 0x2f, 0x00],
     Response [0x00, 0xa0, 0x00, 0x46, 0x16, 0xa0, 0x01, 0x20] [0x20, 0x81, 0x00, 0x46, 0x16, 0x00, 0x2f, 0x00],
     State (Is_Enabled False)]"

definition recorded_TestGolden :: "handler_check list" where
  "recorded_TestGolden =
    [Clear_login,
     Response [0x00, 0xa0, 0x00, 0x47, 0x16, 0xa0, 0x01, 0x20] [0x20, 0x81, 0x00, 0x47, 0x16, 0x00, 0x2f, 0x00],
     Null [0x00, 0x80, 0x00, 0x37, 0x16, 0x40, 0x01, 0x20],
     Response [0x00, 0xa0, 0x00, 0x37, 0x16, 0x40, 0x01, 0x20] [0x20, 0x81, 0x00, 0x37, 0x16, 0x00, 0x2f, 0x00],
     Response [0x00, 0xa0, 0x00, 0x37, 0x16, 0xa0, 0x01, 0x20] [0x20, 0x81, 0x00, 0x37, 0x16, 0x00, 0x2f, 0x00],
     State (Is_Fan fan_HIGH),
     Null [0x00, 0x80, 0x00, 0x27, 0x16, 0x40, 0x01, 0x20],
     Response [0x00, 0xa0, 0x00, 0x27, 0x16, 0x40, 0x01, 0x20] [0x20, 0x81, 0x00, 0x27, 0x16, 0x00, 0x2f, 0x00],
     Response [0x00, 0xa0, 0x00, 0x27, 0x16, 0xa0, 0x01, 0x20] [0x20, 0x81, 0x00, 0x27, 0x16, 0x00, 0x2f, 0x00],
     State (Is_Fan fan_MEDIUM),
     Null [0x00, 0x80, 0x00, 0x17, 0x16, 0x40, 0x01, 0x20],
     Response [0x00, 0xa0, 0x00, 0x17, 0x16, 0x40, 0x01, 0x20] [0x20, 0x81, 0x00, 0x17, 0x16, 0x00, 0x2f, 0x00],
     Response [0x00, 0xa0, 0x00, 0x17, 0x16, 0xa0, 0x01, 0x20] [0x20, 0x81, 0x00, 0x17, 0x16, 0x00, 0x2f, 0x00],
     State (Is_Fan fan_LOW),
     Null [0x00, 0x80, 0x00, 0x07, 0x16, 0x40, 0x01, 0x20],
     Response [0x00, 0xa0, 0x00, 0x07, 0x16, 0x40, 0x01, 0x20] [0x20, 0x81, 0x00, 0x07, 0x16, 0x00, 0x2f, 0x00],
     Response [0x00, 0xa0, 0x00, 0x07, 0x16, 0xa0, 0x01, 0x20] [0x20, 0x81, 0x00, 0x07, 0x16, 0x00, 0x2f, 0x00],
     State (Is_Fan fan_AUTO),
     Null [0x00, 0x80, 0x00, 0x07, 0x12, 0x40, 0x01, 0x20],
     Response [0x00, 0xa0, 0x00, 0x07, 0x12, 0x40, 0x01, 0x20] [0x20, 0x81, 0x00, 0x07, 0x12, 0x00, 0x2f, 0x00],
     Response [0x00, 0xa0, 0x00, 0x07, 0x12, 0xa0, 0x01, 0x20] [0x20, 0x81, 0x00, 0x07, 0x12, 0x00, 0x2f, 0x00],
     State (Is_Temperature 18),
     Null [0x00, 0x80, 0x00, 0x07, 0x16, 0x40, 0x01, 0x20],
     Response [0x00, 0xa0, 0x00, 0x07, 0x16, 0x40, 0x01, 0x20] [0x20, 0x81, 0x00, 0x07, 0x16, 0x00, 0x2f, 0x00],
     Response [0x00, 0xa0, 0x00, 0x07, 0x16, 0xa0, 0x01, 0x20] [0x20, 0x81, 0x00, 0x07, 0x16, 0x00, 0x2f, 0x00],
     State (Is_Temperature 22),
     Null [0x00, 0x80, 0x00, 0x07, 0x19, 0x40, 0x01, 0x20],
     Response [0x00, 0xa0, 0x00, 0x07, 0x19, 0x40, 0x01, 0x20] [0x20, 0x81, 0x00, 0x07, 0x19, 0x00, 0x2f, 0x00],
     Response [0x00, 0xa0, 0x00, 0x07, 0x19, 0xa0, 0x01, 0x20] [0x20, 0x81, 0x00, 0x07, 0x19, 0x00, 0x2f, 0x00],
     State (Is_Temperature 25),
     Null [0x00, 0x80, 0x00, 0x07, 0x1e, 0x40, 0x01, 0x20],
     Response [0x00, 0xa0, 0x00, 0x07, 0x1e, 0x40, 0x01, 0x20] [0x20, 0x81, 0x00, 0x07, 0x1e, 0x00, 0x2f, 0x00],
     Response [0x00, 0xa0, 0x00, 0x07, 0x1e, 0xa0, 0x01, 0x20] [0x20, 0x81, 0x00, 0x07, 0x1e, 0x00, 0x2f, 0x00],
     State (Is_Temperature 30),
     Null [0x00, 0x80, 0x00, 0x05, 0x1e, 0x40, 0x01, 0x20],
     Response [0x00, 0xa0, 0x00, 0x05, 0x1e, 0x40, 0x01, 0x20] [0x20, 0x81, 0x00, 0x05, 0x1e, 0x00, 0x2f, 0x00],
     Response [0x00, 0xa0, 0x00, 0x05, 0x1e, 0xa0, 0x01, 0x20] [0x20, 0x81, 0x00, 0x05, 0x1e, 0x00, 0x2f, 0x00],
     State (Is_Mode mode_DRY),
     Null [0x00, 0x80, 0x00, 0x03, 0x1e, 0x40, 0x01, 0x20],
     Response [0x00, 0xa0, 0x00, 0x03, 0x1e, 0x40, 0x01, 0x20] [0x20, 0x81, 0x00, 0x03, 0x00, 0x00, 0x2f, 0x00],
     Response [0x00, 0xa0, 0x00, 0x03, 0x1e, 0xa0, 0x01, 0x20] [0x20, 0x81, 0x00, 0x03, 0x00, 0x00, 0x2f, 0x00],
     State (Is_Mode mode_FAN),
     Null [0x00, 0x80, 0x00, 0x09, 0x1e, 0x40, 0x01, 0x20],
     Response [0x00, 0xa0, 0x00, 0x09, 0x1e, 0x40, 0x01, 0x20] [0x20, 0x81, 0x00, 0x09, 0x1e, 0x00, 0x2f, 0x00],
     Response [0x00, 0xa0, 0x00, 0x09, 0x1e, 0xa0, 0x01, 0x20] [0x20, 0x81, 0x00, 0x09, 0x1e, 0x00, 0x2f, 0x00],
     State (Is_Mode mode_HEAT),
     Null [0x00, 0x80, 0x00, 0x0b, 0x1e, 0x40, 0x01, 0x20],
     Response [0x00, 0xa0, 0x00, 0x0b, 0x1e, 0x40, 0x01, 0x20] [0x20, 0x81, 0x00, 0x0b, 0x1e, 0x00, 0x2f, 0x00],
     Response [0x00, 0xa0, 0x00, 0x0b, 0x1e, 0xa0, 0x01, 0x20] [0x20, 0x81, 0x00, 0x0b, 0x1e, 0x00, 0x2f, 0x00],
     State (Is_Mode mode_AUTO),
     Null [0x00, 0x80, 0x00, 0x07, 0x1e, 0x40, 0x01, 0x20],
     Response [0x00, 0xa0, 0x00, 0x07, 0x1e, 0x40, 0x01, 0x20] [0x20, 0x81, 0x00, 0x07, 0x1e, 0x00, 0x2f, 0x00],
     Response [0x00, 0xa0, 0x00, 0x07, 0x1e, 0xa0, 0x01, 0x20] [0x20, 0x81, 0x00, 0x07, 0x1e, 0x00, 0x2f, 0x00],
     State (Is_Mode mode_COOL),
     Null [0x00, 0x80, 0x00, 0x07, 0x9e, 0x40, 0x01, 0x20],
     Response [0x00, 0xa0, 0x00, 0x07, 0x9e, 0x40, 0x01, 0x20] [0x20, 0x81, 0x00, 0x07, 0x9e, 0x00, 0x2f, 0x00],
     Response [0x00, 0xa0, 0x00, 0x07, 0x9e, 0xa0, 0x01, 0x20] [0x20, 0x81, 0x00, 0x07, 0x9e, 0x00, 0x2f, 0x00],
     State (Is_Economy True),
     Null [0x00, 0x80, 0x00, 0x07, 0x1e, 0x40, 0x01, 0x20],
     Response [0x00, 0xa0, 0x00, 0x07, 0x1e, 0x40, 0x01, 0x20] [0x20, 0x81, 0x00, 0x07, 0x1e, 0x00, 0x2f, 0x00],
     Response [0x00, 0xa0, 0x00, 0x07, 0x1e, 0xa0, 0x01, 0x20] [0x20, 0x81, 0x00, 0x07, 0x1e, 0x00, 0x2f, 0x00],
     State (Is_Economy False),
     Null [0x00, 0x80, 0x00, 0x07, 0x1e, 0x44, 0x01, 0x20],
     Response [0x00, 0xa0, 0x00, 0x07, 0x1e, 0x44, 0x01, 0x20] [0x20, 0x81, 0x00, 0x07, 0x1e, 0x04, 0x2f, 0x00],
     Response [0x00, 0xa0, 0x00, 0x07, 0x1e, 0xa4, 0x01, 0x20] [0x20, 0x81, 0x00, 0x07, 0x1e, 0x04, 0x2f, 0x00],
     State (Is_Swing True),
     Null [0x00, 0x80, 0x00, 0x07, 0x1e, 0x40, 0x01, 0x20],
     Response [0x00, 0xa0, 0x00, 0x07, 0x1e, 0x40, 0x01, 0x20] [0x20, 0x81, 0x00, 0x07, 0x1e, 0x00, 0x2f, 0x00],
     Response [0x00, 0xa0, 0x00, 0x07, 0x1e, 0xa0, 0x01, 0x20] [0x20, 0x81, 0x00, 0x07, 0x1e, 0x00, 0x2f, 0x00],
     State (Is_Swing False),
     Null [0x00, 0x80, 0x00, 0x07, 0x17, 0x40, 0x01, 0x20],
     Response [0x00, 0xa0, 0x00, 0x07, 0x17, 0x40, 0x01, 0x20] [0x20, 0x81, 0x00, 0x07, 0x17, 0x00, 0x2f, 0x00],
     Response [0x00, 0xa0, 0x00, 0x07, 0x17, 0xa0, 0x01, 0x20] [0x20, 0x81, 0x00, 0x07, 0x17, 0x00, 0x2f, 0x00],
     State (Is_Temperature 23),
     Null [0x00, 0x80, 0x00, 0x07, 0x17, 0x42, 0x01, 0x20],
     Response [0x00, 0xa0, 0x00, 0x07, 0x17, 0x40, 0x01, 0x20] [0x20, 0x81, 0x00, 0x07, 0x17, 0x00, 0x2f, 0x00],
     Response [0x00, 0xa0, 0x00, 0x07, 0x17, 0xa0, 0x01, 0x20] [0x20, 0x81, 0x00, 0x07, 0x17, 0x00, 0x2f, 0x00],
     Null [0x00, 0x80, 0x00, 0x07, 0x17, 0x42, 0x01, 0x20],
     Response [0x00, 0xa0, 0x00, 0x07, 0x17, 0x40, 0x01, 0x20] [0x20, 0x81, 0x00, 0x07, 0x17, 0x00, 0x2f, 0x00],
     Response [0x00, 0xa0, 0x00, 0x07, 0x17, 0xa0, 0x01, 0x20] [0x20, 0x81, 0x00, 0x07, 0x17, 0x00, 0x2f, 0x00],
     Null [0x00, 0x80, 0x00, 0x07, 0x17, 0x42, 0x01, 0x20],
     Response [0x00, 0xa0, 0x00, 0x07, 0x17, 0x40, 0x01, 0x20] [0x20, 0x81, 0x00, 0x07, 0x17, 0x00, 0x2f, 0x00],
     Response [0x00, 0xa0, 0x00, 0x07, 0x17, 0xa0, 0x01, 0x20] [0x20, 0x81, 0x00, 0x07, 0x17, 0x00, 0x2f, 0x00],
     Null [0x00, 0x80, 0x00, 0x06, 0x17, 0x40, 0x01, 0x20],
     Response [0x00, 0xa0, 0x00, 0x06, 0x17, 0x40, 0x01, 0x20] [0x20, 0x81, 0x00, 0x06, 0x17, 0x00, 0x2f, 0x00],
     Response [0x00, 0xa0, 0x00, 0x06, 0x17, 0xa0, 0x01, 0x20] [0x20, 0x81, 0x00, 0x06, 0x17, 0x00, 0x2f, 0x00],
     State (Is_Enabled False)]"

definition recorded_TurnOn :: "handler_check list" where
  "recorded_TurnOn =
    [Clear_login,
     Response [0x00, 0xa0, 0x00, 0x06, 0x17, 0xa0, 0x01, 0x20] [0x20, 0x81, 0x00, 0x06, 0x17, 0x00, 0x2f, 0x00],
     Local (ac_SetEnabled True),
     Response [0x00, 0xa0, 0x00, 0x06, 0x17, 0xa0, 0x01, 0x20] [0x20, 0x81, 0x08, 0x07, 0x17, 0x00, 0x2f, 0x00],
     Response [0x00, 0xa0, 0x00, 0x07, 0x17, 0x00, 0x01, 0x20] [0x20, 0x81, 0x00, 0x07, 0x17, 0x00, 0x2f, 0x00],
     Response [0x00, 0xa0, 0x00, 0x07, 0x17, 0xa0, 0x01, 0x20] [0x20, 0x81, 0x00, 0x07, 0x17, 0x00, 0x2f, 0x00],
     State (Is_Enabled True)]"

definition recorded_WiredControlGolden :: "handler_check list" where
  "recorded_WiredControlGolden =
    [Clear_login,
     Response [0x00, 0xa0, 0x00, 0x06, 0x17, 0xa0, 0x01, 0x20] [0x20, 0x81, 0x00, 0x06, 0x17, 0x00, 0x2f, 0x00],
     Local (ac_SetEnabled True),
     Response [0x00, 0xa0, 0x00, 0x06, 0x17, 0xa0, 0x01, 0x20] [0x20, 0x81, 0x08, 0x07, 0x17, 0x00, 0x2f, 0x00],
     Response [0x00, 0xa0, 0x00, 0x07, 0x17, 0x00, 0x01, 0x20] [0x20, 0x81, 0x00, 0x07, 0x17, 0x00, 0x2f, 0x00],
     Response [0x00, 0xa0, 0x00, 0x07, 0x17, 0xa0, 0x01, 0x20] [0x20, 0x81, 0x00, 0x07, 0x17, 0x00, 0x2f, 0x00],
     Response [0x00, 0xa0, 0x00, 0x07, 0x17, 0xa0, 0x01, 0x20] [0x20, 0x81, 0x00, 0x07, 0x17, 0x00, 0x2f, 0x00],
     Local (ac_SetTemperature 18),
     Response [0x00, 0xa0, 0x00, 0x07, 0x17, 0xa0, 0x01, 0x20] [0x20, 0x81, 0x08, 0x07, 0x12, 0x00, 0x2f, 0x00],
     Response [0x00, 0xa0, 0x00, 0x07, 0x12, 0x00, 0x01, 0x20] [0x20, 0x81, 0x00, 0x07, 0x12, 0x00, 0x2f, 0x00],
     Response [0x00, 0xa0, 0x00, 0x07, 0x12, 0xa0, 0x01, 0x20] [0x20, 0x81, 0x00, 0x07, 0x12, 0x00, 0x2f, 0x00],
     Local (ac_SetTemperature 22),
     Response [0x00, 0xa0, 0x00, 0x07, 0x12, 0xa0, 0x01, 0x20] [0x20, 0x81, 0x08, 0x07, 0x16, 0x00, 0x2f, 0x00],
     Response [0x00, 0xa0, 0x00, 0x07, 0x16, 0x00, 0x01, 0x20] [0x20, 0x81, 0x00, 0x07, 0x16, 0x00, 0x2f, 0x00],
     Response [0x00, 0xa0, 0x00, 0x07, 0x16, 0xa0, 0x01, 0x20] [0x20, 0x81, 0x00, 0x07, 0x16, 0x00, 0x2f, 0x00],
     Local (ac_SetFan fan_MAX),
     Response [0x00, 0xa0, 0x00, 0x07, 0x16, 0xa0, 0x01, 0x20] [0x20, 0x81, 0x08, 0x47, 0x16, 0x00, 0x2f, 0x00],
     Response [0x00, 0xa0, 0x00, 0x47, 0x16, 0x00, 0x01, 0x20] [0x20, 0x81, 0x00, 0x47, 0x16, 0x00, 0x2f, 0x00],
     Response [0x00, 0xa0, 0x00, 0x47, 0x16, 0xa0, 0x01, 0x20] [0x20, 0x81, 0x00, 0x47, 0x16, 0x00, 0x2f, 0x00],
     Local (ac_SetFan fan_HIGH),
     Response [0x00, 0xa0, 0x00, 0x47, 0x16, 0xa0, 0x01, 0x20] [0x20, 0x81, 0x08, 0x37, 0x16, 0x00, 0x2f, 0x00],
     Response [0x00, 0xa0, 0x00, 0x37, 0x16, 0x00, 0x01, 0x20] [0x20, 0x81, 0x00, 0x37, 0x16, 0x00, 0x2f, 0x00],
     Response [0x00, 0xa0, 0x00, 0x37, 0x16, 0xa0, 0x01, 0x20] [0x20, 0x81, 0x00, 0x37, 0x16, 0x00, 0x2f, 0x00],
     Local (ac_SetFan fan_MEDIUM),
     Response [0x00, 0xa0, 0x00, 0x37, 0x16, 0xa0, 0x01, 0x20] [0x20, 0x81, 0x08, 0x27, 0x16, 0x00, 0x2f, 0x00],
     Response [0x00, 0xa0, 0x00, 0x27, 0x16, 0x00, 0x01, 0x20] [0x20, 0x81, 0x00, 0x27, 0x16, 0x00, 0x2f, 0x00],
     Response [0x00, 0xa0, 0x00, 0x27, 0x16, 0xa0, 0x01, 0x20] [0x20, 0x81, 0x00, 0x27, 0x16, 0x00, 0x2f, 0x00],
     Local (ac_SetFan fan_LOW),
     Response [0x00, 0xa0, 0x00, 0x27, 0x16, 0xa0, 0x01, 0x20] [0x20, 0x81, 0x08, 0x17, 0x16, 0x00, 0x2f, 0x00],
     Response [0x00, 0xa0, 0x00, 0x17, 0x16, 0x00, 0x01, 0x20] [0x20, 0x81, 0x00, 0x17, 0x16, 0x00, 0x2f, 0x00],
     Response [0x00, 0xa0, 0x00, 0x17, 0x16, 0xa0, 0x01, 0x20] [0x20, 0x81, 0x00, 0x17, 0x16, 0x00, 0x2f, 0x00],
     Local (ac_SetFan fan_AUTO),
     Response [0x00, 0xa0, 0x00, 0x17, 0x16, 0xa0, 0x01, 0x20] [0x20, 0x81, 0x08, 0x07, 0x16, 0x00, 0x2f, 0x00],
     Response [0x00, 0xa0, 0x00, 0x07, 0x16, 0x00, 0x01, 0x20] [0x20, 0x81, 0x00, 0x07, 0x16, 0x00, 0x2f, 0x00],
     Response [0x00, 0xa0, 0x00, 0x07, 0x16, 0xa0, 0x01, 0x20] [0x20, 0x81, 0x00, 0x07, 0x16, 0x00, 0x2f, 0x00],
     Local (ac_SetMode mode_DRY),
     Local (ac_SetTemperature 26),
     Response [0x00, 0xa0, 0x00, 0x07, 0x16, 0xa0, 0x01, 0x20] [0x20, 0x81, 0x08, 0x05, 0x1a, 0x00, 0x2f, 0x00],
     Response [0x00, 0xa0, 0x00, 0x05, 0x1a, 0x00, 0x01, 0x20] [0x20, 0x81, 0x00, 0x05, 0x1a, 0x00, 0x2f, 0x00],
     Response [0x00, 0xa0, 0x00, 0x05, 0x1a, 0xa0, 0x01, 0x20] [0x20, 0x81, 0x00, 0x05, 0x1a, 0x00, 0x2f, 0x00],
     Local (ac_SetMode mode_HEAT),
     Local (ac_SetTemperature 21),
     Response [0x00, 0xa0, 0x00, 0x05, 0x1a, 0xa0, 0x01, 0x20] [0x20, 0x81, 0x08, 0x09, 0x15, 0x00, 0x2f, 0x00],
     Response [0x00, 0xa0, 0x00, 0x09, 0x15, 0x00, 0x01, 0x20] [0x20, 0x81, 0x00, 0x09, 0x15, 0x00, 0x2f, 0x00],
     Response [0x00, 0xa0, 0x00, 0x09, 0x15, 0xa0, 0x01, 0x20] [0x20, 0x81, 0x00, 0x09, 0x15, 0x00, 0x2f, 0x00],
     Local (ac_SetMode mode_FAN),
     Response [0x00, 0xa0, 0x00, 0x09, 0x15, 0xa0, 0x01, 0x20] [0x20, 0x81, 0x08, 0x03, 0x00, 0x00, 0x2f, 0x00],
     Null [0x00, 0x80, 0x00, 0x03, 0x12, 0x40, 0x01, 0x20],
     Response [0x00, 0xa0, 0x00, 0x03, 0x12, 0x40, 0x01, 0x20] [0x20, 0x81, 0x00, 0x03, 0x00, 0x00, 0x2f, 0x00],
     Response [0x00, 0xa0, 0x00, 0x03, 0x12, 0xa0, 0x01, 0x20] [0x20, 0x81, 0x00, 0x03, 0x00, 0x00, 0x2f, 0x00],
     Local (ac_SetMode mode_AUTO),
     Local (ac_SetTemperature 24),
     Response [0x00, 0xa0, 0x00, 0x03, 0x12, 0xa0, 0x01, 0x20] [0x20, 0x81, 0x08, 0x0b, 0x18, 0x00, 0x2f, 0x00],
     Response [0x00, 0xa0, 0x00, 0x0b, 0x18, 0x00, 0x01, 0x20] [0x20, 0x81, 0x00, 0x0b, 0x18, 0x00, 0x2f, 0x00],
     Response [0x00, 0xa0, 0x00, 0x0b, 0x18, 0xa0, 0x01, 0x20] [0x20, 0x81, 0x00, 0x0b, 0x18, 0x00, 0x2f, 0x00],
     Local (ac_SetMode mode_FAN),
     Response [0x00, 0xa0, 0x00, 0x0b, 0x18, 0xa0, 0x01, 0x20] [0x20, 0x81, 0x08, 0x03, 0x00, 0x00, 0x2f, 0x00],
     Null [0x00, 0x80, 0x00, 0x03, 0x12, 0x40, 0x01, 0x20],
     Response [0x00, 0xa0, 0x00, 0x03, 0x12, 0x40, 0x01, 0x20] [0x20, 0x81, 0x00, 0x03, 0x00, 0x00, 0x2f, 0x00],
     Response [0x00, 0xa0, 0x00, 0x03, 0x12, 0xa0, 0x01, 0x20] [0x20, 0x81, 0x00, 0x03, 0x00, 0x00, 0x2f, 0x00],
     Local (ac_SetMode mode_COOL),
     Local (ac_SetTemperature 22),
     Response [0x00, 0xa0, 0x00, 0x03, 0x12, 0xa0, 0x01, 0x20] [0x20, 0x81, 0x08, 0x07, 0x16, 0x00, 0x2f, 0x00],
     Response [0x00, 0xa0, 0x00, 0x07, 0x16, 0x00, 0x01, 0x20] [0x20, 0x81, 0x00, 0x07, 0x16, 0x00, 0x2f, 0x00],
     Response [0x00, 0xa0, 0x00, 0x07, 0x16, 0xa0, 0x01, 0x20] [0x20, 0x81, 0x00, 0x07, 0x16, 0x00, 0x2f, 0x00],
     Local (ac_SetEconomy True),
     Response [0x00, 0xa0, 0x00, 0x07, 0x16, 0xa0, 0x01, 0x20] [0x20, 0x81, 0x08, 0x07, 0x96, 0x00, 0x2f, 0x00],
     Response [0x00, 0xa0, 0x00, 0x07, 0x96, 0x00, 0x01, 0x20] [0x20, 0x81, 0x00, 0x07, 0x96, 0x00, 0x2f, 0x00],
     Response [0x00, 0xa0, 0x00, 0x07, 0x96, 0xa0, 0x01, 0x20] [0x20, 0x81, 0x00, 0x07, 0x96, 0x00, 0x2f, 0x00],
     Local (ac_SetEconomy False),
     Response [0x00, 0xa0, 0x00, 0x07, 0x96, 0xa0, 0x01, 0x20] [0x20, 0x81, 0x08, 0x07, 0x16, 0x00, 0x2f, 0x00],
     Response [0x00, 0xa0, 0x00, 0x07, 0x16, 0x00, 0x01, 0x20] [0x20, 0x81, 0x00, 0x07, 0x16, 0x00, 0x2f, 0x00],
     Response [0x00, 0xa0, 0x00, 0x07, 0x16, 0xa0, 0x01, 0x20] [0x20, 0x81, 0x00, 0x07, 0x16, 0x00, 0x2f, 0x00],
     Local (ac_SetSwing True),
     Response [0x00, 0xa0, 0x00, 0x07, 0x16, 0xa0, 0x01, 0x20] [0x20, 0x81, 0x08, 0x07, 0x16, 0x04, 0x2f, 0x00],
     Response [0x00, 0xa0, 0x00, 0x07, 0x16, 0x04, 0x01, 0x20] [0x20, 0x81, 0x00, 0x07, 0x16, 0x04, 0x2f, 0x00],
     Response [0x00, 0xa0, 0x00, 0x07, 0x16, 0xa4, 0x01, 0x20] [0x20, 0x81, 0x00, 0x07, 0x16, 0x04, 0x2f, 0x00],
     Local (ac_SetSwing False),
     Response [0x00, 0xa0, 0x00, 0x07, 0x16, 0xa4, 0x01, 0x20] [0x20, 0x81, 0x08, 0x07, 0x16, 0x00, 0x2f, 0x00],
     Response [0x00, 0xa0, 0x00, 0x07, 0x16, 0x00, 0x01, 0x20] [0x20, 0x81, 0x00, 0x07, 0x16, 0x00, 0x2f, 0x00],
     Response [0x00, 0xa0, 0x00, 0x07, 0x16, 0xa0, 0x01, 0x20] [0x20, 0x81, 0x00, 0x07, 0x16, 0x00, 0x2f, 0x00],
     Local (ac_SetSwingStep True),
     Response [0x00, 0xa0, 0x00, 0x07, 0x16, 0xa0, 0x01, 0x20] [0x20, 0x81, 0x08, 0x07, 0x16, 0x02, 0x2f, 0x00],
     Response [0x00, 0xa0, 0x00, 0x07, 0x16, 0x00, 0x01, 0x20] [0x20, 0x81, 0x08, 0x07, 0x16, 0x00, 0x2f, 0x00],
     Response [0x00, 0xa0, 0x00, 0x07, 0x16, 0x00, 0x01, 0x20] [0x20, 0x81, 0x00, 0x07, 0x16, 0x00, 0x2f, 0x00],
     Response [0x00, 0xa0, 0x00, 0x07, 0x16, 0xa0, 0x01, 0x20] [0x20, 0x81, 0x00, 0x07, 0x16, 0x00, 0x2f, 0x00],
     Local (ac_SetSwingStep True),
     Response [0x00, 0xa0, 0x00, 0x07, 0x16, 0xa0, 0x01, 0x20] [0x20, 0x81, 0x08, 0x07, 0x16, 0x02, 0x2f, 0x00],
     Response [0x00, 0xa0, 0x00, 0x07, 0x16, 0x00, 0x01, 0x20] [0x20, 0x81, 0x08, 0x07, 0x16, 0x00, 0x2f, 0x00],
     Response [0x00, 0xa0, 0x00, 0x07, 0x16, 0x00, 0x01, 0x20] [0x20, 0x81, 0x00, 0x07, 0x16, 0x00, 0x2f, 0x00],
     Response [0x00, 0xa0, 0x00, 0x07, 0x16, 0xa0, 0x01, 0x20] [0x20, 0x81, 0x00, 0x07, 0x16, 0x00, 0x2f, 0x00],
     Local (ac_SetSwing True),
     Response [0x00, 0xa0, 0x00, 0x07, 0x16, 0xa0, 0x01, 0x20] [0x20, 0x81, 0x08, 0x07, 0x16, 0x04, 0x2f, 0x00],
     Response [0x00, 0xa0, 0x00, 0x07, 0x16, 0x04, 0x01, 0x20] [0x20, 0x81, 0x00, 0x07, 0x16, 0x04, 0x2f, 0x00],
     Response [0x00, 0xa0, 0x00, 0x07, 0x16, 0xa4, 0x01, 0x20] [0x20, 0x81, 0x00, 0x07, 0x16, 0x04, 0x2f, 0x00],
     Local (ac_SetSwing False),
     Response [0x00, 0xa0, 0x00, 0x07, 0x16, 0xa4, 0x01, 0x20] [0x20, 0x81, 0x08, 0x07, 0x16, 0x00, 0x2f, 0x00],
     Response [0x00, 0xa0, 0x00, 0x07, 0x16, 0x00, 0x01, 0x20] [0x20, 0x81, 0x00, 0x07, 0x16, 0x00, 0x2f, 0x00],
     Response [0x00, 0xa0, 0x00, 0x07, 0x16, 0xa0, 0x01, 0x20] [0x20, 0x81, 0x00, 0x07, 0x16, 0x00, 0x2f, 0x00]]"

section \<open>Recordings of the main unit\<close>

definition simulated_Startup :: "unit_check list" where
  "simulated_Startup =
    [Exchange [0x00, 0xa0, 0x00, 0x46, 0x12, 0xa0, 0x00, 0x20] [0x20, 0x81, 0x20, 0x00, 0x00, 0x00, 0x00, 0x00],
     Exchange [0x00, 0xa0, 0x20, 0x1f, 0x1f, 0x05, 0x01, 0x00] [0x20, 0xa1, 0x00, 0x46, 0x12, 0x00, 0x2f, 0x00],
     Exchange [0x00, 0xa0, 0x00, 0x46, 0x12, 0xa0, 0x01, 0x20] [0x20, 0x81, 0x00, 0x46, 0x12, 0x00, 0x2f, 0x00],
     Exchange [0x00, 0xa0, 0x00, 0x46, 0x12, 0xa0, 0x01, 0x20] [0x20, 0x81, 0x00, 0x46, 0x12, 0x00, 0x2f, 0x00]]"

definition simulated_TestReconnect :: "unit_check list" where
  "simulated_TestReconnect =
    [Preset (Op_ControllerPresent True),
     Exchange [0x00, 0xa0, 0x00, 0x46, 0x12, 0xa0, 0x01, 0x20] [0x20, 0x81, 0x20, 0x00, 0x00, 0x00, 0x00, 0x00],
     Exchange [0x00, 0xa0, 0x20, 0x1f, 0x1f, 0x05, 0x01, 0x00] [0x20, 0xa1, 0x00, 0x46, 0x12, 0x00, 0x2f, 0x00],
     Exchange [0x00, 0xa0, 0x00, 0x46, 0x12, 0xa0, 0x01, 0x20] [0x20, 0x81, 0x00, 0x46, 0x12, 0x00, 0x2f, 0x00]]"

definition simulated_RemoteTurnOnTurnOff :: "unit_check list" where
  "simulated_RemoteTurnOnTurnOff =
    [Preset (Op_ControllerPresent True),
     Exchange [0x00, 0xa0, 0x00, 0x46, 0x12, 0xa0, 0x01, 0x20] [0x20, 0x81, 0x00, 0x46, 0x12, 0x00, 0x2f, 0x00],
     Remote (R_Enabled True),
     Remote (R_Temperature 22),
     Exchange [0x00, 0xa0, 0x00, 0x47, 0x16, 0x40, 0x01, 0x20] [0x20, 0x81, 0x00, 0x47, 0x16, 0x00, 0x2f, 0x00],
     Exchange [0x00, 0xa0, 0x00, 0x47, 0x16, 0xa0, 0x01, 0x20] [0x20, 0x81, 0x00, 0x47, 0x16, 0x00, 0x2f, 0x00],
     Remote (R_Enabled False),
     Exchange [0x00, 0xa0, 0x00, 0x46, 0x16, 0x40, 0x01, 0x20] [0x20, 0x81, 0x00, 0x46, 0x16, 0x00, 0x2f, 0x00],
     Exchange [0x00, 0xa0, 0x00, 0x46, 0x16, 0xa0, 0x01, 0x20] [0x20, 0x81, 0x00, 0x46, 0x16, 0x00, 0x2f, 0x00]]"

definition simulated_TestGolden :: "unit_check list" where
  "simulated_TestGolden =
    [Preset (Op_ControllerPresent True),
     Preset (Op_Temperature 22),
     Preset (Op_Enabled True),
     Exchange [0x00, 0xa0, 0x00, 0x47, 0x16, 0xa0, 0x01, 0x20] [0x20, 0x81, 0x00, 0x47, 0x16, 0x00, 0x2f, 0x00],
     Remote (R_Fan fan_HIGH),
     Exchange [0x00, 0xa0, 0x00, 0x37, 0x16, 0x40, 0x01, 0x20] [0x20, 0x81, 0x00, 0x37, 0x16, 0x00, 0x2f, 0x00],
     Exchange [0x00, 0xa0, 0x00, 0x37, 0x16, 0xa0, 0x01, 0x20] [0x20, 0x81, 0x00, 0x37, 0x16, 0x00, 0x2f, 0x00],
     Remote (R_Fan fan_MEDIUM),
     Exchange [0x00, 0xa0, 0x00, 0x27, 0x16, 0x40, 0x01, 0x20] [0x20, 0x81, 0x00, 0x27, 0x16, 0x00, 0x2f, 0x00],
     Exchange [0x00, 0xa0, 0x00, 0x27, 0x16, 0xa0, 0x01, 0x20] [0x20, 0x81, 0x00, 0x27, 0x16, 0x00, 0x2f, 0x00],
     Remote (R_Fan fan_LOW),
     Exchange [0x00, 0xa0, 0x00, 0x17, 0x16, 0x40, 0x01, 0x20] [0x20, 0x81, 0x00, 0x17, 0x16, 0x00, 0x2f, 0x00],
     Exchange [0x00, 0xa0, 0x00, 0x17, 0x16, 0xa0, 0x01, 0x20] [0x20, 0x81, 0x00, 0x17, 0x16, 0x00, 0x2f, 0x00],
     Remote (R_Fan fan_AUTO),
     Exchange [0x00, 0xa0, 0x00, 0x07, 0x16, 0x40, 0x01, 0x20] [0x20, 0x81, 0x00, 0x07, 0x16, 0x00, 0x2f, 0x00],
     Exchange [0x00, 0xa0, 0x00, 0x07, 0x16, 0xa0, 0x01, 0x20] [0x20, 0x81, 0x00, 0x07, 0x16, 0x00, 0x2f, 0x00],
     Remote (R_Temperature 18),
     Exchange [0x00, 0xa0, 0x00, 0x07, 0x12, 0x40, 0x01, 0x20] [0x20, 0x81, 0x00, 0x07, 0x12, 0x00, 0x2f, 0x00],
     Exchange [0x00, 0xa0, 0x00, 0x07, 0x12, 0xa0, 0x01, 0x20] [0x20, 0x81, 0x00, 0x07, 0x12, 0x00, 0x2f, 0x00],
     Remote (R_Temperature 22),
     Exchange [0x00, 0xa0, 0x00, 0x07, 0x16, 0x40, 0x01, 0x20] [0x20, 0x81, 0x00, 0x07, 0x16, 0x00, 0x2f, 0x00],
     Exchange [0x00, 0xa0, 0x00, 0x07, 0x16, 0xa0, 0x01, 0x20] [0x20, 0x81, 0x00, 0x07, 0x16, 0x00, 0x2f, 0x00],
     Remote (R_Temperature 25),
     Exchange [0x00, 0xa0, 0x00, 0x07, 0x19, 0x40, 0x01, 0x20] [0x20, 0x81, 0x00, 0x07, 0x19, 0x00, 0x2f, 0x00],
     Exchange [0x00, 0xa0, 0x00, 0x07, 0x19, 0xa0, 0x01, 0x20] [0x20, 0x81, 0x00, 0x07, 0x19, 0x00, 0x2f, 0x00],
     Remote (R_Temperature 30),
     Exchange [0x00, 0xa0, 0x00, 0x07, 0x1e, 0x40, 0x01, 0x20] [0x20, 0x81, 0x00, 0x07, 0x1e, 0x00, 0x2f, 0x00],
     Exchange [0x00, 0xa0, 0x00, 0x07, 0x1e, 0xa0, 0x01, 0x20] [0x20, 0x81, 0x00, 0x07, 0x1e, 0x00, 0x2f, 0x00],
     Remote (R_Mode mode_DRY),
     Exchange [0x00, 0xa0, 0x00, 0x05, 0x1e, 0x40, 0x01, 0x20] [0x20, 0x81, 0x00, 0x05, 0x1e, 0x00, 0x2f, 0x00],
     Exchange [0x00, 0xa0, 0x00, 0x05, 0x1e, 0xa0, 0x01, 0x20] [0x20, 0x81, 0x00, 0x05, 0x1e, 0x00, 0x2f, 0x00],
     Remote (R_Mode mode_FAN),
     Exchange [0x00, 0xa0, 0x00, 0x03, 0x1e, 0x40, 0x01, 0x20] [0x20, 0x81, 0x00, 0x03, 0x00, 0x00, 0x2f, 0x00],
     Exchange [0x00, 0xa0, 0x00, 0x03, 0x1e, 0xa0, 0x01, 0x20] [0x20, 0x81, 0x00, 0x03, 0x00, 0x00, 0x2f, 0x00],
     Remote (R_Mode mode_HEAT),
     Exchange [0x00, 0xa0, 0x00, 0x09, 0x1e, 0x40, 0x01, 0x20] [0x20, 0x81, 0x00, 0x09, 0x1e, 0x00, 0x2f, 0x00],
     Exchange [0x00, 0xa0, 0x00, 0x09, 0x1e, 0xa0, 0x01, 0x20] [0x20, 0x81, 0x00, 0x09, 0x1e, 0x00, 0x2f, 0x00],
     Remote (R_Mode mode_AUTO),
     Exchange [0x00, 0xa0, 0x00, 0x0b, 0x1e, 0x40, 0x01, 0x20] [0x20, 0x81, 0x00, 0x0b, 0x1e, 0x00, 0x2f, 0x00],
     Exchange [0x00, 0xa0, 0x00, 0x0b, 0x1e, 0xa0, 0x01, 0x20] [0x20, 0x81, 0x00, 0x0b, 0x1e, 0x00, 0x2f, 0x00],
     Remote (R_Mode mode_COOL),
     Exchange [0x00, 0xa0, 0x00, 0x07, 0x1e, 0x40, 0x01, 0x20] [0x20, 0x81, 0x00, 0x07, 0x1e, 0x00, 0x2f, 0x00],
     Exchange [0x00, 0xa0, 0x00, 0x07, 0x1e, 0xa0, 0x01, 0x20] [0x20, 0x81, 0x00, 0x07, 0x1e, 0x00, 0x2f, 0x00],
     Remote (R_Economy True),
     Exchange [0x00, 0xa0, 0x00, 0x07, 0x9e, 0x40, 0x01, 0x20] [0x20, 0x81, 0x00, 0x07, 0x9e, 0x00, 0x2f, 0x00],
     Exchange [0x00, 0xa0, 0x00, 0x07, 0x9e, 0xa0, 0x01, 0x20] [0x20, 0x81, 0x00, 0x07, 0x9e, 0x00, 0x2f, 0x00],
     Remote (R_Economy False),
     Exchange [0x00, 0xa0, 0x00, 0x07, 0x1e, 0x40, 0x01, 0x20] [0x20, 0x81, 0x00, 0x07, 0x1e, 0x00, 0x2f, 0x00],
     Exchange [0x00, 0xa0, 0x00, 0x07, 0x1e, 0xa0, 0x01, 0x20] [0x20, 0x81, 0x00, 0x07, 0x1e, 0x00, 0x2f, 0x00],
     Remote (R_Swing True),
     Exchange [0x00, 0xa0, 0x00, 0x07, 0x1e, 0x44, 0x01, 0x20] [0x20, 0x81, 0x00, 0x07, 0x1e, 0x04, 0x2f, 0x00],
     Exchange [0x00, 0xa0, 0x00, 0x07, 0x1e, 0xa4, 0x01, 0x20] [0x20, 0x81, 0x00, 0x07, 0x1e, 0x04, 0x2f, 0x00],
     Remote (R_Swing False),
     Exchange [0x00, 0xa0, 0x00, 0x07, 0x1e, 0x40, 0x01, 0x20] [0x20, 0x81, 0x00, 0x07, 0x1e, 0x00, 0x2f, 0x00],
     Exchange [0x00, 0xa0, 0x00, 0x07, 0x1e, 0xa0, 0x01, 0x20] [0x20, 0x81, 0x00, 0x07, 0x1e, 0x00, 0x2f, 0x00],
     Remote (R_Temperature 23),
     Exchange [0x00, 0xa0, 0x00, 0x07, 0x17, 0x40, 0x01, 0x20] [0x20, 0x81, 0x00, 0x07, 0x17, 0x00, 0x2f, 0x00],
     Exchange [0x00, 0xa0, 0x00, 0x07, 0x17, 0xa0, 0x01, 0x20] [0x20, 0x81, 0x00, 0x07, 0x17, 0x00, 0x2f, 0x00],
     Remote (R_SwingStep True),
     Exchange [0x00, 0xa0, 0x00, 0x07, 0x17, 0x40, 0x01, 0x20] [0x20, 0x81, 0x00, 0x07, 0x17, 0x00, 0x2f, 0x00],
     Exchange [0x00, 0xa0, 0x00, 0x07, 0x17, 0xa0, 0x01, 0x20] [0x20, 0x81, 0x00, 0x07, 0x17, 0x00, 0x2f, 0x00],
     Remote (R_SwingStep True),
     Exchange [0x00, 0xa0, 0x00, 0x07, 0x17, 0x40, 0x01, 0x20] [0x20, 0x81, 0x00, 0x07, 0x17, 0x00, 0x2f, 0x00],
     Exchange [0x00, 0xa0, 0x00, 0x07, 0x17, 0xa0, 0x01, 0x20] [0x20, 0x81, 0x00, 0x07, 0x17, 0x00, 0x2f, 0x00],
     Remote (R_SwingStep True),
     Exchange [0x00, 0xa0, 0x00, 0x07, 0x17, 0x40, 0x01, 0x20] [0x20, 0x81, 0x00, 0x07, 0x17, 0x00, 0x2f, 0x00],
     Exchange [0x00, 0xa0, 0x00, 0x07, 0x17, 0xa0, 0x01, 0x20] [0x20, 0x81, 0x00, 0x07, 0x17, 0x00, 0x2f, 0x00],
     Remote (R_Enabled False),
     Exchange [0x00, 0xa0, 0x00, 0x06, 0x17, 0x40, 0x01, 0x20] [0x20, 0x81, 0x00, 0x06, 0x17, 0x00, 0x2f, 0x00],
     Exchange [0x00, 0xa0, 0x00, 0x06, 0x17, 0xa0, 0x01, 0x20] [0x20, 0x81, 0x00, 0x06, 0x17, 0x00, 0x2f, 0x00]]"

definition simulated_TurnOn :: "unit_check list" where
  "simulated_TurnOn =
    [Preset (Op_ControllerPresent True),
     Preset (Op_Temperature 23),
     Preset (Op_Fan fan_AUTO),
     Exchange [0x00, 0xa0, 0x00, 0x06, 0x17, 0xa0, 0x01, 0x20] [0x20, 0x81, 0x00, 0x06, 0x17, 0x00, 0x2f, 0x00],
     Exchange [0x00, 0xa0, 0x00, 0x06, 0x17, 0xa0, 0x01, 0x20] [0x20, 0x81, 0x08, 0x07, 0x17, 0x00, 0x2f, 0x00],
     Exchange [0x00, 0xa0, 0x00, 0x07, 0x17, 0x00, 0x01, 0x20] [0x20, 0x81, 0x00, 0x07, 0x17, 0x00, 0x2f, 0x00],
     Exchange [0x00, 0xa0, 0x00, 0x07, 0x17, 0xa0, 0x01, 0x20] [0x20, 0x81, 0x00, 0x07, 0x17, 0x00, 0x2f, 0x00],
     Reads (Is_Enabled True)]"

definition simulated_WiredControlGolden :: "unit_check list" where
  "simulated_WiredControlGolden =
    [Preset (Op_ControllerPresent True),
     Preset (Op_Temperature 23),
     Preset (Op_Fan fan_AUTO),
     Exchange [0x00, 0xa0, 0x00, 0x06, 0x17, 0xa0, 0x01, 0x20] [0x20, 0x81, 0x00, 0x06, 0x17, 0x00, 0x2f, 0x00],
     Exchange [0x00, 0xa0, 0x00, 0x06, 0x17, 0xa0, 0x01, 0x20] [0x20, 0x81, 0x08, 0x07, 0x17, 0x00, 0x2f, 0x00],
     Exchange [0x00, 0xa0, 0x00, 0x07, 0x17, 0x00, 0x01, 0x20] [0x20, 0x81, 0x00, 0x07, 0x17, 0x00, 0x2f, 0x00],
     Exchange [0x00, 0xa0, 0x00, 0x07, 0x17, 0xa0, 0x01, 0x20] [0x20, 0x81, 0x00, 0x07, 0x17, 0x00, 0x2f, 0x00],
     Exchange [0x00, 0xa0, 0x00, 0x07, 0x17, 0xa0, 0x01, 0x20] [0x20, 0x81, 0x00, 0x07, 0x17, 0x00, 0x2f, 0x00],
     Reads (Is_Enabled True),
     Exchange [0x00, 0xa0, 0x00, 0x07, 0x17, 0xa0, 0x01, 0x20] [0x20, 0x81, 0x08, 0x07, 0x12, 0x00, 0x2f, 0x00],
     Exchange [0x00, 0xa0, 0x00, 0x07, 0x12, 0x00, 0x01, 0x20] [0x20, 0x81, 0x00, 0x07, 0x12, 0x00, 0x2f, 0x00],
     Exchange [0x00, 0xa0, 0x00, 0x07, 0x12, 0xa0, 0x01, 0x20] [0x20, 0x81, 0x00, 0x07, 0x12, 0x00, 0x2f, 0x00],
     Reads (Is_Temperature 18),
     Exchange [0x00, 0xa0, 0x00, 0x07, 0x12, 0xa0, 0x01, 0x20] [0x20, 0x81, 0x08, 0x07, 0x16, 0x00, 0x2f, 0x00],
     Exchange [0x00, 0xa0, 0x00, 0x07, 0x16, 0x00, 0x01, 0x20] [0x20, 0x81, 0x00, 0x07, 0x16, 0x00, 0x2f, 0x00],
     Exchange [0x00, 0xa0, 0x00, 0x07, 0x16, 0xa0, 0x01, 0x20] [0x20, 0x81, 0x00, 0x07, 0x16, 0x00, 0x2f, 0x00],
     Reads (Is_Temperature 22),
     Exchange [0x00, 0xa0, 0x00, 0x07, 0x16, 0xa0, 0x01, 0x20] [0x20, 0x81, 0x08, 0x47, 0x16, 0x00, 0x2f, 0x00],
     Exchange [0x00, 0xa0, 0x00, 0x47, 0x16, 0x00, 0x01, 0x20] [0x20, 0x81, 0x00, 0x47, 0x16, 0x00, 0x2f, 0x00],
     Exchange [0x00, 0xa0, 0x00, 0x47, 0x16, 0xa0, 0x01, 0x20] [0x20, 0x81, 0x00, 0x47, 0x16, 0x00, 0x2f, 0x00],
     Reads (Is_Fan fan_MAX),
     Exchange [0x00, 0xa0, 0x00, 0x47, 0x16, 0xa0, 0x01, 0x20] [0x20, 0x81, 0x08, 0x37, 0x16, 0x00, 0x2f, 0x00],
     Exchange [0x00, 0xa0, 0x00, 0x37, 0x16, 0x00, 0x01, 0x20] [0x20, 0x81, 0x00, 0x37, 0x16, 0x00, 0x2f, 0x00],
     Exchange [0x00, 0xa0, 0x00, 0x37, 0x16, 0xa0, 0x01, 0x20] [0x20, 0x81, 0x00, 0x37, 0x16, 0x00, 0x2f, 0x00],
     Reads (Is_Fan fan_HIGH),
     Exchange [0x00, 0xa0, 0x00, 0x37, 0x16, 0xa0, 0x01, 0x20] [0x20, 0x81, 0x08, 0x27, 0x16, 0x00, 0x2f, 0x00],
     Exchange [0x00, 0xa0, 0x00, 0x27, 0x16, 0x00, 0x01, 0x20] [0x20, 0x81, 0x00, 0x27, 0x16, 0x00, 0x2f, 0x00],
     Exchange [0x00, 0xa0, 0x00, 0x27, 0x16, 0xa0, 0x01, 0x20] [0x20, 0x81, 0x00, 0x27, 0x16, 0x00, 0x2f, 0x00],
     Reads (Is_Fan fan_MEDIUM),
     Exchange [0x00, 0xa0, 0x00, 0x27, 0x16, 0xa0, 0x01, 0x20] [0x20, 0x81, 0x08, 0x17, 0x16, 0x00, 0x2f, 0x00],
     Exchange [0x00, 0xa0, 0x00, 0x17, 0x16, 0x00, 0x01, 0x20] [0x20, 0x81, 0x00, 0x17, 0x16, 0x00, 0x2f, 0x00],
     Exchange [0x00, 0xa0, 0x00, 0x17, 0x16, 0xa0, 0x01, 0x20] [0x20, 0x81, 0x00, 0x17, 0x16, 0x00, 0x2f, 0x00],
     Reads (Is_Fan fan_LOW),
     Exchange [0x00, 0xa0, 0x00, 0x17, 0x16, 0xa0, 0x01, 0x20] [0x20, 0x81, 0x08, 0x07, 0x16, 0x00, 0x2f, 0x00],
     Exchange [0x00, 0xa0, 0x00, 0x07, 0x16, 0x00, 0x01, 0x20] [0x20, 0x81, 0x00, 0x07, 0x16, 0x00, 0x2f, 0x00],
     Exchange [0x00, 0xa0, 0x00, 0x07, 0x16, 0xa0, 0x01, 0x20] [0x20, 0x81, 0x00, 0x07, 0x16, 0x00, 0x2f, 0x00],
     Reads (Is_Fan fan_AUTO),
     Exchange [0x00, 0xa0, 0x00, 0x07, 0x16, 0xa0, 0x01, 0x20] [0x20, 0x81, 0x08, 0x05, 0x1a, 0x00, 0x2f, 0x00],
     Exchange [0x00, 0xa0, 0x00, 0x05, 0x1a, 0x00, 0x01, 0x20] [0x20, 0x81, 0x00, 0x05, 0x1a, 0x00, 0x2f, 0x00],
     Exchange [0x00, 0xa0, 0x00, 0x05, 0x1a, 0xa0, 0x01, 0x20] [0x20, 0x81, 0x00, 0x05, 0x1a, 0x00, 0x2f, 0x00],
     Reads (Is_Mode mode_DRY),
     Reads (Is_Temperature 26),
     Exchange [0x00, 0xa0, 0x00, 0x05, 0x1a, 0xa0, 0x01, 0x20] [0x20, 0x81, 0x08, 0x09, 0x15, 0x00, 0x2f, 0x00],
     Exchange [0x00, 0xa0, 0x00, 0x09, 0x15, 0x00, 0x01, 0x20] [0x20, 0x81, 0x00, 0x09, 0x15, 0x00, 0x2f, 0x00],
     Exchange [0x00, 0xa0, 0x00, 0x09, 0x15, 0xa0, 0x01, 0x20] [0x20, 0x81, 0x00, 0x09, 0x15, 0x00, 0x2f, 0x00],
     Reads (Is_Mode mode_HEAT),
     Reads (Is_Temperature 21),
     Exchange [0x00, 0xa0, 0x00, 0x09, 0x15, 0xa0, 0x01, 0x20] [0x20, 0x81, 0x08, 0x03, 0x00, 0x00, 0x2f, 0x00],
     Exchange [0x00, 0xa0, 0x00, 0x03, 0x12, 0x40, 0x01, 0x20] [0x20, 0x81, 0x00, 0x03, 0x00, 0x00, 0x2f, 0x00],
     Exchange [0x00, 0xa0, 0x00, 0x03, 0x12, 0xa0, 0x01, 0x20] [0x20, 0x81, 0x00, 0x03, 0x00, 0x00, 0x2f, 0x00],
     Reads (Is_Mode mode_FAN),
     Exchange [0x00, 0xa0, 0x00, 0x03, 0x12, 0xa0, 0x01, 0x20] [0x20, 0x81, 0x08, 0x0b, 0x18, 0x00, 0x2f, 0x00],
     Exchange [0x00, 0xa0, 0x00, 0x0b, 0x18, 0x00, 0x01, 0x20] [0x20, 0x81, 0x00, 0x0b, 0x18, 0x00, 0x2f, 0x00],
     Exchange [0x00, 0xa0, 0x00, 0x0b, 0x18, 0xa0, 0x01, 0x20] [0x20, 0x81, 0x00, 0x0b, 0x18, 0x00, 0x2f, 0x00],
     Reads (Is_Mode mode_AUTO),
     Reads (Is_Temperature 24),
     Exchange [0x00, 0xa0, 0x00, 0x0b, 0x18, 0xa0, 0x01, 0x20] [0x20, 0x81, 0x08, 0x03, 0x00, 0x00, 0x2f, 0x00],
     Exchange [0x00, 0xa0, 0x00, 0x03, 0x12, 0x40, 0x01, 0x20] [0x20, 0x81, 0x00, 0x03, 0x00, 0x00, 0x2f, 0x00],
     Exchange [0x00, 0xa0, 0x00, 0x03, 0x12, 0xa0, 0x01, 0x20] [0x20, 0x81, 0x00, 0x03, 0x00, 0x00, 0x2f, 0x00],
     Reads (Is_Mode mode_FAN),
     Exchange [0x00, 0xa0, 0x00, 0x03, 0x12, 0xa0, 0x01, 0x20] [0x20, 0x81, 0x08, 0x07, 0x16, 0x00, 0x2f, 0x00],
     Exchange [0x00, 0xa0, 0x00, 0x07, 0x16, 0x00, 0x01, 0x20] [0x20, 0x81, 0x00, 0x07, 0x16, 0x00, 0x2f, 0x00],
     Exchange [0x00, 0xa0, 0x00, 0x07, 0x16, 0xa0, 0x01, 0x20] [0x20, 0x81, 0x00, 0x07, 0x16, 0x00, 0x2f, 0x00],
     Reads (Is_Mode mode_COOL),
     Reads (Is_Temperature 22),
     Exchange [0x00, 0xa0, 0x00, 0x07, 0x16, 0xa0, 0x01, 0x20] [0x20, 0x81, 0x08, 0x07, 0x96, 0x00, 0x2f, 0x00],
     Exchange [0x00, 0xa0, 0x00, 0x07, 0x96, 0x00, 0x01, 0x20] [0x20, 0x81, 0x00, 0x07, 0x96, 0x00, 0x2f, 0x00],
     Exchange [0x00, 0xa0, 0x00, 0x07, 0x96, 0xa0, 0x01, 0x20] [0x20, 0x81, 0x00, 0x07, 0x96, 0x00, 0x2f, 0x00],
     Reads (Is_Economy True),
     Exchange [0x00, 0xa0, 0x00, 0x07, 0x96, 0xa0, 0x01, 0x20] [0x20, 0x81, 0x08, 0x07, 0x16, 0x00, 0x2f, 0x00],
     Exchange [0x00, 0xa0, 0x00, 0x07, 0x16, 0x00, 0x01, 0x20] [0x20, 0x81, 0x00, 0x07, 0x16, 0x00, 0x2f, 0x00],
     Exchange [0x00, 0xa0, 0x00, 0x07, 0x16, 0xa0, 0x01, 0x20] [0x20, 0x81, 0x00, 0x07, 0x16, 0x00, 0x2f, 0x00],
     Reads (Is_Economy False),
     Exchange [0x00, 0xa0, 0x00, 0x07, 0x16, 0xa0, 0x01, 0x20] [0x20, 0x81, 0x08, 0x07, 0x16, 0x04, 0x2f, 0x00],
     Exchange [0x00, 0xa0, 0x00, 0x07, 0x16, 0x04, 0x01, 0x20] [0x20, 0x81, 0x00, 0x07, 0x16, 0x04, 0x2f, 0x00],
     Exchange [0x00, 0xa0, 0x00, 0x07, 0x16, 0xa4, 0x01, 0x20] [0x20, 0x81, 0x00, 0x07, 0x16, 0x04, 0x2f, 0x00],
     Reads (Is_Swing True),
     Exchange [0x00, 0xa0, 0x00, 0x07, 0x16, 0xa4, 0x01, 0x20] [0x20, 0x81, 0x08, 0x07, 0x16, 0x00, 0x2f, 0x00],
     Exchange [0x00, 0xa0, 0x00, 0x07, 0x16, 0x00, 0x01, 0x20] [0x20, 0x81, 0x00, 0x07, 0x16, 0x00, 0x2f, 0x00],
     Exchange [0x00, 0xa0, 0x00, 0x07, 0x16, 0xa0, 0x01, 0x20] [0x20, 0x81, 0x00, 0x07, 0x16, 0x00, 0x2f, 0x00],
     Reads (Is_Swing False),
     Exchange [0x00, 0xa0, 0x00, 0x07, 0x16, 0xa0, 0x01, 0x20] [0x20, 0x81, 0x08, 0x07, 0x16, 0x02, 0x2f, 0x00],
     Reads (Is_SwingStep True),
     Exchange [0x00, 0xa0, 0x00, 0x07, 0x16, 0x00, 0x01, 0x20] [0x20, 0x81, 0x08, 0x07, 0x16, 0x00, 0x2f, 0x00],
     Reads (Is_SwingStep False),
     Exchange [0x00, 0xa0, 0x00, 0x07, 0x16, 0x00, 0x01, 0x20] [0x20, 0x81, 0x00, 0x07, 0x16, 0x00, 0x2f, 0x00],
     Exchange [0x00, 0xa0, 0x00, 0x07, 0x16, 0xa0, 0x01, 0x20] [0x20, 0x81, 0x00, 0x07, 0x16, 0x00, 0x2f, 0x00],
     Exchange [0x00, 0xa0, 0x00, 0x07, 0x16, 0xa0, 0x01, 0x20] [0x20, 0x81, 0x08, 0x07, 0x16, 0x02, 0x2f, 0x00],
     Reads (Is_SwingStep True),
     Exchange [0x00, 0xa0, 0x00, 0x07, 0x16, 0x00, 0x01, 0x20] [0x20, 0x81, 0x08, 0x07, 0x16, 0x00, 0x2f, 0x00],
     Reads (Is_SwingStep False),
     Exchange [0x00, 0xa0, 0x00, 0x07, 0x16, 0x00, 0x01, 0x20] [0x20, 0x81, 0x00, 0x07, 0x16, 0x00, 0x2f, 0x00],
     Exchange [0x00, 0xa0, 0x00, 0x07, 0x16, 0xa0, 0x01, 0x20] [0x20, 0x81, 0x00, 0x07, 0x16, 0x00, 0x2f, 0x00],
     Exchange [0x00, 0xa0, 0x00, 0x07, 0x16, 0xa0, 0x01, 0x20] [0x20, 0x81, 0x08, 0x07, 0x16, 0x04, 0x2f, 0x00],
     Exchange [0x00, 0xa0, 0x00, 0x07, 0x16, 0x04, 0x01, 0x20] [0x20, 0x81, 0x00, 0x07, 0x16, 0x04, 0x2f, 0x00],
     Exchange [0x00, 0xa0, 0x00, 0x07, 0x16, 0xa4, 0x01, 0x20] [0x20, 0x81, 0x00, 0x07, 0x16, 0x04, 0x2f, 0x00],
     Reads (Is_Swing True),
     Exchange [0x00, 0xa0, 0x00, 0x07, 0x16, 0xa4, 0x01, 0x20] [0x20, 0x81, 0x08, 0x07, 0x16, 0x00, 0x2f, 0x00],
     Exchange [0x00, 0xa0, 0x00, 0x07, 0x16, 0x00, 0x01, 0x20] [0x20, 0x81, 0x00, 0x07, 0x16, 0x00, 0x2f, 0x00],
     Exchange [0x00, 0xa0, 0x00, 0x07, 0x16, 0xa0, 0x01, 0x20] [0x20, 0x81, 0x00, 0x07, 0x16, 0x00, 0x2f, 0x00],
     Reads (Is_Swing False)]"

section \<open>The model agrees with the recordings\<close>

text \<open>
  The model of the protocol handler answers every frame of the six recordings of a real main
  unit as the real wired controller did, byte for byte, and holds the settings the tests read.
\<close>

lemma recorded_traffic_handler:
  "handler_passes recorded_Startup (Handler_init FujiAcState_init) \<and>
   handler_passes recorded_TestReconnect (Handler_init FujiAcState_init) \<and>
   handler_passes recorded_RemoteTurnOnTurnOff (Handler_init FujiAcState_init) \<and>
   handler_passes recorded_TestGolden (Handler_init FujiAcState_init) \<and>
   handler_passes recorded_TurnOn (Handler_init FujiAcState_init) \<and>
   handler_passes recorded_WiredControlGolden (Handler_init FujiAcState_init)"
  by (intro conjI; code_simp)

text \<open>
  The model of the simulated unit sends every frame of the six recordings, byte for byte,
  when it is given the controller frames of the recording, and holds the settings the tests
  read.
\<close>

lemma recorded_traffic_unit:
  "unit_passes simulated_Startup FujiAcUnitSim_init \<and>
   unit_passes simulated_TestReconnect FujiAcUnitSim_init \<and>
   unit_passes simulated_RemoteTurnOnTurnOff FujiAcUnitSim_init \<and>
   unit_passes simulated_TestGolden FujiAcUnitSim_init \<and>
   unit_passes simulated_TurnOn FujiAcUnitSim_init \<and>
   unit_passes simulated_WiredControlGolden FujiAcUnitSim_init"
  by (intro conjI; code_simp)

end
