(* ===== verification/Accessor_Tests.thy ===== *)
theory Accessor_Tests
  imports Fuji_Frame
begin

text \<open>
  The unit tests of the accessors, \<^verbatim>\<open>protocol/fuji_register_test.cc\<close> and \<^verbatim>\<open>fuji_frame_test.cc\<close>, run
  on the model: a test is the conjunction of its expectations, in order, on the five bytes (or the
  frame) the test holds. They pin the bit positions of the register and of the frame header to
  those the authors wrote down.
\<close>

section \<open>Registers\<close>

abbreviation SetUp :: bytes where
  "SetUp \<equiv> [0, 0, 0, 0, 0]"

definition StatusRegisterTest_InitializesCorrectly :: bool where
  "StatusRegisterTest_InitializesCorrectly \<longleftrightarrow> (let data = SetUp in
     reg_Mode 0 data = mode_UNKNOWN \<and> \<not> reg_Swing 0 data \<and> \<not> reg_SwingStep 0 data \<and>
     reg_Temperature 0 data = 0 \<and> reg_Fan 0 data = fan_AUTO \<and> \<not> reg_Error 0 data \<and>
     \<not> reg_Enabled 0 data \<and> \<not> reg_Economy 0 data \<and> \<not> reg_ControllerPresent 0 data)"

text \<open>The tests that loop over a list keep the bytes from one value to the next.\<close>

fun each_value :: "('a \<Rightarrow> bytes \<Rightarrow> bytes) \<Rightarrow> ('a \<Rightarrow> bytes \<Rightarrow> bool) \<Rightarrow> 'a list \<Rightarrow> bytes \<Rightarrow> bool" where
  "each_value write expect [] data = True"
| "each_value write expect (v # vs) data =
     (let data = write v data in expect v data \<and> each_value write expect vs data)"

definition StatusRegisterTest_ModeSwitches :: bool where
  "StatusRegisterTest_ModeSwitches \<longleftrightarrow>
     each_value (reg_SetMode 0)
       (\<lambda>v data. reg_Mode 0 data = v \<and> data = [push_bit 1 (mode_code v), 0, 0, 0, 0]) all_mode_t SetUp"

definition StatusRegisterTest_FanSwitches :: bool where
  "StatusRegisterTest_FanSwitches \<longleftrightarrow>
     each_value (reg_SetFan 0)
       (\<lambda>v data. reg_Fan 0 data = v \<and> data = [push_bit 4 (fan_code v), 0, 0, 0, 0]) all_fan_t SetUp"

definition StatusRegisterTest_Temperature :: bool where
  "StatusRegisterTest_Temperature \<longleftrightarrow>
     each_value (reg_SetTemperature 0)
       (\<lambda>v data. reg_Temperature 0 data = v \<and> data = [0, v, 0, 0, 0]) [10, 20, 30] SetUp"

definition StatusRegisterTest_ControllerPresent :: bool where
  "StatusRegisterTest_ControllerPresent \<longleftrightarrow>
     (let data = reg_SetControllerPresent 0 True SetUp in reg_ControllerPresent 0 data \<and> data = [0, 0, 0, 1, 0])"

definition StatusRegisterTest_Economy :: bool where
  "StatusRegisterTest_Economy \<longleftrightarrow>
     (let data = reg_SetEconomy 0 True SetUp in reg_Economy 0 data \<and> data = [0, 128, 0, 0, 0])"

definition StatusRegisterTest_Enabled :: bool where
  "StatusRegisterTest_Enabled \<longleftrightarrow>
     (let data = reg_SetEnabled 0 True SetUp in reg_Enabled 0 data \<and> data = [1, 0, 0, 0, 0])"

definition StatusRegisterTest_Error :: bool where
  "StatusRegisterTest_Error \<longleftrightarrow>
     (let data = reg_SetError 0 True SetUp in reg_Error 0 data \<and> data = [128, 0, 0, 0, 0])"

definition StatusRegisterTest_Swing :: bool where
  "StatusRegisterTest_Swing \<longleftrightarrow>
     (let data = reg_SetSwing 0 True SetUp in reg_Swing 0 data \<and> data = [0, 0, 4, 0, 0])"

definition StatusRegisterTest_SwingStep :: bool where
  "StatusRegisterTest_SwingStep \<longleftrightarrow>
     (let data = reg_SetSwingStep 0 True SetUp in reg_SwingStep 0 data \<and> data = [0, 0, 2, 0, 0])"

lemma register_tests_pass:
  "StatusRegisterTest_InitializesCorrectly" "StatusRegisterTest_ModeSwitches"
  "StatusRegisterTest_FanSwitches" "StatusRegisterTest_ControllerPresent"
  "StatusRegisterTest_Economy" "StatusRegisterTest_Enabled" "StatusRegisterTest_Error"
  "StatusRegisterTest_Swing" "StatusRegisterTest_SwingStep" "StatusRegisterTest_Temperature"
  by code_simp+

section \<open>Frames\<close>

definition FrameTest_Address :: bool where
  "FrameTest_Address \<longleftrightarrow>
     mf_Destination (MasterFrame [0x00, 0x81, 0x00, 0x46, 0x12, 0xa0, 0x00, 0x20]) = dest_OTHER \<and>
     mf_Destination (MasterFrame [0x00, 0xa0, 0x00, 0x46, 0x12, 0xa0, 0x00, 0x20]) =
       dest_WIRED_CONTROLLER_ADDR \<and>
     mf_Destination (MasterFrame [0x00, 0xf0, 0x00, 0x46, 0x12, 0xa0, 0x00, 0x20]) = dest_UNKNOWN"

definition FrameTest_Type :: bool where
  "FrameTest_Type \<longleftrightarrow>
     mf_Type (MasterFrame [0x00, 0x81, 0x00, 0x46, 0x12, 0xa0, 0x00, 0x20]) = reg_STATUS \<and>
     mf_Type (MasterFrame [0x00, 0xa0, 0x20, 0x46, 0x12, 0xa0, 0x00, 0x20]) = reg_LOGIN \<and>
     mf_Type (MasterFrame [0x00, 0xf0, 0x10, 0x46, 0x12, 0xa0, 0x00, 0x20]) = reg_ERROR \<and>
     mf_Type (MasterFrame [0x00, 0xa0, 0x70, 0x46, 0x12, 0xa0, 0x00, 0x20]) = reg_UNKNOWN"

definition FrameTest_Payload :: bool where
  "FrameTest_Payload \<longleftrightarrow>
     mf_Payload (MasterFrame [0x00, 0x81, 0x00, 0x01, 0x23, 0x34, 0x56, 0x78]) =
       [0x01, 0x23, 0x34, 0x56, 0x78]"

definition FrameTest_TypeAccessor :: bool where
  "FrameTest_TypeAccessor \<longleftrightarrow>
     (let frame = MasterFrame [0, 0, 0, 0, 0, 0, 0, 0];
          status = mf_WithType reg_STATUS frame;
          error = mf_WithType reg_ERROR status;
          login = mf_WithType reg_LOGIN error
      in mf_Type status = reg_STATUS \<and> mf_Type error = reg_ERROR \<and> mf_Type login = reg_LOGIN)"

lemma frame_tests_pass:
  "FrameTest_Address" "FrameTest_Type" "FrameTest_Payload" "FrameTest_TypeAccessor"
  by code_simp+

end
