(* ===== verification/Concurrent_Calls.thy ===== *)
theory Concurrent_Calls
  imports Every_Schedule Fuji_Ac_Service
begin

text \<open>
  Any number of RPC threads at once. What the calls of a run did is its trace; the service is
  meant to look as if each call happened at one moment, an \<^verbatim>\<open>Update\<close> when it is called and a
  \<^verbatim>\<open>GetStatus\<close> when it returns, on one abstract record of settings. \<open>atomic\<close> says that of a trace.
  The remote is left alone in such a run; \<^verbatim>\<open>Shutdown\<close> may be called.
\<close>

section \<open>Traces of calls\<close>

datatype rpc_event = Updated ACUnitState | Update_done | Answered ACUnitState

definition call_step :: "FujiAcUnitSim system \<Rightarrow> FujiAcUnitSim system \<Rightarrow> bool" where
  "call_step = sys_step sim_ReadMasterFrame sim_WriteControllerFrame (\<lambda>_ _. False)"

definition event_of :: "nat \<Rightarrow> FujiAcUnitSim system \<Rightarrow> FujiAcUnitSim system \<Rightarrow> rpc_event option" where
  "event_of i s t = (case (sys_rpc s i, sys_rpc t i) of
     (Rpc_idle, In_Update ns) \<Rightarrow> Some (Updated ns)
   | (In_Update ns, Rpc_idle) \<Rightarrow> Some Update_done
   | (In_GetStatus, Rpc_idle) \<Rightarrow> map_option Answered (GetStatus (sys_ctl s))
   | _ \<Rightarrow> None)"

inductive traced :: "rpc_event list \<Rightarrow> FujiAcUnitSim system \<Rightarrow> FujiAcUnitSim system \<Rightarrow> bool" where
  traced_start: "traced [] s s"
| traced_event: "traced es s t \<Longrightarrow> call_step t u \<Longrightarrow> event_of i t u = Some e \<Longrightarrow> traced (es @ [e]) s u"
| traced_silent: "traced es s t \<Longrightarrow> call_step t u \<Longrightarrow> \<forall>i. event_of i t u = None \<Longrightarrow> traced es s u"

section \<open>The atomic object\<close>

text \<open>
  The object is a record of settings; an \<^verbatim>\<open>Update\<close> changes the fields it gives. Its set point is
  shown as long as the unit keeps what it is sent: a unit in FAN mode forgets it, and one of 128 or
  more reaches another field.
\<close>

definition shows_set_point :: "FujiAcState \<Rightarrow> bool" where
  "shows_set_point q \<longleftrightarrow> ac_mode q \<noteq> mode_FAN \<and> ac_temperature q < 128"

definition answer_of :: "bool \<Rightarrow> FujiAcState \<Rightarrow> ACUnitState \<Rightarrow> bool" where
  "answer_of b q m \<longleftrightarrow> pb_mode m = pb_mode (status_message q) \<and> pb_fan m = pb_fan (status_message q) \<and>
     (b \<longrightarrow> pb_setpoint_temperature m = pb_setpoint_temperature (status_message q))"

fun after_event :: "rpc_event \<Rightarrow> bool \<times> FujiAcState \<Rightarrow> bool \<times> FujiAcState" where
  "after_event (Updated ns) (b, q) =
     (let q = requested_state ns q in (b \<and> shows_set_point q, q))"
| "after_event _ (b, q) = (b, q)"

fun atomic :: "bool \<times> FujiAcState \<Rightarrow> rpc_event list \<Rightarrow> bool" where
  "atomic bq [] \<longleftrightarrow> True"
| "atomic bq (Answered m # es) \<longleftrightarrow> answer_of (fst bq) (snd bq) m \<and> atomic bq es"
| "atomic bq (e # es) \<longleftrightarrow> atomic (after_event e bq) es"

definition object_after :: "rpc_event list \<Rightarrow> bool \<times> FujiAcState \<Rightarrow> bool \<times> FujiAcState" where
  "object_after es bq = fold after_event es bq"

lemma atomic_append: "atomic bq (es @ es') \<longleftrightarrow> atomic bq es \<and> atomic (object_after es bq) es'"
proof (induction es arbitrary: bq)
  case (Cons e es)
  then show ?case by (cases e; cases bq) (simp_all add: object_after_def)
qed (simp add: object_after_def)

lemma object_after_simps [simp]:
  "object_after [] bq = bq" "object_after (es @ [e]) bq = after_event e (object_after es bq)"
  by (simp_all add: object_after_def)

section \<open>The controller and the unit implement it\<close>

definition state_shows :: "bool \<Rightarrow> FujiAcState \<Rightarrow> FujiAcState \<Rightarrow> bool" where
  "state_shows b q s \<longleftrightarrow> ac_mode s = ac_mode q \<and> ac_enabled s = ac_enabled q \<and> ac_fan s = ac_fan q \<and>
     ac_swing s = ac_swing q \<and> (b \<longrightarrow> ac_temperature s = ac_temperature q)"

definition unit_shows :: "bool \<Rightarrow> FujiAcState \<Rightarrow> unit_status \<Rightarrow> bool" where
  "unit_shows b q v \<longleftrightarrow> v_mode v = ac_mode q \<and> v_enabled v = ac_enabled q \<and> v_fan v = ac_fan q \<and>
     v_swing v = ac_swing q \<and> (b \<longrightarrow> v_temperature v = ac_temperature q)"

text \<open>
  What the object holds is in the controller's state, and in the unit unless it is still to be
  written; a STATUS frame in hand shows what the unit has.
\<close>

definition implements :: "bool \<times> FujiAcState \<Rightarrow> FujiAcUnitSim system \<Rightarrow> bool" where
  "implements bq s \<longleftrightarrow> (case bq of (b, q) \<Rightarrow>
     closed_inv (sys_ctl s) (sys_bus s) \<and> hand_fits (sys_bus s) (sys_pc s) \<and>
     (b \<longrightarrow> shows_set_point q) \<and>
     state_shows b q (ctl_state (sys_ctl s)) \<and>
     (ac_merged (ctl_state (sys_ctl s)) \<longrightarrow> unit_shows b q (unit_view (sys_bus s))) \<and>
     (\<forall>mf. sys_pc s = Handling mf \<and> mf_Type mf = reg_STATUS \<and> ac_merged (ctl_state (sys_ctl s)) \<longrightarrow>
        unit_shows b q (status_at 0 (mf_Payload mf))))"

lemma call_sim_step: "call_step s t \<Longrightarrow> sim_sys_step s t"
  unfolding call_step_def by (erule sys_step_mono) simp

lemma implements_answer:
  assumes "implements (b, q) s" and "GetStatus (sys_ctl s) = Some m"
  shows "answer_of b q m" and "unit_shows b q (unit_view (sys_bus s))"
proof -
  have m: "m = status_message (ctl_state (sys_ctl s))" and rd: "ready (sys_ctl s)"
    using assms(2) by (auto simp: GetStatus_def split: if_splits)
  with assms(1) show "unit_shows b q (unit_view (sys_bus s))" by (auto simp: implements_def closed_inv_def)
  show "answer_of b q m"
    using assms(1)
    by (simp add: m implements_def answer_of_def state_shows_def pb_mode_message pb_fan_message
        status_message_temperature)
qed

lemma implements_update:
  assumes "implements (b, q) s"
  shows "implements (after_event (Updated ns) (b, q)) (s\<lparr>sys_ctl := Update_begin ns (sys_ctl s), sys_rpc := r\<rparr>)"
proof (cases "is_request ns")
  case True
  with assms show ?thesis
    by (simp add: implements_def closed_inv_update Let_def state_shows_def requested_state_def split: option.split)
next
  case False
  then have none: "requested_mode (pb_mode ns) = None" "requested_fan (pb_fan ns) = None"
    "pb_setpoint_temperature ns = 0" "pb_mode ns \<noteq> MODE_OFF" by (auto simp: is_request_def)
  have same: "requested_state ns x = x\<lparr>ac_merged := ac_merged x\<rparr>" for x
    using False none by (simp add: requested_state_def)
  with assms show ?thesis
    by (auto simp: implements_def closed_inv_update Let_def state_shows_def unit_shows_def shows_set_point_def)
qed

lemma push_kept:
  "sim_ok u \<Longrightarrow> cf_ok f \<Longrightarrow> \<not> cf_WriteBit f \<Longrightarrow>
     unit_shows b q (unit_view (PushControllerFrame f u)) = unit_shows b q (unit_view u)"
  by (simp add: push_view unit_shows_def Let_def)

lemma push_written:
  assumes "sim_ok u" and "state_shows b q s" and "b \<Longrightarrow> shows_set_point q"
  shows "unit_shows b q (unit_view (PushControllerFrame (status_frame True s) u))"
proof -
  have "ac_temperature q AND 127 = ac_temperature q" if b
    using assms(3)[OF that] by (simp add: shows_set_point_def byte_below_128)
  with assms show ?thesis
    by (auto simp: push_view unit_shows_def state_shows_def shows_set_point_def Let_def view_simps
        show_state_def blank_status_def unit_accept_def)
qed

lemma state_shows_read: "unit_shows b q v \<Longrightarrow> state_shows b q (unit_state v)"
  by (simp add: unit_shows_def state_shows_def)

lemma state_shows_merged [simp]: "state_shows b q (s\<lparr>ac_merged := m\<rparr>) = state_shows b q s"
  by (simp add: state_shows_def)

lemma implements_handle:
  assumes imp: "implements (b, q) s" and pc: "sys_pc s = Handling mf"
    and h: "handle_frame mf (sys_ctl s) = (cf, c)" and w: "write_answer sim_WriteControllerFrame cf (sys_bus s) = Inr w"
  shows "implements (b, q) (s\<lparr>sys_ctl := c, sys_bus := w, sys_pc := At_check, sys_wire := ws\<rparr>)"
proof -
  have inv: "closed_inv (sys_ctl s) (sys_bus s)" and fits: "frame_fits (sys_bus s) mf"
    and b: "b \<Longrightarrow> shows_set_point q" and st: "state_shows b q (ctl_state (sys_ctl s))"
    and u: "ac_merged (ctl_state (sys_ctl s)) \<Longrightarrow> unit_shows b q (unit_view (sys_bus s))"
    using imp pc by (simp_all add: implements_def)
  have ok: "sim_ok (sys_bus s)" using inv by (simp add: closed_inv_def)
  from closed_inv_handle[OF inv fits h] obtain f
    where f: "cf = Some f" "closed_inv c (PushControllerFrame f (sys_bus s))" by blast
  then have w': "w = PushControllerFrame f (sys_bus s)"
    using w by (simp add: write_answer_def sim_WriteControllerFrame_def)
  have "state_shows b q (ctl_state c) \<and>
    (ac_merged (ctl_state c) \<longrightarrow> unit_shows b q (unit_view (PushControllerFrame f (sys_bus s))))"
  proof (cases "mf_Type mf = reg_LOGIN")
    case True
    from h handle_closed_login[OF inv fits True] f(1) st u show ?thesis
      by (auto simp: push_kept[OF ok])
  next
    case False
    with inv fits have t: "mf_Type mf = reg_STATUS" by (auto simp: closed_inv_def frame_fits_def)
    let ?s = "next_state_of (status_at 0 (mf_Payload mf)) (ctl_state (sys_ctl s))"
    have st': "state_shows b q ?s"
      using imp pc t st state_shows_read by (simp add: next_state_of_def implements_def)
    have m: "ac_merged ?s = ac_merged (ctl_state (sys_ctl s))" by (simp add: next_state_of_def)
    have p: "unit_shows b q (unit_view (PushControllerFrame
        (status_frame (\<not> ac_merged (ctl_state (sys_ctl s))) ?s) (sys_bus s)))"
      using u push_written[OF ok st' b] by (cases "ac_merged (ctl_state (sys_ctl s))") (simp_all add: push_kept[OF ok])
    have "(ctl_state c = ?s \<and> f = SendLoginFrame) \<or>
        (ctl_state c = ?s\<lparr>ac_merged := True\<rparr> \<and> f = status_frame (\<not> ac_merged (ctl_state (sys_ctl s))) ?s)"
      using h handle_closed_status[OF inv fits t] f(1) by (auto simp: Let_def split: if_splits)
    then show ?thesis using st' p u m by (auto simp: push_kept[OF ok])
  qed
  with f(2) b show ?thesis by (simp add: implements_def w')
qed

lemma implements_read:
  assumes imp: "implements (b, q) s" and g: "GetNextMasterFrame (sys_bus s) = (mf, u)"
  shows "implements (b, q) (s\<lparr>sys_bus := u, sys_pc := Handling mf\<rparr>)"
proof -
  have inv: "closed_inv (sys_ctl s) (sys_bus s)" using imp by (simp add: implements_def)
  then have ok: "sim_ok (sys_bus s)" by (simp add: closed_inv_def)
  have v: "unit_shows b q (unit_view u) = unit_shows b q (unit_view (sys_bus s))"
    using next_view[OF ok] g by (simp add: unit_shows_def)
  have "unit_shows b q (status_at 0 (mf_Payload mf)) = unit_shows b q (unit_view (sys_bus s))"
    if "mf_Type mf = reg_STATUS"
    using next_payload[OF ok] next_frame(3)[OF ok] g that by (auto simp: unit_shows_def split: if_splits)
  with imp v poll_fits[OF inv] g show ?thesis by (simp add: implements_def)
qed

lemma implements_step:
  assumes "call_step s t" and imp: "implements (b, q) s"
  shows "(\<exists>i e. event_of i s t = Some e \<and> (\<forall>j. j \<noteq> i \<longrightarrow> event_of j s t = None) \<and>
       atomic (b, q) [e] \<and> implements (after_event e (b, q)) t) \<or>
    ((\<forall>i. event_of i s t = None) \<and> implements (b, q) t)"
  using assms(1) unfolding call_step_def
proof cases
  case (read_incomplete w)
  then show ?thesis by (simp add: sim_ReadMasterFrame_def split: prod.splits)
next
  case (read_frame mf w)
  then have "GetNextMasterFrame (sys_bus s) = (mf, w)" by (simp add: sim_ReadMasterFrame_def split: prod.splits)
  from implements_read[OF imp this] show ?thesis
    by (simp add: read_frame(1) event_of_def split: rpc_pc.split)
next
  case (handle mf cf c w)
  from implements_handle[OF imp handle(2-4)] show ?thesis
    by (simp add: handle(1) event_of_def split: rpc_pc.split)
next
  case (update_call i ns)
  from implements_update[OF imp] show ?thesis
    by (intro disjI1 exI[of _ i] exI[of _ "Updated ns"])
      (simp add: update_call event_of_def split: rpc_pc.split)
next
  case (update_return i ns)
  have "implements (b, q) t" using imp by (simp add: update_return(1) implements_def)
  then show ?thesis
    by (intro disjI1 exI[of _ i] exI[of _ Update_done])
      (simp add: update_return event_of_def split: rpc_pc.split)
next
  case (status_call i)
  have "implements (b, q) t" using imp by (simp add: status_call(1) implements_def)
  then show ?thesis by (intro disjI2) (simp add: status_call event_of_def split: rpc_pc.split)
next
  case (status_return i m)
  have "implements (b, q) t" using imp by (simp add: status_return(1) implements_def)
  with implements_answer(1)[OF imp status_return(3)] show ?thesis
    by (intro disjI1 exI[of _ i] exI[of _ "Answered m"])
      (simp add: status_return event_of_def split: rpc_pc.split)
next
  case (shutdown_call c)
  then have "implements (b, q) t"
    using imp by (auto simp: implements_def Shutdown_def closed_inv_shutdown split: if_splits)
  then show ?thesis by (simp add: shutdown_call(1) event_of_def split: rpc_pc.split)
qed (use imp in \<open>auto simp: implements_def event_of_def split: rpc_pc.split\<close>)

lemma traced_implements:
  assumes "traced es s t" and "implements bq s"
  shows "atomic bq es \<and> implements (object_after es bq) t"
  using assms
proof (induction rule: traced.induct)
  case (traced_start s)
  then show ?case by (cases bq) simp
next
  case (traced_event es s t u i e)
  obtain b q where bq: "object_after es bq = (b, q)" by fastforce
  have "implements (b, q) t" using traced_event.IH traced_event.prems by (simp add: bq)
  from implements_step[OF traced_event.hyps(2) this] traced_event.hyps(3)
  obtain j d where "event_of j t u = Some d" "\<forall>k. k \<noteq> j \<longrightarrow> event_of k t u = None"
    "atomic (b, q) [d]" "implements (after_event d (b, q)) u" by auto
  moreover from this traced_event.hyps(3) have "d = e" by (metis option.distinct(1) option.inject)
  ultimately have "atomic (b, q) [e] \<and> implements (after_event e (b, q)) u" by simp
  with traced_event show ?case by (simp add: atomic_append bq)
next
  case (traced_silent es s t u)
  obtain b q where bq: "object_after es bq = (b, q)" by fastforce
  from traced_silent implements_step[OF traced_silent.hyps(2), of b q] show ?case by (auto simp: bq)
qed

section \<open>Where a run may start\<close>

text \<open>
  In two kinds of states the controller's state is what the object holds: when a change is still
  to be written, and when the loop has settled and holds no older frame.
\<close>

definition knows_settings :: "FujiAcUnitSim system \<Rightarrow> bool" where
  "knows_settings s \<longleftrightarrow> \<not> ac_merged (ctl_state (sys_ctl s)) \<or> settled (sys_ctl s) (sys_bus s) \<and> in_hand s = 0"

definition object_of :: "FujiAcUnitSim system \<Rightarrow> bool \<times> FujiAcState" where
  "object_of s = (shows_set_point (ctl_state (sys_ctl s)), ctl_state (sys_ctl s))"

lemma knows_implements:
  assumes "sim_reachable s" and "knows_settings s"
  shows "implements (object_of s) s"
proof (cases "ac_merged (ctl_state (sys_ctl s))")
  case True
  with assms(2) have st: "settled (sys_ctl s) (sys_bus s)" and "in_hand s = 0"
    by (simp_all add: knows_settings_def)
  then have "\<forall>mf. sys_pc s \<noteq> Handling mf" by (auto simp: in_hand_def)
  with reachable_closed_inv[OF assms(1)] settled_simps[OF st] show ?thesis
    by (simp add: implements_def object_of_def state_shows_def unit_shows_def)
next
  case False
  with reachable_closed_inv[OF assms(1)] show ?thesis
    by (simp add: implements_def object_of_def state_shows_def)
qed

text \<open>Every run of calls has a trace; a quiet run's has no \<^verbatim>\<open>Update\<close> call in it.\<close>

lemma traced_trans: "traced es' t u \<Longrightarrow> traced es s t \<Longrightarrow> traced (es @ es') s u"
  by (induction rule: traced.induct) (auto intro: traced.intros simp del: append_assoc simp: append_assoc[symmetric])

lemma traced_step:
  assumes "call_step s t"
  shows "\<exists>es. traced es s t \<and> (\<forall>e \<in> set es. \<exists>i. event_of i s t = Some e)"
proof (cases "\<exists>i e. event_of i s t = Some e")
  case True
  then obtain i e where e: "event_of i s t = Some e" by blast
  from traced_event[OF traced_start assms e] e show ?thesis by fastforce
next
  case False
  then have "\<forall>i. event_of i s t = None" by auto
  from traced_silent[OF traced_start assms this] show ?thesis by fastforce
qed

lemma quiet_traced:
  assumes "quiet_run n s t"
  shows "\<exists>es. traced es s t \<and> (\<forall>ns. Updated ns \<notin> set es)"
proof -
  have step: "\<exists>es. traced es r u \<and> (\<forall>ns. Updated ns \<notin> set es)" if q: "quiet_step r u" for r u
  proof -
    have c: "call_step r u" and old: "\<And>i ns. sys_rpc u i = In_Update ns \<Longrightarrow> sys_rpc r i = In_Update ns"
      using q by (auto simp: quiet_step_def call_step_def)
    have "event_of i r u \<noteq> Some (Updated ns)" for i ns
      using old[of i] by (auto simp: event_of_def split: rpc_pc.splits)
    with traced_step[OF c] show ?thesis by blast
  qed
  have join: "\<exists>es. traced es a c \<and> (\<forall>ns. Updated ns \<notin> set es)"
    if "\<exists>es. traced es a b \<and> (\<forall>ns. Updated ns \<notin> set es)"
      and "\<exists>es. traced es b c \<and> (\<forall>ns. Updated ns \<notin> set es)" for a b c
    using that by (auto intro: traced_trans)
  from assms show ?thesis
  proof (induction rule: quiet_run.induct)
    case (quiet_start s)
    then show ?case using traced_start by fastforce
  qed (use step join in blast)+
qed

lemma no_update_same: "\<forall>ns. Updated ns \<notin> set es \<Longrightarrow> object_after es bq = bq"
proof (induction es arbitrary: bq)
  case (Cons e es)
  have "\<exists>m. e = Answered m \<or> e = Update_done" using Cons.prems by (cases e) auto
  with Cons show ?case by (cases bq) (auto simp: object_after_def)
qed simp

lemma traced_update:
  assumes "sys_rpc s i = Rpc_idle"
  shows "traced [Updated ns] s (s\<lparr>sys_ctl := Update_begin ns (sys_ctl s), sys_rpc := (sys_rpc s)(i := In_Update ns)\<rparr>)"
proof -
  let ?t = "s\<lparr>sys_ctl := Update_begin ns (sys_ctl s), sys_rpc := (sys_rpc s)(i := In_Update ns)\<rparr>"
  have "call_step s ?t" unfolding call_step_def by (rule sys_step.update_call[where ns = ns, OF assms])
  moreover have "event_of i s ?t = Some (Updated ns)" using assms by (simp add: event_of_def)
  ultimately show ?thesis using traced_event[OF traced_start] by fastforce
qed

text \<open>What the object shows when the controller is ready.\<close>

lemma traced_ready:
  assumes "sim_reachable s" and "knows_settings s" and "traced es s t" and "ready (sys_ctl t)"
    and "object_after es (object_of s) = (b, q)"
  shows "unit_shows b q (unit_view (sys_bus t))"
    and "\<exists>m. GetStatus (sys_ctl t) = Some m \<and> answer_of b q m"
proof -
  have "implements (b, q) t"
    using traced_implements[OF assms(3) knows_implements[OF assms(1,2)]] assms(5) by simp
  moreover obtain m where "GetStatus (sys_ctl t) = Some m" using assms(4) by (simp add: GetStatus_def)
  ultimately show "unit_shows b q (unit_view (sys_bus t))"
    and "\<exists>m. GetStatus (sys_ctl t) = Some m \<and> answer_of b q m"
    using implements_answer by blast+
qed

section \<open>The first answer\<close>

text \<open>A controller that gets ready for the first time shows the unit's settings.\<close>

lemma first_ready_in_sync:
  assumes "closed_inv c u" and "ac_merged (ctl_state c)" and "\<not> ready c"
    and "(sim_step ^^ n) (c, u) = (c', u')" and "ready c'"
  shows "in_sync c' u'"
  using assms
proof (induction n arbitrary: c u)
  case 0
  then show ?case by simp
next
  case (Suc n)
  obtain c1 u1 where s: "sim_step (c, u) = (c1, u1)" by fastforce
  have r: "(sim_step ^^ n) (c1, u1) = (c', u')" using Suc.prems(4) s by (simp add: funpow_swap1)
  note inv1 = closed_inv_sim_step[OF Suc.prems(1) s] and reads = step_reads[OF Suc.prems(1,2) s]
  show ?case
  proof (cases "ready c1")
    case True
    have "next_query_register u \<noteq> reg_LOGIN"
      using sim_step_login[OF Suc.prems(1)] s True Suc.prems(3) by auto
    then have "in_sync c1 u1" using reads(4) Suc.prems(1) by (auto simp: closed_inv_def)
    from steps_keep_in_sync[OF inv1 reads(1) True this r] show ?thesis by simp
  next
    case False
    from Suc.IH[OF inv1 reads(1) False r Suc.prems(5)] show ?thesis .
  qed
qed

lemma first_status:
  assumes "sim_reachable s" and "ac_merged (ctl_state (sys_ctl s))" and "\<not> ready (sys_ctl s)"
    and "in_hand s = 0" and "quiet_run n s t" and "ready (sys_ctl t)"
  shows "GetStatus (sys_ctl t) = Some (unit_message (unit_view (sys_bus t)))"
proof -
  have f: "finished s = (sys_ctl s, sys_bus s)"
    using assms(4) by (auto simp: finished_def in_hand_def split: loop_pc.splits)
  have inv: "closed_inv (sys_ctl s) (sys_bus s)" using reachable_closed_inv[OF assms(1)] by simp
  obtain u where it: "(sim_step ^^ n) (sys_ctl s, sys_bus s) = (sys_ctl t, u)"
    and u: "case sys_pc t of Handling mf \<Rightarrow> GetNextMasterFrame u = (mf, sys_bus t) | _ \<Rightarrow> sys_bus t = u"
    using quiet_run_iterated[OF assms(5)] assms(4) by (auto simp: iterated_def f)
  have st: "settled (sys_ctl t) u"
    using first_ready_in_sync[OF inv assms(2,3) it assms(6)] assms(6) by (simp add: settled_in_sync)
  from sim_steps[OF inv it] have ok: "sim_ok u" by (simp add: closed_inv_def)
  have "sys_bus t = u \<or> sys_bus t = snd (GetNextMasterFrame u)" using u by (cases "sys_pc t") simp_all
  then show ?thesis using settled_GetStatus[OF st] settled_GetStatus[OF settled_poll[OF ok st]] by auto
qed

end
