(* ===== verification/Integration_Tests.thy ===== *)
theory Integration_Tests
  imports Concurrent_Calls
begin

text \<open>
  The tests of \<^verbatim>\<open>tests/integration_test.cc\<close>, a controller over the simulated unit with its loop
  thread running. Such a test passes on a machine when it passes in the schedule it gets there;
  here what the tests expect of the unit after an \<^verbatim>\<open>Update\<close>, and of \<^verbatim>\<open>GetStatus\<close> after a key of the
  remote, is shown for every schedule, and for every reachable state the fixture may be in.
\<close>

section \<open>The fixture\<close>

definition ModeToProtoMode :: "mode_t \<Rightarrow> proto_Mode or_fatal" where
  "ModeToProtoMode mode =
     (case mode of
        mode_AUTO \<Rightarrow> Inr MODE_AUTO
      | mode_COOL \<Rightarrow> Inr MODE_COOL
      | mode_DRY \<Rightarrow> Inr MODE_DRY
      | mode_FAN \<Rightarrow> Inr MODE_FAN
      | mode_HEAT \<Rightarrow> Inr MODE_HEAT
      | _ \<Rightarrow> Inl ''Unknown mode'')"

definition FanToProtoFan :: "fan_t \<Rightarrow> proto_Fan or_fatal" where
  "FanToProtoFan fan =
     (case fan of
        fan_AUTO \<Rightarrow> Inr FAN_AUTO
      | fan_HIGH \<Rightarrow> Inr FAN_HIGH
      | fan_MEDIUM \<Rightarrow> Inr FAN_MEDIUM
      | fan_LOW \<Rightarrow> Inr FAN_LOW
      | fan_MAX \<Rightarrow> Inr FAN_MAX
      | _ \<Rightarrow> Inl ''Unknown fan mode'')"

lemma ModeToProtoMode_requested: "ModeToProtoMode m = Inr p \<Longrightarrow> requested_mode p = Some m \<and> p \<noteq> MODE_OFF"
  by (cases m) (auto simp: ModeToProtoMode_def)

lemma FanToProtoFan_requested: "FanToProtoFan f = Inr p \<Longrightarrow> requested_fan p = Some f"
  by (cases f) (auto simp: FanToProtoFan_def)

text \<open>
  \<^verbatim>\<open>AwaitRead\<close> waits until two more frames have been read (\<^verbatim>\<open>frame_count_\<close>): the frame in hand when
  it is called may be older than the key that was just pressed, the one after it is not, and it
  has been handled when the next is read.
\<close>

definition AwaitRead :: "FujiAcUnitSim system \<Rightarrow> FujiAcUnitSim system \<Rightarrow> bool" where
  "AwaitRead s t \<longleftrightarrow> (\<exists>n. reads_run n s t \<and> 2 \<le> n)"

text \<open>
  A run of the fixture in which an \<^verbatim>\<open>Update\<close> call is made in \<open>s\<close> and may return in \<open>t\<close>, or a key is
  pressed and read.
\<close>

definition update_run :: "ACUnitState \<Rightarrow> FujiAcUnitSim system \<Rightarrow> FujiAcUnitSim system \<Rightarrow> bool" where
  "update_run ns s t \<longleftrightarrow> (\<exists>i n. sys_rpc s i = Rpc_idle \<and> ready (sys_ctl t) \<and>
     quiet_run n (s\<lparr>sys_ctl := Update_begin ns (sys_ctl s), sys_rpc := (sys_rpc s)(i := In_Update ns)\<rparr>) t)"

definition remote_run :: "remote_key \<Rightarrow> FujiAcUnitSim system \<Rightarrow> FujiAcUnitSim system \<Rightarrow> bool" where
  "remote_run k s t \<longleftrightarrow> AwaitRead (s\<lparr>sys_bus := sim_remote k (sys_bus s)\<rparr>) t"

lemma update_run_settings:
  assumes "sim_reachable s" and "\<not> shutdown (sys_ctl s)" and "is_request ns" and "update_run ns s t"
  shows "sim_Mode (sys_bus t) = ac_mode (requested_state ns (ctl_state (sys_ctl s)))"
    and "sim_Enabled (sys_bus t) = ac_enabled (requested_state ns (ctl_state (sys_ctl s)))"
    and "sim_Fan (sys_bus t) = ac_fan (requested_state ns (ctl_state (sys_ctl s)))"
    and "sim_Temperature (sys_bus t) = (if ac_mode (requested_state ns (ctl_state (sys_ctl s))) = mode_FAN then 18
       else ac_temperature (requested_state ns (ctl_state (sys_ctl s))) AND 127)"
proof -
  obtain i n where i: "sys_rpc s i = Rpc_idle" and rd: "ready (sys_ctl t)" and run: "quiet_run n
      (s\<lparr>sys_ctl := Update_begin ns (sys_ctl s), sys_rpc := (sys_rpc s)(i := In_Update ns)\<rparr>) t"
    using assms(4) by (auto simp: update_run_def)
  have r: "sim_reachable (s\<lparr>sys_ctl := Update_begin ns (sys_ctl s), sys_rpc := (sys_rpc s)(i := In_Update ns)\<rparr>)"
    by (rule reach_step[OF assms(1) sys_step.update_call[where ns = ns, OF i]])
  have "target (Update_begin ns (sys_ctl s)) (sys_bus s) = settings (unit_view (sys_bus t))"
    using quiet_run_settles(2)[OF r _ run rd] assms(2) by simp
  note t = target_update_settings[OF assms(3) this]
  show "sim_Mode (sys_bus t) = ac_mode (requested_state ns (ctl_state (sys_ctl s)))"
    and "sim_Enabled (sys_bus t) = ac_enabled (requested_state ns (ctl_state (sys_ctl s)))"
    and "sim_Fan (sys_bus t) = ac_fan (requested_state ns (ctl_state (sys_ctl s)))"
    and "sim_Temperature (sys_bus t) = (if ac_mode (requested_state ns (ctl_state (sys_ctl s))) = mode_FAN then 18
       else ac_temperature (requested_state ns (ctl_state (sys_ctl s))) AND 127)"
    using t by (simp_all add: sim_Mode_def sim_Enabled_def sim_Fan_def sim_Temperature_def unit_view_def status_at_def)
qed

lemma remote_run_message:
  assumes "sim_reachable s" and "ready (sys_ctl s)" and "remote_run k s t"
  shows "\<exists>m. GetStatus (sys_ctl t) = Some m \<and>
    (let v = spec_run [remote_op k, Op_UpdateMagic 4] (unit_view (sys_bus s)) in
     pb_mode m = pb_mode (unit_message v) \<and> pb_fan m = pb_fan (unit_message v) \<and>
     pb_setpoint_temperature m = ucast (v_temperature v))"
proof -
  obtain r where r: "2 \<le> r" "reads_run r (s\<lparr>sys_bus := sim_remote k (sys_bus s)\<rparr>) t"
    using assms(3) by (auto simp: remote_run_def AwaitRead_def)
  from reads_run_quiet[OF r(2)] obtain n where
    run: "quiet_run n (s\<lparr>sys_bus := sim_remote k (sys_bus s)\<rparr>) t" and nr: "n + in_hand t = r + in_hand s" by auto
  have "in_hand t \<le> 1" by (simp add: in_hand_def split: loop_pc.split)
  then have n: "in_hand (s\<lparr>sys_bus := sim_remote k (sys_bus s)\<rparr>) < n" using nr r(1) by simp
  have rd: "ready (sys_ctl (s\<lparr>sys_bus := sim_remote k (sys_bus s)\<rparr>))" using assms(2) by simp
  note reads = quiet_run_reads[OF reachable_remote[OF assms(1)] rd run n]
  have "sim_ok (sys_bus s)" using reachable_closed_inv[OF assms(1)] by (simp add: closed_inv_def)
  then have "settings (unit_view (sys_bus t)) =
      settings (spec_run [remote_op k, Op_UpdateMagic 4] (unit_view (sys_bus s)))"
    using reads(2) by (simp add: remote_view)
  from settings_eqD[OF this] show ?thesis
    using reads(1) by (simp add: unit_message_def pb_mode_message pb_fan_message unit_state_def Let_def
        status_message_temperature)
qed

text \<open>What \<^verbatim>\<open>GetStatus\<close> answers after an \<^verbatim>\<open>Update\<close> that sets something.\<close>

lemma update_run_message:
  assumes "sim_reachable s" and "is_request ns" and "update_run ns s t"
  shows "\<exists>m. GetStatus (sys_ctl t) = Some m \<and>
    answer_of False (requested_state ns (ctl_state (sys_ctl s))) m"
proof -
  obtain i n where i: "sys_rpc s i = Rpc_idle" and rd: "ready (sys_ctl t)" and run: "quiet_run n
      (s\<lparr>sys_ctl := Update_begin ns (sys_ctl s), sys_rpc := (sys_rpc s)(i := In_Update ns)\<rparr>) t"
    using assms(3) by (auto simp: update_run_def)
  let ?s = "s\<lparr>sys_ctl := Update_begin ns (sys_ctl s), sys_rpc := (sys_rpc s)(i := In_Update ns)\<rparr>"
  have r: "sim_reachable ?s" by (rule reach_step[OF assms(1) sys_step.update_call[where ns = ns, OF i]])
  have k: "knows_settings ?s" using assms(2) by (simp add: knows_settings_def)
  obtain es where es: "traced es ?s t" "\<forall>ns. Updated ns \<notin> set es" using quiet_traced[OF run] by blast
  have "object_after es (object_of ?s) = object_of ?s" by (rule no_update_same[OF es(2)])
  then have "object_after es (object_of ?s) =
      (shows_set_point (requested_state ns (ctl_state (sys_ctl s))), requested_state ns (ctl_state (sys_ctl s)))"
    by (simp add: object_of_def)
  from traced_ready(2)[OF r k es(1) rd this] show ?thesis by (auto simp: answer_of_def)
qed

section \<open>The tests\<close>

text \<open>\<^verbatim>\<open>GetStatus\<close>, with the fixture's \<^verbatim>\<open>SetUp\<close>: the first answer is that of the unit that is off.\<close>

lemma GetStatus_first:
  assumes "quiet_run n (sys_init FujiAcUnitSim_init) t" and "ready (sys_ctl t)"
  shows "\<exists>m. GetStatus (sys_ctl t) = Some m \<and> pb_mode m = MODE_OFF \<and> pb_fan m = FAN_MAX"
proof -
  let ?i = "sys_init FujiAcUnitSim_init"
  have i: "ac_merged (ctl_state (sys_ctl ?i))" "\<not> ready (sys_ctl ?i)" "in_hand ?i = 0" "\<not> shutdown (sys_ctl ?i)"
    by (simp_all add: sys_init_def FujiAcState_init_def in_hand_def)
  note g = first_status[OF sim_reachable_init i(1-3) assms]
  have "settings (unit_view (sys_bus t)) = target (sys_ctl ?i) (sys_bus ?i)"
    by (rule quiet_run_settles(2)[OF sim_reachable_init i(4) assms])
  then have "settings (unit_view (sys_bus t)) = settings (unit_view FujiAcUnitSim_init)"
    by (simp add: target_def sys_init_def FujiAcState_init_def)
  note eq = settings_eqD[OF this]
  have "\<not> v_enabled (unit_view FujiAcUnitSim_init)" "v_fan (unit_view FujiAcUnitSim_init) = fan_MAX"
    by (simp_all add: FujiAcUnitSim_init_def unit_view_def status_at_def getters_get get_field_def
        status_layout fld_byte drop_bit_eq_div decode_fan_def)
  with g eq show ?thesis by (simp add: unit_message_def pb_mode_message pb_fan_message)
qed

text \<open>\<^verbatim>\<open>TurnOnViaController\<close> and \<^verbatim>\<open>SwitchModeViaController\<close>.\<close>

lemma SwitchModeViaController:
  assumes "sim_reachable s" and "\<not> shutdown (sys_ctl s)" and "ModeToProtoMode mode = Inr p"
    and "update_run (ACUnitState_default\<lparr>pb_mode := p\<rparr>) s t"
  shows "sim_Mode (sys_bus t) = mode" and "sim_Enabled (sys_bus t)"
proof -
  have "is_request (ACUnitState_default\<lparr>pb_mode := p\<rparr>)"
    using ModeToProtoMode_requested[OF assms(3)] by (simp add: is_request_def)
  note u = update_run_settings[OF assms(1,2) this assms(4)]
  show "sim_Mode (sys_bus t) = mode" "sim_Enabled (sys_bus t)"
    using u ModeToProtoMode_requested[OF assms(3)] by (simp_all add: requested_state_def)
qed

lemma SwitchFanViaController:
  assumes "sim_reachable s" and "\<not> shutdown (sys_ctl s)" and "FanToProtoFan fan = Inr p"
    and "update_run (ACUnitState_default\<lparr>pb_fan := p\<rparr>) s t"
  shows "sim_Fan (sys_bus t) = fan"
proof -
  have "is_request (ACUnitState_default\<lparr>pb_fan := p\<rparr>)"
    using FanToProtoFan_requested[OF assms(3)] by (simp add: is_request_def)
  from update_run_settings(3)[OF assms(1,2) this assms(4)] show ?thesis
    using FanToProtoFan_requested[OF assms(3)] by (simp add: requested_state_def)
qed

lemma SwitchTemperatureViaController:
  assumes "sim_reachable s" and "\<not> shutdown (sys_ctl s)" and "temperature \<in> set (map word_of_nat [18..<30])"
    and "update_run (ACUnitState_default\<lparr>pb_setpoint_temperature := ucast (temperature :: byte)\<rparr>) s t"
    and "ac_mode (ctl_state (sys_ctl s)) \<noteq> mode_FAN"
  shows "sim_Temperature (sys_bus t) = temperature"
proof -
  have "temperature \<in> {18, 19, 20, 21, 22, 23, 24, 25, 26, 27, 28, 29}"
    using assms(3) by (simp add: upt_rec)
  then have v: "ucast temperature \<noteq> (0 :: 32 word)" "temperature AND 127 = temperature"
    "ucast (ucast temperature :: 32 word) = temperature" by auto
  have "is_request (ACUnitState_default\<lparr>pb_setpoint_temperature := ucast temperature\<rparr>)"
    using v(1) by (simp add: is_request_def)
  from update_run_settings(4)[OF assms(1,2) this assms(4)] show ?thesis
    using v assms(5) by (simp add: requested_state_def ACUnitState_default_def)
qed

text \<open>\<^verbatim>\<open>TurnOnViaRemote\<close>, \<^verbatim>\<open>SwitchModeViaRemote\<close>, \<^verbatim>\<open>SwitchFanViaRemote\<close>, \<^verbatim>\<open>SwitchTemperatureViaRemote\<close>.\<close>

lemma SwitchModeViaRemote:
  assumes "sim_reachable s" and "ready (sys_ctl s)" and "sim_Enabled (sys_bus s)"
    and "ModeToProtoMode mode = Inr p" and "remote_run (R_Mode mode) s t"
  shows "\<exists>m. GetStatus (sys_ctl t) = Some m \<and> pb_mode m = p"
  using remote_run_message[OF assms(1,2,5)] assms(3,4)
  by (cases mode) (auto simp: ModeToProtoMode_def spec_run_def unit_message_def pb_mode_message unit_state_def
      sim_Enabled_def unit_view_def status_at_def Let_def)

lemma TurnOnViaRemote:
  assumes "sim_reachable s" and "ready (sys_ctl s)" and "sim_Mode (sys_bus s) = mode_COOL"
    and "remote_run (R_Enabled True) s t"
  shows "\<exists>m. GetStatus (sys_ctl t) = Some m \<and> pb_mode m = MODE_COOL"
  using remote_run_message[OF assms(1,2,4)] assms(3)
  by (auto simp: spec_run_def unit_message_def pb_mode_message unit_state_def
      sim_Mode_def unit_view_def status_at_def Let_def)

lemma SwitchFanViaRemote:
  assumes "sim_reachable s" and "ready (sys_ctl s)"
    and "FanToProtoFan fan = Inr p" and "remote_run (R_Fan fan) s t"
  shows "\<exists>m. GetStatus (sys_ctl t) = Some m \<and> pb_fan m = p"
  using remote_run_message[OF assms(1,2,4)] assms(3)
  by (cases fan) (auto simp: FanToProtoFan_def spec_run_def unit_message_def pb_fan_message unit_state_def Let_def)

lemma SwitchTemperatureViaRemote:
  assumes "sim_reachable s" and "ready (sys_ctl s)" and "temperature \<in> set (map word_of_nat [18..<30])"
    and "remote_run (R_Temperature temperature) s t"
  shows "\<exists>m. GetStatus (sys_ctl t) = Some m \<and> pb_setpoint_temperature m = ucast (temperature :: byte)"
proof -
  have "temperature \<in> {18, 19, 20, 21, 22, 23, 24, 25, 26, 27, 28, 29}"
    using assms(3) by (simp add: upt_rec)
  then have "temperature AND 127 = temperature" by auto
  with remote_run_message[OF assms(1,2,4)] show ?thesis by (auto simp: spec_run_def Let_def)
qed

text \<open>
  \<^verbatim>\<open>RaceModeChange\<close> and \<^verbatim>\<open>RaceTempChange\<close>: a key that is pressed just before the call loses against
  it, whatever the loop has read by then.
\<close>

lemma RaceModeChange:
  assumes "sim_reachable s" and "\<not> shutdown (sys_ctl s)" and "ModeToProtoMode mode = Inr p"
    and "update_run (ACUnitState_default\<lparr>pb_mode := p\<rparr>) (s\<lparr>sys_bus := sim_remote k (sys_bus s)\<rparr>) t"
  shows "sim_Mode (sys_bus t) = mode" and "\<exists>m. GetStatus (sys_ctl t) = Some m \<and> pb_mode m = p"
proof -
  note r = reachable_remote[OF assms(1)]
  show "sim_Mode (sys_bus t) = mode"
    by (rule SwitchModeViaController(1)[OF r _ assms(3,4)]) (simp add: assms(2))
  have "is_request (ACUnitState_default\<lparr>pb_mode := p\<rparr>)"
    using ModeToProtoMode_requested[OF assms(3)] by (simp add: is_request_def)
  from update_run_message[OF r this assms(4)] show "\<exists>m. GetStatus (sys_ctl t) = Some m \<and> pb_mode m = p"
    using assms(3) by (cases mode) (auto simp: ModeToProtoMode_def answer_of_def pb_mode_message requested_state_def)
qed

lemma RaceTempChange:
  assumes "sim_reachable s" and "\<not> shutdown (sys_ctl s)" and "FanToProtoFan fan = Inr p"
    and "update_run (ACUnitState_default\<lparr>pb_fan := p\<rparr>) (s\<lparr>sys_bus := sim_remote k (sys_bus s)\<rparr>) t"
  shows "sim_Fan (sys_bus t) = fan" and "\<exists>m. GetStatus (sys_ctl t) = Some m \<and> pb_fan m = p"
proof -
  note r = reachable_remote[OF assms(1)]
  show "sim_Fan (sys_bus t) = fan"
    by (rule SwitchFanViaController[OF r _ assms(3,4)]) (simp add: assms(2))
  have "is_request (ACUnitState_default\<lparr>pb_fan := p\<rparr>)"
    using FanToProtoFan_requested[OF assms(3)] by (simp add: is_request_def)
  from update_run_message[OF r this assms(4)] show "\<exists>m. GetStatus (sys_ctl t) = Some m \<and> pb_fan m = p"
    using assms(3) by (cases fan) (auto simp: FanToProtoFan_def answer_of_def pb_fan_message requested_state_def)
qed

end
