(* ===== verification/Spec2Isabelle.thy ===== *)
theory Spec2Isabelle
  imports Real_Line Unit_Faults Service_Destruction Fuji_Ac_Client Golden_Traces
    Accessor_Tests Concurrent_Calls Integration_Tests
begin

text \<open>
  A verification development for fuji-iot, the software side of a wired controller for Fuji air
  conditioners: a program on a small computer that talks to the main unit over a 500 baud serial
  line, as if it were the wall-mounted controller, and offers the unit's settings as a gRPC
  service.

  \<^bold>\<open>The program and its parts.\<close> The main unit polls: it sends a master frame of eight bytes, the
  controller answers with a controller frame, which also says which register (STATUS, LOGIN or
  ERROR) the unit should send next. \<^verbatim>\<open>FujiAcController::DoLoop\<close> reads master frames from a
  \<^verbatim>\<open>FujiAcSerialInterface\<close> in a thread of its own, gives each to \<^verbatim>\<open>FujiAcProtocolHandler\<close>, and
  writes its answer back. The handler keeps a \<^verbatim>\<open>FujiAcState\<close>, which it reads from STATUS frames
  or, when it has local changes (it is not \<^verbatim>\<open>Merged\<close>), writes into its answer; registers are
  views into frames (\<^verbatim>\<open>FujiStatusRegister\<close>). RPC threads call \<^verbatim>\<open>Update\<close> and \<^verbatim>\<open>GetStatus\<close>, which
  change or show the same \<^verbatim>\<open>FujiAcState\<close> under a mutex and block until \<^verbatim>\<open>ready_\<close>, which the loop
  sets when it sends the same frame twice in a row. Behind the serial interface is a tty
  (\<^verbatim>\<open>FujiAcSerialReader\<close>) or a simulated unit (\<^verbatim>\<open>FujiAcUnitSim\<close>).

  \<^bold>\<open>Theories, in the order of the code.\<close>
  \<^item> \<open>Fuji_Prelude\<close>: bytes, the read-modify-write expressions with C++'s integer promotion,
    \<^verbatim>\<open>std::to_string\<close>, calls that may abort (\<open>or_fatal\<close>), lemmas on bits, bytes and words of text.
  \<^item> \<open>Fuji_Types\<close>: \<^verbatim>\<open>protocol/fuji_types\<close>, the enumerations \<^verbatim>\<open>mode_t\<close> and \<^verbatim>\<open>fan_t\<close> with their
    codes, as instances of \<^verbatim>\<open>enum\<close> and \<^verbatim>\<open>linorder\<close>, and their \<^verbatim>\<open>operator<<\<close>.
  \<^item> \<open>Register_Layout\<close>: the locale \<open>register_layout\<close>, named bit fields in a buffer that do not overlap, with
    its read-after-write laws. It is interpreted three times: for the status register and for the
    headers of the two kinds of frames.
  \<^item> \<open>Fuji_Register\<close>: \<^verbatim>\<open>protocol/fuji_register\<close>. A register is an offset into a byte buffer, as
    the code's pointer; every accessor is a definition on that buffer. \<open>unit_status\<close> is the abstract
    register, \<open>status_at\<close> the abstraction.
  \<^item> \<open>Fuji_Frame\<close>: \<^verbatim>\<open>protocol/fuji_frame\<close>, both frame classes, their accessors and debug lines.
  \<^item> \<open>Fuji_Ac_State\<close>: \<^verbatim>\<open>protocol/fuji_ac_state\<close>, the controller's settings with the merged flag.
  \<^item> \<open>Fuji_Ac_Protocol_Handler\<close>: \<^verbatim>\<open>protocol/fuji_ac_protocol_handler\<close>; \<open>HandleMasterFrame\<close> returns the
    answer, if any, and the handler after it.
  \<^item> \<open>Fuji_Ac_Unit_Sim\<close>: \<^verbatim>\<open>sim/fuji_ac_unit_sim\<close>. Its setters are the keys of the remote.
  \<^item> \<open>Fuji_Ac_Serial\<close>: \<^verbatim>\<open>controller/fuji_ac_serial_interface.h\<close> as the locale \<open>serial_interface\<close>, its
    extension \<open>polled_bus\<close> (a unit sends the register it was asked for), interpreted on the simulator
    with its remote (\<open>sim_bus\<close>) and with its error bit as well (\<open>unit_bus\<close>), and the tty reader's
    \<^verbatim>\<open>ReadMasterFrame\<close> and \<^verbatim>\<open>WriteControllerFrame\<close>.
  \<^item> \<open>Fuji_Serial_Setup\<close>: \<^verbatim>\<open>FujiAcSerialReader::Build\<close>, the set-up of the tty, and the destructor.
  \<^item> \<open>Fuji_Ac_Controller\<close>: \<^verbatim>\<open>controller/fuji_ac_controller\<close> and the messages of its proto file:
    \<open>Update_begin\<close> is \<^verbatim>\<open>Update\<close> up to its \<^verbatim>\<open>Await\<close>, \<open>handle_frame\<close> the critical section of the loop,
    \<open>loop_body\<close> an iteration, \<open>DoLoop\<close> the loop.
  \<^item> \<open>Controller_System\<close>: the controller as a concurrent system, an inductive step relation over the
    loop's program counter, the RPC threads, \<^verbatim>\<open>Shutdown\<close> and an environment on the bus; what
    \<^verbatim>\<open>Shutdown\<close> does to the loop, and who asks for writes.
  \<^item> \<open>Closed_Loop\<close>: that system over the simulated unit: its invariant and its convergence;
    \<open>loop_turn\<close>, what the loop thread does from where it is to the top of its loop.
  \<^item> \<open>Logged_In\<close>: the login handshake happens once; a ready controller is polled by STATUS frames.
  \<^item> \<open>Every_Schedule\<close>: the same for every interleaving: runs indexed by the frames the loop handles,
    or reads, and what they make of the controller and the unit.
  \<^item> \<open>Fuji_Ac_Service\<close>: \<^verbatim>\<open>controller/fuji_ac_server.cc\<close>, the services' handlers and constructors, the
    flags, \<^verbatim>\<open>RunServer\<close> and \<^verbatim>\<open>main\<close>; \<open>Await\<close> gives the loop thread its turns, with its test of
    \<^verbatim>\<open>shutdown_\<close>, until the controller is ready.
  \<^item> \<open>Concurrent_Calls\<close>: any number of RPC threads at once, their calls as traces, and the atomic
    record of settings such traces are refined to.
  \<^item> \<open>Unit_Faults\<close>: the controller over a unit whose error bit changes.
  \<^item> \<open>Real_Line\<close>: the real service on a line with a unit at its other end. The line and the operating
    system are parameters with contracts (\<open>read_contract\<close>, \<open>write_contract\<close>); every such line is a
    \<open>polled_bus\<close> (\<open>line_polled_bus\<close>), and a small kernel shows that the contracts can hold.
  \<^item> \<open>Service_Destruction\<close>: the order in which the members of a service object are destroyed, while
    its loop thread goes on.
  \<^item> \<open>Fuji_Ac_Client\<close>: \<^verbatim>\<open>controller/fuji_ac_controller_client.cc\<close>, flags, \<^verbatim>\<open>RunClient\<close> and \<^verbatim>\<open>main\<close>.
  \<^item> \<open>Golden_Traces\<close>: the recordings of a real unit and a real wired controller in
    \<^verbatim>\<open>protocol/fuji_ac_protocol_handler_test.cc\<close> and \<^verbatim>\<open>sim/fuji_ac_unit_sim_test.cc\<close>, replayed on
    the model by evaluation in the kernel.
  \<^item> \<open>Accessor_Tests\<close>: \<^verbatim>\<open>protocol/fuji_register_test.cc\<close> and \<^verbatim>\<open>fuji_frame_test.cc\<close>, evaluated on the model.
  \<^item> \<open>Integration_Tests\<close>: \<^verbatim>\<open>tests/integration_test.cc\<close>, its expectations shown for every schedule.

  \<^bold>\<open>What is shown.\<close> The register accessors implement a record of ten settings and stay inside
  their five bytes; the header fields of frames are independent; the debug lines lose nothing. A
  state written into a register is read back by another state. The handler answers only STATUS
  and LOGIN frames for it, writes local changes once, before it believes the unit again, and
  sends swing steps as one-shot commands. The simulated unit implements a record under any
  sequence of polls, frames and remote keys. The model agrees with the twelve recordings and passes
  the unit tests. For the
  whole system over the simulator: an \<^verbatim>\<open>Update\<close> takes effect, and the controller is ready, after six
  handled frames in every schedule; concurrent calls look atomic; the controller logs in once; the
  service's answer is true, also at the end of the command line client; the remote's changes are
  seen; the loop ends by \<^verbatim>\<open>Shutdown\<close>, and by it only. A ready controller
  has no unwritten change, a change is on the wire before its \<^verbatim>\<open>Update\<close> returns, and nothing is
  written that no \<^verbatim>\<open>Update\<close> asked for, in every interleaving over a faulty unit; the first two also
  over a tty with echoes, time-outs and broken frames. The real service on a line gives the
  simulator service's answers, and a call of a service is a run of the concurrent system.

  \<^bold>\<open>Bounds and fuel.\<close> \<open>DoLoop\<close> takes the number of iterations allowed, \<open>Await\<close> that of the turns of
  the loop thread, and both give \<open>None\<close> when that is not enough. The measure \<open>rank\<close> of \<open>Closed_Loop\<close>
  decreases with each iteration, is at most 5 and is 0 only in a settled state: five turns suffice
  for every call over the simulator, and one more if the thread holds a frame that was read before
  the call; twice as many on an echoing line (every answer is read back once), and six handled
  frames in any schedule; the first frame read after a key shows it.
  The loop is never stuck: quiet runs of any length exist from every state it is in. That a call does
  not return (\<open>error_register_livelock\<close>, \<open>update_hangs_after_shutdown\<close>) is stated for every run.

  \<^bold>\<open>What the code relies on.\<close> The operating system's calls on the tty are parameters (\<open>tty_os\<close>,
  \<open>os_read\<close>, \<open>os_write\<close>), with the contracts of \<open>Real_Line\<close> where a property depends on them (the unit
  sends when the line is free, and a read gets bytes of one frame only); the flag constants of its headers are those of \<open>tty_consts\<close>; the gRPC calls
  \<^verbatim>\<open>BuildAndStart\<close> and \<^verbatim>\<open>stub->Update\<close> are arguments, and so is the parsing of the command line.
  The mutex is modelled by one step per critical section; a frame is read outside it, so it may be
  older than an \<^verbatim>\<open>Update\<close> that comes between.

  \<^bold>\<open>What modelling showed.\<close> A set point of 128 or more reaches the economy bit
  (\<open>SetTemperature_leaks_into_economy\<close>). After an ERROR query nothing is answered any more, since the
  handler leaves the ERROR frame unanswered (\<open>error_register_livelock\<close>). \<^verbatim>\<open>ready_\<close> comes too early when
  a unit sends LOGIN twice (\<open>repeated_login_is_ready_too_early\<close>). An \<^verbatim>\<open>Update\<close> before the first
  STATUS frame overwrites the unit's settings by defaults (\<open>early_update_overwrites_unit\<close>). An \<^verbatim>\<open>Update\<close>
  pending at \<^verbatim>\<open>Shutdown\<close> never returns (\<open>update_hangs_after_shutdown\<close>). The reader drops the bytes of a
  short read and never looks for the start of a frame, so it relies on the gaps between frames. A service frees its simulator or
  reader before it stops the thread that uses it (\<open>destruction_frees_bus_in_use\<close>).

  \<^bold>\<open>Not modelled.\<close> What the programs log; sleeps; gflags' parsing; gRPC's transport, channels,
  credentials and threads, and the protocol buffers' generated code beyond the message types; the
  build files, the Debian package and the hardware design. The code has no other logic.
\<close>

section \<open>Updates take effect\<close>

lemmas sim_getters = sim_Enabled_def sim_Mode_def sim_Fan_def sim_Swing_def sim_Temperature_def
  sim_Economy_def

lemma sim_getters_view:
  "sim_Enabled u = v_enabled (unit_view u)" "sim_Mode u = v_mode (unit_view u)"
  "sim_Fan u = v_fan (unit_view u)" "sim_Swing u = v_swing (unit_view u)"
  "sim_Temperature u = v_temperature (unit_view u)" "sim_Economy u = v_economy (unit_view u)"
  by (simp_all add: sim_getters unit_view_def status_at_def)

lemma reachable_run_on:
  assumes "sim_reachable s" and "\<not> shutdown (sys_ctl s)" and "5 \<le> n"
  obtains c' u' where
    "run_on sim_ReadMasterFrame sim_WriteControllerFrame n (sys_pc s)
       (Update_begin ns (sys_ctl s), sys_bus s) = Inr (c', u')"
    "settled c' u'" "target (Update_begin ns (sys_ctl s)) (sys_bus s) = settings (unit_view u')"
  using run_on_settles[OF closed_inv_update _ running[OF assms(1,2)] assms(3)]
    reachable_closed_inv[OF assms(1)] by metis

text \<open>
  C2. The loop alone does what was asked: in every reachable state of the loop, the RPC
  threads and the remote, also in the middle of an iteration with an older frame in hand, an
  \<^verbatim>\<open>Update\<close> that sets something is followed, after the iteration under way and at most five more,
  by a ready controller and a unit with exactly the requested mode, power state, fan, swing and
  temperature (18 in FAN mode, else its low seven bits).
\<close>

theorem update_takes_effect:
  assumes "sim_reachable s" and "\<not> shutdown (sys_ctl s)" and "is_request ns" and "5 \<le> n"
  shows "\<exists>c' u'. run_on sim_ReadMasterFrame sim_WriteControllerFrame n (sys_pc s)
      (Update_begin ns (sys_ctl s), sys_bus s) = Inr (c', u') \<and> ready c' \<and>
    (let q = requested_state ns (ctl_state (sys_ctl s)) in
     sim_Enabled u' = ac_enabled q \<and> sim_Mode u' = ac_mode q \<and> sim_Fan u' = ac_fan q \<and>
     sim_Swing u' = ac_swing q \<and>
     sim_Temperature u' = (if ac_mode q = mode_FAN then 18 else ac_temperature q AND 127))"
proof -
  obtain c' u' where r: "run_on sim_ReadMasterFrame sim_WriteControllerFrame n (sys_pc s)
      (Update_begin ns (sys_ctl s), sys_bus s) = Inr (c', u')" and st: "settled c' u'"
    and t: "target (Update_begin ns (sys_ctl s)) (sys_bus s) = settings (unit_view u')"
    using reachable_run_on[OF assms(1,2,4)] .
  note eq = settings_eqD[OF t[unfolded target_update(1)[OF assms(3)]]]
  show ?thesis
    using r settled_simps(1)[OF st]
    by (simp add: sim_getters_view eq[symmetric] Let_def)
qed

theorem update_takes_effect_witness:
  "\<exists>c' u'. run_on sim_ReadMasterFrame sim_WriteControllerFrame 5 At_check
      (Update_begin \<lparr>pb_mode = MODE_HEAT, pb_fan = FAN_LOW, pb_setpoint_temperature = 22\<rparr>
         MakeFujiAcController, FujiAcUnitSim_init) = Inr (c', u') \<and>
    sim_Mode u' = mode_HEAT \<and> sim_Enabled u' \<and> sim_Fan u' = fan_LOW \<and> sim_Temperature u' = 22"
  using update_takes_effect[OF sim_reachable_init, of
      "\<lparr>pb_mode = MODE_HEAT, pb_fan = FAN_LOW, pb_setpoint_temperature = 22\<rparr>" 5]
  by (auto simp: sys_init_def is_request_def requested_state_def Let_def)

text \<open>
  C1. What a client asks for is what the unit gets, whatever the scheduler does: in every run that
  starts with the call of an \<^verbatim>\<open>Update\<close> that sets something, in any reachable state of all threads,
  and in which nobody calls \<^verbatim>\<open>Update\<close> or \<^verbatim>\<open>Shutdown\<close> and nobody touches the remote, the controller is
  ready once the loop has handled six frames, and every such run can be continued until it has;
  and from the moment it is ready, so that the call may return, the unit has the requested mode,
  power state, fan, swing and temperature (18 in FAN mode, else its low seven bits).
\<close>

theorem update_in_every_schedule:
  assumes "sim_reachable s" and "\<not> shutdown (sys_ctl s)" and "sys_rpc s i = Rpc_idle" and "is_request ns"
    and "quiet_run n
      (s\<lparr>sys_ctl := Update_begin ns (sys_ctl s), sys_rpc := (sys_rpc s)(i := In_Update ns)\<rparr>) t"
  shows "(6 \<le> n \<longrightarrow> ready (sys_ctl t)) \<and> (\<exists>m t'. quiet_run m t t' \<and> 6 \<le> n + m \<and> ready (sys_ctl t')) \<and>
    (ready (sys_ctl t) \<longrightarrow>
      (let q = requested_state ns (ctl_state (sys_ctl s)); u = sys_bus t in
       sim_Enabled u = ac_enabled q \<and> sim_Mode u = ac_mode q \<and> sim_Fan u = ac_fan q \<and>
       sim_Swing u = ac_swing q \<and>
       sim_Temperature u = (if ac_mode q = mode_FAN then 18 else ac_temperature q AND 127)))"
proof -
  let ?s = "s\<lparr>sys_ctl := Update_begin ns (sys_ctl s), sys_rpc := (sys_rpc s)(i := In_Update ns)\<rparr>"
  have s: "sim_reachable ?s" by (rule reach_step[OF assms(1) sys_step.update_call[where ns = ns, OF assms(3)]])
  have sd: "\<not> shutdown (sys_ctl ?s)" using assms(2) by simp
  note run = quiet_run_settles[OF s sd assms(5)]
  have eq: "settings (unit_view (sys_bus t)) = target (Update_begin ns (sys_ctl s)) (sys_bus s)"
    if "ready (sys_ctl t)" using run(2)[OF that] by simp
  show ?thesis
    using settled_simps(1)[OF run(1)] settings_eqD[OF eq[unfolded target_update(1)[OF assms(4)]]]
      quiet_run_continues[OF s sd assms(5)]
    by (simp add: sim_getters_view Let_def)
qed

theorem update_in_every_schedule_witness:
  "\<exists>t. quiet_run 6 ((sys_init FujiAcUnitSim_init)
      \<lparr>sys_ctl := Update_begin \<lparr>pb_mode = MODE_HEAT, pb_fan = FAN_LOW, pb_setpoint_temperature = 22\<rparr>
         MakeFujiAcController,
       sys_rpc := (\<lambda>_. Rpc_idle)
         (0 := In_Update \<lparr>pb_mode = MODE_HEAT, pb_fan = FAN_LOW, pb_setpoint_temperature = 22\<rparr>)\<rparr>) t \<and>
    ready (sys_ctl t) \<and> sim_Mode (sys_bus t) = mode_HEAT \<and> sim_Temperature (sys_bus t) = 22"
proof -
  let ?i = "sys_init FujiAcUnitSim_init"
    and ?ns = "\<lparr>pb_mode = MODE_HEAT, pb_fan = FAN_LOW, pb_setpoint_temperature = 22\<rparr>"
  let ?s = "?i\<lparr>sys_ctl := Update_begin ?ns (sys_ctl ?i), sys_rpc := (sys_rpc ?i)(0 := In_Update ?ns)\<rparr>"
  have i: "sys_rpc ?i 0 = Rpc_idle" "\<not> shutdown (sys_ctl ?i)" "is_request ?ns"
    by (simp_all add: sys_init_def is_request_def)
  have "sim_reachable ?s" by (rule reach_step[OF sim_reachable_init sys_step.update_call[where ns = ?ns, OF i(1)]])
  from reachable_on_course[OF this] i(2) have "on_course 6 ?s" by simp
  from quiet_runs_exist[OF this, of 6] obtain t where t: "quiet_run 6 ?s t" by blast
  from update_in_every_schedule[OF sim_reachable_init i(2,1,3) t] t show ?thesis
    by (intro exI[of _ t]) (auto simp: sys_init_def requested_state_def Let_def)
qed

text \<open>
  C5. Fields an \<^verbatim>\<open>Update\<close> leaves unset keep the unit's current values: from a settled state, a
  request changes mode, power, fan and temperature as far as it gives them, and otherwise the
  unit ends with the mode, power state, fan, temperature, swing and error flag it had. Two
  exceptions: a unit put in FAN mode shows temperature 18 and loses its economy flag, which is not
  written in that mode; and a set point whose low byte is 128 or more is cut to seven bits and
  raises the economy flag, which else is kept.
\<close>

theorem unset_fields_are_kept:
  assumes "sim_reachable s" and "\<not> shutdown (sys_ctl s)" and "is_request ns"
    and "settled (sys_ctl s) (sys_bus s)" and "5 \<le> n"
  shows "\<exists>c' u'. run_on sim_ReadMasterFrame sim_WriteControllerFrame n (sys_pc s)
      (Update_begin ns (sys_ctl s), sys_bus s) = Inr (c', u') \<and>
    (let v = unit_view (sys_bus s); v' = unit_view u' in
     v_mode v' = (case requested_mode (pb_mode ns) of None \<Rightarrow> v_mode v | Some m \<Rightarrow> m) \<and>
     v_enabled v' = (if pb_mode ns = MODE_OFF then False
        else requested_mode (pb_mode ns) \<noteq> None \<or> v_enabled v) \<and>
     v_fan v' = (case requested_fan (pb_fan ns) of None \<Rightarrow> v_fan v | Some f \<Rightarrow> f) \<and>
     v_temperature v' = (if v_mode v' = mode_FAN then 18
        else if pb_setpoint_temperature ns = 0 then v_temperature v
        else ucast (pb_setpoint_temperature ns) AND 127) \<and>
     v_economy v' = (if v_mode v' = mode_FAN then False
        else v_economy v \<or> 128 \<le> (ucast (pb_setpoint_temperature ns) :: byte)) \<and>
     v_swing v' = v_swing v \<and> v_error v' = v_error v)"
proof -
  obtain c' u' where r: "run_on sim_ReadMasterFrame sim_WriteControllerFrame n (sys_pc s)
      (Update_begin ns (sys_ctl s), sys_bus s) = Inr (c', u')"
    and t: "target (Update_begin ns (sys_ctl s)) (sys_bus s) = settings (unit_view u')"
    using reachable_run_on[OF assms(1,2,5)] .
  note eq = settings_eqD[OF t[unfolded target_update(1)[OF assms(3)]]]
  show ?thesis
    using r settled_simps[OF assms(4)] unit_temperature_below[of "sys_bus s"]
    by (simp add: eq[symmetric] requested_state_def unit_accept_economy Let_def split: option.split)
qed

lemma settled_example:
  obtains s where "sim_reachable s" "\<not> shutdown (sys_ctl s)" "sys_pc s = At_check"
    "settled (sys_ctl s) (sys_bus s)"
  using run_settles[OF sim_reachable_init] by (auto simp: sys_init_def)

theorem unset_fields_are_kept_witness:
  "\<exists>s c' u'. sim_reachable s \<and> settled (sys_ctl s) (sys_bus s) \<and>
    run_on sim_ReadMasterFrame sim_WriteControllerFrame 5 (sys_pc s)
      (Update_begin \<lparr>pb_mode = MODE_UNKNOWN, pb_fan = FAN_LOW, pb_setpoint_temperature = 0\<rparr> (sys_ctl s),
       sys_bus s) = Inr (c', u') \<and>
    v_fan (unit_view u') = fan_LOW \<and> v_mode (unit_view u') = v_mode (unit_view (sys_bus s))"
proof -
  obtain s where s: "sim_reachable s" "\<not> shutdown (sys_ctl s)" "sys_pc s = At_check"
    "settled (sys_ctl s) (sys_bus s)" using settled_example .
  have "is_request \<lparr>pb_mode = MODE_UNKNOWN, pb_fan = FAN_LOW, pb_setpoint_temperature = 0\<rparr>"
    by (simp add: is_request_def)
  from unset_fields_are_kept[OF s(1,2) this s(4), of 5] s show ?thesis
    by (auto simp: Let_def)
qed

text \<open>
  C4. The loop settles from every reachable state, whatever the remote has done and whichever
  local changes are pending: after the iteration under way and at most five more the controller
  is ready, \<^verbatim>\<open>GetStatus\<close> answers at once with the unit's settings, and the unit has those it had,
  or the pending local ones.
\<close>

theorem loop_settles:
  assumes "sim_reachable s" and "\<not> shutdown (sys_ctl s)" and "5 \<le> n"
  shows "\<exists>c' u'. run_on sim_ReadMasterFrame sim_WriteControllerFrame n (sys_pc s)
      (sys_ctl s, sys_bus s) = Inr (c', u') \<and>
    GetStatus c' = Some (unit_message (unit_view u')) \<and>
    settings (unit_view u') = target (sys_ctl s) (sys_bus s)"
proof -
  note inv = reachable_closed_inv[OF assms(1)]
  show ?thesis
    using run_on_settles[OF conjunct1[OF inv] conjunct2[OF inv] running[OF assms(1,2)] assms(3)]
      settled_GetStatus by metis
qed

theorem loop_settles_witness:
  "\<exists>c' u'. run_on sim_ReadMasterFrame sim_WriteControllerFrame 5 At_check
      (MakeFujiAcController, FujiAcUnitSim_init) = Inr (c', u') \<and>
    GetStatus c' = Some (unit_message (unit_view u'))"
  using loop_settles[OF sim_reachable_init, of 5] by (auto simp: sys_init_def)

text \<open>
  C32. Asking changes nothing: on a merged controller an \<^verbatim>\<open>Update\<close> that sets nothing is followed,
  after at most five iterations and the one under way, by a ready controller that shows the unit's
  settings, which are the ones the unit had; and the \<^verbatim>\<open>GetStatus\<close> call of the simulator service,
  wherever the loop thread is when it is made, returns OK with a state in as many turns of that
  thread, and leaves the unit's settings alone.
\<close>

theorem empty_update_changes_nothing:
  assumes "sim_reachable s" and "\<not> shutdown (sys_ctl s)" and "\<not> is_request ns" and "5 \<le> n"
    and "ac_merged (ctl_state (sys_ctl s))"
  shows "(\<exists>c' u'. run_on sim_ReadMasterFrame sim_WriteControllerFrame n (sys_pc s)
      (Update_begin ns (sys_ctl s), sys_bus s) = Inr (c', u') \<and>
    GetStatus c' = Some (unit_message (unit_view u')) \<and>
    settings (unit_view u') = settings (unit_view (sys_bus s))) \<and>
   (\<exists>m pc' c' u'. SimService_GetStatus (n + in_hand s) (sys_pc s, sys_ctl s, sys_bus s) =
      Some (Inr ((grpc_OK, Some m), pc', c', u')) \<and>
    settings (unit_view u') = settings (unit_view (sys_bus s)))"
proof (intro conjI)
  have t: "target (sys_ctl s) (sys_bus s) = settings (unit_view (sys_bus s))"
    using assms(5) by (simp add: target_def)
  then have "target (Update_begin ns (sys_ctl s)) (sys_bus s) = settings (unit_view (sys_bus s))"
    by (simp only: target_update(2)[OF assms(3)])
  then show "\<exists>c' u'. run_on sim_ReadMasterFrame sim_WriteControllerFrame n (sys_pc s)
      (Update_begin ns (sys_ctl s), sys_bus s) = Inr (c', u') \<and>
    GetStatus c' = Some (unit_message (unit_view u')) \<and>
    settings (unit_view u') = settings (unit_view (sys_bus s))"
    using reachable_run_on[OF assms(1,2,4), of ns] settled_GetStatus by metis
  have n: "5 + frames_in_hand (sys_pc s) \<le> n + in_hand s" using assms(4) by (simp add: in_hand_pc)
  obtain pc' c' u' where "SimService_GetStatus (n + in_hand s) (sys_pc s, sys_ctl s, sys_bus s) =
      Some (Inr ((grpc_OK, Some (status_message (ctl_state c'))), pc', c', u'))"
    "target (sys_ctl s) (sys_bus s) = settings (unit_view u')"
    using reachable_closed_inv[OF assms(1)] running[OF assms(1,2)] Service_GetStatus_sim[OF _ _ _ assms(2) n] by blast
  with t show "\<exists>m pc' c' u'. SimService_GetStatus (n + in_hand s) (sys_pc s, sys_ctl s, sys_bus s) =
      Some (Inr ((grpc_OK, Some m), pc', c', u')) \<and>
    settings (unit_view u') = settings (unit_view (sys_bus s))" by auto
qed

theorem empty_update_changes_nothing_witness:
  "\<exists>c' u'. run_on sim_ReadMasterFrame sim_WriteControllerFrame 5 At_check
      (Update_begin ACUnitState_default MakeFujiAcController, FujiAcUnitSim_init) = Inr (c', u') \<and>
    settings (unit_view u') = settings (unit_view FujiAcUnitSim_init)"
  using empty_update_changes_nothing[OF sim_reachable_init, of ACUnitState_default 5]
  by (auto simp: sys_init_def is_request_def ACUnitState_default_def FujiAcState_init_def)

text \<open>
  C20. A key of the remote is seen, whatever the scheduler does: from any reachable state with a
  ready controller, in every run after the key in which nobody calls \<^verbatim>\<open>Update\<close> or \<^verbatim>\<open>Shutdown\<close> and
  no other key is pressed, once the loop has handled the first frame it reads after the key (the
  second one, if it holds an older frame) \<^verbatim>\<open>GetStatus\<close> answers at once with the unit's settings,
  which are the old ones with the key's change.
\<close>

theorem remote_change_is_seen:
  assumes "sim_reachable s" and "ready (sys_ctl s)" and "in_hand s < n"
    and "quiet_run n (s\<lparr>sys_bus := sim_remote k (sys_bus s)\<rparr>) t"
  shows "GetStatus (sys_ctl t) = Some (unit_message (unit_view (sys_bus t))) \<and>
    settings (unit_view (sys_bus t)) =
      settings (spec_run [remote_op k, Op_UpdateMagic 4] (unit_view (sys_bus s)))"
proof -
  let ?s = "s\<lparr>sys_bus := sim_remote k (sys_bus s)\<rparr>"
  have r: "sim_reachable ?s" by (rule reachable_remote[OF assms(1)])
  have rd: "ready (sys_ctl ?s)" using assms(2) by simp
  have n: "in_hand ?s < n" using assms(3) by simp
  have "sim_ok (sys_bus s)" using reachable_closed_inv[OF assms(1)] by (simp add: closed_inv_def)
  with quiet_run_reads[OF r rd assms(4) n] show ?thesis by (simp add: remote_view)
qed

theorem remote_change_is_seen_witness:
  "\<exists>s t. sim_reachable s \<and> quiet_run 1 (s\<lparr>sys_bus := sim_remote (R_Fan fan_LOW) (sys_bus s)\<rparr>) t \<and>
    GetStatus (sys_ctl t) = Some (unit_message (unit_view (sys_bus t))) \<and>
    v_fan (unit_view (sys_bus t)) = fan_LOW"
proof -
  obtain s where s: "sim_reachable s" "\<not> shutdown (sys_ctl s)" "sys_pc s = At_check"
    "settled (sys_ctl s) (sys_bus s)" using settled_example .
  let ?s = "s\<lparr>sys_bus := sim_remote (R_Fan fan_LOW) (sys_bus s)\<rparr>"
  have "\<not> shutdown (sys_ctl ?s)" using s(2) by simp
  from reachable_on_course[OF reachable_remote[OF s(1)] this] have "on_course 6 ?s" .
  from quiet_runs_exist[OF this, of 1] obtain t where t: "quiet_run 1 ?s t" by blast
  have n: "in_hand s < 1" using s(3) by (simp add: in_hand_def)
  have "GetStatus (sys_ctl t) = Some (unit_message (unit_view (sys_bus t)))"
    and e: "settings (unit_view (sys_bus t)) =
      settings (spec_run [remote_op (R_Fan fan_LOW), Op_UpdateMagic 4] (unit_view (sys_bus s)))"
    using remote_change_is_seen[OF s(1) settled_simps(1)[OF s(4)] n t] by simp_all
  moreover from settings_eqD(2)[OF e] have "v_fan (unit_view (sys_bus t)) = fan_LOW" by (simp add: spec_run_def)
  ultimately show ?thesis using s(1) t by blast
qed

section \<open>The concurrent system\<close>

text \<open>
  C9. A controller connected to the simulated unit reports itself ready only when every local
  change has been written: in each reachable state of the loop, the RPC threads, \<^verbatim>\<open>Shutdown\<close>, the
  remote and a unit whose error bit comes and goes, in any interleaving, a ready controller's
  settings are merged.
\<close>

theorem ready_means_written:
  assumes "unit_reachable s" and "ready (sys_ctl s)"
  shows "ac_merged (ctl_state (sys_ctl s))"
  using assms by (rule unit_reachable_merged)

theorem ready_means_written_witness:
  "\<exists>s. unit_reachable s \<and> ready (sys_ctl s) \<and> ac_merged (ctl_state (sys_ctl s))"
  using settled_example ready_means_written settled_simps(1) sim_unit_reachable by metis

text \<open>
  C10. An \<^verbatim>\<open>Update\<close> cannot return before its change is on the wire: from a reachable state with an
  un-written change, every run that makes the controller ready has written a frame with the
  write bit, also when the unit's error bit comes and goes in it.
\<close>

theorem returned_update_was_written:
  assumes "unit_reachable s" and "\<not> ac_merged (ctl_state (sys_ctl s))"
    and "unit_sys_step\<^sup>*\<^sup>* s t" and "ready (sys_ctl t)"
  shows "\<exists>fs f. sys_wire t = fs @ sys_wire s \<and> f \<in> set fs \<and> cf_WriteBit f"
proof -
  have "ac_merged (ctl_state (sys_ctl t))"
    using unit_reachable_merged[OF reachable_run[OF assms(3,1)] assms(4)] .
  with unit_bus.merge_run_writes[OF assms(3) unit_bus.reachable_inv[OF assms(1)] assms(2)]
  show ?thesis by simp
qed

lemma pending_example:
  obtains s where "sim_reachable s" "\<not> shutdown (sys_ctl s)" "\<not> ac_merged (ctl_state (sys_ctl s))"
    "sys_rpc s 0 = In_Update \<lparr>pb_mode = MODE_HEAT, pb_fan = FAN_LOW, pb_setpoint_temperature = 22\<rparr>"
    "sys_wire s = []"
proof -
  let ?i = "sys_init FujiAcUnitSim_init"
    and ?ns = "\<lparr>pb_mode = MODE_HEAT, pb_fan = FAN_LOW, pb_setpoint_temperature = 22\<rparr>"
  let ?s = "?i\<lparr>sys_ctl := Update_begin ?ns (sys_ctl ?i), sys_rpc := (sys_rpc ?i)(0 := In_Update ?ns)\<rparr>"
  have "sim_sys_step ?i ?s" by (intro sys_step.update_call) (simp add: sys_init_def)
  from reach_step[OF sim_reachable_init this] have "sim_reachable ?s" .
  then show thesis
    by (rule that) (simp_all add: sys_init_def is_request_def)
qed

theorem returned_update_was_written_witness:
  "\<exists>s t f. unit_reachable s \<and> unit_sys_step\<^sup>*\<^sup>* s t \<and> ready (sys_ctl t) \<and> f \<in> set (sys_wire t) \<and>
    cf_WriteBit f"
proof -
  obtain s where s: "sim_reachable s" "\<not> shutdown (sys_ctl s)" "\<not> ac_merged (ctl_state (sys_ctl s))"
    "sys_wire s = []" using pending_example by metis
  obtain t where t: "sim_sys_step\<^sup>*\<^sup>* s t" "settled (sys_ctl t) (sys_bus t)"
    using run_settles[OF s(1,2)] .
  note u = sim_unit_reachable[OF s(1)] sim_unit_run[OF t(1)] settled_simps(1)[OF t(2)]
  from returned_update_was_written[OF u(1) s(3) u(2,3)] u s(4) show ?thesis by auto
qed

text \<open>
  A pending \<^verbatim>\<open>Update\<close> is never stuck while the loop is not shut down: from every reachable
  state with such a call there is a run in which it returns.
\<close>

lemma pending_update_can_return:
  assumes "sim_reachable s" and "\<not> shutdown (sys_ctl s)" and "sys_rpc s i = In_Update ns"
  shows "\<exists>t. sim_sys_step\<^sup>*\<^sup>* s t \<and> sys_rpc t i = Rpc_idle"
proof -
  obtain t where t: "sim_sys_step\<^sup>*\<^sup>* s t" "settled (sys_ctl t) (sys_bus t)" "sys_rpc t = sys_rpc s"
    using run_settles[OF assms(1,2)] .
  have "sim_sys_step t (t\<lparr>sys_rpc := (sys_rpc t)(i := Rpc_idle)\<rparr>)"
    using t(3) assms(3) settled_simps(1)[OF t(2)] by (intro sys_step.update_return) simp_all
  with t(1) have "sim_sys_step\<^sup>*\<^sup>* s (t\<lparr>sys_rpc := (sys_rpc t)(i := Rpc_idle)\<rparr>)" by simp
  then show ?thesis by (intro exI[of _ "t\<lparr>sys_rpc := (sys_rpc t)(i := Rpc_idle)\<rparr>"]) simp
qed

text \<open>
  C15. Only an \<^verbatim>\<open>Update\<close> makes the controller write: in every run of the loop, any number of RPC
  threads, \<^verbatim>\<open>Shutdown\<close>, the remote and a unit whose error bit comes and goes, from any reachable
  state, there are at most as many frames with the write bit as there were \<^verbatim>\<open>Update\<close> calls that set
  something, and one more if a change was still to be written at its start. (What the remote
  changes is never written back, and no change is written twice.)
\<close>

theorem writes_are_requested:
  assumes "unit_reachable s" and "request_run sim_ReadMasterFrame sim_WriteControllerFrame unit_env n s t"
  shows "\<exists>fs. sys_wire t = fs @ sys_wire s \<and>
    length (filter cf_WriteBit fs) \<le> n + (if ac_merged (ctl_state (sys_ctl s)) then 0 else 1)"
proof -
  have "sys_inv sim_ok next_query_register s" using unit_bus.reachable_inv[OF assms(1)] by simp
  from unit_bus.write_run[OF assms(2) this] show ?thesis
    by (cases "ac_merged (ctl_state (sys_ctl s))") auto
qed

theorem writes_are_requested_witness:
  "\<exists>s t fs. unit_reachable s \<and> quiet_run 6 s t \<and> ready (sys_ctl t) \<and> sys_wire t = fs @ sys_wire s \<and>
    length (filter cf_WriteBit fs) \<le> 1"
proof -
  obtain s where s: "sim_reachable s" "\<not> shutdown (sys_ctl s)" "\<not> ac_merged (ctl_state (sys_ctl s))"
    using pending_example by metis
  obtain t where t: "quiet_run 6 s t" using quiet_runs_exist[OF reachable_on_course[OF s(1,2)]] by blast
  have "ready (sys_ctl t)" using quiet_run_settles(1)[OF s(1,2) t] settled_simps(1) by simp
  with writes_are_requested[OF sim_unit_reachable[OF s(1)] quiet_request[OF t]] s(3) t
    sim_unit_reachable[OF s(1)] show ?thesis by auto
qed

text \<open>
  C16. The first answers are true, whatever the scheduler does: from any reachable running state
  in which nothing is to be written, the controller is not ready yet and the loop holds no frame,
  in every run in which nobody calls \<^verbatim>\<open>Update\<close> or \<^verbatim>\<open>Shutdown\<close> and nobody touches the remote, the
  controller is ready after six handled frames, and from the moment it is, \<^verbatim>\<open>GetStatus\<close> answers
  with the unit's settings, which are those it had.
\<close>

theorem first_answer_is_true:
  assumes "sim_reachable s" and "\<not> shutdown (sys_ctl s)" and "ac_merged (ctl_state (sys_ctl s))"
    and "\<not> ready (sys_ctl s)" and "in_hand s = 0" and "quiet_run n s t"
  shows "(6 \<le> n \<longrightarrow> ready (sys_ctl t)) \<and>
    (ready (sys_ctl t) \<longrightarrow> GetStatus (sys_ctl t) = Some (unit_message (unit_view (sys_bus t))) \<and>
       settings (unit_view (sys_bus t)) = settings (unit_view (sys_bus s)))"
  using quiet_run_settles[OF assms(1,2,6)] settled_simps(1) first_status[OF assms(1,3-6)] assms(3)
  by (auto simp: target_def)

theorem first_answer_is_true_witness:
  "\<exists>t. quiet_run 6 (sys_init FujiAcUnitSim_init) t \<and>
    GetStatus (sys_ctl t) = Some (unit_message (unit_view (sys_bus t)))"
proof -
  let ?i = "sys_init FujiAcUnitSim_init"
  have i: "\<not> shutdown (sys_ctl ?i)" "ac_merged (ctl_state (sys_ctl ?i))" "\<not> ready (sys_ctl ?i)" "in_hand ?i = 0"
    by (simp_all add: sys_init_def FujiAcState_init_def in_hand_def)
  obtain t where t: "quiet_run 6 ?i t"
    using quiet_runs_exist[OF reachable_on_course[OF sim_reachable_init i(1)]] by blast
  with first_answer_is_true[OF sim_reachable_init i t] show ?thesis by auto
qed

text \<open>
  C28. An \<^verbatim>\<open>Update\<close> (or \<^verbatim>\<open>GetStatus\<close>) that waits when \<^verbatim>\<open>Shutdown\<close> is called never returns, over
  any serial interface: if the controller is not ready and the loop is at its test of the flag,
  \<^verbatim>\<open>Shutdown\<close> can be called, the loop thread then leaves its loop, and in no run of all threads after
  it the call returns, the controller gets ready or a frame is written; and a call made after it,
  which has the loop thread take any number of turns, does not return either.
\<close>

theorem update_hangs_after_shutdown:
  assumes "sys_pc s = At_check" and "\<not> shutdown (sys_ctl s)" and "\<not> ready (sys_ctl s)"
    and "sys_rpc s i \<noteq> Rpc_idle"
  shows "\<exists>s'. sys_step rd wr env s s' \<and> Shutdown (sys_ctl s) = Inr (sys_ctl s') \<and>
    (\<exists>t. (sys_step rd wr env)\<^sup>*\<^sup>* s' t \<and> sys_pc t = Exited) \<and>
    (\<forall>t. (sys_step rd wr env)\<^sup>*\<^sup>* s' t \<longrightarrow>
       sys_rpc t i = sys_rpc s i \<and> \<not> ready (sys_ctl t) \<and> sys_wire t = sys_wire s \<and>
       (\<forall>n ns. Service_Update rd wr n ns (sys_pc t, sys_ctl t, sys_bus t) = None))"
proof -
  let ?c = "(sys_ctl s)\<lparr>shutdown := True\<rparr>" let ?s = "s\<lparr>sys_ctl := ?c\<rparr>"
  have c: "Shutdown (sys_ctl s) = Inr ?c" using assms(2) by (simp add: Shutdown_def)
  then have 1: "sys_step rd wr env s ?s" by (rule sys_step.shutdown_call)
  have 2: "sys_step rd wr env ?s (?s\<lparr>sys_pc := Exited\<rparr>)" using assms(1) by (intro sys_step.check_exit) simp_all
  have d: "doomed ?s" using assms by (simp add: doomed_def)
  have blocked: "Service_Update rd wr n ns (sys_pc t, sys_ctl t, sys_bus t) = None" if "doomed t" for t n ns
    using that Await_shut_down[of "Update_begin ns (sys_ctl t)" "sys_pc t" rd wr n "sys_bus t"]
    by (simp add: Service_Update_def Controller_Update_def doomed_def)
  show ?thesis
  proof (rule exI[of _ ?s], intro conjI allI impI)
    show "\<exists>t. (sys_step rd wr env)\<^sup>*\<^sup>* ?s t \<and> sys_pc t = Exited"
      by (rule exI[of _ "?s\<lparr>sys_pc := Exited\<rparr>"]) (use r_into_rtranclp[of "sys_step rd wr env", OF 2] in simp)
    fix t assume "(sys_step rd wr env)\<^sup>*\<^sup>* ?s t"
    note r = doomed_run[OF this d, of i]
    show "sys_rpc t i = sys_rpc s i" "sys_wire t = sys_wire s" using r assms(4) by simp_all
    show "\<not> ready (sys_ctl t)" using r by (simp add: doomed_def)
    show "Service_Update rd wr n ns (sys_pc t, sys_ctl t, sys_bus t) = None" for n ns using blocked r by blast
  qed (use 1 c in simp_all)
qed

theorem update_hangs_after_shutdown_witness:
  "\<exists>s t ns. sim_reachable s \<and> sim_sys_step\<^sup>*\<^sup>* s t \<and> sys_rpc s 0 = In_Update ns \<and> sys_pc t = Exited \<and>
    (\<forall>u. sim_sys_step\<^sup>*\<^sup>* t u \<longrightarrow> sys_rpc u 0 = In_Update ns)"
proof -
  let ?i = "sys_init FujiAcUnitSim_init" and ?ns = ACUnitState_default
  let ?s = "?i\<lparr>sys_ctl := Update_begin ?ns (sys_ctl ?i), sys_rpc := (sys_rpc ?i)(0 := In_Update ?ns)\<rparr>"
  have s: "sim_reachable ?s"
    by (rule reach_step[OF sim_reachable_init sys_step.update_call[where ns = ?ns]]) (simp add: sys_init_def)
  have "sys_pc ?s = At_check" "\<not> shutdown (sys_ctl ?s)" "\<not> ready (sys_ctl ?s)" "sys_rpc ?s 0 \<noteq> Rpc_idle"
    by (simp_all add: sys_init_def)
  from update_hangs_after_shutdown[OF this, of sim_ReadMasterFrame sim_WriteControllerFrame sim_env]
  obtain r t where r: "sim_sys_step ?s r" "sim_sys_step\<^sup>*\<^sup>* r t" "sys_pc t = Exited"
    and hang: "\<And>u. sim_sys_step\<^sup>*\<^sup>* r u \<Longrightarrow> sys_rpc u 0 = sys_rpc ?s 0" by blast
  have "sys_rpc u 0 = In_Update ?ns" if "sim_sys_step\<^sup>*\<^sup>* t u" for u
    using hang[OF rtranclp_trans[OF r(2) that]] by simp
  with s r converse_rtranclp_into_rtranclp[of sim_sys_step, OF r(1,2)] show ?thesis
    by (intro exI[of _ ?s] exI[of _ t] exI[of _ ?ns]) simp
qed

text \<open>
  C3. Concurrent calls look atomic: in every run of any number of RPC threads with the loop, from
  a reachable state in which the controller knows the unit's settings or has a change to write,
  each \<^verbatim>\<open>GetStatus\<close> answers with the settings that the \<^verbatim>\<open>Update\<close> calls made so far, in the order of
  their calls, make of the first ones; and whenever the controller is ready, the unit has them.
  (Mode, power and fan always, and the set point as long as no unit in FAN mode and no set point
  of 128 or more is involved.)
\<close>

theorem calls_are_atomic:
  assumes "sim_reachable s" and "knows_settings s" and "traced es s t"
  shows "atomic (object_of s) es \<and>
    (ready (sys_ctl t) \<longrightarrow> (case object_after es (object_of s) of (b, q) \<Rightarrow>
       sim_Mode (sys_bus t) = ac_mode q \<and> sim_Enabled (sys_bus t) = ac_enabled q \<and>
       sim_Fan (sys_bus t) = ac_fan q \<and> sim_Swing (sys_bus t) = ac_swing q \<and>
       (b \<longrightarrow> sim_Temperature (sys_bus t) = ac_temperature q)))"
proof -
  obtain b q where bq: "object_after es (object_of s) = (b, q)" by fastforce
  from traced_implements[OF assms(3) knows_implements[OF assms(1,2)]] have "atomic (object_of s) es" ..
  with traced_ready(1)[OF assms(1-3) _ bq] show ?thesis
    by (simp add: bq unit_shows_def sim_getters_view)
qed

theorem calls_are_atomic_witness:
  "\<exists>s es t. traced (Updated \<lparr>pb_mode = MODE_HEAT, pb_fan = FAN_UNKNOWN, pb_setpoint_temperature = 0\<rparr> #
        Updated \<lparr>pb_mode = MODE_UNKNOWN, pb_fan = FAN_LOW, pb_setpoint_temperature = 21\<rparr> # es) s t \<and>
     ready (sys_ctl t) \<and> sim_Mode (sys_bus t) = mode_HEAT \<and> sim_Fan (sys_bus t) = fan_LOW \<and>
     sim_Temperature (sys_bus t) = 21"
proof -
  let ?m = "\<lparr>pb_mode = MODE_HEAT, pb_fan = FAN_UNKNOWN, pb_setpoint_temperature = 0\<rparr>"
    and ?f = "\<lparr>pb_mode = MODE_UNKNOWN, pb_fan = FAN_LOW, pb_setpoint_temperature = 21\<rparr>"
  let ?i = "sys_init FujiAcUnitSim_init"
    and ?p = "\<lparr>pb_mode = MODE_COOL, pb_fan = FAN_MAX, pb_setpoint_temperature = 25\<rparr>"
  let ?s = "?i\<lparr>sys_ctl := Update_begin ?p (sys_ctl ?i), sys_rpc := (sys_rpc ?i)(0 := In_Update ?p)\<rparr>"
  let ?a = "?s\<lparr>sys_ctl := Update_begin ?m (sys_ctl ?s), sys_rpc := (sys_rpc ?s)(1 := In_Update ?m)\<rparr>"
  let ?b = "?a\<lparr>sys_ctl := Update_begin ?f (sys_ctl ?a), sys_rpc := (sys_rpc ?a)(2 := In_Update ?f)\<rparr>"
  have i: "sys_rpc ?i 0 = Rpc_idle" "sys_rpc ?s 1 = Rpc_idle" "sys_rpc ?a 2 = Rpc_idle"
    by (simp_all add: sys_init_def)
  have s: "sim_reachable ?s" by (rule reach_step[OF sim_reachable_init sys_step.update_call[where ns = ?p, OF i(1)]])
  have a: "sim_reachable ?a" by (rule reach_step[OF s sys_step.update_call[where ns = ?m, OF i(2)]])
  have b: "sim_reachable ?b" by (rule reach_step[OF a sys_step.update_call[where ns = ?f, OF i(3)]])
  have sd: "\<not> shutdown (sys_ctl ?b)" by (simp add: sys_init_def)
  obtain t where t: "quiet_run 6 ?b t" using quiet_runs_exist[OF reachable_on_course[OF b sd]] by blast
  obtain es where es: "traced es ?b t" "\<forall>ns. Updated ns \<notin> set es" using quiet_traced[OF t] by blast
  have run: "traced (Updated ?m # Updated ?f # es) ?s t"
    using traced_trans[OF es(1) traced_trans[OF traced_update[OF i(3), of ?f] traced_update[OF i(2), of ?m]]] by simp
  have k: "knows_settings ?s" by (simp add: knows_settings_def is_request_def sys_init_def)
  have rd: "ready (sys_ctl t)" using quiet_run_settles(1)[OF b sd t] settled_simps(1) by simp
  have "object_after (Updated ?m # Updated ?f # es) (object_of ?s) =
      object_after [Updated ?m, Updated ?f] (object_of ?s)"
    using no_update_same[OF es(2)] by (simp add: object_after_def)
  also have "\<dots> = (True, requested_state ?f (requested_state ?m (requested_state ?p FujiAcState_init)))"
    by (simp add: object_after_def object_of_def sys_init_def shows_set_point_def requested_state_def
        FujiAcState_init_def Let_def)
  finally show ?thesis
    using calls_are_atomic[OF s k run] rd run
    by (intro exI[of _ ?s] exI[of _ es] exI[of _ t]) (simp add: requested_state_def)
qed

text \<open>
  C21. The login happens once: from a reachable state in which the controller has logged in and the
  unit's next frame is a STATUS frame, in every run of all threads and the remote, the unit keeps it
  registered and every frame the controller writes asks for the STATUS register.
\<close>

theorem logs_in_once:
  assumes "sim_reachable s" and "next_query_register (sys_bus s) = reg_STATUS"
    and "\<not> login_read (client (sys_ctl s))" and "sim_sys_step\<^sup>*\<^sup>* s t"
  shows "v_present (unit_view (sys_bus t)) \<and> \<not> login_read (client (sys_ctl t)) \<and>
    (\<exists>fs. sys_wire t = fs @ sys_wire s \<and> (\<forall>f \<in> set fs. cf_QueryRegister f = reg_STATUS))"
  using logged_in_run[OF assms(4,1-3)] reachable_logged_in[OF reachable_run[OF assms(4,1)]]
  by (simp add: logged_in_def)

theorem logs_in_once_witness:
  "\<exists>s t fs. quiet_run 5 s t \<and> v_present (unit_view (sys_bus t)) \<and>
     sys_wire t = fs @ sys_wire s \<and> list_all (\<lambda>f. cf_QueryRegister f = reg_STATUS) fs"
proof -
  obtain s where s: "sim_reachable s" "\<not> shutdown (sys_ctl s)" "settled (sys_ctl s) (sys_bus s)"
    using settled_example .
  have q: "next_query_register (sys_bus s) = reg_STATUS" "\<not> login_read (client (sys_ctl s))"
    using reachable_logged_in[OF s(1)] settled_simps(1)[OF s(3)] by (simp_all add: logged_in_def)
  obtain t where t: "quiet_run 5 s t" using quiet_runs_exist[OF reachable_on_course[OF s(1,2)]] by blast
  from logs_in_once[OF s(1) q quiet_sim_run[OF t]] t show ?thesis by (auto simp: list_all_iff)
qed

section \<open>The serial line\<close>

text \<open>
  On the half-duplex line the controller reads its own frames back. An iteration that reads
  the bytes of the frame it has just written changes nothing, in the controller and on the bus.
\<close>

lemma own_echo_is_ignored:
  assumes "handle_frame mf c = (Some f, c')" and "os_read t = ((8, flip_bytes (cf_data f)), t')"
  shows "loop_body (reader_ReadMasterFrame os_read) wr (c', t) = Inr (c', t')"
proof -
  obtain h where "HandleMasterFrame mf (client c) = (Some f, h)"
    using assms(1) by (auto simp: handle_frame_Some)
  then have "mf_Destination (MasterFrame (cf_data f)) \<noteq> dest_WIRED_CONTROLLER_ADDR"
    and "length (cf_data f) = 8"
    using handle_answer_ok(1) by (auto dest: echo_destination simp: cf_ok_def echo_harmless_def)
  then show ?thesis
    using assms(2)
    by (simp add: loop_body_def reader_ReadMasterFrame_def flip_flip handle_frame_def handle_not_for_us
        write_answer_def)
qed

lemma first_answer: "fst (handle_frame status_for_us MakeFujiAcController) = Some SendLoginFrame"
  by (simp add: handle_frame_def MakeFujiAcController_def handle_status after_status_def
      UpdateFromMaster_eq Handler_init_def FujiAcState_init_def read_state_def for_us_status Let_def)

text \<open>
  Noise does no harm: as long as the reads of the device return fewer than eight bytes, the
  loop goes on, writes nothing and leaves the controller as it is.
\<close>

lemma incomplete_reads_are_skipped:
  assumes "\<forall>t. 0 \<le> fst (fst (os_read t)) \<and> fst (fst (os_read t)) < 8"
  shows "loop_iters (reader_ReadMasterFrame os_read) wr n (c, t) = Inr (c, ((\<lambda>t. snd (os_read t)) ^^ n) t)"
proof (induction n arbitrary: t)
  case 0
  then show ?case by simp
next
  case (Suc n)
  have "loop_body (reader_ReadMasterFrame os_read) wr (c, t) = Inr (c, snd (os_read t))"
    using assms[rule_format, of t]
    by (cases "os_read t") (auto simp: loop_body_def reader_ReadMasterFrame_def Let_def split: prod.splits)
  with Suc show ?case by (simp add: funpow_Suc_right del: funpow.simps)
qed

text \<open>The device fails in the next iteration, with the message \<open>e\<close>.\<close>

definition device_fails ::
    "('t \<Rightarrow> (int \<times> bytes) \<times> 't) \<Rightarrow> (bytes \<Rightarrow> 't \<Rightarrow> int \<times> 't) \<Rightarrow> FujiAcController \<Rightarrow> 't \<Rightarrow> string \<Rightarrow> bool" where
  "device_fails os_read os_write c t e \<longleftrightarrow>
     (let ((n, buf), t') = os_read t in
      if n < 0 then e = ''Failed to read from device''
      else 8 \<le> n \<and>
        (case fst (handle_frame (MasterFrame (flip_bytes buf)) c) of
           None \<Rightarrow> False
         | Some f \<Rightarrow> fst (os_write (flip_bytes (cf_data f)) t') \<noteq> 8 \<and> e = ''Failed to write to device''))"

lemma loop_body_device_fails:
  "loop_body (reader_ReadMasterFrame os_read) (reader_WriteControllerFrame os_write) (c, t) = Inl e \<longleftrightarrow>
     device_fails os_read os_write c t e"
proof -
  obtain n buf t' where o: "os_read t = ((n, buf), t')" by (metis prod.exhaust)
  obtain cf c' where h: "handle_frame (MasterFrame (flip_bytes buf)) c = (cf, c')" by fastforce
  show ?thesis
    by (cases cf)
      (auto simp: device_fails_def loop_body_def reader_ReadMasterFrame_def reader_WriteControllerFrame_def
        write_answer_def cf_FullFrame_def o h split: prod.splits)
qed

lemma DoLoop_fails:
  assumes "\<not> shutdown c"
  shows "DoLoop rd wr n (c, w) = Some (Inl e) \<longleftrightarrow>
    (\<exists>k<n. \<exists>c' w'. loop_iters rd wr k (c, w) = Inr (c', w') \<and> loop_body rd wr (c', w') = Inl e)"
  using assms
proof (induction n arbitrary: c w)
  case 0
  then show ?case by simp
next
  case (Suc n)
  show ?case
  proof (cases "loop_body rd wr (c, w)")
    case (Inl e')
    have "k = 0 \<and> s = (c, w)" if "loop_iters rd wr k (c, w) = Inr s" for k s using that Inl by (cases k) simp_all
    then have "(\<exists>k<Suc n. \<exists>c' w'. loop_iters rd wr k (c, w) = Inr (c', w') \<and> loop_body rd wr (c', w') = Inl e) \<longleftrightarrow>
        e' = e" using Inl by force
    with Inl Suc.prems show ?thesis by simp
  next
    case (Inr s)
    obtain c1 w1 where s: "s = (c1, w1)" by fastforce
    have "\<not> shutdown c1" using loop_body_shutdown[of rd wr c w c1 w1] Inr s Suc.prems by simp
    from Suc.IH[OF this, of w1] show ?thesis
      using Suc.prems Inr s
      by (auto simp: Ex_less_Suc2)
  qed
qed

text \<open>
  C35. A device error ends the process with its message, and nothing else does: the loop on the tty,
  with the flag not set and \<open>n\<close> iterations allowed, ends with a fatal error exactly when after
  some number of iterations the device fails, that is, a read returns a negative value, whatever
  is in the buffer, or a read of all eight bytes gives a frame that has an answer and the write of
  that answer returns other than eight; and the message says which.
\<close>

theorem device_errors_are_fatal:
  assumes "\<not> shutdown c"
  shows "DoLoop (reader_ReadMasterFrame os_read) (reader_WriteControllerFrame os_write) n (c, t) = Some (Inl e) \<longleftrightarrow>
    (\<exists>k<n. \<exists>c' t'. loop_iters (reader_ReadMasterFrame os_read) (reader_WriteControllerFrame os_write) k (c, t) =
       Inr (c', t') \<and> device_fails os_read os_write c' t' e)"
  by (simp only: DoLoop_fails[OF assms] loop_body_device_fails)

theorem device_errors_are_fatal_witness:
  "DoLoop (reader_ReadMasterFrame (\<lambda>t. ((- 1, []), t))) (reader_WriteControllerFrame (\<lambda>d t. (8, t))) 1
     (MakeFujiAcController, ()) = Some (Inl ''Failed to read from device'') \<and>
   DoLoop (reader_ReadMasterFrame (\<lambda>t. ((8, flip_bytes (mf_data status_for_us)), t)))
     (reader_WriteControllerFrame (\<lambda>d t. (3, t))) 1 (MakeFujiAcController, ()) =
     Some (Inl ''Failed to write to device'')"
proof -
  have i: "\<not> shutdown MakeFujiAcController" by simp
  let ?r = "\<lambda>t :: unit. ((- 1 :: int, [] :: bytes), t)" and ?w = "\<lambda>(d :: bytes) (t :: unit). (8 :: int, t)"
    and ?R = "\<lambda>t :: unit. ((8 :: int, flip_bytes (mf_data status_for_us)), t)" and ?W = "\<lambda>(d :: bytes) (t :: unit). (3 :: int, t)"
  have r: "device_fails ?r ?w MakeFujiAcController () ''Failed to read from device''"
    by (simp add: device_fails_def)
  have w: "device_fails ?R ?W MakeFujiAcController () ''Failed to write to device''"
    by (simp add: device_fails_def first_answer)
  have fails: "\<exists>k<1. \<exists>c' t'. loop_iters (reader_ReadMasterFrame os_r) (reader_WriteControllerFrame os_w) k (MakeFujiAcController, ()) =
      Inr (c', t') \<and> device_fails os_r os_w c' t' e" if "device_fails os_r os_w MakeFujiAcController () e" for os_r os_w e
    using that by (intro exI[of _ 0]) simp
  show ?thesis
    by (intro conjI) (rule device_errors_are_fatal[OF i, THEN iffD2, OF fails[OF r]],
      rule device_errors_are_fatal[OF i, THEN iffD2, OF fails[OF w]])
qed

section \<open>Services and clients\<close>

text \<open>
  C8. The \<^verbatim>\<open>Update\<close> call of the simulator service returns OK from every reachable state in which the
  controller is not shut down, wherever its loop thread is, after at most five turns of that
  thread, and one more if it holds a frame; and what the response says is true: its mode and fan
  are those of the request where the request sets them, and they are the unit's, unless the request
  sets nothing and the loop held a frame (which may show what the unit had before a key of the
  remote).
\<close>

theorem service_update_echoes_request:
  assumes "sim_reachable s" and "\<not> shutdown (sys_ctl s)" and "5 + in_hand s \<le> n"
  shows "\<exists>m c' u'. SimService_Update n ns (sys_pc s, sys_ctl s, sys_bus s) =
      Some (Inr ((grpc_OK, Some m), At_check, c', u')) \<and>
    (is_request ns \<or> in_hand s = 0 \<longrightarrow>
       pb_mode m = pb_mode (unit_message (unit_view u')) \<and> pb_fan m = pb_fan (unit_message (unit_view u'))) \<and>
    (sets_mode ns \<longrightarrow> pb_mode m = pb_mode ns) \<and>
    (sets_fan ns \<longrightarrow> pb_fan m = pb_fan ns)"
proof -
  note inv = reachable_closed_inv[OF assms(1)]
  have n: "5 + frames_in_hand (sys_pc s) \<le> n" using assms(3) by (simp add: in_hand_pc)
  obtain c' u' where r: "SimService_Update n ns (sys_pc s, sys_ctl s, sys_bus s) =
      Some (Inr ((grpc_OK, Some (status_message (ctl_state c'))), At_check, c', u'))"
    and sh: "is_request ns \<or> frames_in_hand (sys_pc s) = 0 \<longrightarrow> shows_unit c' u'"
    and t: "target (Update_begin ns (sys_ctl s)) (sys_bus s) = settings (unit_view u')"
    using Service_Update_sim[OF conjunct1[OF inv] conjunct2[OF inv] running[OF assms(1,2)] assms(2) n] by metis
  let ?m = "status_message (ctl_state c')" and ?q = "requested_state ns (ctl_state (sys_ctl s))"
  have agree: "ac_mode (ctl_state c') = v_mode (unit_view u')"
    "ac_enabled (ctl_state c') = v_enabled (unit_view u')" "ac_fan (ctl_state c') = v_fan (unit_view u')"
    if "is_request ns \<or> in_hand s = 0"
    using sh that by (auto simp: shows_unit_def in_hand_pc)
  have "pb_mode ?m = pb_mode ns" if "sets_mode ns"
    using message_echo(1)[OF that] target_update_settings[OF sets_is_request(1)[OF that] t] agree
      sets_is_request(1)[OF that] by metis
  moreover have "pb_fan ?m = pb_fan ns" if "sets_fan ns"
    using message_echo(2)[OF that] target_update_settings[OF sets_is_request(2)[OF that] t] agree
      sets_is_request(2)[OF that] by metis
  moreover have "pb_mode ?m = pb_mode (unit_message (unit_view u')) \<and> pb_fan ?m = pb_fan (unit_message (unit_view u'))"
    if "is_request ns \<or> in_hand s = 0"
    by (simp add: unit_message_def pb_mode_message pb_fan_message agree[OF that])
  ultimately show ?thesis using r by (intro exI[of _ ?m] exI[of _ c'] exI[of _ u']) simp
qed

theorem service_update_echoes_request_witness:
  "\<exists>m c' u'. SimService_Update 5
      \<lparr>pb_mode = MODE_HEAT, pb_fan = FAN_LOW, pb_setpoint_temperature = 22\<rparr> (At_check, SimServiceImpl) =
      Some (Inr ((grpc_OK, Some m), At_check, c', u')) \<and> pb_mode m = MODE_HEAT \<and> pb_fan m = FAN_LOW"
  using service_update_echoes_request[OF sim_reachable_init, of 5
      "\<lparr>pb_mode = MODE_HEAT, pb_fan = FAN_LOW, pb_setpoint_temperature = 22\<rparr>"]
  by (auto simp: sys_init_def SimServiceImpl_def sets_mode_def sets_fan_def in_hand_def)

text \<open>
  C17. The real service is as good as the simulator service: on any half-duplex line on which whole
  frames arrive, with or without echo, that is free when the call is made and has a main unit at its
  other end, an \<^verbatim>\<open>Update\<close> from any reachable running state, wherever the loop thread is, gives the
  same answer and leaves the same controller and unit, in twice as many turns at most. (The line is
  the parameters \<open>os_read\<close>, \<open>os_write\<close>, of which the contracts of \<open>Real_Line\<close> are assumed.)
\<close>

theorem real_service_like_sim_service:
  assumes "read_contract os_read on_line main_unit fd" and "write_contract os_write on_line main_unit fd"
    and "whole_frames os_read os_write on_line main_unit fd"
    and "sim_reachable s" and "\<not> shutdown (sys_ctl s)" and "5 + in_hand s \<le> n"
    and "main_unit t = sys_bus s" and "on_line t = []"
  shows "\<exists>m c' u' t'.
    SimService_Update n ns (sys_pc s, sys_ctl s, sys_bus s) = Some (Inr ((grpc_OK, Some m), At_check, c', u')) \<and>
    Service_Update (real_ReadMasterFrame os_read) (real_WriteControllerFrame os_write) (2 * n) ns
      (sys_pc s, sys_ctl s, fd, t) = Some (Inr ((grpc_OK, Some m), At_check, c', fd, t')) \<and> main_unit t' = u'"
proof -
  note inv = reachable_closed_inv[OF assms(4)]
  have n: "5 + frames_in_hand (sys_pc s) \<le> n" using assms(6) by (simp add: in_hand_pc)
  show ?thesis
    using Service_Update_line[OF assms(1-3) conjunct1[OF inv] conjunct2[OF inv] running[OF assms(4,5)] assms(5) n
      assms(7,8)] by metis
qed

theorem real_service_like_sim_service_witness:
  "\<exists>m c' u' t'. SimService_Update 5 ACUnitState_default
      (At_check, SimServiceImpl) = Some (Inr ((grpc_OK, Some m), At_check, c', u')) \<and>
    Service_Update (real_ReadMasterFrame tty_read) (real_WriteControllerFrame tty_write) 10
      ACUnitState_default (At_check, MakeFujiAcController, 3, tty_start) =
      Some (Inr ((grpc_OK, Some m), At_check, c', 3, t')) \<and> tty_unit t' = u'"
  using real_service_like_sim_service[OF tty_contracts sim_reachable_init, of 5 tty_start ACUnitState_default]
  by (simp add: sys_init_def SimServiceImpl_def in_hand_def)



text \<open>
  C33. A service call is a run of the concurrent system, over any serial interface: when \<^verbatim>\<open>Update\<close>
  answers, from whatever state of the threads, that system can make the call, let the loop thread
  go on, and return, and then has the controller and bus the call leaves; and the answer is OK,
  with the settings of a controller that is ready. So the branch that reports \<^verbatim>\<open>INTERNAL\<close> is dead:
  the call answers OK, or the process ends, or it blocks.
\<close>

theorem service_update_is_a_run:
  assumes "sys_rpc s i = Rpc_idle"
    and "Service_Update rd wr n ns (sys_pc s, sys_ctl s, sys_bus s) = Some (Inr ((st, response), pc, c, w))"
  shows "st = grpc_OK \<and> response = Some (status_message (ctl_state c)) \<and> ready c \<and>
    (\<exists>fs. (sys_step rd wr env)\<^sup>*\<^sup>* s (s\<lparr>sys_ctl := c, sys_bus := w, sys_pc := pc, sys_wire := fs\<rparr>))"
proof -
  let ?s = "s\<lparr>sys_ctl := Update_begin ns (sys_ctl s), sys_rpc := (sys_rpc s)(i := In_Update ns)\<rparr>"
  obtain pc1 c1 w1 where A: "Await rd wr n (sys_pc s, Update_begin ns (sys_ctl s), sys_bus s) = Some (Inr (pc1, c1, w1))"
    and r: "st = grpc_OK \<and> response = Some (status_message (ctl_state c)) \<and>
      Await rd wr n (pc1, c1, w1) = Some (Inr (pc, c, w))"
    using assms(2) by (auto simp: Service_Update_def Controller_Update_def Controller_GetStatus_def
        split: option.splits sum.splits)
  have rd: "ready c1" using Await_returns_ready[OF A] by simp
  with r have eq: "pc1 = pc" "c1 = c" "w1 = w" by (simp_all add: Await_ready)
  from Await_run[of rd wr n ?s, where env = env] A eq obtain fs where
    run: "(sys_step rd wr env)\<^sup>*\<^sup>* ?s (?s\<lparr>sys_ctl := c, sys_bus := w, sys_pc := pc, sys_wire := fs\<rparr>)" by fastforce
  let ?t = "?s\<lparr>sys_ctl := c, sys_bus := w, sys_pc := pc, sys_wire := fs\<rparr>"
  have "sys_step rd wr env ?t (?t\<lparr>sys_rpc := (sys_rpc ?t)(i := Rpc_idle)\<rparr>)"
    using rd eq by (intro sys_step.update_return[where ns = ns]) simp_all
  moreover have "?t\<lparr>sys_rpc := (sys_rpc ?t)(i := Rpc_idle)\<rparr> = s\<lparr>sys_ctl := c, sys_bus := w, sys_pc := pc, sys_wire := fs\<rparr>"
    using assms(1) by (cases s) auto
  ultimately have "(sys_step rd wr env)\<^sup>*\<^sup>* ?s (s\<lparr>sys_ctl := c, sys_bus := w, sys_pc := pc, sys_wire := fs\<rparr>)"
    using run by (metis rtranclp.rtrancl_into_rtrancl)
  with sys_step.update_call[where ns = ns, OF assms(1)] r rd eq show ?thesis
    by (meson converse_rtranclp_into_rtranclp)
qed

theorem service_update_is_a_run_witness:
  "\<exists>c w fs. ready c \<and> sim_sys_step\<^sup>*\<^sup>* (sys_init FujiAcUnitSim_init)
    ((sys_init FujiAcUnitSim_init)\<lparr>sys_ctl := c, sys_bus := w, sys_pc := At_check, sys_wire := fs\<rparr>)"
proof -
  let ?i = "sys_init FujiAcUnitSim_init"
  have sd: "\<not> shutdown (sys_ctl ?i)" and n: "5 + frames_in_hand (sys_pc ?i) \<le> 5" and i: "sys_rpc ?i 0 = Rpc_idle"
    by (simp_all add: sys_init_def)
  note inv = reachable_closed_inv[OF sim_reachable_init]
  obtain c' u' where "SimService_Update 5 ACUnitState_default (sys_pc ?i, sys_ctl ?i, sys_bus ?i) =
      Some (Inr ((grpc_OK, Some (status_message (ctl_state c'))), At_check, c', u'))"
    by (rule Service_Update_sim[OF conjunct1[OF inv] conjunct2[OF inv] running[OF sim_reachable_init sd] sd n])
  from service_update_is_a_run[OF i this[unfolded SimService_Update_def], of sim_env] show ?thesis by blast
qed

lemma service_update_start:
  obtains c' u' where "SimService_Update 5 ns (At_check, SimServiceImpl) =
      Some (Inr ((grpc_OK, Some (status_message (ctl_state c'))), At_check, c', u'))"
    "target (Update_begin ns MakeFujiAcController) FujiAcUnitSim_init = settings (unit_view u')"
  by (rule Service_Update_sim[OF closed_inv_init, of At_check 5 ns])
    (use that in \<open>simp_all add: SimServiceImpl_def\<close>)

text \<open>
  For one thread: the next STATUS frame after the error bit of the unit has changed is answered by
  a query for the ERROR register, and after it the controller stays as it is, and every later
  \<^verbatim>\<open>Update\<close> of the simulator service blocks, however many iterations it is given.
\<close>

lemma error_bit_stops_service:
  assumes "sim_ok u" and "next_query_register u = reg_STATUS" and "v_present (unit_view u)"
    and "ac_merged (ctl_state c)" and "\<not> login_read (client c)"
    and "v_error (unit_view u) \<noteq> ac_error_flag (ctl_state c)"
  shows "\<exists>c' u'. loop_body sim_ReadMasterFrame sim_WriteControllerFrame (c, u) = Inr (c', u') \<and>
    (\<forall>n. \<exists>u''. loop_iters sim_ReadMasterFrame sim_WriteControllerFrame n (c', u') = Inr (c', u'')) \<and>
    (\<forall>n ns. SimService_Update n ns (At_check, c', u') = None)"
proof -
  obtain c' u' where r: "loop_body sim_ReadMasterFrame sim_WriteControllerFrame (c, u) = Inr (c', u')"
    and u': "sim_ok u'" "next_query_register u' = reg_ERROR"
    using error_bit_asks[OF assms] .
  have "SimService_Update n ns (At_check, c', u') = None" for n ns
    using Await_error_register[OF u', of "Update_begin ns c'" At_check n]
    by (simp add: SimService_Update_def Service_Update_def Controller_Update_def)
  with r error_frames_ignored[OF u'] show ?thesis by blast
qed

text \<open>
  C29. Once the controller has asked for the unit's ERROR register, it never speaks again: in every
  continuation of every run of all its threads, whatever the remote and the unit's error bit do,
  no frame is written any more, and an \<^verbatim>\<open>Update\<close> that waits when the query was sent, or is called
  later, never returns. (The handler leaves ERROR frames unanswered, and the unit sends the
  register that was asked for last.)
\<close>

theorem error_register_livelock:
  assumes "unit_reachable s" and "sys_wire s = SendErrorQueryFrame # fs" and "unit_sys_step\<^sup>*\<^sup>* s t"
  shows "sys_wire t = sys_wire s \<and>
    (\<not> ready (sys_ctl s) \<and> sys_rpc s i = In_Update ns \<longrightarrow>
       \<not> ready (sys_ctl t) \<and> sys_rpc t i = In_Update ns)"
  using unit_bus.error_run[OF assms(3) error_query_inv[OF assms(1,2)], of i ns] by blast

theorem error_register_livelock_witness:
  "\<exists>s t fs. unit_reachable s \<and> sys_wire s = SendErrorQueryFrame # fs \<and> unit_sys_step\<^sup>*\<^sup>* s t \<and>
    sys_pc t = Reading \<and> sys_wire t = sys_wire s \<and> sys_rpc t 0 = In_Update ACUnitState_default"
proof -
  obtain s fs where s: "unit_reachable s" "sys_wire s = SendErrorQueryFrame # fs" "sys_pc s = At_check"
    "\<not> shutdown (sys_ctl s)" "sys_rpc s = (\<lambda>_. Rpc_idle)"
    using error_query_reachable .
  let ?ns = ACUnitState_default
  let ?t = "s\<lparr>sys_ctl := Update_begin ?ns (sys_ctl s), sys_rpc := (sys_rpc s)(0 := In_Update ?ns)\<rparr>"
  have i: "sys_rpc s 0 = Rpc_idle" using s(5) by simp
  have t: "unit_reachable ?t" by (rule reach_step[OF s(1) sys_step.update_call[where ns = ?ns, OF i]])
  have w: "sys_wire ?t = SendErrorQueryFrame # fs" and r: "\<not> ready (sys_ctl ?t) \<and> sys_rpc ?t 0 = In_Update ?ns"
    using s(2) by simp_all
  have "unit_sys_step ?t (?t\<lparr>sys_pc := Reading\<rparr>)"
    by (rule sys_step.check_continue) (simp_all add: s(3,4))
  then have run: "unit_sys_step\<^sup>*\<^sup>* ?t (?t\<lparr>sys_pc := Reading\<rparr>)" by (rule r_into_rtranclp)
  from error_register_livelock[OF t w run, of 0 ?ns] r t w run show ?thesis
    by (intro exI[of _ ?t] exI[of _ "?t\<lparr>sys_pc := Reading\<rparr>"] exI[of _ fs]) simp
qed

text \<open>
  C30. An interface that sends two LOGIN frames in a row makes the controller ready too early: the
  two answers are equal, so \<^verbatim>\<open>ready_\<close> is set, while the local change is still un-written and
  neither answer has the write bit. (The simulator never does this: a LOGIN answer asks for
  STATUS.)
\<close>

theorem repeated_login_is_ready_too_early:
  assumes "mf_Destination mf = dest_WIRED_CONTROLLER_ADDR" and "mf_Type mf = reg_LOGIN"
    and "\<not> ac_merged (ctl_state c)"
  shows "\<exists>f c1 c2. handle_frame mf c = (Some f, c1) \<and> handle_frame mf c1 = (Some f, c2) \<and>
    ready c2 \<and> \<not> ac_merged (ctl_state c2) \<and> \<not> cf_WriteBit f"
  using assms by (simp add: handle_frame_def handle_login)

theorem repeated_login_is_ready_too_early_witness:
  "\<exists>f c1 c2. handle_frame login_for_us (Update_begin \<lparr>pb_mode = MODE_HEAT, pb_fan = FAN_LOW,
       pb_setpoint_temperature = 22\<rparr> MakeFujiAcController) = (Some f, c1) \<and>
     handle_frame login_for_us c1 = (Some f, c2) \<and> ready c2 \<and> \<not> cf_WriteBit f"
  using repeated_login_is_ready_too_early[of login_for_us "Update_begin \<lparr>pb_mode = MODE_HEAT,
      pb_fan = FAN_LOW, pb_setpoint_temperature = 22\<rparr> MakeFujiAcController"]
  by (auto simp: is_request_def)

text \<open>
  C31. An \<^verbatim>\<open>Update\<close> before the first STATUS frame overwrites the unit with the controller's own
  defaults: a request for the LOW fan alone turns the simulated unit, which was in COOL mode at
  18 degrees, to AUTO mode at 20.
\<close>

theorem early_update_overwrites_unit:
  "sim_Mode FujiAcUnitSim_init = mode_COOL \<and> sim_Temperature FujiAcUnitSim_init = 18 \<and>
   (\<exists>r c' u'. SimService_Update 5
      \<lparr>pb_mode = MODE_UNKNOWN, pb_fan = FAN_LOW, pb_setpoint_temperature = 0\<rparr> (At_check, SimServiceImpl) =
      Some (Inr ((grpc_OK, r), At_check, c', u')) \<and>
    sim_Fan u' = fan_LOW \<and> sim_Mode u' = mode_AUTO \<and> sim_Temperature u' = 20)"
proof -
  let ?ns = "\<lparr>pb_mode = MODE_UNKNOWN, pb_fan = FAN_LOW, pb_setpoint_temperature = 0\<rparr>"
  have req: "is_request ?ns" by (simp add: is_request_def)
  obtain c' u' where r: "SimService_Update 5 ?ns (At_check, SimServiceImpl) =
      Some (Inr ((grpc_OK, Some (status_message (ctl_state c'))), At_check, c', u'))"
    and t: "target (Update_begin ?ns MakeFujiAcController) FujiAcUnitSim_init = settings (unit_view u')"
    using service_update_start by blast
  have "sim_Mode FujiAcUnitSim_init = mode_COOL" "sim_Temperature FujiAcUnitSim_init = 18"
    by (simp_all add: sim_getters FujiAcUnitSim_init_def getters_get get_field_def status_layout fld_byte
        decode_mode_def drop_bit_eq_div)
  with r target_update_settings[OF req t] show ?thesis
    by (auto simp: sim_getters_view requested_state_def FujiAcState_init_def)
qed

text \<open>
  C40. What the command line client can ask for: a set point outside 18..28 is not sent, so a
  client never triggers the overflow of \<^verbatim>\<open>SetTemperature\<close>; and \<^verbatim>\<open>--mode auto\<close> and \<^verbatim>\<open>--fan auto\<close>
  are as good as no flag, whatever the service.
\<close>

theorem client_requests:
  "(let t = pb_setpoint_temperature (client_request fl) in
      (t = 0 \<or> 18 \<le> t \<and> t \<le> 28) \<and> (ucast t :: byte) < 128) \<and>
   RunClient connect (fl\<lparr>FLAGS_mode := ''auto''\<rparr>) w = RunClient connect (fl\<lparr>FLAGS_mode := []\<rparr>) w \<and>
   RunClient connect (fl\<lparr>FLAGS_fan := ''auto''\<rparr>) w = RunClient connect (fl\<lparr>FLAGS_fan := []\<rparr>) w"
  using signed_range[of "FLAGS_setpoint fl"]
  by (auto simp: client_request_def ACUnitState_default_def RunClient_def Let_def)

text \<open>
  C19. From the command line to the unit: a client that reaches the simulator service, in any
  reachable state in which the controller is not shut down, wherever its loop thread is, is
  answered with a state after at most six turns of that thread (five if it holds no frame), and the
  unit is off if that was asked for, on and in the mode that was asked for otherwise, with the fan
  speed and the set point of the flags (18 degrees in FAN mode).
\<close>

theorem client_changes_unit:
  assumes "sim_reachable s" and "\<not> shutdown (sys_ctl s)" and "5 + in_hand s \<le> n"
  shows "\<exists>m c' u'. RunClient (service_stub n) fl (sys_pc s, sys_ctl s, sys_bus s) =
      (Response_Status (Some m), At_check, c', u') \<and>
    (FLAGS_mode fl = ''off'' \<longrightarrow> \<not> sim_Enabled u') \<and>
    (\<forall>mode. cli_mode (FLAGS_mode fl) = Some mode \<longrightarrow> sim_Enabled u' \<and> sim_Mode u' = mode) \<and>
    (\<forall>fan. cli_fan (FLAGS_fan fl) = Some fan \<longrightarrow> sim_Fan u' = fan) \<and>
    (18 \<le>s FLAGS_setpoint fl \<and> FLAGS_setpoint fl \<le>s 28 \<longrightarrow>
       sim_Temperature u' = (if sim_Mode u' = mode_FAN then 18 else ucast (FLAGS_setpoint fl)))"
proof -
  note inv = reachable_closed_inv[OF assms(1)]
  have n: "5 + frames_in_hand (sys_pc s) \<le> n" using assms(3) by (simp add: in_hand_pc)
  from RunClient_service[OF conjunct1[OF inv] conjunct2[OF inv] running[OF assms(1,2)] assms(2) n] obtain m c' u' where
    r: "RunClient (service_stub n) fl (sys_pc s, sys_ctl s, sys_bus s) = (Response_Status (Some m), At_check, c', u')"
    and t: "target (Update_begin (client_request fl) (sys_ctl s)) (sys_bus s) = settings (unit_view u')" .
  have req: "is_request (client_request fl)"
    if "FLAGS_mode fl = ''off'' \<or> cli_mode (FLAGS_mode fl) \<noteq> None \<or> cli_fan (FLAGS_fan fl) \<noteq> None \<or> cli_setpoint fl"
    using that cli_setpoint_values(1)[of fl] by (auto simp: is_request_def client_request_fields)
  note u' = target_update_settings[OF req t] and f = client_request_fields[of fl]
  have off: "cli_mode ''off'' = None" by (simp add: cli_mode_def)
  show ?thesis
  proof (intro exI conjI allI impI; (rule r)?)
    show "\<not> sim_Enabled u'" if "FLAGS_mode fl = ''off''"
      using u' that by (simp add: sim_getters_view requested_state_def f)
    show "sim_Enabled u'" "sim_Mode u' = mode" if "cli_mode (FLAGS_mode fl) = Some mode" for mode
      using u' that off by (auto simp: sim_getters_view requested_state_def f)
    show "sim_Fan u' = fan" if "cli_fan (FLAGS_fan fl) = Some fan" for fan
      using u' that by (simp add: sim_getters_view requested_state_def f)
    show "sim_Temperature u' = (if sim_Mode u' = mode_FAN then 18 else ucast (FLAGS_setpoint fl))"
      if "cli_setpoint fl"
      using u' that cli_setpoint_values[OF that] by (simp add: sim_getters_view requested_state_def f)
  qed
qed

theorem client_changes_unit_witness:
  "\<exists>m c' u'. RunClient (service_stub 5) \<lparr>FLAGS_address = ''ac'', FLAGS_port = 12345, FLAGS_mode = ''heat'',
       FLAGS_fan = ''low'', FLAGS_setpoint = 22\<rparr> (At_check, SimServiceImpl) =
       (Response_Status (Some m), At_check, c', u') \<and>
     sim_Enabled u' \<and> sim_Mode u' = mode_HEAT \<and> sim_Fan u' = fan_LOW \<and> sim_Temperature u' = 22"
  using client_changes_unit[OF sim_reachable_init, of 5 "\<lparr>FLAGS_address = ''ac'', FLAGS_port = 12345,
      FLAGS_mode = ''heat'', FLAGS_fan = ''low'', FLAGS_setpoint = 22\<rparr>"]
  by (auto simp: sys_init_def SimServiceImpl_def in_hand_def cli_mode_def cli_fan_def word_sle_eq)

end
